(* ===== verification/Builder_Prelude.thy ===== *)
theory Builder_Prelude
  imports Main "HOL-Library.Word" "HOL-Library.Multiset"
begin

text \<open>
  Shared vocabulary of the development: the names of the machine types the Rust code uses,
  the integer operations it calls on them (saturating, checked and wrapping arithmetic), the
  result type of fallible code, the few collection operations of the Rust standard library
  that the components use (\<open>max_by_key\<close>, \<open>sort_by\<close>, \<open>swap_remove\<close>, \<open>entry().or_insert\<close>), and
  the generic lemmas about them.

  Plain \<open>+\<close>, \<open>-\<close> and \<open>*\<close> on \<open>u64\<close> wrap: the shipped profiles (\<open>release\<close>, \<open>maxperf\<close>) do not
  enable overflow checks.  On \<open>U256\<close> they wrap as well.
\<close>

section \<open>Collections of facts\<close>

named_theorems word_unat \<open>unsigned reading of machine-integer operations\<close>
named_theorems pool_simps \<open>unfolding rules of the bundle pool\<close>
named_theorems exec_simps \<open>unfolding rules of the build state\<close>

section \<open>Machine types\<close>

type_synonym u8 = "8 word"
type_synonym u64 = "64 word"
type_synonym u128 = "128 word"
type_synonym u256 = "256 word"
type_synonym b256 = "256 word"
type_synonym address = "160 word"
type_synonym uuid = "128 word"
type_synonym bytes = "u8 list"

section \<open>Outcome of fallible code\<close>

text \<open>
  \<open>Ok\<close> and \<open>Err\<close> are Rust's \<open>Result\<close>; \<open>Panic\<close> is an unwinding \<open>expect\<close>, \<open>unwrap\<close>,
  \<open>unreachable!\<close> or arithmetic panic, which no caller handles.
\<close>

datatype ('a, 'e) result = Ok 'a | Err 'e | Panic

fun result_bind :: "('a, 'e) result \<Rightarrow> ('a \<Rightarrow> ('b, 'e) result) \<Rightarrow> ('b, 'e) result" where
  "result_bind (Ok x) f = f x"
| "result_bind (Err e) f = Err e"
| "result_bind Panic f = Panic"

fun map_err :: "('e \<Rightarrow> 'f) \<Rightarrow> ('a, 'e) result \<Rightarrow> ('a, 'f) result" where
  "map_err g (Ok x) = Ok x"
| "map_err g (Err e) = Err (g e)"
| "map_err g Panic = Panic"

fun result_map :: "('a \<Rightarrow> 'b) \<Rightarrow> ('a, 'e) result \<Rightarrow> ('b, 'e) result" where
  "result_map g (Ok x) = Ok (g x)"
| "result_map g (Err e) = Err e"
| "result_map g Panic = Panic"

fun expect :: "'a option \<Rightarrow> ('a, 'e) result" where
  "expect (Some x) = Ok x"
| "expect None = Panic"

fun result_ok :: "('a, 'e) result \<Rightarrow> 'a option" where
  "result_ok (Ok x) = Some x"
| "result_ok (Err e) = None"
| "result_ok Panic = None"

lemma result_bind_Ok_iff:
  "result_bind r f = Ok y \<longleftrightarrow> (\<exists>x. r = Ok x \<and> f x = Ok y)"
  by (cases r) auto

lemma map_err_Ok_iff [simp]: "map_err g r = Ok y \<longleftrightarrow> r = Ok y"
  by (cases r) auto

lemma map_err_Panic_iff [simp]: "map_err g r = Panic \<longleftrightarrow> r = Panic"
  by (cases r) auto

lemma map_err_Err_iff: "map_err g r = Err e \<longleftrightarrow> (\<exists>e'. r = Err e' \<and> e = g e')"
  by (cases r) auto

lemma result_map_Ok_iff: "result_map g r = Ok y \<longleftrightarrow> (\<exists>x. r = Ok x \<and> y = g x)"
  by (cases r) auto

lemma expect_Ok_iff [simp]: "expect x = Ok y \<longleftrightarrow> x = Some y"
  by (cases x) auto

section \<open>Saturating and checked arithmetic\<close>

definition saturating_add :: "'a::len word \<Rightarrow> 'a word \<Rightarrow> 'a word" where
  "saturating_add a b = (if unat a + unat b < 2 ^ LENGTH('a) then a + b else - 1)"

definition saturating_sub :: "'a::len word \<Rightarrow> 'a word \<Rightarrow> 'a word" where
  "saturating_sub a b = (if b \<le> a then a - b else 0)"

definition saturating_mul :: "'a::len word \<Rightarrow> 'a word \<Rightarrow> 'a word" where
  "saturating_mul a b = (if unat a * unat b < 2 ^ LENGTH('a) then a * b else - 1)"

definition checked_sub :: "'a::len word \<Rightarrow> 'a word \<Rightarrow> 'a word option" where
  "checked_sub a b = (if b \<le> a then Some (a - b) else None)"

definition checked_div :: "'a::len word \<Rightarrow> 'a word \<Rightarrow> 'a word option" where
  "checked_div a b = (if b = 0 then None else Some (a div b))"

definition u256_from_u64 :: "u64 \<Rightarrow> u256" where
  "u256_from_u64 x = word_of_nat (unat x)"

definition u256_from_u128 :: "u128 \<Rightarrow> u256" where
  "u256_from_u128 x = word_of_nat (unat x)"

definition u256_to_u64 :: "u256 \<Rightarrow> u64 option" where
  "u256_to_u64 x = (if unat x < 2 ^ 64 then Some (word_of_nat (unat x)) else None)"

definition u256_to_u128 :: "u256 \<Rightarrow> u128 option" where
  "u256_to_u128 x = (if unat x < 2 ^ 128 then Some (word_of_nat (unat x)) else None)"

text \<open>\<open>U256::from\<close> of a signed integer panics on a negative value.\<close>

definition u256_from_i128 :: "int \<Rightarrow> u256 option" where
  "u256_from_i128 i = (if 0 \<le> i then Some (word_of_int i) else None)"

lemma unat_minus_one_word: "unat (- 1 :: 'a::len word) = 2 ^ LENGTH('a) - 1"
  by (simp add: unsigned_minus_1_eq_mask mask_eq_exp_minus_1)

lemma unat_add_no_overflow [word_unat]:
  fixes a b :: "'a::len word"
  assumes "unat a + unat b < 2 ^ LENGTH('a)"
  shows "unat (a + b) = unat a + unat b"
  using assms by (simp add: unat_word_ariths)

lemma unat_mult_no_overflow [word_unat]:
  fixes a b :: "'a::len word"
  assumes "unat a * unat b < 2 ^ LENGTH('a)"
  shows "unat (a * b) = unat a * unat b"
  using assms by (simp add: unat_word_ariths)

lemma nat_div_eq_iff:
  fixes a k q :: nat
  assumes "0 < k"
  shows "a div k = q \<longleftrightarrow> k * q \<le> a \<and> a < k * Suc q"
proof
  assume "a div k = q"
  then show "k * q \<le> a \<and> a < k * Suc q"
    using assms by (auto simp: dividend_less_times_div intro: times_div_less_eq_dividend)
next
  assume "k * q \<le> a \<and> a < k * Suc q"
  then show "a div k = q" by (intro div_nat_eqI) auto
qed

lemma unat_ucast_fits:
  fixes x :: "'a::len word"
  assumes "unat x < 2 ^ LENGTH('b::len)"
  shows "unat (ucast x :: 'b word) = unat x"
  using assms by (simp add: unsigned_ucast_eq take_bit_nat_eq_self)

lemma unat_u64_less: "unat (x :: u64) < 18446744073709551616"
  using unsigned_less [of x, where ?'a = nat] by simp

lemma unat_saturating_add [word_unat]:
  fixes a b :: "'a::len word"
  shows "unat (saturating_add a b) = min (unat a + unat b) (2 ^ LENGTH('a) - 1)"
proof (cases "unat a + unat b < 2 ^ LENGTH('a)")
  case True
  then show ?thesis
    by (simp add: saturating_add_def unat_add_no_overflow)
next
  case False
  then show ?thesis
    by (simp add: saturating_add_def unat_minus_one_word)
qed

lemma unat_saturating_sub [word_unat]:
  "unat (saturating_sub a b) = unat a - unat b"
  by (auto simp: saturating_sub_def unat_sub word_le_nat_alt)

lemma unat_saturating_mul [word_unat]:
  fixes a b :: "'a::len word"
  shows "unat (saturating_mul a b) = min (unat a * unat b) (2 ^ LENGTH('a) - 1)"
proof (cases "unat a * unat b < 2 ^ LENGTH('a)")
  case True
  then show ?thesis
    by (simp add: saturating_mul_def unat_mult_no_overflow)
next
  case False
  then show ?thesis
    by (simp add: saturating_mul_def unat_minus_one_word)
qed

lemma saturating_sub_le: "saturating_sub a b \<le> a"
  by (simp add: word_le_nat_alt unat_saturating_sub)

lemma unat_u256_from_u64 [word_unat]: "unat (u256_from_u64 x) = unat x"
proof -
  have "unat x < 2 ^ 256"
    using unsigned_less [of x, where ?'a = nat] by simp
  then show ?thesis
    by (simp add: u256_from_u64_def unsigned_ucast_eq take_bit_nat_eq_self)
qed

lemma unat_u256_from_u128 [word_unat]: "unat (u256_from_u128 x) = unat x"
proof -
  have "unat x < 2 ^ 256"
    using unsigned_less [of x, where ?'a = nat] by simp
  then show ?thesis
    by (simp add: u256_from_u128_def unsigned_ucast_eq take_bit_nat_eq_self)
qed

lemma u256_to_u64_from [simp]: "u256_to_u64 (u256_from_u64 x) = Some x"
  using unsigned_less [of x, where ?'a = nat]
  by (simp add: u256_to_u64_def unat_u256_from_u64)

lemma unat_u256_from_i128 [word_unat]:
  assumes "0 \<le> i" and "i < 2 ^ 256"
  shows "unat (word_of_int i :: u256) = nat i"
proof -
  have "uint (word_of_int i :: u256) = i"
    using assms by (simp add: uint_word_of_int)
  then show ?thesis
    by (simp only: unat_eq_nat_uint)
qed

section \<open>Rust collection operations\<close>

text \<open>\<open>Option::is_none_or\<close> and \<open>Option::is_some_and\<close>.\<close>

definition is_none_or :: "'a option \<Rightarrow> ('a \<Rightarrow> bool) \<Rightarrow> bool" where
  "is_none_or x P = (case x of None \<Rightarrow> True | Some y \<Rightarrow> P y)"

definition is_some_and :: "'a option \<Rightarrow> ('a \<Rightarrow> bool) \<Rightarrow> bool" where
  "is_some_and x P = (case x of None \<Rightarrow> False | Some y \<Rightarrow> P y)"

text \<open>\<open>Option::unwrap_or\<close>, and \<open>slice::get\<close>.\<close>

definition unwrap_or :: "'a option \<Rightarrow> 'a \<Rightarrow> 'a" where
  "unwrap_or x d = (case x of None \<Rightarrow> d | Some y \<Rightarrow> y)"

definition vec_get :: "'a list \<Rightarrow> nat \<Rightarrow> 'a option" where
  "vec_get xs i = (if i < length xs then Some (xs ! i) else None)"

lemma unwrap_or_simps [simp]: "unwrap_or None d = d" "unwrap_or (Some x) d = x"
  by (simp_all add: unwrap_or_def)

lemma vec_get_Some [simp]: "vec_get xs i = Some x \<longleftrightarrow> i < length xs \<and> x = xs ! i"
  by (auto simp: vec_get_def)

lemma vec_get_None [simp]: "vec_get xs i = None \<longleftrightarrow> length xs \<le> i"
  by (auto simp: vec_get_def)

text \<open>Big-endian byte string of a word, \<open>FixedBytes::as_slice\<close>.\<close>

definition be_bytes :: "nat \<Rightarrow> 'a::len word \<Rightarrow> bytes" where
  "be_bytes n w = map (\<lambda>i. ucast (drop_bit (8 * (n - 1 - i)) w)) [0..<n]"

lemma length_be_bytes [simp]: "length (be_bytes n w) = n"
  by (simp add: be_bytes_def)

text \<open>\<open>HashMap::entry(k).or_insert(v)\<close>: the first value of a key wins.\<close>

definition or_insert :: "'k \<Rightarrow> 'v \<Rightarrow> ('k \<rightharpoonup> 'v) \<Rightarrow> ('k \<rightharpoonup> 'v)" where
  "or_insert k v m = (case m k of None \<Rightarrow> m(k \<mapsto> v) | Some _ \<Rightarrow> m)"

text \<open>\<open>Iterator::max_by_key\<close>: the last of the elements with the largest key.\<close>

fun max_by_key :: "('a \<Rightarrow> 'k::linorder) \<Rightarrow> 'a list \<Rightarrow> 'a option" where
  "max_by_key key [] = None"
| "max_by_key key (x # xs) =
     (case max_by_key key xs of
        None \<Rightarrow> Some x
      | Some y \<Rightarrow> if key x \<le> key y then Some y else Some x)"

lemma max_by_key_None [simp]: "max_by_key key xs = None \<longleftrightarrow> xs = []"
  by (cases xs) (auto split: option.splits if_splits)

lemma max_by_key_mem: "max_by_key key xs = Some x \<Longrightarrow> x \<in> set xs"
  by (induction xs arbitrary: x) (auto split: option.splits if_splits)

lemma max_by_key_max:
  "max_by_key key xs = Some x \<Longrightarrow> y \<in> set xs \<Longrightarrow> key y \<le> key x"
proof (induction xs arbitrary: x)
  case Nil
  then show ?case by simp
next
  case (Cons z zs)
  show ?case
  proof (cases "max_by_key key zs")
    case None
    with Cons.prems show ?thesis by simp
  next
    case (Some w)
    with Cons.IH [OF Some] Cons.prems show ?thesis
      by (auto split: if_splits)
  qed
qed

text \<open>\<open>slice::sort_by\<close> with the comparator \<open>other.key.cmp(self.key)\<close>: a stable descending sort.\<close>

definition sort_desc :: "('a \<Rightarrow> 'k::linorder) \<Rightarrow> 'a list \<Rightarrow> 'a list" where
  "sort_desc key xs = rev (sort_key key (rev xs))"

lemma mset_sort_desc [simp]: "mset (sort_desc key xs) = mset xs"
  by (simp add: sort_desc_def)

lemma set_sort_desc [simp]: "set (sort_desc key xs) = set xs"
  by (simp add: sort_desc_def)

lemma sorted_sort_desc: "sorted_wrt (\<lambda>x y. key y \<le> key x) (sort_desc key xs)"
proof -
  have "sorted (map key (sort_key key (rev xs)))" by simp
  then show ?thesis
    by (simp add: sort_desc_def sorted_wrt_rev sorted_map)
qed

lemma sort_desc_stable:
  "filter (\<lambda>x. key x = k) (sort_desc key xs) = filter (\<lambda>x. key x = k) xs"
proof -
  have "filter (\<lambda>x. key x = k) (sort_key key (rev xs)) = filter (\<lambda>x. key x = k) (rev xs)"
    by (rule sort_key_stable)
  then show ?thesis
    by (simp add: sort_desc_def rev_filter [symmetric])
qed

text \<open>\<open>Vec::swap_remove\<close>: take element \<open>i\<close> out, the last element takes its place.\<close>

definition swap_remove :: "'a list \<Rightarrow> nat \<Rightarrow> 'a list" where
  "swap_remove xs i = (if i = length xs - 1 then butlast xs else (butlast xs)[i := last xs])"

lemma length_swap_remove [simp]: "length (swap_remove xs i) = length xs - 1"
  by (simp add: swap_remove_def)

text \<open>\<open>Vec::remove\<close>: take element \<open>i\<close> out, the later ones move down.\<close>

definition vec_remove :: "'a list \<Rightarrow> nat \<Rightarrow> 'a list" where
  "vec_remove xs i = take i xs @ drop (Suc i) xs"

text \<open>\<open>Iterator::position\<close>.\<close>

fun position :: "('a \<Rightarrow> bool) \<Rightarrow> 'a list \<Rightarrow> nat option" where
  "position P [] = None"
| "position P (x # xs) = (if P x then Some 0 else map_option Suc (position P xs))"

lemma position_SomeD: "position P xs = Some i \<Longrightarrow> i < length xs \<and> P (xs ! i)"
  by (induction xs arbitrary: i) (auto split: if_splits)

lemma position_None: "position P xs = None \<longleftrightarrow> (\<forall>x \<in> set xs. \<not> P x)"
  by (induction xs) auto

text \<open>Collecting an iterator of options into an option of a vector.\<close>

fun sequence_opt :: "'a option list \<Rightarrow> 'a list option" where
  "sequence_opt [] = Some []"
| "sequence_opt (None # xs) = None"
| "sequence_opt (Some x # xs) = map_option (Cons x) (sequence_opt xs)"

lemma sequence_opt_Some: "sequence_opt xs = Some ys \<longleftrightarrow> xs = map Some ys"
  by (induction xs arbitrary: ys rule: sequence_opt.induct) auto

lemma sequence_opt_map_Some [simp]: "sequence_opt (map Some xs) = Some xs"
  by (simp add: sequence_opt_Some)

text \<open>Collecting an iterator of results stops at the first error.\<close>

fun sequence_res :: "('a, 'e) result list \<Rightarrow> ('a list, 'e) result" where
  "sequence_res [] = Ok []"
| "sequence_res (Err e # xs) = Err e"
| "sequence_res (Panic # xs) = Panic"
| "sequence_res (Ok x # xs) = result_map (Cons x) (sequence_res xs)"

lemma sequence_res_Ok: "sequence_res xs = Ok ys \<longleftrightarrow> xs = map Ok ys"
  by (induction xs arbitrary: ys rule: sequence_res.induct) (auto simp: result_map_Ok_iff)

end
