(* ===== verification/Bundles.thy ===== *)
theory Bundles
  imports Builder_Prelude
begin

text \<open>
  The bundle data type of \<open>crates/bundles/src/bundle.rs\<close>, the RPC request it is derived from
  (\<open>crates/primitives/src/rpc.rs\<close>), refunds, and the recovery of the signed transactions of a
  bundle.

  Transactions are values of the \<open>reth\<close> library; \<open>recovered_tx\<close> holds what the builder reads of a
  \<open>TransactionSignedEcRecovered\<close>.  Decoding an envelope, recovering the signer of a decoded
  transaction and \<open>keccak256\<close> are parameters.  A \<open>usize\<close> index is a natural number.
\<close>

section \<open>Data\<close>

record recovered_tx =
  tx_hash :: b256
  tx_signer :: address
  tx_to :: "address option"
  tx_nonce :: u64
  tx_gas_limit :: u64
  tx_type :: u8
  tx_blob_gas :: "u64 option"
  tx_rest :: bytes

record bundle_refund =
  refund_percent :: u64
  refund_idx :: "nat option"
  refund_to :: "address option"

record Bundle =
  bundle_hash :: b256
  bundle_txs :: "bytes list"
  bundle_block_number :: u64
  bundle_min_timestamp :: "u64 option"
  bundle_max_timestamp :: "u64 option"
  bundle_reverting_tx_hashes :: "b256 list"
  bundle_replacement_uuid :: "uuid option"
  bundle_refund_args :: "bundle_refund option"

record eth_send_bundle =
  esb_txs :: "bytes list"
  esb_block_number :: u64
  esb_min_timestamp :: "u64 option"
  esb_max_timestamp :: "u64 option"
  esb_reverting_tx_hashes :: "b256 list"
  esb_replacement_uuid :: "uuid option"
  esb_refund_percent :: "u64 option"
  esb_refund_index :: "nat option"
  esb_refund_recipient :: "address option"

record recovered_bundle =
  rb_txs :: "recovered_tx list"
  rb_reverting_tx_hashes :: "b256 list"
  rb_refund :: "bundle_refund option"

text \<open>\<open>MAX_BUILDER_TRANSFER_GAS_LIMIT\<close> of \<open>crates/primitives/src/build/mod.rs\<close>.\<close>

definition MAX_BUILDER_TRANSFER_GAS_LIMIT :: u64 where
  "MAX_BUILDER_TRANSFER_GAS_LIMIT = 32000"

section \<open>Operations of \<open>Bundle\<close>\<close>

definition RecoveredBundle_new :: "Bundle \<Rightarrow> recovered_tx list \<Rightarrow> recovered_bundle" where
  "RecoveredBundle_new b txs =
     \<lparr> rb_txs = txs,
       rb_reverting_tx_hashes = bundle_reverting_tx_hashes b,
       rb_refund = bundle_refund_args b \<rparr>"

definition recover_bundles ::
  "(bytes \<Rightarrow> 'signed option) \<Rightarrow> ('signed \<Rightarrow> recovered_tx option) \<Rightarrow> Bundle list \<Rightarrow> recovered_bundle list"
where
  "recover_bundles decode_enveloped into_ecrecovered bs =
     List.map_filter
       (\<lambda>b. map_option (RecoveredBundle_new b)
              (sequence_opt
                (map (\<lambda>tx. Option.bind (decode_enveloped tx) into_ecrecovered) (bundle_txs b))))
       bs"

definition create_hash :: "(bytes \<Rightarrow> b256) \<Rightarrow> b256 list \<Rightarrow> b256" where
  "create_hash keccak256 tx_hashes =
     keccak256 (fold (\<lambda>h acc. acc @ be_bytes 32 h) tx_hashes [])"

definition is_within_timestamp :: "Bundle \<Rightarrow> u64 \<Rightarrow> bool" where
  "is_within_timestamp b timestamp =
     (let is_above_min = is_none_or (bundle_min_timestamp b) (\<lambda>min_ts. min_ts \<le> timestamp);
          is_below_max = is_none_or (bundle_max_timestamp b) (\<lambda>max_ts. timestamp \<le> max_ts)
      in is_above_min \<and> is_below_max)"

definition is_within_block_number :: "Bundle \<Rightarrow> u64 \<Rightarrow> bool" where
  "is_within_block_number b block_number = (block_number = bundle_block_number b)"

definition is_timestamp_out_of_bounds :: "Bundle \<Rightarrow> u64 \<Rightarrow> bool" where
  "is_timestamp_out_of_bounds b timestamp =
     (let is_before_min_ts = is_some_and (bundle_min_timestamp b) (\<lambda>min_ts. timestamp < min_ts);
          is_after_max_ts = is_some_and (bundle_max_timestamp b) (\<lambda>max_ts. max_ts < timestamp)
      in is_before_min_ts \<or> is_after_max_ts)"

definition is_prunable :: "Bundle \<Rightarrow> u64 \<Rightarrow> u64 \<Rightarrow> bool" where
  "is_prunable b block_number timestamp =
     (is_timestamp_out_of_bounds b timestamp \<or> bundle_block_number b < block_number)"

section \<open>Refunds\<close>

definition BundleRefund_new ::
  "u64 option \<Rightarrow> nat option \<Rightarrow> address option \<Rightarrow> bundle_refund option"
where
  "BundleRefund_new percent index recipient =
     map_option (\<lambda>p. \<lparr> refund_percent = min p 100, refund_idx = index, refund_to = recipient \<rparr>)
       percent"

text \<open>The product \<open>MAX_BUILDER_TRANSFER_GAS_LIMIT * base_fee\<close> is a wrapping \<open>u64\<close> product.\<close>

definition refund_amount :: "bundle_refund \<Rightarrow> u256 \<Rightarrow> u256 \<Rightarrow> u64 \<Rightarrow> u256" where
  "refund_amount r fees coinbase_transfer base_fee =
     unwrap_or
       (checked_div
         (saturating_mul
           (saturating_sub (saturating_add fees coinbase_transfer)
             (u256_from_u64 (MAX_BUILDER_TRANSFER_GAS_LIMIT * base_fee)))
           (u256_from_u64 (refund_percent r)))
         100)
       0"

definition Bundle_from :: "eth_send_bundle \<Rightarrow> b256 \<Rightarrow> Bundle" where
  "Bundle_from req hash =
     \<lparr> bundle_hash = hash,
       bundle_txs = esb_txs req,
       bundle_block_number = esb_block_number req,
       bundle_min_timestamp = esb_min_timestamp req,
       bundle_max_timestamp = esb_max_timestamp req,
       bundle_reverting_tx_hashes = esb_reverting_tx_hashes req,
       bundle_replacement_uuid = esb_replacement_uuid req,
       bundle_refund_args =
         BundleRefund_new (esb_refund_percent req) (esb_refund_index req)
           (esb_refund_recipient req) \<rparr>"

section \<open>Operations of \<open>RecoveredBundle\<close>\<close>

definition rb_tx_hashes :: "recovered_bundle \<Rightarrow> b256 list" where
  "rb_tx_hashes rb = map tx_hash (rb_txs rb)"

definition is_refund_bundle :: "recovered_bundle \<Rightarrow> bool" where
  "is_refund_bundle rb = (rb_refund rb \<noteq> None)"

definition refund_index :: "recovered_bundle \<Rightarrow> nat option" where
  "refund_index rb =
     (case Option.bind (rb_refund rb) refund_idx of
        Some index \<Rightarrow> Some index
      | None \<Rightarrow> (if length (rb_txs rb) < 1 then None else Some (length (rb_txs rb) - 1)))"

definition refund_recipient :: "recovered_bundle \<Rightarrow> address option" where
  "refund_recipient rb =
     (case Option.bind (rb_refund rb) refund_to of
        Some recipient \<Rightarrow> Some recipient
      | None \<Rightarrow> Option.bind (refund_index rb) (\<lambda>i. map_option tx_signer (vec_get (rb_txs rb) i)))"

section \<open>Lemmas\<close>

lemma within_timestamp_iff_in_bounds:
  "is_within_timestamp b t \<longleftrightarrow> \<not> is_timestamp_out_of_bounds b t"
  by (auto simp: is_within_timestamp_def is_timestamp_out_of_bounds_def is_none_or_def
      is_some_and_def not_less split: option.splits)

lemma is_prunable_iff:
  "is_prunable b n t \<longleftrightarrow> \<not> is_within_timestamp b t \<or> bundle_block_number b < n"
  by (simp add: is_prunable_def within_timestamp_iff_in_bounds)

lemma valid_not_prunable:
  "is_within_timestamp b t \<Longrightarrow> is_within_block_number b n \<Longrightarrow> \<not> is_prunable b n t"
  by (simp add: is_prunable_iff is_within_block_number_def)

lemma bundle_refund_percent_le:
  "bundle_refund_args (Bundle_from req h) = Some r \<Longrightarrow> refund_percent r \<le> 100"
  by (auto simp: Bundle_from_def BundleRefund_new_def)

lemma unat_refund_amount:
  "unat (refund_amount r fees cb base_fee) =
     min ((min (unat fees + unat cb) (2 ^ 256 - 1)
            - unat (MAX_BUILDER_TRANSFER_GAS_LIMIT * base_fee)) * unat (refund_percent r))
         (2 ^ 256 - 1) div 100"
  by (simp add: refund_amount_def checked_div_def unat_div_distrib word_unat)

lemma min_mult_div_percent_le:
  fixes x p m :: nat
  assumes "p \<le> 100"
  shows "min (x * p) m div 100 \<le> x"
proof -
  have "min (x * p) m div 100 \<le> x * 100 div 100"
    using assms by (intro div_le_mono) (simp add: min.coboundedI1)
  then show ?thesis by simp
qed

text \<open>
  The signer of the transaction at the refund index, and not of the last transaction, is the
  default recipient of the refund.
\<close>

lemma refund_recipient_default:
  assumes "rb_refund rb = Some r" and "refund_to r = None" and "refund_idx r = Some i"
    and "i < length (rb_txs rb)"
  shows "refund_recipient rb = Some (tx_signer (rb_txs rb ! i))"
  using assms by (simp add: refund_recipient_def refund_index_def vec_get_def)

lemma recover_bundles_Cons:
  "recover_bundles d e (b # bs) =
     (case sequence_opt (map (\<lambda>tx. Option.bind (d tx) e) (bundle_txs b)) of
        None \<Rightarrow> recover_bundles d e bs
      | Some txs \<Rightarrow> RecoveredBundle_new b txs # recover_bundles d e bs)"
  by (simp add: recover_bundles_def map_filter_simps split: option.splits)

lemma recover_bundles_Nil: "recover_bundles d e [] = []"
  by (simp add: recover_bundles_def map_filter_simps)

lemma recover_bundles_mem_iff:
  "rb \<in> set (recover_bundles d e bs) \<longleftrightarrow>
     (\<exists>b \<in> set bs. \<exists>txs. map (\<lambda>tx. Option.bind (d tx) e) (bundle_txs b) = map Some txs
        \<and> rb = RecoveredBundle_new b txs)"
proof (induction bs)
  case Nil
  then show ?case by (simp add: recover_bundles_Nil)
next
  case (Cons b bs)
  then show ?case
    by (auto simp: recover_bundles_Cons sequence_opt_Some split: option.splits)
qed

section \<open>Properties\<close>

text \<open>
  Whatever percentage a client asks for, the refund of a bundle made from its request is
  never more than the fees and coinbase transfer of the refunded transaction less the reserved
  cost of the refund transfer; and as long as the arithmetic does not saturate it is exactly
  the percentage of that difference.
\<close>

lemma refund_amount_bounded:
  assumes "bundle_refund_args (Bundle_from req h) = Some r"
  shows "unat (refund_amount r fees cb base_fee)
           \<le> unat fees + unat cb - unat (MAX_BUILDER_TRANSFER_GAS_LIMIT * base_fee) \<and>
         (100 * (unat fees + unat cb) < 2 ^ 256 \<and> 32000 * unat base_fee < 2 ^ 64 \<longrightarrow>
         unat (refund_amount r fees cb base_fee) =
           (unat fees + unat cb - 32000 * unat base_fee) * unat (refund_percent r) div 100)"
proof (intro conjI impI)
  let ?x = "min (unat fees + unat cb) (2 ^ 256 - 1) - unat (MAX_BUILDER_TRANSFER_GAS_LIMIT * base_fee)"
  have p: "unat (refund_percent r) \<le> 100"
    using bundle_refund_percent_le [OF assms] by (simp add: word_le_nat_alt)
  have "unat (refund_amount r fees cb base_fee) \<le> ?x"
    unfolding unat_refund_amount by (rule min_mult_div_percent_le [OF p])
  then show "unat (refund_amount r fees cb base_fee)
           \<le> unat fees + unat cb - unat (MAX_BUILDER_TRANSFER_GAS_LIMIT * base_fee)"
    by (rule le_trans) (intro diff_le_mono min.cobounded1)
next
  assume no_sat: "100 * (unat fees + unat cb) < 2 ^ 256 \<and> 32000 * unat base_fee < 2 ^ 64"
  have p: "unat (refund_percent r) \<le> 100"
    using bundle_refund_percent_le [OF assms] by (simp add: word_le_nat_alt)
  have cost: "unat (MAX_BUILDER_TRANSFER_GAS_LIMIT * base_fee) = 32000 * unat base_fee"
    using no_sat by (simp add: MAX_BUILDER_TRANSFER_GAS_LIMIT_def unat_mult_no_overflow)
  have "(unat fees + unat cb - 32000 * unat base_fee) * unat (refund_percent r)
          \<le> (unat fees + unat cb) * 100"
    by (intro mult_le_mono diff_le_self p)
  with no_sat show "unat (refund_amount r fees cb base_fee) =
      (unat fees + unat cb - 32000 * unat base_fee) * unat (refund_percent r) div 100"
    by (simp add: unat_refund_amount cost min_absorb1)
qed

text \<open>A request for 250 percent is capped at 100, and the refund of 100000 at base fee 2 is 36000.\<close>

definition sample_request :: eth_send_bundle where
  "sample_request =
     \<lparr> esb_txs = [], esb_block_number = 7, esb_min_timestamp = Some 100, esb_max_timestamp = Some 200,
       esb_reverting_tx_hashes = [], esb_replacement_uuid = None, esb_refund_percent = Some 250,
       esb_refund_index = None, esb_refund_recipient = None \<rparr>"

end
