(* ===== verification/Bundle_Pool.thy ===== *)
theory Bundle_Pool
  imports Bundles "HOL-Library.AList"
begin

text \<open>
  The bundle pool of \<open>crates/bundles/src/inner.rs\<close>, \<open>pool.rs\<close> and \<open>metrics.rs\<close>.

  The \<open>HashMap\<close> of bundles is an association list (its order stands for the unspecified
  iteration order, which no result depends on), each \<open>BTreeMap\<close> index a map from keys to the
  vector of hashes.  The outer pool guards the inner one with a lock taken with a timeout: the
  outcome of that attempt is the argument \<open>locked\<close> of each outer operation.  Metrics are the
  record \<open>pool_metrics\<close>.

  The contract of the pool is stated once as the locale \<open>bundle_store\<close> over an abstract pool
  (a map of bundles and the hash each replacement uuid points to), and interpreted on the code's
  operations.
\<close>

section \<open>State\<close>

type_synonym ('k, 'v) Index = "'k \<rightharpoonup> 'v list"

definition Index_insert :: "'k \<Rightarrow> 'v \<Rightarrow> ('k, 'v) Index \<Rightarrow> ('k, 'v) Index" where
  "Index_insert key val ix = ix(key \<mapsto> unwrap_or (ix key) [] @ [val])"

text \<open>\<open>get_mut(&key)\<close> followed by \<open>retain\<close>, and \<open>retain\<close> on every value.\<close>

definition Index_retain :: "'k \<Rightarrow> ('v \<Rightarrow> bool) \<Rightarrow> ('k, 'v) Index \<Rightarrow> ('k, 'v) Index" where
  "Index_retain key P ix = (case ix key of None \<Rightarrow> ix | Some vs \<Rightarrow> ix(key \<mapsto> filter P vs))"

definition Index_retain_all :: "('v \<Rightarrow> bool) \<Rightarrow> ('k, 'v) Index \<Rightarrow> ('k, 'v) Index" where
  "Index_retain_all P ix = (\<lambda>k. map_option (filter P) (ix k))"

record pool_inner =
  pi_bundles :: "(b256 \<times> Bundle) list"
  pi_block_number_index :: "(u64, b256) Index"
  pi_min_timestamp_index :: "(u64, b256) Index"
  pi_max_timestamp_index :: "(u64, b256) Index"
  pi_uuid_index :: "(uuid, b256) Index"

datatype pool_error = BundleNotFound | BundleReplacementFailed

definition BundlePoolInner_new :: pool_inner where
  "BundlePoolInner_new =
     \<lparr> pi_bundles = [], pi_block_number_index = Map.empty, pi_min_timestamp_index = Map.empty,
       pi_max_timestamp_index = Map.empty, pi_uuid_index = Map.empty \<rparr>"

section \<open>Operations of \<open>BundlePoolInner\<close>\<close>

definition inner_len :: "pool_inner \<Rightarrow> nat" where
  "inner_len p = length (pi_bundles p)"

definition inner_is_empty :: "pool_inner \<Rightarrow> bool" where
  "inner_is_empty p = (pi_bundles p = [])"

definition insert_bundle :: "Bundle \<Rightarrow> pool_inner \<Rightarrow> pool_inner" where
  "insert_bundle b p = p\<lparr> pi_bundles := AList.update (bundle_hash b) b (pi_bundles p) \<rparr>"

definition index_block_number :: "u64 \<Rightarrow> b256 \<Rightarrow> pool_inner \<Rightarrow> pool_inner" where
  "index_block_number n h p =
     p\<lparr> pi_block_number_index := Index_insert n h (pi_block_number_index p) \<rparr>"

definition index_min_ts :: "u64 \<Rightarrow> b256 \<Rightarrow> pool_inner \<Rightarrow> pool_inner" where
  "index_min_ts t h p =
     p\<lparr> pi_min_timestamp_index := Index_insert t h (pi_min_timestamp_index p) \<rparr>"

definition index_max_ts :: "u64 \<Rightarrow> b256 \<Rightarrow> pool_inner \<Rightarrow> pool_inner" where
  "index_max_ts t h p =
     p\<lparr> pi_max_timestamp_index := Index_insert t h (pi_max_timestamp_index p) \<rparr>"

definition remove_bundle :: "b256 \<Rightarrow> pool_inner \<Rightarrow> pool_inner \<times> Bundle option" where
  "remove_bundle h p =
     (p\<lparr> pi_bundles := AList.delete h (pi_bundles p) \<rparr>, map_of (pi_bundles p) h)"

definition find_by_uuid :: "pool_inner \<Rightarrow> uuid \<Rightarrow> b256 option" where
  "find_by_uuid p u =
     (case pi_uuid_index p u of
        None \<Rightarrow> None
      | Some [] \<Rightarrow> None
      | Some (h # _) \<Rightarrow> Some h)"

definition inner_cancel_bundle :: "pool_inner \<Rightarrow> b256 \<Rightarrow> pool_inner \<times> (unit, pool_error) result" where
  "inner_cancel_bundle p h =
     (case remove_bundle h p of
        (p1, Some b) \<Rightarrow>
          let p2 = (case bundle_min_timestamp b of
                      Some key \<Rightarrow> p1\<lparr> pi_min_timestamp_index :=
                                      Index_retain key (\<lambda>v. v \<noteq> h) (pi_min_timestamp_index p1) \<rparr>
                    | None \<Rightarrow> p1);
              p3 = p2\<lparr> pi_block_number_index :=
                         Index_retain (bundle_block_number b) (\<lambda>v. v \<noteq> h) (pi_block_number_index p2) \<rparr>
          in (p3, Ok ())
      | (p1, None) \<Rightarrow> (p1, Err BundleNotFound))"

definition handle_replacement_uuid ::
  "pool_inner \<Rightarrow> uuid \<Rightarrow> b256 \<Rightarrow> pool_inner \<times> (unit, pool_error) result"
where
  "handle_replacement_uuid p u h =
     (case find_by_uuid p u of
        Some old \<Rightarrow>
          (case inner_cancel_bundle p old of
             (p1, r) \<Rightarrow> (p1, map_err (\<lambda>_. BundleReplacementFailed) r))
      | None \<Rightarrow> (p\<lparr> pi_uuid_index := Index_insert u h (pi_uuid_index p) \<rparr>, Ok ()))"

text \<open>A failed replacement is logged; the bundle is inserted all the same.\<close>

definition inner_add_bundle :: "pool_inner \<Rightarrow> Bundle \<Rightarrow> pool_inner \<times> b256" where
  "inner_add_bundle p b =
     (let h = bundle_hash b;
          p1 = (case bundle_replacement_uuid b of
                  Some u \<Rightarrow> fst (handle_replacement_uuid p u h)
                | None \<Rightarrow> p);
          p2 = index_block_number (bundle_block_number b) h (insert_bundle b p1);
          p3 = (case bundle_min_timestamp b of Some t \<Rightarrow> index_min_ts t h p2 | None \<Rightarrow> p2);
          p4 = (case bundle_max_timestamp b of Some t \<Rightarrow> index_max_ts t h p3 | None \<Rightarrow> p3)
      in (p4, h))"

definition get_by_block_and_ts :: "pool_inner \<Rightarrow> u64 \<Rightarrow> u64 \<Rightarrow> b256 \<Rightarrow> Bundle option" where
  "get_by_block_and_ts p n t h =
     (case map_of (pi_bundles p) h of
        None \<Rightarrow> None
      | Some b \<Rightarrow> if is_within_timestamp b t \<and> is_within_block_number b n then Some b else None)"

definition inner_bundles :: "pool_inner \<Rightarrow> u64 \<Rightarrow> u64 \<Rightarrow> Bundle list" where
  "inner_bundles p n t =
     (case pi_block_number_index p n of
        None \<Rightarrow> []
      | Some hashes \<Rightarrow> List.map_filter (get_by_block_and_ts p n t) hashes)"

definition removed_hashes :: "pool_inner \<Rightarrow> u64 \<Rightarrow> u64 \<Rightarrow> b256 list" where
  "removed_hashes p n t = map fst (filter (\<lambda>(h, b). is_prunable b n t) (pi_bundles p))"

definition inner_prune :: "pool_inner \<Rightarrow> u64 \<Rightarrow> u64 \<Rightarrow> pool_inner \<times> nat \<times> nat" where
  "inner_prune p n t =
     (let removed = removed_hashes p n t;
          kept = filter (\<lambda>(h, b). \<not> is_prunable b n t) (pi_bundles p);
          keep = (\<lambda>h. h \<notin> set removed)
      in (p\<lparr> pi_bundles := kept,
             pi_block_number_index := Index_retain_all keep (pi_block_number_index p),
             pi_min_timestamp_index := Index_retain_all keep (pi_min_timestamp_index p),
             pi_max_timestamp_index := Index_retain_all keep (pi_max_timestamp_index p),
             pi_uuid_index := Index_retain_all keep (pi_uuid_index p) \<rparr>,
          length removed, length kept))"

section \<open>Metrics and the locked pool\<close>

record pool_metrics =
  successful_bundles_added :: u64
  failed_bundles_added :: u64
  successful_bundles_cancelled :: u64
  failed_bundles_cancelled :: u64
  prunes :: u64
  pruned_bundles :: u64
  bundle_pool_size :: nat
  successful_send_bundle_rpc_requests :: u64
  failed_send_bundle_rpc_requests :: u64

definition metrics_default :: pool_metrics where
  "metrics_default =
     \<lparr> successful_bundles_added = 0, failed_bundles_added = 0, successful_bundles_cancelled = 0,
       failed_bundles_cancelled = 0, prunes = 0, pruned_bundles = 0, bundle_pool_size = 0,
       successful_send_bundle_rpc_requests = 0, failed_send_bundle_rpc_requests = 0 \<rparr>"

definition inc_send_bundle_rpc_success :: "pool_metrics \<Rightarrow> pool_metrics" where
  "inc_send_bundle_rpc_success m =
     m\<lparr> successful_send_bundle_rpc_requests := successful_send_bundle_rpc_requests m + 1 \<rparr>"

definition inc_send_bundle_rpc_failure :: "pool_metrics \<Rightarrow> pool_metrics" where
  "inc_send_bundle_rpc_failure m =
     m\<lparr> failed_send_bundle_rpc_requests := failed_send_bundle_rpc_requests m + 1 \<rparr>"

definition inc_bundles_added :: "bool \<Rightarrow> pool_metrics \<Rightarrow> pool_metrics" where
  "inc_bundles_added success m =
     (if success then m\<lparr> successful_bundles_added := successful_bundles_added m + 1 \<rparr>
      else m\<lparr> failed_bundles_added := failed_bundles_added m + 1 \<rparr>)"

definition inc_bundles_cancelled :: "bool \<Rightarrow> pool_metrics \<Rightarrow> pool_metrics" where
  "inc_bundles_cancelled success m =
     (if success then m\<lparr> successful_bundles_cancelled := successful_bundles_cancelled m + 1 \<rparr>
      else m\<lparr> failed_bundles_cancelled := failed_bundles_cancelled m + 1 \<rparr>)"

definition inc_prunes :: "pool_metrics \<Rightarrow> pool_metrics" where
  "inc_prunes m = m\<lparr> prunes := prunes m + 1 \<rparr>"

definition inc_pruned_bundles :: "nat \<Rightarrow> pool_metrics \<Rightarrow> pool_metrics" where
  "inc_pruned_bundles k m = m\<lparr> pruned_bundles := pruned_bundles m + word_of_nat k \<rparr>"

definition set_bundle_pool_size :: "nat \<Rightarrow> pool_metrics \<Rightarrow> pool_metrics" where
  "set_bundle_pool_size k m = m\<lparr> bundle_pool_size := k \<rparr>"

record bundle_pool =
  bp_inner :: pool_inner
  bp_metrics :: pool_metrics

definition BundlePool_new :: bundle_pool where
  "BundlePool_new = \<lparr> bp_inner = BundlePoolInner_new, bp_metrics = metrics_default \<rparr>"

definition add_bundle :: "bool \<Rightarrow> bundle_pool \<Rightarrow> Bundle \<Rightarrow> bundle_pool \<times> b256 option" where
  "add_bundle locked p b =
     (let (inner, hash) = (if locked then map_prod id Some (inner_add_bundle (bp_inner p) b)
                           else (bp_inner p, None))
      in (p\<lparr> bp_inner := inner, bp_metrics := inc_bundles_added (hash \<noteq> None) (bp_metrics p) \<rparr>, hash))"

definition pool_len :: "bool \<Rightarrow> bundle_pool \<Rightarrow> nat option" where
  "pool_len locked p = (if locked then Some (inner_len (bp_inner p)) else None)"

definition pool_is_empty :: "bool \<Rightarrow> bundle_pool \<Rightarrow> bool option" where
  "pool_is_empty locked p = (if locked then Some (inner_is_empty (bp_inner p)) else None)"

definition pool_bundles :: "bool \<Rightarrow> bundle_pool \<Rightarrow> u64 \<Rightarrow> u64 \<Rightarrow> Bundle list option" where
  "pool_bundles locked p n t = (if locked then Some (inner_bundles (bp_inner p) n t) else None)"

text \<open>The cancellation counter records whether the lock was taken, not whether a bundle was found.\<close>

definition cancel_bundle ::
  "bool \<Rightarrow> bundle_pool \<Rightarrow> b256 \<Rightarrow> bundle_pool \<times> (unit, pool_error) result option"
where
  "cancel_bundle locked p h =
     (let (inner, r) = (if locked then map_prod id Some (inner_cancel_bundle (bp_inner p) h)
                        else (bp_inner p, None))
      in (p\<lparr> bp_inner := inner, bp_metrics := inc_bundles_cancelled (r \<noteq> None) (bp_metrics p) \<rparr>, r))"

definition prune :: "bool \<Rightarrow> bundle_pool \<Rightarrow> u64 \<Rightarrow> u64 \<Rightarrow> bundle_pool" where
  "prune locked p n t =
     (if locked then
        let (inner, removed, len) = inner_prune (bp_inner p) n t
        in p\<lparr> bp_inner := inner,
              bp_metrics := set_bundle_pool_size len
                (inc_pruned_bundles removed (inc_prunes (bp_metrics p))) \<rparr>
      else p)"

section \<open>Abstract pool\<close>

text \<open>
  What the pool promises: a set of bundles keyed by hash, and for every replacement uuid the
  hash a later bundle with the same uuid replaces.
\<close>

record abs_pool =
  ap_bundles :: "b256 \<rightharpoonup> Bundle"
  ap_target :: "uuid \<rightharpoonup> b256"

definition abs_empty :: abs_pool where
  "abs_empty = \<lparr> ap_bundles = Map.empty, ap_target = Map.empty \<rparr>"

definition abs_cancel :: "b256 \<Rightarrow> abs_pool \<Rightarrow> abs_pool" where
  "abs_cancel h a = a\<lparr> ap_bundles := (ap_bundles a)(h := None) \<rparr>"

definition abs_replace :: "Bundle \<Rightarrow> abs_pool \<Rightarrow> abs_pool" where
  "abs_replace b a =
     (case bundle_replacement_uuid b of
        None \<Rightarrow> a
      | Some u \<Rightarrow>
          (case ap_target a u of
             Some old \<Rightarrow> abs_cancel old a
           | None \<Rightarrow> a\<lparr> ap_target := (ap_target a)(u \<mapsto> bundle_hash b) \<rparr>))"

definition abs_add :: "Bundle \<Rightarrow> abs_pool \<Rightarrow> abs_pool" where
  "abs_add b a =
     (let a1 = abs_replace b a in a1\<lparr> ap_bundles := (ap_bundles a1)(bundle_hash b \<mapsto> b) \<rparr>)"

definition abs_pruned :: "u64 \<Rightarrow> u64 \<Rightarrow> abs_pool \<Rightarrow> b256 \<Rightarrow> bool" where
  "abs_pruned n t a h = is_some_and (ap_bundles a h) (\<lambda>b. is_prunable b n t)"

definition abs_prune :: "u64 \<Rightarrow> u64 \<Rightarrow> abs_pool \<Rightarrow> abs_pool" where
  "abs_prune n t a =
     \<lparr> ap_bundles = (\<lambda>h. if abs_pruned n t a h then None else ap_bundles a h),
       ap_target = (\<lambda>u. case ap_target a u of
                          None \<Rightarrow> None
                        | Some h \<Rightarrow> if abs_pruned n t a h then None else Some h) \<rparr>"

text \<open>The operations a client may send to the pool, and a sequence of them.\<close>

datatype pool_op = OpAdd Bundle | OpCancel b256 | OpPrune u64 u64

definition run_op ::
  "('s \<Rightarrow> Bundle \<Rightarrow> 's) \<Rightarrow> ('s \<Rightarrow> b256 \<Rightarrow> 's) \<Rightarrow> ('s \<Rightarrow> u64 \<Rightarrow> u64 \<Rightarrow> 's) \<Rightarrow> pool_op \<Rightarrow> 's \<Rightarrow> 's"
where
  "run_op add cancel prn op s =
     (case op of OpAdd b \<Rightarrow> add s b | OpCancel h \<Rightarrow> cancel s h | OpPrune n t \<Rightarrow> prn s n t)"

definition abs_op :: "pool_op \<Rightarrow> abs_pool \<Rightarrow> abs_pool" where
  "abs_op = run_op (\<lambda>a b. abs_add b a) (\<lambda>a h. abs_cancel h a) (\<lambda>a n t. abs_prune n t a)"

text \<open>Operations that leave the bundle \<open>b\<close> in the pool.\<close>

fun keeps :: "Bundle \<Rightarrow> pool_op \<Rightarrow> bool" where
  "keeps b (OpAdd b') \<longleftrightarrow> bundle_hash b' \<noteq> bundle_hash b \<and> bundle_replacement_uuid b' = None"
| "keeps b (OpCancel h) \<longleftrightarrow> h \<noteq> bundle_hash b"
| "keeps b (OpPrune n t) \<longleftrightarrow> \<not> is_prunable b n t"

lemma abs_op_keeps:
  assumes "keeps b op" and "ap_bundles a (bundle_hash b) = Some b"
  shows "ap_bundles (abs_op op a) (bundle_hash b) = Some b"
  using assms
  by (cases op) (auto simp: abs_op_def run_op_def abs_add_def abs_replace_def abs_cancel_def
      abs_prune_def abs_pruned_def is_some_and_def Let_def)

lemma abs_ops_keep:
  assumes "list_all (keeps b) ops" and "ap_bundles a (bundle_hash b) = Some b"
  shows "ap_bundles (fold abs_op ops a) (bundle_hash b) = Some b"
  using assms by (induction ops arbitrary: a) (auto intro: abs_op_keeps)

lemma abs_add_mem: "ap_bundles (abs_add b a) (bundle_hash b) = Some b"
  by (simp add: abs_add_def Let_def)

section \<open>Contract of a bundle store\<close>

locale bundle_store =
  fixes abs :: "'s \<Rightarrow> abs_pool"
    and inv :: "'s \<Rightarrow> bool"
    and empty :: 's
    and add :: "'s \<Rightarrow> Bundle \<Rightarrow> 's"
    and cancel :: "'s \<Rightarrow> b256 \<Rightarrow> 's"
    and prn :: "'s \<Rightarrow> u64 \<Rightarrow> u64 \<Rightarrow> 's"
    and query :: "'s \<Rightarrow> u64 \<Rightarrow> u64 \<Rightarrow> Bundle list"
  assumes inv_empty: "inv empty"
    and abs_of_empty: "abs empty = abs_empty"
    and inv_add: "inv s \<Longrightarrow> inv (add s b)"
    and abs_of_add: "inv s \<Longrightarrow> abs (add s b) = abs_add b (abs s)"
    and inv_cancel: "inv s \<Longrightarrow> inv (cancel s h)"
    and abs_of_cancel: "inv s \<Longrightarrow> abs (cancel s h) = abs_cancel h (abs s)"
    and inv_prune: "inv s \<Longrightarrow> inv (prn s n t)"
    and abs_of_prune: "inv s \<Longrightarrow> abs (prn s n t) = abs_prune n t (abs s)"
    and query_iff: "inv s \<Longrightarrow> b \<in> set (query s n t) \<longleftrightarrow>
          ap_bundles (abs s) (bundle_hash b) = Some b \<and>
          is_within_block_number b n \<and> is_within_timestamp b t"
begin

lemma op_refines:
  assumes "inv s"
  shows "inv (run_op add cancel prn op s) \<and> abs (run_op add cancel prn op s) = abs_op op (abs s)"
  using assms
  by (cases op) (simp_all add: run_op_def abs_op_def inv_add abs_of_add inv_cancel abs_of_cancel
      inv_prune abs_of_prune)

lemma run_refines:
  assumes "inv s"
  shows "inv (fold (run_op add cancel prn) ops s) \<and>
         abs (fold (run_op add cancel prn) ops s) = fold abs_op ops (abs s)"
  using assms
proof (induction ops arbitrary: s)
  case Nil
  then show ?case by simp
next
  case (Cons op ops)
  with op_refines [of s op] show ?case by simp
qed

lemma run_from_empty:
  "inv (fold (run_op add cancel prn) ops empty)"
  "abs (fold (run_op add cancel prn) ops empty) = fold abs_op ops abs_empty"
  using run_refines [OF inv_empty, of ops] by (simp_all add: abs_of_empty)

lemma query_after_run:
  assumes "inv s"
    and "list_all (keeps b) ops"
    and "is_within_block_number b n" and "is_within_timestamp b t"
  shows "b \<in> set (query (fold (run_op add cancel prn) ops (add s b)) n t)"
proof -
  have 1: "inv (add s b)" using assms(1) by (rule inv_add)
  have "ap_bundles (abs (add s b)) (bundle_hash b) = Some b"
    by (simp add: abs_of_add [OF assms(1)] abs_add_mem)
  then have "ap_bundles (fold abs_op ops (abs (add s b))) (bundle_hash b) = Some b"
    by (rule abs_ops_keep [OF assms(2)])
  with run_refines [OF 1, of ops] assms(3,4) show ?thesis
    by (simp add: query_iff)
qed

lemma cancelled_not_returned:
  assumes "inv s"
  shows "b \<in> set (query (cancel s h) n t) \<Longrightarrow> bundle_hash b \<noteq> h"
  using assms by (auto simp: query_iff inv_cancel abs_of_cancel abs_cancel_def)

end

section \<open>Invariant of the pool\<close>

definition pool_abs :: "pool_inner \<Rightarrow> abs_pool" where
  "pool_abs p = \<lparr> ap_bundles = map_of (pi_bundles p), ap_target = find_by_uuid p \<rparr>"

lemma ap_bundles_pool_abs [simp]: "ap_bundles (pool_abs p) = map_of (pi_bundles p)"
  by (simp add: pool_abs_def)

lemma ap_target_pool_abs [simp]: "ap_target (pool_abs p) = find_by_uuid p"
  by (simp add: pool_abs_def)

definition indexed :: "('k, 'v) Index \<Rightarrow> 'k \<Rightarrow> 'v \<Rightarrow> bool" where
  "indexed ix k v = is_some_and (ix k) (\<lambda>vs. v \<in> set vs)"

text \<open>
  Keys are distinct and equal to the hash of their bundle; every stored bundle is listed in the
  indices under its block number and timestamps; a uuid lists at most one hash.
\<close>

definition entry_ok :: "pool_inner \<Rightarrow> b256 \<Rightarrow> Bundle \<Rightarrow> bool" where
  "entry_ok p h b \<longleftrightarrow>
     bundle_hash b = h \<and>
     indexed (pi_block_number_index p) (bundle_block_number b) h \<and>
     (\<forall>t. bundle_min_timestamp b = Some t \<longrightarrow> indexed (pi_min_timestamp_index p) t h) \<and>
     (\<forall>t. bundle_max_timestamp b = Some t \<longrightarrow> indexed (pi_max_timestamp_index p) t h)"

definition pool_inv :: "pool_inner \<Rightarrow> bool" where
  "pool_inv p \<longleftrightarrow>
     distinct (map fst (pi_bundles p)) \<and>
     (\<forall>h b. map_of (pi_bundles p) h = Some b \<longrightarrow> entry_ok p h b) \<and>
     (\<forall>u hs. pi_uuid_index p u = Some hs \<longrightarrow> length hs < 2)"

lemma pool_invI:
  assumes "distinct (map fst (pi_bundles p))"
    and "\<And>h b. map_of (pi_bundles p) h = Some b \<Longrightarrow> entry_ok p h b"
    and "\<And>u hs. pi_uuid_index p u = Some hs \<Longrightarrow> length hs < 2"
  shows "pool_inv p"
  using assms by (simp add: pool_inv_def)

lemma pool_invD:
  assumes "pool_inv p"
  shows "distinct (map fst (pi_bundles p))"
    and "map_of (pi_bundles p) h = Some b \<Longrightarrow> entry_ok p h b"
    and "pi_uuid_index p u = Some hs \<Longrightarrow> length hs < 2"
  using assms by (simp_all add: pool_inv_def)

lemma indexed_insert [simp]:
  "indexed (Index_insert k v ix) k' v' \<longleftrightarrow> indexed ix k' v' \<or> (k' = k \<and> v' = v)"
  by (auto simp: indexed_def Index_insert_def is_some_and_def split: option.splits)

lemma indexed_retain [simp]:
  "indexed (Index_retain k P ix) k' v \<longleftrightarrow> indexed ix k' v \<and> (k' = k \<longrightarrow> P v)"
  by (auto simp: indexed_def Index_retain_def is_some_and_def split: option.splits)

lemma indexed_retain_all [simp]:
  "indexed (Index_retain_all P ix) k v \<longleftrightarrow> indexed ix k v \<and> P v"
  by (auto simp: indexed_def Index_retain_all_def is_some_and_def split: option.splits)

section \<open>What each operation does to the fields\<close>

lemma cancel_bundles [pool_simps]:
  "map_of (pi_bundles (fst (inner_cancel_bundle p h))) = (map_of (pi_bundles p))(h := None)"
  by (auto simp: inner_cancel_bundle_def remove_bundle_def Let_def AList.delete_conv'
      split: option.splits)

lemma cancel_distinct [pool_simps]:
  "distinct (map fst (pi_bundles p)) \<Longrightarrow>
   distinct (map fst (pi_bundles (fst (inner_cancel_bundle p h))))"
  by (auto simp: inner_cancel_bundle_def remove_bundle_def Let_def AList.distinct_delete
      split: option.splits)

lemma cancel_uuid_index [pool_simps]:
  "pi_uuid_index (fst (inner_cancel_bundle p h)) = pi_uuid_index p"
  by (auto simp: inner_cancel_bundle_def remove_bundle_def Let_def split: option.splits)

lemma cancel_max_index [pool_simps]:
  "pi_max_timestamp_index (fst (inner_cancel_bundle p h)) = pi_max_timestamp_index p"
  by (auto simp: inner_cancel_bundle_def remove_bundle_def Let_def split: option.splits)

lemma cancel_indexed [pool_simps]:
  assumes "v \<noteq> h"
  shows "indexed (pi_block_number_index (fst (inner_cancel_bundle p h))) k v \<longleftrightarrow>
           indexed (pi_block_number_index p) k v"
    and "indexed (pi_min_timestamp_index (fst (inner_cancel_bundle p h))) k v \<longleftrightarrow>
           indexed (pi_min_timestamp_index p) k v"
  using assms
  by (auto simp: inner_cancel_bundle_def remove_bundle_def Let_def split: option.splits)

lemma cancel_result:
  "snd (inner_cancel_bundle p h) =
     (if map_of (pi_bundles p) h = None then Err BundleNotFound else Ok ())"
  by (auto simp: inner_cancel_bundle_def remove_bundle_def Let_def split: option.splits)

lemma find_by_uuid_cong: "pi_uuid_index p = pi_uuid_index q \<Longrightarrow> find_by_uuid p = find_by_uuid q"
  by (simp add: find_by_uuid_def fun_eq_iff)

lemma cancel_inv:
  assumes "pool_inv p"
  shows "pool_inv (fst (inner_cancel_bundle p h))"
proof (rule pool_invI)
  fix h' b assume "map_of (pi_bundles (fst (inner_cancel_bundle p h))) h' = Some b"
  then have "h' \<noteq> h" and "map_of (pi_bundles p) h' = Some b"
    by (simp_all add: cancel_bundles split: if_splits)
  with pool_invD(2) [OF assms, of h' b] show "entry_ok (fst (inner_cancel_bundle p h)) h' b"
    by (simp add: entry_ok_def cancel_indexed cancel_max_index)
qed (simp_all add: cancel_distinct cancel_uuid_index pool_invD [OF assms])

lemma cancel_abs: "pool_abs (fst (inner_cancel_bundle p h)) = abs_cancel h (pool_abs p)"
  using find_by_uuid_cong [OF cancel_uuid_index [of p h]]
  by (simp add: pool_abs_def abs_cancel_def pool_simps)

definition replaced :: "pool_inner \<Rightarrow> Bundle \<Rightarrow> pool_inner" where
  "replaced p b =
     (case bundle_replacement_uuid b of
        Some u \<Rightarrow> fst (handle_replacement_uuid p u (bundle_hash b))
      | None \<Rightarrow> p)"

lemma handle_replacement_cases:
  "fst (handle_replacement_uuid p u h) =
     (case find_by_uuid p u of
        Some old \<Rightarrow> fst (inner_cancel_bundle p old)
      | None \<Rightarrow> p\<lparr> pi_uuid_index := Index_insert u h (pi_uuid_index p) \<rparr>)"
  by (simp add: handle_replacement_uuid_def split: option.splits prod.splits)

lemma find_by_uuid_insert:
  assumes "find_by_uuid p u = None"
  shows "find_by_uuid (p\<lparr> pi_uuid_index := Index_insert u h (pi_uuid_index p) \<rparr>) =
           (find_by_uuid p)(u \<mapsto> h)"
  using assms
  by (auto simp: find_by_uuid_def Index_insert_def fun_eq_iff split: option.splits list.splits)

lemma insert_uuid_inv:
  assumes "pool_inv p" and "find_by_uuid p u = None"
  shows "pool_inv (p\<lparr> pi_uuid_index := Index_insert u h (pi_uuid_index p) \<rparr>)"
  using assms
  by (auto simp: pool_inv_def entry_ok_def find_by_uuid_def Index_insert_def
      split: option.splits list.splits if_splits)

lemma replaced_inv: "pool_inv p \<Longrightarrow> pool_inv (replaced p b)"
  by (auto simp: replaced_def handle_replacement_cases cancel_inv insert_uuid_inv
      split: option.splits)

lemma replaced_abs: "pool_abs (replaced p b) = abs_replace b (pool_abs p)"
proof (cases "bundle_replacement_uuid b")
  case None
  then show ?thesis by (simp add: replaced_def abs_replace_def)
next
  case (Some u)
  then show ?thesis
    by (cases "find_by_uuid p u")
      (simp_all add: replaced_def abs_replace_def handle_replacement_cases cancel_abs
        pool_abs_def [of p] pool_abs_def [of "p\<lparr> pi_uuid_index := _ \<rparr>"] find_by_uuid_insert)
qed

lemma add_bundles [pool_simps]:
  "pi_bundles (fst (inner_add_bundle p b)) =
     AList.update (bundle_hash b) b (pi_bundles (replaced p b))"
  by (auto simp: inner_add_bundle_def replaced_def Let_def insert_bundle_def index_block_number_def
      index_min_ts_def index_max_ts_def split: option.splits)

lemma add_uuid_index [pool_simps]:
  "pi_uuid_index (fst (inner_add_bundle p b)) = pi_uuid_index (replaced p b)"
  by (auto simp: inner_add_bundle_def replaced_def Let_def insert_bundle_def index_block_number_def
      index_min_ts_def index_max_ts_def split: option.splits)

lemma add_block_index [pool_simps]:
  "pi_block_number_index (fst (inner_add_bundle p b)) =
     Index_insert (bundle_block_number b) (bundle_hash b) (pi_block_number_index (replaced p b))"
  by (auto simp: inner_add_bundle_def replaced_def Let_def insert_bundle_def index_block_number_def
      index_min_ts_def index_max_ts_def split: option.splits)

lemma add_min_index [pool_simps]:
  "indexed (pi_min_timestamp_index (fst (inner_add_bundle p b))) k v \<longleftrightarrow>
     indexed (pi_min_timestamp_index (replaced p b)) k v \<or>
     (bundle_min_timestamp b = Some k \<and> v = bundle_hash b)"
  by (auto simp: inner_add_bundle_def replaced_def Let_def insert_bundle_def index_block_number_def
      index_min_ts_def index_max_ts_def split: option.splits)

lemma add_max_index [pool_simps]:
  "indexed (pi_max_timestamp_index (fst (inner_add_bundle p b))) k v \<longleftrightarrow>
     indexed (pi_max_timestamp_index (replaced p b)) k v \<or>
     (bundle_max_timestamp b = Some k \<and> v = bundle_hash b)"
  by (auto simp: inner_add_bundle_def replaced_def Let_def insert_bundle_def index_block_number_def
      index_min_ts_def index_max_ts_def split: option.splits)

lemma add_returns_hash [simp]: "snd (inner_add_bundle p b) = bundle_hash b"
  by (simp add: inner_add_bundle_def Let_def)

lemma add_inv:
  assumes "pool_inv p"
  shows "pool_inv (fst (inner_add_bundle p b))"
proof (rule pool_invI)
  note inv = replaced_inv [OF assms, of b]
  show "distinct (map fst (pi_bundles (fst (inner_add_bundle p b))))"
    by (simp add: add_bundles AList.distinct_update pool_invD(1) [OF inv])
  fix h b' assume "map_of (pi_bundles (fst (inner_add_bundle p b))) h = Some b'"
  then have "h = bundle_hash b \<and> b' = b \<or> map_of (pi_bundles (replaced p b)) h = Some b'"
    by (auto simp: add_bundles AList.update_conv' split: if_splits)
  with pool_invD(2) [OF inv, of h b'] show "entry_ok (fst (inner_add_bundle p b)) h b'"
    by (auto simp: entry_ok_def add_block_index add_min_index add_max_index)
next
  fix u hs assume "pi_uuid_index (fst (inner_add_bundle p b)) u = Some hs"
  then show "length hs < 2"
    using pool_invD(3) [OF replaced_inv [OF assms, of b], of u hs] by (simp add: add_uuid_index)
qed

lemma add_abs: "pool_abs (fst (inner_add_bundle p b)) = abs_add b (pool_abs p)"
proof -
  have "find_by_uuid (fst (inner_add_bundle p b)) = find_by_uuid (replaced p b)"
    by (rule find_by_uuid_cong) (rule add_uuid_index)
  then show ?thesis
    unfolding abs_add_def Let_def replaced_abs [symmetric]
    by (simp add: pool_abs_def pool_simps AList.update_conv')
qed

section \<open>Pruning\<close>

lemma map_of_filter_snd:
  assumes "distinct (map fst xs)"
  shows "map_of (filter (\<lambda>(k, v). P v) xs) k =
           (case map_of xs k of None \<Rightarrow> None | Some v \<Rightarrow> if P v then Some v else None)"
  using assms
proof (induction xs)
  case Nil
  then show ?case by simp
next
  case (Cons x xs)
  then show ?case
    by (cases x) (auto simp: map_of_eq_None_iff [symmetric] split: option.splits)
qed

lemma removed_hashes_iff:
  assumes "pool_inv p"
  shows "h \<in> set (removed_hashes p n t) \<longleftrightarrow> abs_pruned n t (pool_abs p) h"
proof -
  have "h \<in> set (removed_hashes p n t) \<longleftrightarrow>
      (\<exists>b. (h, b) \<in> set (pi_bundles p) \<and> is_prunable b n t)"
    by (force simp: removed_hashes_def)
  moreover have "(h, b) \<in> set (pi_bundles p) \<longleftrightarrow> map_of (pi_bundles p) h = Some b" for b
    using pool_invD(1) [OF assms] by simp
  ultimately show ?thesis
    by (cases "map_of (pi_bundles p) h") (simp_all add: abs_pruned_def is_some_and_def)
qed

lemma prune_bundles [pool_simps]:
  assumes "pool_inv p"
  shows "map_of (pi_bundles (fst (inner_prune p n t))) h =
           (if abs_pruned n t (pool_abs p) h then None else map_of (pi_bundles p) h)"
proof -
  have "distinct (map fst (pi_bundles p))"
    using assms by (simp add: pool_inv_def)
  from map_of_filter_snd [OF this, of "\<lambda>b. \<not> is_prunable b n t" h] show ?thesis
    by (simp add: inner_prune_def Let_def abs_pruned_def pool_abs_def is_some_and_def
        split: option.splits)
qed

lemma length_filter_less: "length xs < k \<Longrightarrow> length (filter P xs) < k"
  by (rule le_less_trans [OF length_filter_le])

lemma prune_inv:
  assumes "pool_inv p"
  shows "pool_inv (fst (inner_prune p n t))"
proof (rule pool_invI)
  show "distinct (map fst (pi_bundles (fst (inner_prune p n t))))"
    using pool_invD(1) [OF assms] by (simp add: inner_prune_def Let_def distinct_map_filter)
  fix h b assume "map_of (pi_bundles (fst (inner_prune p n t))) h = Some b"
  then have "h \<notin> set (removed_hashes p n t)" and "map_of (pi_bundles p) h = Some b"
    using assms by (simp_all add: prune_bundles removed_hashes_iff split: if_splits)
  with pool_invD(2) [OF assms, of h b] show "entry_ok (fst (inner_prune p n t)) h b"
    by (simp add: entry_ok_def inner_prune_def Let_def)
next
  fix u hs assume "pi_uuid_index (fst (inner_prune p n t)) u = Some hs"
  then show "length hs < 2"
    using pool_invD(3) [OF assms, of u]
    by (auto simp: inner_prune_def Let_def Index_retain_all_def intro: length_filter_less)
qed

lemma prune_target:
  assumes "pool_inv p"
  shows "find_by_uuid (fst (inner_prune p n t)) u =
           (case find_by_uuid p u of
              None \<Rightarrow> None
            | Some h \<Rightarrow> if abs_pruned n t (pool_abs p) h then None else Some h)"
proof (cases "pi_uuid_index p u")
  case None
  then show ?thesis
    by (simp add: find_by_uuid_def inner_prune_def Let_def Index_retain_all_def)
next
  case (Some hs)
  then have "length hs < 2"
    using assms by (auto simp: pool_inv_def)
  then consider "hs = []" | h where "hs = [h]"
    by (cases hs) auto
  then show ?thesis
    using Some removed_hashes_iff [OF assms, of _ n t]
    by cases (auto simp: find_by_uuid_def inner_prune_def Let_def Index_retain_all_def)
qed

lemma prune_abs:
  assumes "pool_inv p"
  shows "pool_abs (fst (inner_prune p n t)) = abs_prune n t (pool_abs p)"
  using prune_bundles [OF assms, of n t] prune_target [OF assms, of n t]
  by (auto simp: pool_abs_def [of "fst _"] abs_prune_def fun_eq_iff pool_abs_def [of p]
      split: option.splits)

lemma inner_bundles_mem:
  "b \<in> set (inner_bundles p n t) \<longleftrightarrow>
     (\<exists>h. indexed (pi_block_number_index p) n h \<and> map_of (pi_bundles p) h = Some b \<and>
          is_within_block_number b n \<and> is_within_timestamp b t)"
proof (cases "pi_block_number_index p n")
  case None
  then show ?thesis by (simp add: inner_bundles_def indexed_def is_some_and_def)
next
  case (Some hashes)
  have "b \<in> set (List.map_filter f xs) \<longleftrightarrow> (\<exists>x \<in> set xs. f x = Some b)" for f and xs :: "b256 list"
    by (induction xs) (auto simp: List.map_filter_simps split: option.splits)
  with Some show ?thesis
    by (auto simp: inner_bundles_def indexed_def is_some_and_def get_by_block_and_ts_def
        split: option.splits if_splits)
qed

lemma inner_bundles_iff:
  assumes "pool_inv p"
  shows "b \<in> set (inner_bundles p n t) \<longleftrightarrow>
           map_of (pi_bundles p) (bundle_hash b) = Some b \<and>
           is_within_block_number b n \<and> is_within_timestamp b t"
  unfolding inner_bundles_mem
  using pool_invD(2) [OF assms, of _ b]
  by (auto simp: entry_ok_def is_within_block_number_def)

interpretation pool: bundle_store pool_abs pool_inv BundlePoolInner_new
  "\<lambda>p b. fst (inner_add_bundle p b)" "\<lambda>p h. fst (inner_cancel_bundle p h)"
  "\<lambda>p n t. fst (inner_prune p n t)" inner_bundles
proof unfold_locales
  show "pool_inv BundlePoolInner_new"
    by (simp add: pool_inv_def BundlePoolInner_new_def)
  show "pool_abs BundlePoolInner_new = abs_empty"
    by (simp add: pool_abs_def BundlePoolInner_new_def abs_empty_def find_by_uuid_def fun_eq_iff)
qed (simp_all add: add_inv add_abs cancel_inv cancel_abs prune_inv prune_abs inner_bundles_iff)

section \<open>Properties\<close>

text \<open>The pool after a sequence of operations on the initial one.\<close>

definition pool_run :: "pool_op list \<Rightarrow> pool_inner" where
  "pool_run ops =
     fold (run_op (\<lambda>p b. fst (inner_add_bundle p b)) (\<lambda>p h. fst (inner_cancel_bundle p h))
             (\<lambda>p n t. fst (inner_prune p n t))) ops BundlePoolInner_new"

lemma pool_run_inv: "pool_inv (pool_run ops)"
  unfolding pool_run_def by (rule pool.run_from_empty)

lemma pool_run_abs: "pool_abs (pool_run ops) = fold abs_op ops abs_empty"
  unfolding pool_run_def by (rule pool.run_from_empty)

lemma length_removed_kept:
  "length (removed_hashes p n t) + length (filter (\<lambda>(h, b). \<not> is_prunable b n t) (pi_bundles p)) =
     length (pi_bundles p)"
proof -
  have "length (filter (\<lambda>(h, b). is_prunable b n t) xs) +
        length (filter (\<lambda>(h, b). \<not> is_prunable b n t) xs) = length xs" for xs :: "(b256 \<times> Bundle) list"
    by (induction xs) auto
  then show ?thesis by (simp add: removed_hashes_def)
qed

text \<open>
  C9: Refinement. After any sequence of additions, cancellations and prunings the pool satisfies its
  invariant (distinct keys equal to the bundle hashes, every bundle present in the block number
  and timestamp indices, at most one hash per uuid) and represents exactly the abstract pool
  that the same operations produce.
\<close>

theorem pool_run_refines:
  "pool_inv (pool_run ops) \<and> pool_abs (pool_run ops) = fold abs_op ops abs_empty"
  by (simp add: pool_run_inv pool_run_abs)

text \<open>
  C28: The bundles returned for a block number and timestamp are exactly the stored bundles
  whose block number is the requested one and whose timestamp window contains the timestamp,
  even though only the block number index is searched.
\<close>

theorem inner_bundles_exact:
  "set (inner_bundles (pool_run ops) n t) =
     {b. map_of (pi_bundles (pool_run ops)) (bundle_hash b) = Some b \<and>
         bundle_block_number b = n \<and> \<not> is_timestamp_out_of_bounds b t}"
  using inner_bundles_iff [OF pool_run_inv]
  by (auto simp: is_within_block_number_def within_timestamp_iff_in_bounds)

text \<open>
  A bundle that was added is returned for its block and any timestamp of its window, as
  long as the later operations neither cancel nor re-add its hash, replace no bundle by uuid,
  and prune only with a block number and timestamp at which the bundle is not prunable.
\<close>

lemma added_bundle_returned:
  assumes "list_all (keeps b) later"
    and "bundle_block_number b = n" and "is_within_timestamp b t"
  shows "b \<in> set (inner_bundles (pool_run (earlier @ OpAdd b # later)) n t)"
  using pool.query_after_run [OF pool_run_inv assms(1), of n t earlier] assms(2,3)
  by (simp add: pool_run_def run_op_def is_within_block_number_def)

definition sample_bundle :: "b256 \<Rightarrow> uuid option \<Rightarrow> Bundle" where
  "sample_bundle h u =
     \<lparr> bundle_hash = h, bundle_txs = [], bundle_block_number = 7, bundle_min_timestamp = Some 100,
       bundle_max_timestamp = Some 200, bundle_reverting_tx_hashes = [],
       bundle_replacement_uuid = u, bundle_refund_args = None \<rparr>"

lemma sample_bundle_fields [simp]:
  "bundle_hash (sample_bundle h u) = h" "bundle_block_number (sample_bundle h u) = 7"
  "bundle_replacement_uuid (sample_bundle h u) = u"
  "is_within_timestamp (sample_bundle h u) t \<longleftrightarrow> 100 \<le> t \<and> t \<le> 200"
  by (simp_all add: sample_bundle_def is_within_timestamp_def is_none_or_def Let_def)

text \<open>
  Pruning removes exactly the prunable bundles, reports their number and the number left,
  and leaves no removed hash behind in any index.
\<close>

lemma prune_exact:
  "case inner_prune (pool_run ops) n t of (q, removed, left) \<Rightarrow>
     (\<forall>h. map_of (pi_bundles q) h =
        Option.bind (map_of (pi_bundles (pool_run ops)) h)
          (\<lambda>b. if is_prunable b n t then None else Some b)) \<and>
     removed + left = inner_len (pool_run ops) \<and> left = inner_len q \<and>
     \<not> (\<exists>h \<in> set (removed_hashes (pool_run ops) n t).
          (\<exists>k. indexed (pi_block_number_index q) k h) \<or> (\<exists>k. indexed (pi_min_timestamp_index q) k h) \<or>
          (\<exists>k. indexed (pi_max_timestamp_index q) k h) \<or> (\<exists>u. indexed (pi_uuid_index q) u h))"
proof -
  let ?p = "pool_run ops"
  have "map_of (pi_bundles (fst (inner_prune ?p n t))) h =
      Option.bind (map_of (pi_bundles ?p) h) (\<lambda>b. if is_prunable b n t then None else Some b)" for h
    by (cases "map_of (pi_bundles ?p) h")
      (simp_all add: prune_bundles [OF pool_run_inv] abs_pruned_def is_some_and_def)
  then show ?thesis
    by (simp add: inner_prune_def Let_def inner_len_def length_removed_kept)
qed

text \<open>
  Cancelling succeeds exactly for stored hashes and removes exactly that bundle; a second
  cancellation of the same hash reports \<open>BundleNotFound\<close>.
\<close>

lemma cancel_bundle_spec:
  "case inner_cancel_bundle (pool_run ops) h of (q, r) \<Rightarrow>
     r = (if map_of (pi_bundles (pool_run ops)) h = None then Err BundleNotFound else Ok ()) \<and>
     map_of (pi_bundles q) = (map_of (pi_bundles (pool_run ops)))(h := None) \<and>
     snd (inner_cancel_bundle q h) = Err BundleNotFound"
  using cancel_bundles [of "pool_run ops" h] cancel_result [of "pool_run ops" h]
  by (simp add: case_prod_unfold cancel_result)

text \<open>
  A bundle with a fresh replacement uuid is replaced by the next bundle with the same uuid:
  the first is gone, the second is stored.
\<close>

lemma first_replacement:
  assumes "find_by_uuid p u = None" and "pool_inv p"
    and "bundle_replacement_uuid b1 = Some u" and "bundle_replacement_uuid b2 = Some u"
    and "bundle_hash b1 \<noteq> bundle_hash b2"
  shows "let q = fst (inner_add_bundle (fst (inner_add_bundle p b1)) b2)
         in map_of (pi_bundles q) (bundle_hash b1) = None \<and>
            map_of (pi_bundles q) (bundle_hash b2) = Some b2"
proof -
  have "ap_bundles (pool_abs (fst (inner_add_bundle (fst (inner_add_bundle p b1)) b2))) =
      ap_bundles (abs_add b2 (abs_add b1 (pool_abs p)))"
    by (simp only: add_abs)
  then show ?thesis
    using assms by (simp add: abs_add_def abs_replace_def abs_cancel_def Let_def)
qed

text \<open>
  C39: The index of replacement uuids is not moved to the replacing bundle. A third bundle with
  the same uuid finds the hash of the first one, which is no longer stored: the replacement is
  rejected with \<open>BundleReplacementFailed\<close>, the third bundle is stored all the same, and the
  second one stays in the pool beside it.
\<close>

theorem second_replacement_leaks:
  assumes "find_by_uuid p u = None" and "pool_inv p"
    and "bundle_replacement_uuid b1 = Some u" and "bundle_replacement_uuid b2 = Some u"
    and "bundle_replacement_uuid b3 = Some u"
    and "distinct [bundle_hash b1, bundle_hash b2, bundle_hash b3]"
  shows "let q = fst (inner_add_bundle (fst (inner_add_bundle p b1)) b2);
             q' = fst (inner_add_bundle q b3)
         in snd (handle_replacement_uuid q u (bundle_hash b3)) = Err BundleReplacementFailed \<and>
            map_of (pi_bundles q') (bundle_hash b2) = Some b2 \<and>
            map_of (pi_bundles q') (bundle_hash b3) = Some b3"
proof -
  let ?q = "fst (inner_add_bundle (fst (inner_add_bundle p b1)) b2)"
  let ?a = "abs_add b2 (abs_add b1 (pool_abs p))"
  have q: "pool_abs ?q = ?a" by (simp only: add_abs)
  have a: "ap_bundles ?a (bundle_hash b1) = None" "ap_bundles ?a (bundle_hash b2) = Some b2"
      "ap_target ?a u = Some (bundle_hash b1)"
    using assms by (simp_all add: abs_add_def abs_replace_def abs_cancel_def Let_def)
  have f: "find_by_uuid ?q u = Some (bundle_hash b1)"
      and m: "map_of (pi_bundles ?q) (bundle_hash b1) = None"
    using q a by (simp_all flip: ap_target_pool_abs ap_bundles_pool_abs)
  have r: "snd (handle_replacement_uuid ?q u (bundle_hash b3)) = Err BundleReplacementFailed"
    using cancel_result [of ?q "bundle_hash b1"]
    by (simp add: handle_replacement_uuid_def f m case_prod_unfold)
  have "ap_bundles (pool_abs (fst (inner_add_bundle ?q b3))) = ap_bundles (abs_add b3 ?a)"
    by (simp only: add_abs)
  moreover have "ap_bundles (abs_add b3 ?a) (bundle_hash b2) = Some b2"
      "ap_bundles (abs_add b3 ?a) (bundle_hash b3) = Some b3"
    using assms a by (auto simp: abs_add_def [of b3] abs_replace_def [of b3] abs_cancel_def [of "bundle_hash b1"] Let_def)
  ultimately show ?thesis
    using r by (simp add: Let_def)
qed

theorem second_replacement_leaks_witness:
  "let q = fst (inner_add_bundle (fst (inner_add_bundle (fst (inner_add_bundle BundlePoolInner_new
       (sample_bundle 1 (Some 9)))) (sample_bundle 2 (Some 9)))) (sample_bundle 3 (Some 9)))
   in map_of (pi_bundles q) 2 = Some (sample_bundle 2 (Some 9)) \<and>
      map_of (pi_bundles q) 3 = Some (sample_bundle 3 (Some 9))"
  using second_replacement_leaks [of BundlePoolInner_new 9 "sample_bundle 1 (Some 9)"
      "sample_bundle 2 (Some 9)" "sample_bundle 3 (Some 9)"] pool.inv_empty
  by (simp add: Let_def find_by_uuid_def BundlePoolInner_new_def)

text \<open>
  Adding a bundle again without a replacement uuid lists its hash twice in the block
  number index, so the pool then returns it at least twice for that block.
\<close>

lemma readded_bundle_returned_twice:
  assumes "pool_inv p" and "bundle_replacement_uuid b = None" and "is_within_timestamp b t"
  shows "2 \<le> count (mset (inner_bundles
      (fst (inner_add_bundle (fst (inner_add_bundle p b)) b)) (bundle_block_number b) t)) b"
proof -
  let ?q = "fst (inner_add_bundle (fst (inner_add_bundle p b)) b)"
  let ?n = "bundle_block_number b" and ?h = "bundle_hash b"
  obtain hs where hs: "pi_block_number_index ?q ?n = Some (hs @ [?h, ?h])"
    using assms by (simp add: add_block_index replaced_def Index_insert_def)
  have get: "get_by_block_and_ts ?q ?n t ?h = Some b"
    using assms by (simp add: get_by_block_and_ts_def add_bundles AList.update_conv' is_within_block_number_def)
  have "inner_bundles ?q ?n t = List.map_filter (get_by_block_and_ts ?q ?n t) hs @ [b, b]"
    by (simp add: inner_bundles_def hs List.map_filter_def get)
  then show ?thesis by simp
qed

end
