(* ===== verification/Payload_Config.thy ===== *)
theory Payload_Config
  imports Bundles
begin

text \<open>
  Validator registrations and the validator schedule (\<open>crates/primitives/src/validator.rs\<close>), and
  the static and per-slot build configuration (\<open>crates/primitives/src/payload.rs\<close>).

  The records \<open>payload_attributes\<close>, \<open>sealed_block\<close>, \<open>block_env\<close>, \<open>cfg_env\<close> and \<open>withdrawal\<close> hold
  the fields of the \<open>reth\<close> and \<open>revm\<close> values the builder reads; \<open>cfg_and_block_env\<close> and the chain
  specification are the library's and enter as parameters.  A BLS public key is its 48 bytes,
  a signature its 96 bytes.
\<close>

section \<open>Validators\<close>

type_synonym bls_public_key = "384 word"
type_synonym bls_signature = "768 word"

record validator_info =
  vi_proposer :: bls_public_key
  vi_fee_recipient :: address
  vi_gas_limit :: u64
  vi_slot :: u64

record registration =
  reg_fee_recipient :: address
  reg_gas_limit :: u64
  reg_timestamp :: u64
  reg_pubkey :: bls_public_key

record signed_validator_registration =
  svr_message :: registration
  svr_signature :: bls_signature

record validator_registration_response =
  vrr_slot :: u64
  vrr_validator_index :: "string option"
  vrr_entry :: signed_validator_registration

definition ValidatorScheduleSlotInfo_from :: "validator_registration_response \<Rightarrow> validator_info" where
  "ValidatorScheduleSlotInfo_from data =
     \<lparr> vi_proposer = reg_pubkey (svr_message (vrr_entry data)),
       vi_fee_recipient = reg_fee_recipient (svr_message (vrr_entry data)),
       vi_gas_limit = reg_gas_limit (svr_message (vrr_entry data)),
       vi_slot = vrr_slot data \<rparr>"

definition suggest_gas_limit :: "validator_info \<Rightarrow> u64 \<Rightarrow> u64" where
  "suggest_gas_limit v parent_gas_limit =
     (if parent_gas_limit = 0 then parent_gas_limit
      else
        let delta = parent_gas_limit div 1024 - 1;
            desired_limit = (if vi_gas_limit v < 5000 then 5000 else vi_gas_limit v)
        in if parent_gas_limit < desired_limit then
             (let limit = parent_gas_limit + delta
              in if desired_limit < limit then desired_limit else limit)
           else if desired_limit < parent_gas_limit then
             (let limit = parent_gas_limit - delta
              in if limit < desired_limit then desired_limit else limit)
           else parent_gas_limit)"

type_synonym validator_schedule = "u64 \<rightharpoonup> validator_info"

definition ValidatorSchedule_new :: "validator_info list \<Rightarrow> validator_schedule" where
  "ValidatorSchedule_new vs = fold (\<lambda>v m. or_insert (vi_slot v) v m) vs Map.empty"

definition get_by_slot :: "validator_schedule \<Rightarrow> u64 \<Rightarrow> validator_info option" where
  "get_by_slot sched slot = sched slot"

section \<open>Build configuration\<close>

record withdrawal =
  wd_index :: u64
  wd_validator_index :: u64
  wd_address :: address
  wd_amount :: u64

record payload_attributes =
  pa_id :: u64
  pa_parent :: b256
  pa_timestamp :: u64
  pa_suggested_fee_recipient :: address
  pa_prev_randao :: b256
  pa_withdrawals :: "withdrawal list"
  pa_parent_beacon_block_root :: "b256 option"

record sealed_block =
  sb_hash :: b256
  sb_number :: u64
  sb_gas_limit :: u64
  sb_timestamp :: u64
  sb_excess_blob_gas :: "u64 option"
  sb_blob_gas_used :: "u64 option"
  sb_parent_beacon_block_root :: "b256 option"

record block_env =
  be_number :: u256
  be_coinbase :: address
  be_basefee :: u256
  be_rest :: bytes

record cfg_env =
  ce_chain_id :: u64
  ce_rest :: bytes

record 'cs payload_config =
  pc_chain_spec :: 'cs
  pc_builder_address :: address
  pc_secret_key :: b256
  pc_extra_data :: bytes

record build_config =
  bc_slot :: u64
  bc_attributes :: payload_attributes
  bc_validator_info :: validator_info
  bc_parent_block :: sealed_block
  bc_block_number :: u64
  bc_initialized_block_env :: block_env
  bc_initialized_cfg :: cfg_env
  bc_block_gas_limit :: u64
  bc_basefee :: u256

text \<open>\<open>None\<close> is the panic of \<open>to::<u64>()\<close> on a block number that does not fit.\<close>

definition BuildConfig_new ::
  "('cs \<Rightarrow> payload_attributes \<Rightarrow> sealed_block \<Rightarrow> cfg_env \<times> block_env) \<Rightarrow> 'cs \<Rightarrow> payload_attributes \<Rightarrow>
   sealed_block \<Rightarrow> u64 \<Rightarrow> validator_info \<Rightarrow> build_config option"
where
  "BuildConfig_new cfg_and_block_env chain_spec attributes parent_block slot v =
     (let (initialized_cfg, initialized_block_env) = cfg_and_block_env chain_spec attributes parent_block
      in map_option (\<lambda>block_number.
           \<lparr> bc_slot = slot, bc_attributes = attributes, bc_validator_info = v,
             bc_parent_block = parent_block, bc_block_number = block_number,
             bc_initialized_block_env = initialized_block_env,
             bc_initialized_cfg = initialized_cfg,
             bc_block_gas_limit = suggest_gas_limit v (sb_gas_limit parent_block),
             bc_basefee = be_basefee initialized_block_env \<rparr>)
         (u256_to_u64 (be_number initialized_block_env)))"

definition block_env_with_coinbase :: "address \<Rightarrow> build_config \<Rightarrow> build_config" where
  "block_env_with_coinbase builder_address bc =
     bc\<lparr> bc_initialized_block_env := (bc_initialized_block_env bc)\<lparr> be_coinbase := builder_address \<rparr> \<rparr>"

section \<open>Lemmas\<close>

lemma schedule_fold:
  "fold (\<lambda>v m. or_insert (vi_slot v) v m) vs m s =
     (case m s of Some v \<Rightarrow> Some v | None \<Rightarrow> find (\<lambda>v. vi_slot v = s) vs)"
proof (induction vs arbitrary: m)
  case Nil
  then show ?case by (simp split: option.splits)
next
  case (Cons v vs)
  show ?case
    by (simp add: Cons.IH) (auto simp: or_insert_def split: option.splits)
qed

text \<open>Reading the wrapping \<open>u64\<close> steps of \<open>suggest_gas_limit\<close> as natural numbers.\<close>

lemma unat_gas_delta:
  fixes g :: u64
  assumes "1024 \<le> unat g"
  shows "unat (g div 1024 - 1) = unat g div 1024 - 1"
proof -
  have "unat (g div 1024) = unat g div 1024" by (simp add: unat_div_distrib)
  moreover have "1 \<le> g div 1024"
    using assms calculation by (simp add: word_le_nat_alt)
  ultimately show ?thesis by (simp add: unat_sub)
qed

lemma unat_suggest_gas_limit:
  fixes g :: u64 and v :: validator_info
  assumes "1024 \<le> unat g" and "unat g + unat g div 1024 < 2 ^ 64"
  defines "target \<equiv> max 5000 (unat (vi_gas_limit v))"
  shows "unat (suggest_gas_limit v g) =
           (if unat g < target then min target (unat g + (unat g div 1024 - 1))
            else max target (unat g - (unat g div 1024 - 1)))"
proof -
  let ?d = "g div 1024 - 1 :: u64"
  have d: "unat ?d = unat g div 1024 - 1" by (rule unat_gas_delta [OF assms(1)])
  have up: "unat (g + ?d) = unat g + (unat g div 1024 - 1)"
    using assms(2) d by (simp add: unat_add_no_overflow)
  have "?d \<le> g" using d by (simp add: word_le_nat_alt)
  then have down: "unat (g - ?d) = unat g - (unat g div 1024 - 1)"
    using d by (simp add: unat_sub)
  have t: "unat (if vi_gas_limit v < 5000 then 5000 else vi_gas_limit v) = target"
    by (auto simp: target_def word_less_nat_alt)
  have g0: "g \<noteq> 0" using assms(1) by auto
  show ?thesis
    unfolding suggest_gas_limit_def Let_def
    using t up down g0
    by (auto simp: word_less_nat_alt min_def max_def)
qed

lemma limit_step_bounds:
  fixes p q t l :: nat
  assumes "1 \<le> q" and "q \<le> p"
    and l: "l = (if p < t then min t (p + (q - 1)) else max t (p - (q - 1)))"
  shows "l < p + q \<and> p < l + q \<and> min p t \<le> l \<and> l \<le> max p t \<and>
         (t \<le> p + (q - 1) \<and> p \<le> t + (q - 1) \<longrightarrow> l = t)"
  using assms(1,2) unfolding l min_def max_def by (cases "p < t") auto

section \<open>Properties\<close>

text \<open>
  C40: For every realistic parent gas limit the suggested limit differs from the parent's by
  less than one 1024th of it (the consensus bound), lies between the parent's limit and the
  validator's target (at least 5000), and reaches the target when it is within that bound.
\<close>

theorem suggest_gas_limit_bounds:
  assumes "1024 \<le> unat parent" and "unat parent + unat parent div 1024 < 2 ^ 64"
  shows "let l = unat (suggest_gas_limit v parent); p = unat parent;
             target = max 5000 (unat (vi_gas_limit v)); d = p div 1024 - 1
         in l < p + p div 1024 \<and> p < l + p div 1024 \<and>
            min p target \<le> l \<and> l \<le> max p target \<and>
            (target \<le> p + d \<and> p \<le> target + d \<longrightarrow> l = target)"
  using limit_step_bounds [of "unat parent div 1024" "unat parent"] assms(1)
  unfolding Let_def unat_suggest_gas_limit [OF assms] by (simp add: Suc_le_eq)

definition sample_validator :: "u64 \<Rightarrow> validator_info" where
  "sample_validator g = \<lparr> vi_proposer = 1, vi_fee_recipient = 2, vi_gas_limit = g, vi_slot = 3 \<rparr>"

theorem suggest_gas_limit_bounds_witness:
  "unat (suggest_gas_limit (sample_validator 0) 20000000) < 20000000 + 19531 \<and>
   unat (suggest_gas_limit (sample_validator 20000001) 20000000) = 20000001"
  using suggest_gas_limit_bounds [of 20000000 "sample_validator 0"]
    suggest_gas_limit_bounds [of 20000000 "sample_validator 20000001"]
  by (simp add: Let_def sample_validator_def)

text \<open>
  For a parent gas limit below 1024 the bound \<open>parent / 1024 - 1\<close> underflows: although the
  target is at least 5000, the suggested limit is the parent's limit minus one, away from the
  target.
\<close>

lemma suggest_gas_limit_underflow:
  assumes "0 < unat parent" and "unat parent < 1024"
  shows "suggest_gas_limit v parent = parent - 1"
proof -
  have z: "parent div 1024 = 0"
    using assms(2) by (simp add: word_arith_nat_div)
  have l: "parent < 5000" using assms(2) by (simp add: word_less_nat_alt)
  have g: "parent < (if vi_gas_limit v < 5000 then 5000 else vi_gas_limit v)"
    using l by (auto simp: not_less intro: less_le_trans)
  have s: "\<not> (if vi_gas_limit v < 5000 then 5000 else vi_gas_limit v) < parent - 1"
  proof -
    have "parent \<noteq> 0" using assms(1) by auto
    then have "parent - 1 < parent" using assms by (simp add: word_less_nat_alt unat_minus_one)
    with g show ?thesis by auto
  qed
  show ?thesis
    using assms(1) g s by (auto simp: suggest_gas_limit_def Let_def z)
qed

text \<open>
  The validator schedule maps every slot to the first registration received for it.
\<close>

lemma schedule_first_registration_wins:
  "get_by_slot (ValidatorSchedule_new vs) slot = find (\<lambda>v. vi_slot v = slot) vs"
  by (simp add: get_by_slot_def ValidatorSchedule_new_def schedule_fold)

end
