(* ===== verification/Clock.thy ===== *)
theory Clock
  imports Builder_Prelude
begin

text \<open>
  The network clock of \<open>crates/consensus_layer/src/clock.rs\<close>.  The system time in nanoseconds is
  an argument of every operation that reads it; a \<open>Duration\<close> is its number of nanoseconds.  The
  chain type, its constructors and the devnet genesis file are parameters.
\<close>

section \<open>Definitions\<close>

definition MAINNET_GENESIS_TS :: u64 where "MAINNET_GENESIS_TS = 1606824023"
definition HOLESKY_GENESIS_TS :: u64 where "HOLESKY_GENESIS_TS = 1695902100"
definition SECONDS_PER_SLOT :: u64 where "SECONDS_PER_SLOT = 12"

record network_clock =
  genesis_ts :: u128
  seconds_per_slot :: u128

datatype clock_err = UnsupportedChain string | DevnetGenesis

text \<open>\<open>Duration::from_secs(s).as_nanos()\<close>.\<close>

definition secs_as_nanos :: "u64 \<Rightarrow> u128" where
  "secs_as_nanos s = ucast s * 1000000000"

definition NetworkClock_new :: "u64 \<Rightarrow> u64 \<Rightarrow> network_clock" where
  "NetworkClock_new g s = \<lparr> genesis_ts = secs_as_nanos g, seconds_per_slot = secs_as_nanos s \<rparr>"

text \<open>
  \<open>Ok None\<close> before genesis; the panics are the division by a zero slot time and the failed
  conversion to \<open>u64\<close>.
\<close>

definition current_slot :: "network_clock \<Rightarrow> u128 \<Rightarrow> (u64 option, unit) result" where
  "current_slot c current_time =
     (case checked_sub current_time (genesis_ts c) of
        None \<Rightarrow> Ok None
      | Some since_genesis \<Rightarrow>
          if seconds_per_slot c = 0 then Panic
          else let q = since_genesis div seconds_per_slot c
               in if unat q < 2 ^ 64 then Ok (Some (ucast q)) else Panic)"

definition slot_timestamp_nanos :: "network_clock \<Rightarrow> u64 \<Rightarrow> u128" where
  "slot_timestamp_nanos c slot = ucast slot * seconds_per_slot c + genesis_ts c"

definition slot_timestamp :: "network_clock \<Rightarrow> u64 \<Rightarrow> u64" where
  "slot_timestamp c slot = ucast (slot_timestamp_nanos c slot div 1000000000)"

definition time_until_slot :: "network_clock \<Rightarrow> u128 \<Rightarrow> u64 \<Rightarrow> (nat, unit) result" where
  "time_until_slot c current_time slot =
     (case checked_sub (slot_timestamp_nanos c slot) current_time of
        None \<Rightarrow> Ok 0
      | Some t \<Rightarrow> if unat t < 2 ^ 64 then Ok (unat t) else Panic)"

text \<open>\<open>i128\<close> subtraction wraps; division of a signed integer truncates towards zero.\<close>

definition tdiv :: "int \<Rightarrow> int \<Rightarrow> int" where
  "tdiv a b = (if a < 0 then - ((- a) div b) else a div b)"

definition time_until_slot_signed_ms :: "network_clock \<Rightarrow> u128 \<Rightarrow> u64 \<Rightarrow> int" where
  "time_until_slot_signed_ms c current_time slot =
     tdiv (sint (slot_timestamp_nanos c slot - current_time)) 1000000"

text \<open>The time \<open>slot_deadline\<close> sleeps, given the deadline in nanoseconds.\<close>

definition slot_deadline :: "network_clock \<Rightarrow> u128 \<Rightarrow> u64 \<Rightarrow> nat \<Rightarrow> (nat, unit) result" where
  "slot_deadline c current_time target_slot deadline =
     result_map (\<lambda>slot_auction_ends. slot_auction_ends - deadline)
       (time_until_slot c current_time target_slot)"

datatype named_chain = Mainnet | Holesky

definition try_from_chain ::
  "(named_chain \<Rightarrow> 'c) \<Rightarrow> (u64 \<Rightarrow> 'c) \<Rightarrow> ('c \<Rightarrow> string) \<Rightarrow> (u64, clock_err) result \<Rightarrow> 'c \<Rightarrow>
   (network_clock, clock_err) result"
where
  "try_from_chain from_named from_id to_str devnet_genesis_ts chain =
     (if chain = from_named Mainnet \<or> chain = from_id 1 then
        Ok (NetworkClock_new MAINNET_GENESIS_TS SECONDS_PER_SLOT)
      else if chain = from_named Holesky then
        Ok (NetworkClock_new HOLESKY_GENESIS_TS SECONDS_PER_SLOT)
      else if chain = from_id 32382 then
        result_map (\<lambda>g. NetworkClock_new g SECONDS_PER_SLOT) devnet_genesis_ts
      else Err (UnsupportedChain (to_str chain)))"

section \<open>Lemmas\<close>

lemma unat_u128_of_u64: "unat (ucast (s :: u64) :: u128) = unat s"
  using unat_u64_less [of s] by (intro unat_ucast_fits) simp

lemma unat_secs_as_nanos: "unat (secs_as_nanos s) = unat s * 1000000000"
  using unat_u64_less [of s]
  by (simp add: secs_as_nanos_def unat_mult_no_overflow unat_u128_of_u64)

lemma unat_slot_timestamp_nanos:
  "unat (slot_timestamp_nanos (NetworkClock_new g SECONDS_PER_SLOT) slot) =
     (unat g + 12 * unat slot) * 1000000000"
proof -
  have m: "unat (ucast slot * secs_as_nanos SECONDS_PER_SLOT) = unat slot * 12000000000"
    using unat_u64_less [of slot]
    by (simp add: unat_mult_no_overflow unat_u128_of_u64 unat_secs_as_nanos SECONDS_PER_SLOT_def)
  have "unat (ucast slot * secs_as_nanos SECONDS_PER_SLOT + secs_as_nanos g) =
      unat slot * 12000000000 + unat g * 1000000000"
    using unat_u64_less [of g] unat_u64_less [of slot]
    by (simp add: unat_add_no_overflow m unat_secs_as_nanos)
  then show ?thesis
    by (simp add: slot_timestamp_nanos_def NetworkClock_new_def)
qed

section \<open>Properties\<close>

text \<open>
  Slot arithmetic round trip. For any genesis time and the 12 second slots of the code, the
  current slot is \<open>slot\<close> exactly from the start of \<open>slot\<close> up to, and not including, the start
  of the next one; the slot's timestamp is genesis plus 12 seconds per slot.
\<close>

lemma current_slot_iff:
  assumes "unat slot + 1 < 2 ^ 64"
  shows "let c = NetworkClock_new g SECONDS_PER_SLOT
         in (current_slot c now = Ok (Some slot) \<longleftrightarrow>
               slot_timestamp_nanos c slot \<le> now \<and> now < slot_timestamp_nanos c (slot + 1)) \<and>
            slot_timestamp c slot = g + 12 * slot"
proof -
  define c where "c = NetworkClock_new g SECONDS_PER_SLOT"
  have gen: "unat (genesis_ts c) = unat g * 1000000000"
    and per: "unat (seconds_per_slot c) = 12000000000"
    by (simp_all add: c_def NetworkClock_new_def unat_secs_as_nanos SECONDS_PER_SLOT_def)
  have nz: "seconds_per_slot c \<noteq> 0" using per by auto
  have ts: "unat (slot_timestamp_nanos c s) = (unat g + 12 * unat s) * 1000000000" for s
    unfolding c_def by (rule unat_slot_timestamp_nanos)
  have succ: "unat (slot + 1) = unat slot + 1"
    using assms by (simp add: unat_add_no_overflow)
  have conv: "ucast q = slot \<longleftrightarrow> unat q = unat slot" if "unat q < 2 ^ 64" for q :: u128
    using unat_ucast_fits [where ?'b = 64, of q] that by (auto simp: word_unat_eq_iff)
  have 1: "current_slot c now = Ok (Some slot) \<longleftrightarrow>
      genesis_ts c \<le> now \<and> unat ((now - genesis_ts c) div seconds_per_slot c) = unat slot"
    using nz conv [of "(now - genesis_ts c) div seconds_per_slot c"] unat_u64_less [of slot]
    by (auto simp: current_slot_def checked_sub_def Let_def)
  have 2: "current_slot c now = Ok (Some slot) \<longleftrightarrow>
      slot_timestamp_nanos c slot \<le> now \<and> now < slot_timestamp_nanos c (slot + 1)"
  proof (cases "genesis_ts c \<le> now")
    case True
    then have d: "unat (now - genesis_ts c) = unat now - unat g * 1000000000"
      using gen by (simp add: unat_sub)
    have le: "unat g * 1000000000 \<le> unat now"
      using True gen by (simp add: word_le_nat_alt)
    have "(unat now - unat g * 1000000000) div 12000000000 = unat slot \<longleftrightarrow>
        (unat g + 12 * unat slot) * 1000000000 \<le> unat now \<and>
        unat now < (unat g + 12 * (unat slot + 1)) * 1000000000"
      using le by (subst nat_div_eq_iff) (auto simp: algebra_simps)
    then show ?thesis
      using True by (simp add: 1 unat_div_distrib d per word_le_nat_alt word_less_nat_alt ts succ)
  next
    case False
    then have "\<not> slot_timestamp_nanos c slot \<le> now"
      using gen by (simp add: word_le_nat_alt ts)
    with False show ?thesis by (simp add: 1)
  qed
  have "slot_timestamp c slot = word_of_nat (unat (slot_timestamp_nanos c slot div 1000000000))"
    by (simp add: slot_timestamp_def)
  also have "\<dots> = word_of_nat (unat g + 12 * unat slot)"
    by (simp only: unat_div_distrib ts) simp
  finally have 3: "slot_timestamp c slot = g + 12 * slot" by simp
  show ?thesis using 2 3 by (simp add: Let_def c_def)
qed

end
