(* ===== verification/Build_State.thy ===== *)
theory Build_State
  imports Payload_Config Ofac
begin

text \<open>
  The build state of \<open>crates/payload/src/strategy/state\<close>: simulation of transactions and bundles,
  verification against the block limits, commitment, the builder transfer, and the conversion
  of a build state into a finished block.

  The EVM, the execution and simulation databases, transaction signing and fee computation are
  those of \<open>revm\<close> and \<open>reth\<close>; they enter as the fields of the record \<open>evm\<close>, and what is needed to
  seal a block (state provider, roots, fork activation, blob store) as those of \<open>chain_api\<close>.
  Reads of a database are pure: caching is not observable.  The bundle state of the executed
  block and the databases are type parameters.
\<close>

section \<open>Data\<close>

datatype invalid_transaction = NonceTooLow | OtherInvalid string
datatype evm_error = EvmTransaction invalid_transaction | EvmOther string
datatype payload_builder_error =
  EvmExecutionError evm_error | Internal string | MissingParentBlock b256 | ChannelClosed
  | OtherPayloadError string

datatype exec_error =
  MaxGasExceeded
  | MaxBlobGasExceeded
  | PayloadBuilder payload_builder_error
  | BundleExection evm_error
  | BundleReverted nat
  | OfacAddressDetected address
  | BuilderRefundTx string

record account_info =
  ai_balance :: u256
  ai_nonce :: u64

type_synonym evm_state = "(address \<times> account_info) list"

record exec_result =
  er_success :: bool
  er_gas_used :: u64
  er_logs :: "bytes list"

text \<open>The EIP-1559 transfer the builder signs itself.\<close>

record tx_eip1559 =
  e1559_chain_id :: u64
  e1559_nonce :: u64
  e1559_gas_limit :: u64
  e1559_to :: address
  e1559_value :: u256
  e1559_max_fee_per_gas :: u128
  e1559_max_priority_fee_per_gas :: u128

record ('cs, 'db, 'sdb) evm =
  evm_basic :: "'db \<Rightarrow> address \<Rightarrow> (account_info option, payload_builder_error) result"
  evm_commit :: "'db \<Rightarrow> evm_state \<Rightarrow> 'db"
  evm_simulation_db :: "'db \<Rightarrow> 'sdb"
  evm_sim_basic :: "'sdb \<Rightarrow> address \<Rightarrow> (account_info option, payload_builder_error) result"
  evm_sim_commit :: "'sdb \<Rightarrow> evm_state \<Rightarrow> 'sdb"
  evm_transact :: "cfg_env \<Rightarrow> block_env \<Rightarrow> 'sdb \<Rightarrow> recovered_tx \<Rightarrow> (exec_result \<times> evm_state, evm_error) result"
  evm_effective_tip_per_gas :: "recovered_tx \<Rightarrow> u64 \<Rightarrow> u128 option"
  evm_sign_and_recover :: "b256 \<Rightarrow> tx_eip1559 \<Rightarrow> recovered_tx option"
  evm_beacon_root_call ::
    "'cs \<Rightarrow> u64 \<Rightarrow> u64 \<Rightarrow> b256 option \<Rightarrow> cfg_env \<Rightarrow> block_env \<Rightarrow> 'db \<Rightarrow> ('db, string) result"
  evm_show_error :: "exec_error \<Rightarrow> string"
  evm_max_data_gas_per_block :: u64

record sim_outcome =
  so_evm_result :: exec_result
  so_evm_state :: evm_state
  so_gas_used :: u64
  so_blob_gas_used :: u64
  so_fees :: u256
  so_coinbase_transfer :: u256

record sim_tx =
  st_tx :: recovered_tx
  st_outcome :: sim_outcome

record bundle_outcome =
  bo_reverted :: "nat option"
  bo_gas_used :: u64
  bo_blob_gas_used :: u64
  bo_fees :: u256
  bo_coinbase_transfer :: u256
  bo_refund :: u256

record sim_bundle =
  sbn_bundle :: recovered_bundle
  sbn_simulated_txs :: "sim_tx list"
  sbn_outcome :: bundle_outcome

record receipt =
  rc_tx_type :: u8
  rc_success :: bool
  rc_cumulative_gas_used :: u64
  rc_logs :: "bytes list"

record 'bst exec_details =
  ed_executed_txs :: "recovered_tx list"
  ed_receipts :: "receipt option list"
  ed_cumulative_gas_used :: u64
  ed_cumulative_blob_gas_used :: u64
  ed_sum_fees :: u256
  ed_sum_coinbase_transfers :: u256
  ed_builder_payment :: "u256 option"
  ed_bundle_state :: "'bst option"

record ('cs, 'bst) build_state =
  bs_id :: u64
  bs_timestamp :: nat
  bs_payload_config :: "'cs payload_config"
  bs_build_config :: build_config
  bs_exec_details :: "'bst exec_details"

section \<open>\<open>state/transaction.rs\<close> and \<open>state/exec_details.rs\<close>\<close>

definition outcome_contains_ofac :: "sim_outcome \<Rightarrow> address option" where
  "outcome_contains_ofac out = map_option fst (find (\<lambda>(a, _). is_ofac a) (so_evm_state out))"

definition ExecutionDetails_default :: "'bst exec_details" where
  "ExecutionDetails_default =
     \<lparr> ed_executed_txs = [], ed_receipts = [], ed_cumulative_gas_used = 0,
       ed_cumulative_blob_gas_used = 0, ed_sum_fees = 0, ed_sum_coinbase_transfers = 0,
       ed_builder_payment = None, ed_bundle_state = None \<rparr>"

definition set_builder_payment :: "u256 \<Rightarrow> 'bst exec_details \<Rightarrow> 'bst exec_details" where
  "set_builder_payment payment ed = ed\<lparr> ed_builder_payment := Some payment \<rparr>"

definition set_bundle_state :: "'bst \<Rightarrow> 'bst exec_details \<Rightarrow> 'bst exec_details" where
  "set_bundle_state bst ed = ed\<lparr> ed_bundle_state := Some bst \<rparr>"

section \<open>\<open>state/bundle.rs\<close>\<close>

fun from_txs_loop ::
  "recovered_bundle \<Rightarrow> nat \<Rightarrow> bundle_outcome \<Rightarrow> sim_tx list \<Rightarrow> bundle_outcome"
where
  "from_txs_loop rb index acc [] = acc"
| "from_txs_loop rb index acc (s # ss) =
     (if \<not> er_success (so_evm_result (st_outcome s))
         \<and> tx_hash (st_tx s) \<notin> set (rb_reverting_tx_hashes rb)
      then acc\<lparr> bo_reverted := Some index \<rparr>
      else from_txs_loop rb (Suc index)
             (acc\<lparr> bo_gas_used := bo_gas_used acc + so_gas_used (st_outcome s),
                   bo_blob_gas_used := bo_blob_gas_used acc + so_blob_gas_used (st_outcome s),
                   bo_fees := bo_fees acc + so_fees (st_outcome s),
                   bo_coinbase_transfer := bo_coinbase_transfer acc + so_coinbase_transfer (st_outcome s) \<rparr>)
             ss)"

definition bundle_outcome_zero :: bundle_outcome where
  "bundle_outcome_zero =
     \<lparr> bo_reverted = None, bo_gas_used = 0, bo_blob_gas_used = 0, bo_fees = 0,
       bo_coinbase_transfer = 0, bo_refund = 0 \<rparr>"

definition from_txs :: "recovered_bundle \<Rightarrow> sim_tx list \<Rightarrow> bundle_outcome" where
  "from_txs rb ss = from_txs_loop rb 0 bundle_outcome_zero ss"

definition total_value :: "bundle_outcome \<Rightarrow> u256" where
  "total_value bo = saturating_sub (saturating_add (bo_fees bo) (bo_coinbase_transfer bo)) (bo_refund bo)"

definition add_tx_outcome :: "sim_outcome \<Rightarrow> bundle_outcome \<Rightarrow> bundle_outcome" where
  "add_tx_outcome out bo =
     bo\<lparr> bo_gas_used := bo_gas_used bo + so_gas_used out,
         bo_blob_gas_used := bo_blob_gas_used bo + so_blob_gas_used out,
         bo_fees := bo_fees bo + so_fees out,
         bo_coinbase_transfer := bo_coinbase_transfer bo + so_coinbase_transfer out \<rparr>"

definition calculate_refund :: "recovered_bundle \<Rightarrow> sim_tx list \<Rightarrow> u64 \<Rightarrow> u256" where
  "calculate_refund rb ss base_fee =
     (case rb_refund rb of
        None \<Rightarrow> 0
      | Some r \<Rightarrow>
          (case Option.bind (refund_index rb) (vec_get ss) of
             None \<Rightarrow> 0
           | Some s \<Rightarrow> refund_amount r (so_fees (st_outcome s)) (so_coinbase_transfer (st_outcome s)) base_fee))"

definition SimulatedBundle_new :: "recovered_bundle \<Rightarrow> sim_tx list \<Rightarrow> u64 \<Rightarrow> sim_bundle" where
  "SimulatedBundle_new rb ss base_fee =
     \<lparr> sbn_bundle = rb, sbn_simulated_txs = ss,
       sbn_outcome = (from_txs rb ss)\<lparr> bo_refund := calculate_refund rb ss base_fee \<rparr> \<rparr>"

definition sort_by_max_value :: "sim_bundle list \<Rightarrow> sim_bundle list" where
  "sort_by_max_value bundles = sort_desc (\<lambda>sb. total_value (sbn_outcome sb)) bundles"

definition add_tx :: "sim_tx \<Rightarrow> sim_bundle \<Rightarrow> sim_bundle" where
  "add_tx s sb =
     sb\<lparr> sbn_outcome := add_tx_outcome (st_outcome s) (sbn_outcome sb),
         sbn_simulated_txs := sbn_simulated_txs sb @ [s] \<rparr>"

definition contains_committed_transaction :: "sim_bundle \<Rightarrow> b256 set \<Rightarrow> bool" where
  "contains_committed_transaction sb committed =
     list_ex (\<lambda>tx. tx_hash tx \<in> committed) (rb_txs (sbn_bundle sb))"

definition bundle_contains_ofac :: "sim_bundle \<Rightarrow> bool" where
  "bundle_contains_ofac sb = list_ex is_ofac_tx (rb_txs (sbn_bundle sb))"

section \<open>\<open>state/mod.rs\<close>: construction, access\<close>

definition BuildState_new :: "u64 \<Rightarrow> build_config \<Rightarrow> 'cs payload_config \<Rightarrow> nat \<Rightarrow> ('cs, 'bst) build_state" where
  "BuildState_new random_id build_config payload_config timestamp =
     \<lparr> bs_id = random_id, bs_timestamp = timestamp, bs_payload_config = payload_config,
       bs_build_config = block_env_with_coinbase (pc_builder_address payload_config) build_config,
       bs_exec_details = ExecutionDetails_default \<rparr>"

definition block_value :: "('cs, 'bst) build_state \<Rightarrow> u256" where
  "block_value bs = ed_sum_fees (bs_exec_details bs) + ed_sum_coinbase_transfers (bs_exec_details bs)"

definition with_payment :: "u256 \<Rightarrow> ('cs, 'bst) build_state \<Rightarrow> ('cs, 'bst) build_state" where
  "with_payment payment bs = bs\<lparr> bs_exec_details := set_builder_payment payment (bs_exec_details bs) \<rparr>"

definition with_bundle_state :: "'bst \<Rightarrow> ('cs, 'bst) build_state \<Rightarrow> ('cs, 'bst) build_state" where
  "with_bundle_state bst bs = bs\<lparr> bs_exec_details := set_bundle_state bst (bs_exec_details bs) \<rparr>"

text \<open>The beacon root passed to the EIP-4788 contract is the one of the parent block's header.\<close>

definition pre_block_beacon_root_contract_call ::
  "('cs, 'db, 'sdb) evm \<Rightarrow> ('cs, 'bst) build_state \<Rightarrow> 'db \<Rightarrow> ('db, payload_builder_error) result"
where
  "pre_block_beacon_root_contract_call e bs db =
     map_err Internal
       (evm_beacon_root_call e (pc_chain_spec (bs_payload_config bs))
         (pa_timestamp (bc_attributes (bs_build_config bs))) (bc_block_number (bs_build_config bs))
         (sb_parent_beacon_block_root (bc_parent_block (bs_build_config bs)))
         (bc_initialized_cfg (bs_build_config bs)) (bc_initialized_block_env (bs_build_config bs)) db)"

definition create_builder_transfer_transaction ::
  "('cs, 'db, 'sdb) evm \<Rightarrow> ('cs, 'bst) build_state \<Rightarrow>
   (address \<Rightarrow> (account_info option, payload_builder_error) result) \<Rightarrow> address \<Rightarrow> u256 \<Rightarrow>
   (recovered_tx, payload_builder_error) result"
where
  "create_builder_transfer_transaction e bs basic recipient payment =
     result_bind (basic (pc_builder_address (bs_payload_config bs))) (\<lambda>acct.
       let nonce = (case acct of None \<Rightarrow> 0 | Some a \<Rightarrow> ai_nonce a);
           basefee = be_basefee (bc_initialized_block_env (bs_build_config bs))
       in result_bind (expect (u256_to_u128 basefee)) (\<lambda>max_fee.
            expect (evm_sign_and_recover e (pc_secret_key (bs_payload_config bs))
              \<lparr> e1559_chain_id = ce_chain_id (bc_initialized_cfg (bs_build_config bs)),
                e1559_nonce = nonce,
                e1559_gas_limit = MAX_BUILDER_TRANSFER_GAS_LIMIT,
                e1559_to = recipient,
                e1559_value = payment,
                e1559_max_fee_per_gas = max_fee,
                e1559_max_priority_fee_per_gas = 0 \<rparr>)))"

section \<open>\<open>state/mod.rs\<close>: verification\<close>

definition verify_capacity ::
  "('cs, 'db, 'sdb) evm \<Rightarrow> ('cs, 'bst) build_state \<Rightarrow> u64 \<Rightarrow> u64 \<Rightarrow> (unit, exec_error) result"
where
  "verify_capacity e bs gas_used blob_gas_used =
     (if bc_block_gas_limit (bs_build_config bs)
           < ed_cumulative_gas_used (bs_exec_details bs) + gas_used + MAX_BUILDER_TRANSFER_GAS_LIMIT
      then Err MaxGasExceeded
      else if evm_max_data_gas_per_block e
           < ed_cumulative_blob_gas_used (bs_exec_details bs) + blob_gas_used
      then Err MaxBlobGasExceeded
      else Ok ())"

definition verify_simulated_transaction ::
  "('cs, 'db, 'sdb) evm \<Rightarrow> ('cs, 'bst) build_state \<Rightarrow> sim_tx \<Rightarrow> (unit, exec_error) result"
where
  "verify_simulated_transaction e bs s =
     verify_capacity e bs (so_gas_used (st_outcome s)) (so_blob_gas_used (st_outcome s))"

definition verify_simulated_bundle ::
  "('cs, 'db, 'sdb) evm \<Rightarrow> ('cs, 'bst) build_state \<Rightarrow> sim_bundle \<Rightarrow> (unit, exec_error) result"
where
  "verify_simulated_bundle e bs sb =
     (case bo_reverted (sbn_outcome sb) of
        Some revert_tx \<Rightarrow> Err (BundleReverted revert_tx)
      | None \<Rightarrow> verify_capacity e bs (bo_gas_used (sbn_outcome sb)) (bo_blob_gas_used (sbn_outcome sb)))"

section \<open>\<open>state/mod.rs\<close>: simulation\<close>

definition balance_of :: "account_info option \<Rightarrow> u256" where
  "balance_of acct = (case acct of None \<Rightarrow> 0 | Some a \<Rightarrow> ai_balance a)"

text \<open>
  The outcome computed from a successful \<open>transact\<close>, shared by \<open>simulate_tx_on_db\<close> and
  \<open>simulate_bundle\<close>; the base fee each of them reads is an argument.  \<open>None\<close> is the panic of
  \<open>to::<u64>()\<close> or of \<open>expect("fee is always valid; ...")\<close>.
\<close>

definition tx_outcome ::
  "('cs, 'db, 'sdb) evm \<Rightarrow> address \<Rightarrow> u256 \<Rightarrow> u256 \<Rightarrow> recovered_tx \<Rightarrow> exec_result \<Rightarrow> evm_state \<Rightarrow>
   sim_outcome option"
where
  "tx_outcome e coinbase basefee coinbase_balance_before tx res state =
     Option.bind (u256_to_u64 basefee) (\<lambda>base_fee.
     map_option (\<lambda>miner_fee.
       let gas_used = er_gas_used res;
           fees = u256_from_u128 miner_fee * u256_from_u64 gas_used;
           coinbase_balance_after = balance_of (map_of state coinbase);
           coinbase_diff = saturating_sub coinbase_balance_after coinbase_balance_before
       in \<lparr> so_evm_result = res, so_evm_state = state, so_gas_used = gas_used,
            so_blob_gas_used = unwrap_or (tx_blob_gas tx) 0, so_fees = fees,
            so_coinbase_transfer = saturating_sub coinbase_diff fees \<rparr>)
       (evm_effective_tip_per_gas e tx base_fee))"

definition simulate_tx_on_db ::
  "('cs, 'db, 'sdb) evm \<Rightarrow> ('cs, 'bst) build_state \<Rightarrow> 'sdb \<Rightarrow> recovered_tx \<Rightarrow>
   (sim_tx, payload_builder_error) result"
where
  "simulate_tx_on_db e bs sdb tx =
     (let benv = bc_initialized_block_env (bs_build_config bs);
          cfg = bc_initialized_cfg (bs_build_config bs)
      in result_bind (evm_sim_basic e sdb (be_coinbase benv)) (\<lambda>acct.
         result_bind (map_err EvmExecutionError (evm_transact e cfg benv sdb tx)) (\<lambda>(res, state).
         result_bind (expect (tx_outcome e (be_coinbase benv) (be_basefee benv) (balance_of acct) tx res state))
           (\<lambda>out. Ok \<lparr> st_tx = tx, st_outcome = out \<rparr>))))"

definition simulate_tx ::
  "('cs, 'db, 'sdb) evm \<Rightarrow> ('cs, 'bst) build_state \<Rightarrow> 'db \<Rightarrow> recovered_tx \<Rightarrow>
   (sim_tx, payload_builder_error) result"
where
  "simulate_tx e bs db tx = simulate_tx_on_db e bs (evm_simulation_db e db) tx"

text \<open>The loop of \<open>simulate_bundle\<close> over the transactions of the bundle.\<close>

fun simulate_bundle_loop ::
  "('cs, 'db, 'sdb) evm \<Rightarrow> ('cs, 'bst) build_state \<Rightarrow> 'sdb \<Rightarrow> u256 \<Rightarrow> recovered_tx list \<Rightarrow>
   (sim_tx list \<times> 'sdb, exec_error) result"
where
  "simulate_bundle_loop e bs sdb before [] = Ok ([], sdb)"
| "simulate_bundle_loop e bs sdb before (tx # txs) =
     (let benv = bc_initialized_block_env (bs_build_config bs);
          cfg = bc_initialized_cfg (bs_build_config bs)
      in result_bind (map_err (\<lambda>x. PayloadBuilder (EvmExecutionError x)) (evm_transact e cfg benv sdb tx))
           (\<lambda>(res, state).
         result_bind (expect (tx_outcome e (be_coinbase benv) (bc_basefee (bs_build_config bs)) before tx res state))
           (\<lambda>out.
         case outcome_contains_ofac out of
           Some addr \<Rightarrow> Err (OfacAddressDetected addr)
         | None \<Rightarrow>
             result_map (\<lambda>(ss, sdb'). (\<lparr> st_tx = tx, st_outcome = out \<rparr> # ss, sdb'))
               (simulate_bundle_loop e bs (evm_sim_commit e sdb state)
                 (balance_of (map_of state (be_coinbase benv))) txs))))"

definition simulate_refund_tx ::
  "('cs, 'db, 'sdb) evm \<Rightarrow> ('cs, 'bst) build_state \<Rightarrow> 'sdb \<Rightarrow> sim_bundle \<Rightarrow>
   (sim_tx option, exec_error) result"
where
  "simulate_refund_tx e bs sdb sb =
     (let refund = bo_refund (sbn_outcome sb)
      in if refund = 0 then Ok None
         else case refund_recipient (sbn_bundle sb) of
           None \<Rightarrow> Ok None
         | Some recipient \<Rightarrow>
             result_bind (map_err PayloadBuilder
                (create_builder_transfer_transaction e bs (evm_sim_basic e sdb) recipient refund)) (\<lambda>refund_tx.
             result_bind (map_err PayloadBuilder (simulate_tx_on_db e bs sdb refund_tx)) (\<lambda>s.
               if \<not> er_success (so_evm_result (st_outcome s))
               then Err (BuilderRefundTx ''Transaction reverted'')
               else Ok (Some s))))"

text \<open>The final match of \<open>simulate_bundle\<close> on the outcome of the refund.\<close>

fun with_refund ::
  "('cs, 'db, 'sdb) evm \<Rightarrow> sim_bundle \<Rightarrow> (sim_tx option, exec_error) result \<Rightarrow> (sim_bundle, exec_error) result"
where
  "with_refund e simulated (Ok (Some refund_tx)) = Ok (add_tx refund_tx simulated)"
| "with_refund e simulated (Err err) = Err (BuilderRefundTx (evm_show_error e err))"
| "with_refund e simulated (Ok None) = Ok simulated"
| "with_refund e simulated Panic = Panic"

definition simulate_bundle ::
  "('cs, 'db, 'sdb) evm \<Rightarrow> ('cs, 'bst) build_state \<Rightarrow> 'db \<Rightarrow> recovered_bundle \<Rightarrow>
   (sim_bundle, exec_error) result"
where
  "simulate_bundle e bs db rb =
     (let sdb = evm_simulation_db e db;
          benv = bc_initialized_block_env (bs_build_config bs)
      in result_bind (map_err PayloadBuilder (evm_sim_basic e sdb (be_coinbase benv))) (\<lambda>acct.
         result_bind (simulate_bundle_loop e bs sdb (balance_of acct) (rb_txs rb)) (\<lambda>(ss, sdb').
         result_bind (expect (u256_to_u64 (bc_basefee (bs_build_config bs)))) (\<lambda>base_fee.
           let simulated = SimulatedBundle_new rb ss base_fee
           in with_refund e simulated (simulate_refund_tx e bs sdb' simulated)))))"

section \<open>\<open>state/mod.rs\<close>: commitment and execution\<close>

definition commit_tx :: "sim_tx \<Rightarrow> 'bst exec_details \<Rightarrow> 'bst exec_details" where
  "commit_tx s ed =
     (let out = st_outcome s;
          cumulative = ed_cumulative_gas_used ed + so_gas_used out
      in ed\<lparr> ed_cumulative_gas_used := cumulative,
             ed_cumulative_blob_gas_used := ed_cumulative_blob_gas_used ed + so_blob_gas_used out,
             ed_sum_fees := ed_sum_fees ed + so_fees out,
             ed_sum_coinbase_transfers := ed_sum_coinbase_transfers ed + so_coinbase_transfer out,
             ed_receipts := ed_receipts ed @
               [Some \<lparr> rc_tx_type = tx_type (st_tx s), rc_success = er_success (so_evm_result out),
                       rc_cumulative_gas_used = cumulative, rc_logs = er_logs (so_evm_result out) \<rparr>],
             ed_executed_txs := ed_executed_txs ed @ [st_tx s] \<rparr>)"

definition commit ::
  "('cs, 'db, 'sdb) evm \<Rightarrow> ('cs, 'bst) build_state \<Rightarrow> 'db \<Rightarrow> sim_tx list \<Rightarrow> ('cs, 'bst) build_state \<times> 'db"
where
  "commit e bs db ss =
     (bs\<lparr> bs_exec_details := fold commit_tx ss (bs_exec_details bs) \<rparr>,
      fold (\<lambda>s db. evm_commit e db (so_evm_state (st_outcome s))) ss db)"

text \<open>Execution returns the state and database it leaves behind together with its outcome.\<close>

definition execute_transaction_skip_verify ::
  "('cs, 'db, 'sdb) evm \<Rightarrow> ('cs, 'bst) build_state \<Rightarrow> 'db \<Rightarrow> recovered_tx \<Rightarrow> bool \<Rightarrow>
   ('cs, 'bst) build_state \<times> 'db \<times> (unit, exec_error) result"
where
  "execute_transaction_skip_verify e bs db tx skip_verify =
     (case simulate_tx e bs db tx of
        Err err \<Rightarrow> (bs, db, Err (PayloadBuilder err))
      | Panic \<Rightarrow> (bs, db, Panic)
      | Ok simulated \<Rightarrow>
          (case (if skip_verify then Ok () else verify_simulated_transaction e bs simulated) of
             Err err \<Rightarrow> (bs, db, Err err)
           | Panic \<Rightarrow> (bs, db, Panic)
           | Ok _ \<Rightarrow> (case commit e bs db [simulated] of (bs', db') \<Rightarrow> (bs', db', Ok ()))))"

definition execute_transaction ::
  "('cs, 'db, 'sdb) evm \<Rightarrow> ('cs, 'bst) build_state \<Rightarrow> 'db \<Rightarrow> recovered_tx \<Rightarrow>
   ('cs, 'bst) build_state \<times> 'db \<times> (unit, exec_error) result"
where
  "execute_transaction e bs db tx = execute_transaction_skip_verify e bs db tx False"

definition execute_bundle ::
  "('cs, 'db, 'sdb) evm \<Rightarrow> ('cs, 'bst) build_state \<Rightarrow> 'db \<Rightarrow> recovered_bundle \<Rightarrow>
   ('cs, 'bst) build_state \<times> 'db \<times> (unit, exec_error) result"
where
  "execute_bundle e bs db rb =
     (case simulate_bundle e bs db rb of
        Err err \<Rightarrow> (bs, db, Err err)
      | Panic \<Rightarrow> (bs, db, Panic)
      | Ok simulated \<Rightarrow>
          (case verify_simulated_bundle e bs simulated of
             Err err \<Rightarrow> (bs, db, Err err)
           | Panic \<Rightarrow> (bs, db, Panic)
           | Ok _ \<Rightarrow>
               (case commit e bs db (sbn_simulated_txs simulated) of (bs', db') \<Rightarrow> (bs', db', Ok ()))))"

section \<open>Aggregation of a bundle\<close>

definition not_allowed_to_revert :: "recovered_bundle \<Rightarrow> sim_tx \<Rightarrow> bool" where
  "not_allowed_to_revert rb s \<longleftrightarrow>
     \<not> er_success (so_evm_result (st_outcome s)) \<and> tx_hash (st_tx s) \<notin> set (rb_reverting_tx_hashes rb)"

definition sum_gas :: "sim_tx list \<Rightarrow> u64" where
  "sum_gas ss = sum_list (map (\<lambda>s. so_gas_used (st_outcome s)) ss)"

definition sum_blob_gas :: "sim_tx list \<Rightarrow> u64" where
  "sum_blob_gas ss = sum_list (map (\<lambda>s. so_blob_gas_used (st_outcome s)) ss)"

definition sum_value :: "sim_tx list \<Rightarrow> u256" where
  "sum_value ss =
     sum_list (map (\<lambda>s. so_fees (st_outcome s) + so_coinbase_transfer (st_outcome s)) ss)"

lemma sum_simps [simp]:
  "sum_gas [] = 0" "sum_gas (s # ss) = so_gas_used (st_outcome s) + sum_gas ss"
  "sum_gas (ss @ ss') = sum_gas ss + sum_gas ss'"
  "sum_blob_gas [] = 0" "sum_blob_gas (s # ss) = so_blob_gas_used (st_outcome s) + sum_blob_gas ss"
  "sum_blob_gas (ss @ ss') = sum_blob_gas ss + sum_blob_gas ss'"
  "sum_value [] = 0"
  "sum_value (s # ss) = so_fees (st_outcome s) + so_coinbase_transfer (st_outcome s) + sum_value ss"
  "sum_value (ss @ ss') = sum_value ss + sum_value ss'"
  by (simp_all add: sum_gas_def sum_blob_gas_def sum_value_def)

lemma from_txs_loop_reverted:
  assumes "bo_reverted acc = None"
  shows "bo_reverted (from_txs_loop rb k acc ss) =
           map_option (\<lambda>i. k + i) (position (not_allowed_to_revert rb) ss)"
  using assms
  by (induction ss arbitrary: k acc) 
    (auto simp: not_allowed_to_revert_def option.map_comp comp_def intro!: option.map_cong0)

lemma from_txs_loop_sums:
  "bo_gas_used (from_txs_loop rb k acc ss) =
     bo_gas_used acc + sum_gas (takeWhile (\<lambda>s. \<not> not_allowed_to_revert rb s) ss)"
  "bo_blob_gas_used (from_txs_loop rb k acc ss) =
     bo_blob_gas_used acc + sum_blob_gas (takeWhile (\<lambda>s. \<not> not_allowed_to_revert rb s) ss)"
  "bo_fees (from_txs_loop rb k acc ss) + bo_coinbase_transfer (from_txs_loop rb k acc ss) =
     bo_fees acc + bo_coinbase_transfer acc +
     sum_value (takeWhile (\<lambda>s. \<not> not_allowed_to_revert rb s) ss)"
  by (induction ss arbitrary: k acc) (auto simp: not_allowed_to_revert_def ac_simps)

lemma from_txs_reverted:
  "bo_reverted (from_txs rb ss) = position (not_allowed_to_revert rb) ss"
  by (simp add: from_txs_def from_txs_loop_reverted bundle_outcome_zero_def option.map_ident)

lemma from_txs_sums:
  assumes "bo_reverted (from_txs rb ss) = None"
  shows "bo_gas_used (from_txs rb ss) = sum_gas ss"
    and "bo_blob_gas_used (from_txs rb ss) = sum_blob_gas ss"
proof -
  have tw: "takeWhile (\<lambda>s. \<not> not_allowed_to_revert rb s) ss = ss"
    using assms by (simp add: from_txs_reverted position_None takeWhile_eq_all_conv)
  show "bo_gas_used (from_txs rb ss) = sum_gas ss"
      "bo_blob_gas_used (from_txs rb ss) = sum_blob_gas ss"
    unfolding from_txs_def from_txs_loop_sums tw by (simp_all add: bundle_outcome_zero_def)
qed

section \<open>Commitment\<close>

lemma commit_tx_fields [exec_simps]:
  "ed_executed_txs (commit_tx s ed) = ed_executed_txs ed @ [st_tx s]"
  "ed_cumulative_gas_used (commit_tx s ed) = ed_cumulative_gas_used ed + so_gas_used (st_outcome s)"
  "ed_cumulative_blob_gas_used (commit_tx s ed) =
     ed_cumulative_blob_gas_used ed + so_blob_gas_used (st_outcome s)"
  "ed_sum_fees (commit_tx s ed) = ed_sum_fees ed + so_fees (st_outcome s)"
  "ed_sum_coinbase_transfers (commit_tx s ed) =
     ed_sum_coinbase_transfers ed + so_coinbase_transfer (st_outcome s)"
  "ed_builder_payment (commit_tx s ed) = ed_builder_payment ed"
  "ed_bundle_state (commit_tx s ed) = ed_bundle_state ed"
  by (simp_all add: commit_tx_def Let_def)

lemma fold_commit_fields [exec_simps]:
  "ed_executed_txs (fold commit_tx ss ed) = ed_executed_txs ed @ map st_tx ss"
  "ed_cumulative_gas_used (fold commit_tx ss ed) = ed_cumulative_gas_used ed + sum_gas ss"
  "ed_cumulative_blob_gas_used (fold commit_tx ss ed) =
     ed_cumulative_blob_gas_used ed + sum_blob_gas ss"
  "ed_sum_fees (fold commit_tx ss ed) + ed_sum_coinbase_transfers (fold commit_tx ss ed) =
     ed_sum_fees ed + ed_sum_coinbase_transfers ed + sum_value ss"
  "ed_builder_payment (fold commit_tx ss ed) = ed_builder_payment ed"
  "ed_bundle_state (fold commit_tx ss ed) = ed_bundle_state ed"
  by (induction ss arbitrary: ed) (simp_all add: exec_simps ac_simps)

text \<open>
  Receipts: one per executed transaction, with the running gas total, so never decreasing and
  ending in the block total.
\<close>

definition cumulative :: "receipt option \<Rightarrow> nat" where
  "cumulative r = (case r of None \<Rightarrow> 0 | Some rc \<Rightarrow> unat (rc_cumulative_gas_used rc))"

definition receipts_inv :: "'bst exec_details \<Rightarrow> bool" where
  "receipts_inv ed \<longleftrightarrow>
     length (ed_receipts ed) = length (ed_executed_txs ed) \<and>
     None \<notin> set (ed_receipts ed) \<and>
     sorted (map cumulative (ed_receipts ed)) \<and>
     last (0 # map cumulative (ed_receipts ed)) = unat (ed_cumulative_gas_used ed)"

lemma sorted_snoc_last:
  fixes xs :: "nat list"
  shows "sorted (xs @ [x]) \<longleftrightarrow> sorted xs \<and> last (0 # xs) \<le> x"
  by (induction xs rule: rev_induct) (auto simp: sorted_append)

lemma commit_tx_receipts:
  assumes "receipts_inv ed"
    and "unat (ed_cumulative_gas_used ed) + unat (so_gas_used (st_outcome s)) < 2 ^ 64"
  shows "receipts_inv (commit_tx s ed)"
proof -
  have u: "unat (ed_cumulative_gas_used ed + so_gas_used (st_outcome s)) =
      unat (ed_cumulative_gas_used ed) + unat (so_gas_used (st_outcome s))"
    using assms(2) by (simp add: unat_add_no_overflow)
  show ?thesis
    using assms(1) unfolding receipts_inv_def commit_tx_def Let_def
    by (simp add: sorted_snoc_last cumulative_def u)
qed

definition nat_gas :: "sim_tx list \<Rightarrow> nat" where
  "nat_gas ss = sum_list (map (\<lambda>s. unat (so_gas_used (st_outcome s))) ss)"

definition nat_blob_gas :: "sim_tx list \<Rightarrow> nat" where
  "nat_blob_gas ss = sum_list (map (\<lambda>s. unat (so_blob_gas_used (st_outcome s))) ss)"

lemma unat_sum_list:
  fixes ws :: "'a::len word list"
  assumes "sum_list (map unat ws) < 2 ^ LENGTH('a)"
  shows "unat (sum_list ws) = sum_list (map unat ws)"
  using assms
proof (induction ws)
  case Nil
  then show ?case by simp
next
  case (Cons w ws)
  then show ?case by (simp add: unat_add_no_overflow)
qed

lemma unat_sum_gas:
  assumes "nat_gas ss < 2 ^ 64"
  shows "unat (sum_gas ss) = nat_gas ss"
  using unat_sum_list [of "map (\<lambda>s. so_gas_used (st_outcome s)) ss"] assms
  by (simp add: sum_gas_def nat_gas_def comp_def)

lemma unat_sum_blob_gas:
  assumes "nat_blob_gas ss < 2 ^ 64"
  shows "unat (sum_blob_gas ss) = nat_blob_gas ss"
  using unat_sum_list [of "map (\<lambda>s. so_blob_gas_used (st_outcome s)) ss"] assms
  by (simp add: sum_blob_gas_def nat_blob_gas_def comp_def)

lemma fold_commit_receipts:
  assumes "receipts_inv ed" and "unat (ed_cumulative_gas_used ed) + nat_gas ss < 2 ^ 64"
  shows "receipts_inv (fold commit_tx ss ed)"
  using assms
proof (induction ss arbitrary: ed)
  case Nil
  then show ?case by simp
next
  case (Cons s ss)
  have "receipts_inv (commit_tx s ed)"
    using Cons.prems by (intro commit_tx_receipts) (simp_all add: nat_gas_def)
  moreover have "unat (ed_cumulative_gas_used (commit_tx s ed)) + nat_gas ss < 2 ^ 64"
    using Cons.prems by (simp add: exec_simps nat_gas_def unat_add_no_overflow)
  ultimately show ?case using Cons.IH by simp
qed

section \<open>What simulation returns\<close>

text \<open>
  What the builder relies on from the EVM: a transaction never uses more gas than its gas
  limit, and limits and blob gas are bounded by \<open>G\<close> (the block limits enforced by validation).
\<close>

definition evm_gas_sound :: "('cs, 'db, 'sdb) evm \<Rightarrow> nat \<Rightarrow> bool" where
  "evm_gas_sound e G \<longleftrightarrow>
     (\<forall>cfg benv sdb tx res state. evm_transact e cfg benv sdb tx = Ok (res, state) \<longrightarrow>
        unat (er_gas_used res) \<le> unat (tx_gas_limit tx) \<and> unat (tx_gas_limit tx) \<le> G \<and>
        unat (unwrap_or (tx_blob_gas tx) 0) \<le> G)"

definition gas_le :: "nat \<Rightarrow> sim_tx \<Rightarrow> bool" where
  "gas_le G s \<longleftrightarrow>
     unat (so_gas_used (st_outcome s)) \<le> G \<and> unat (so_blob_gas_used (st_outcome s)) \<le> G \<and>
     unat (so_gas_used (st_outcome s)) \<le> unat (tx_gas_limit (st_tx s))"

lemma tx_outcome_OkD:
  assumes "tx_outcome e cb bf before tx res state = Some out"
  shows "so_gas_used out = er_gas_used res" "so_blob_gas_used out = unwrap_or (tx_blob_gas tx) 0"
    "so_evm_state out = state" "so_evm_result out = res"
  using assms by (auto simp: tx_outcome_def bind_eq_Some_conv Let_def)

lemma simulate_tx_on_db_OkD:
  assumes "simulate_tx_on_db e bs sdb tx = Ok s"
  shows "st_tx s = tx" and "evm_gas_sound e G \<Longrightarrow> gas_le G s"
proof -
  from assms obtain res state before out where t: "evm_transact e (bc_initialized_cfg (bs_build_config bs))
      (bc_initialized_block_env (bs_build_config bs)) sdb tx = Ok (res, state)"
    and o: "tx_outcome e (be_coinbase (bc_initialized_block_env (bs_build_config bs)))
      (be_basefee (bc_initialized_block_env (bs_build_config bs))) before tx res state = Some out"
    and s: "s = \<lparr> st_tx = tx, st_outcome = out \<rparr>"
    by (auto simp: simulate_tx_on_db_def result_bind_Ok_iff Let_def)
  show "st_tx s = tx" by (simp add: s)
  show "gas_le G s" if "evm_gas_sound e G"
    using that t tx_outcome_OkD [OF o] unfolding evm_gas_sound_def gas_le_def s by force
qed

lemma simulate_bundle_loop_OkD:
  assumes "simulate_bundle_loop e bs sdb before txs = Ok (ss, sdb')"
  shows "map st_tx ss = txs \<and>
         list_all (\<lambda>s. outcome_contains_ofac (st_outcome s) = None) ss \<and>
         (evm_gas_sound e G \<longrightarrow> list_all (gas_le G) ss)"
  using assms
proof (induction txs arbitrary: sdb before ss)
  case Nil
  then show ?case by simp
next
  case (Cons tx txs)
  from Cons.prems obtain res state out sdb1 b1 ss1 where
    t: "evm_transact e (bc_initialized_cfg (bs_build_config bs))
          (bc_initialized_block_env (bs_build_config bs)) sdb tx = Ok (res, state)"
    and o: "tx_outcome e (be_coinbase (bc_initialized_block_env (bs_build_config bs)))
          (bc_basefee (bs_build_config bs)) before tx res state = Some out"
    and ofac: "outcome_contains_ofac out = None"
    and rest: "simulate_bundle_loop e bs sdb1 b1 txs = Ok (ss1, sdb')"
    and ss: "ss = \<lparr> st_tx = tx, st_outcome = out \<rparr> # ss1"
    by (auto simp: result_bind_Ok_iff result_map_Ok_iff Let_def split: option.splits)
  have "gas_le G \<lparr> st_tx = tx, st_outcome = out \<rparr>" if "evm_gas_sound e G"
    using that t tx_outcome_OkD [OF o] unfolding evm_gas_sound_def gas_le_def by force
  with Cons.IH [OF rest] ofac ss show ?case by simp
qed

definition builder_signed :: "('cs, 'db, 'sdb) evm \<Rightarrow> ('cs, 'bst) build_state \<Rightarrow> recovered_tx \<Rightarrow> bool" where
  "builder_signed e bs tx \<longleftrightarrow>
     (\<exists>t. evm_sign_and_recover e (pc_secret_key (bs_payload_config bs)) t = Some tx)"

lemma simulate_refund_tx_OkD:
  assumes "simulate_refund_tx e bs sdb sb = Ok (Some s)"
  shows "er_success (so_evm_result (st_outcome s))" and "evm_gas_sound e G \<Longrightarrow> gas_le G s"
    and "bo_refund (sbn_outcome sb) \<noteq> 0" and "builder_signed e bs (st_tx s)"
proof -
  from assms obtain tx where s: "simulate_tx_on_db e bs sdb tx = Ok s"
    and 1: "er_success (so_evm_result (st_outcome s))" "bo_refund (sbn_outcome sb) \<noteq> 0"
    and tx: "builder_signed e bs tx"
    by (auto simp: simulate_refund_tx_def result_bind_Ok_iff Let_def builder_signed_def
        create_builder_transfer_transaction_def split: if_splits option.splits)
  show "builder_signed e bs (st_tx s)"
    using tx simulate_tx_on_db_OkD(1) [OF s] by simp
  from s 1 show "er_success (so_evm_result (st_outcome s))" "bo_refund (sbn_outcome sb) \<noteq> 0"
      "evm_gas_sound e G \<Longrightarrow> gas_le G s"
    by (auto intro: simulate_tx_on_db_OkD)
qed

lemma with_refund_Ok_iff:
  "with_refund e simulated r = Ok sb \<longleftrightarrow>
     (\<exists>s. r = Ok (Some s) \<and> sb = add_tx s simulated) \<or> r = Ok None \<and> sb = simulated"
  by (auto elim!: with_refund.elims)

text \<open>
  A simulated bundle is the simulation of its own transactions, followed by at most one refund
  transfer.
\<close>

lemma simulate_bundle_OkE:
  assumes "simulate_bundle e bs db rb = Ok sb"
  obtains ss refund where "map st_tx ss = rb_txs rb"
    and "sbn_simulated_txs sb = ss @ refund" and "length refund \<le> 1"
    and "list_all (\<lambda>s. er_success (so_evm_result (st_outcome s))) refund"
    and "list_all (\<lambda>s. builder_signed e bs (st_tx s)) refund"
    and "list_all (\<lambda>s. outcome_contains_ofac (st_outcome s) = None) ss"
    and "\<And>G. evm_gas_sound e G \<Longrightarrow> list_all (gas_le G) (ss @ refund)"
    and "bo_reverted (sbn_outcome sb) = position (not_allowed_to_revert rb) ss"
    and "bo_reverted (sbn_outcome sb) = None \<Longrightarrow>
         bo_gas_used (sbn_outcome sb) = sum_gas (ss @ refund) \<and>
         bo_blob_gas_used (sbn_outcome sb) = sum_blob_gas (ss @ refund)"
    and "sbn_bundle sb = rb"
proof -
  from assms obtain before sdb' ss base_fee where
    loop: "simulate_bundle_loop e bs (evm_simulation_db e db) before (rb_txs rb) = Ok (ss, sdb')"
    and fin: "with_refund e (SimulatedBundle_new rb ss base_fee)
                (simulate_refund_tx e bs sdb' (SimulatedBundle_new rb ss base_fee)) = Ok sb"
    by (auto simp: simulate_bundle_def result_bind_Ok_iff Let_def)
  note l = simulate_bundle_loop_OkD [OF loop]
  show ?thesis
  proof (cases "sb = SimulatedBundle_new rb ss base_fee")
    case True
    then show ?thesis
      using l from_txs_sums [of rb ss]
      by (intro that [of ss "[]"]) (auto simp: SimulatedBundle_new_def from_txs_reverted)
  next
    case False
    with fin obtain s where
      r: "simulate_refund_tx e bs sdb' (SimulatedBundle_new rb ss base_fee) = Ok (Some s)"
      and sb: "sb = add_tx s (SimulatedBundle_new rb ss base_fee)"
      by (auto simp: with_refund_Ok_iff)
    then show ?thesis
      using l from_txs_sums [of rb ss] simulate_refund_tx_OkD [OF r]
      by (intro that [of ss "[s]"])
        (auto simp: SimulatedBundle_new_def add_tx_def add_tx_outcome_def from_txs_reverted)
  qed
qed

lemma gas_le_sums:
  assumes "list_all (gas_le G) ss"
  shows "nat_gas ss \<le> length ss * G" and "nat_blob_gas ss \<le> length ss * G"
  using assms by (induction ss) (auto simp: nat_gas_def nat_blob_gas_def gas_le_def)

section \<open>Block limits\<close>

text \<open>
  The gas reserved for the builder payment is always left over; blob gas is within its limit;
  the receipts match the executed transactions.
\<close>

definition build_ok :: "('cs, 'db, 'sdb) evm \<Rightarrow> ('cs, 'bst) build_state \<Rightarrow> bool" where
  "build_ok e bs \<longleftrightarrow>
     unat (ed_cumulative_gas_used (bs_exec_details bs)) + 32000
       \<le> unat (bc_block_gas_limit (bs_build_config bs)) \<and>
     unat (ed_cumulative_blob_gas_used (bs_exec_details bs)) \<le> unat (evm_max_data_gas_per_block e) \<and>
     receipts_inv (bs_exec_details bs)"

text \<open>Limits far below the range of \<open>u64\<close>, so that the sums of the verification do not wrap.\<close>

definition sane_limits :: "('cs, 'db, 'sdb) evm \<Rightarrow> nat \<Rightarrow> ('cs, 'bst) build_state \<Rightarrow> bool" where
  "sane_limits e G bs \<longleftrightarrow>
     G \<le> 2 ^ 32 \<and> unat (bc_block_gas_limit (bs_build_config bs)) < 2 ^ 62 \<and>
     unat (evm_max_data_gas_per_block e) < 2 ^ 62"

lemma commit_keeps_build_ok:
  assumes ok: "build_ok e bs" and lim: "sane_limits e G bs"
    and gas: "list_all (gas_le G) ss" and len: "length ss < 2 ^ 30"
    and v: "verify_capacity e bs (sum_gas ss) (sum_blob_gas ss) = Ok ()"
  shows "build_ok e (fst (commit e bs db ss))"
proof -
  let ?ed = "bs_exec_details bs"
  have "length ss * G \<le> 2 ^ 30 * 2 ^ 32"
    using len lim by (intro mult_le_mono) (auto simp: sane_limits_def)
  then have small: "nat_gas ss \<le> 2 ^ 62" "nat_blob_gas ss \<le> 2 ^ 62"
    using gas_le_sums [OF gas] by simp_all
  have g: "unat (sum_gas ss) = nat_gas ss" and b: "unat (sum_blob_gas ss) = nat_blob_gas ss"
    using small by (simp_all add: unat_sum_gas unat_sum_blob_gas)
  have cum: "unat (ed_cumulative_gas_used ?ed) < 2 ^ 62"
      "unat (ed_cumulative_blob_gas_used ?ed) < 2 ^ 62"
    using ok lim by (auto simp: build_ok_def sane_limits_def)
  have ug: "unat (ed_cumulative_gas_used ?ed + sum_gas ss) =
      unat (ed_cumulative_gas_used ?ed) + nat_gas ss"
    using small cum by (simp add: unat_add_no_overflow g)
  have ub: "unat (ed_cumulative_blob_gas_used ?ed + sum_blob_gas ss) =
      unat (ed_cumulative_blob_gas_used ?ed) + nat_blob_gas ss"
    using small cum by (simp add: unat_add_no_overflow b)
  have um: "unat (ed_cumulative_gas_used ?ed + sum_gas ss + 32000) =
      unat (ed_cumulative_gas_used ?ed) + nat_gas ss + 32000"
    using small cum by (subst unat_add_no_overflow) (simp_all add: ug)
  have "receipts_inv (fold commit_tx ss ?ed)"
    using ok small cum by (intro fold_commit_receipts) (auto simp: build_ok_def)
  moreover have "unat (ed_cumulative_gas_used ?ed) + nat_gas ss + 32000
      \<le> unat (bc_block_gas_limit (bs_build_config bs))"
    using v um by (auto simp: verify_capacity_def MAX_BUILDER_TRANSFER_GAS_LIMIT_def
        word_less_nat_alt split: if_splits)
  moreover have "unat (ed_cumulative_blob_gas_used ?ed) + nat_blob_gas ss
      \<le> unat (evm_max_data_gas_per_block e)"
    using v ub by (auto simp: verify_capacity_def word_less_nat_alt split: if_splits)
  ultimately show ?thesis
    by (simp add: build_ok_def commit_def exec_simps ug ub)
qed

lemma execute_transaction_cases:
  "execute_transaction e bs db tx = (bs', db', r) \<Longrightarrow>
     (r = Ok () \<and> (\<exists>s. simulate_tx e bs db tx = Ok s \<and> verify_simulated_transaction e bs s = Ok () \<and>
        (bs', db') = commit e bs db [s])) \<or>
     (r \<noteq> Ok () \<and> bs' = bs \<and> db' = db)"
  by (auto simp: execute_transaction_def execute_transaction_skip_verify_def
      split: result.splits prod.splits)

lemma execute_bundle_cases:
  "execute_bundle e bs db rb = (bs', db', r) \<Longrightarrow>
     (r = Ok () \<and> (\<exists>sb. simulate_bundle e bs db rb = Ok sb \<and> verify_simulated_bundle e bs sb = Ok () \<and>
        (bs', db') = commit e bs db (sbn_simulated_txs sb))) \<or>
     (r \<noteq> Ok () \<and> bs' = bs \<and> db' = db)"
  by (auto simp: execute_bundle_def split: result.splits prod.splits)

lemma commit_config: "bs_build_config (fst (commit e bs db ss)) = bs_build_config bs"
  "bs_payload_config (fst (commit e bs db ss)) = bs_payload_config bs"
  by (simp_all add: commit_def)

lemma execute_transaction_build_ok:
  assumes "execute_transaction e bs db tx = (bs', db', r)"
    and "build_ok e bs" and "sane_limits e G bs" and "evm_gas_sound e G"
  shows "build_ok e bs' \<and> sane_limits e G bs'"
proof -
  consider "bs' = bs" | s where "simulate_tx e bs db tx = Ok s"
      "verify_simulated_transaction e bs s = Ok ()" "(bs', db') = commit e bs db [s]"
    using execute_transaction_cases [OF assms(1)] by blast
  then show ?thesis
  proof cases
    case 1
    with assms show ?thesis by simp
  next
    case 2
    have "gas_le G s"
      using 2(1) assms(4) simulate_tx_on_db_OkD(2) by (auto simp: simulate_tx_def)
    then have "build_ok e (fst (commit e bs db [s]))"
      using 2(2) assms by (intro commit_keeps_build_ok [where G = G])
        (simp_all add: verify_simulated_transaction_def)
    moreover have "bs' = fst (commit e bs db [s])" using 2(3) by (metis fst_conv)
    ultimately show ?thesis using assms(3) by (simp add: sane_limits_def commit_config)
  qed
qed

lemma execute_bundle_build_ok:
  assumes "execute_bundle e bs db rb = (bs', db', r)" and "length (rb_txs rb) < 2 ^ 29"
    and "build_ok e bs" and "sane_limits e G bs" and "evm_gas_sound e G"
  shows "build_ok e bs' \<and> sane_limits e G bs'"
proof -
  consider "bs' = bs" | sb where "simulate_bundle e bs db rb = Ok sb"
      "verify_simulated_bundle e bs sb = Ok ()" "(bs', db') = commit e bs db (sbn_simulated_txs sb)"
    using execute_bundle_cases [OF assms(1)] by blast
  then show ?thesis
  proof cases
    case 1
    with assms show ?thesis by simp
  next
    case 2
    obtain ss refund where sb: "map st_tx ss = rb_txs rb" "sbn_simulated_txs sb = ss @ refund"
        "length refund \<le> 1" "list_all (gas_le G) (ss @ refund)"
      and sums: "bo_reverted (sbn_outcome sb) = None \<Longrightarrow>
         bo_gas_used (sbn_outcome sb) = sum_gas (ss @ refund) \<and>
         bo_blob_gas_used (sbn_outcome sb) = sum_blob_gas (ss @ refund)"
      using simulate_bundle_OkE [OF 2(1)] assms(5) by metis
    have len: "length (ss @ refund) < 2 ^ 30"
      using sb(1,3) assms(2) map_eq_imp_length_eq [of st_tx ss id "rb_txs rb"] by simp
    have "verify_capacity e bs (sum_gas (ss @ refund)) (sum_blob_gas (ss @ refund)) = Ok ()"
      using 2(2) sums by (auto simp: verify_simulated_bundle_def split: option.splits)
    then have "build_ok e (fst (commit e bs db (sbn_simulated_txs sb)))"
      using commit_keeps_build_ok [OF assms(3,4) sb(4) len] sb(2) by simp
    moreover have "bs' = fst (commit e bs db (sbn_simulated_txs sb))" using 2(3) by (metis fst_conv)
    ultimately show ?thesis using assms(4) by (simp add: sane_limits_def commit_config)
  qed
qed

lemma execute_transaction_executed:
  assumes "execute_transaction e bs db tx = (bs', db', Ok ())"
  shows "ed_executed_txs (bs_exec_details bs') = ed_executed_txs (bs_exec_details bs) @ [tx]"
proof -
  from execute_transaction_cases [OF assms] obtain s where s: "simulate_tx e bs db tx = Ok s"
      and bs': "bs' = fst (commit e bs db [s])" by (metis fst_conv)
  have "st_tx s = tx" using s simulate_tx_on_db_OkD(1) by (auto simp: simulate_tx_def)
  then show ?thesis by (simp add: bs' commit_def exec_simps)
qed

lemma execute_bundle_executed:
  assumes "execute_bundle e bs db rb = (bs', db', Ok ())"
  shows "\<exists>refund. ed_executed_txs (bs_exec_details bs') =
           ed_executed_txs (bs_exec_details bs) @ rb_txs rb @ refund \<and>
         list_all (builder_signed e bs) refund"
proof -
  from execute_bundle_cases [OF assms] obtain sb where sb: "simulate_bundle e bs db rb = Ok sb"
      and bs': "bs' = fst (commit e bs db (sbn_simulated_txs sb))" by (metis fst_conv)
  from sb obtain ss refund where "map st_tx ss = rb_txs rb" "sbn_simulated_txs sb = ss @ refund"
      "list_all (\<lambda>s. builder_signed e bs (st_tx s)) refund"
    by (rule simulate_bundle_OkE)
  then show ?thesis
    by (intro exI [of _ "map st_tx refund"]) (auto simp: bs' commit_def exec_simps list_all_iff)
qed

lemma execute_configs:
  "execute_transaction e bs db tx = (bs', db', r) \<Longrightarrow>
     bs_payload_config bs' = bs_payload_config bs \<and> bs_build_config bs' = bs_build_config bs"
  "execute_bundle e bs db rb = (bs', db', r) \<Longrightarrow>
     bs_payload_config bs' = bs_payload_config bs \<and> bs_build_config bs' = bs_build_config bs"
  using execute_transaction_cases [of e bs db tx bs' db' r] execute_bundle_cases [of e bs db rb bs' db' r]
  by (metis commit_config fst_conv)+

section \<open>Reachable build states\<close>

inductive build_reach ::
  "('cs, 'db, 'sdb) evm \<Rightarrow> ('cs, 'bst) build_state \<Rightarrow> 'db \<Rightarrow> ('cs, 'bst) build_state \<Rightarrow> 'db \<Rightarrow> bool"
  for e :: "('cs, 'db, 'sdb) evm" and bs0 :: "('cs, 'bst) build_state" and db0 :: 'db
where
  reach_init: "build_reach e bs0 db0 bs0 db0"
| reach_tx: "build_reach e bs0 db0 bs db \<Longrightarrow> execute_transaction e bs db tx = (bs', db', r) \<Longrightarrow>
     build_reach e bs0 db0 bs' db'"
| reach_bundle: "build_reach e bs0 db0 bs db \<Longrightarrow> length (rb_txs rb) < 2 ^ 29 \<Longrightarrow>
     execute_bundle e bs db rb = (bs', db', r) \<Longrightarrow> build_reach e bs0 db0 bs' db'"

lemma reach_build_ok:
  assumes "build_reach e bs0 db0 bs db" and "build_ok e bs0" and "sane_limits e G bs0"
    and "evm_gas_sound e G"
  shows "build_ok e bs \<and> sane_limits e G bs"
  using assms
proof (induction rule: build_reach.induct)
  case reach_init
  then show ?case by simp
next
  case (reach_tx bs db tx bs' db' r)
  with execute_transaction_build_ok [OF reach_tx.hyps(2), of G] show ?case by simp
next
  case (reach_bundle bs db rb bs' db' r)
  with execute_bundle_build_ok [OF reach_bundle.hyps(3,2), of G] show ?case by simp
qed

lemma build_ok_new:
  assumes "32000 \<le> unat (bc_block_gas_limit bc)"
  shows "build_ok e (BuildState_new i bc pc t)"
  using assms
  by (simp add: build_ok_def BuildState_new_def ExecutionDetails_default_def receipts_inv_def
      block_env_with_coinbase_def)

section \<open>Properties\<close>


definition sample_evm :: "(unit, unit, unit) evm" where
  "sample_evm =
     \<lparr> evm_basic = (\<lambda>_ _. Ok None), evm_commit = (\<lambda>_ _. ()), evm_simulation_db = (\<lambda>_. ()),
       evm_sim_basic = (\<lambda>_ _. Ok None), evm_sim_commit = (\<lambda>_ _. ()),
       evm_transact = (\<lambda>_ _ _ tx.
         if unat (tx_gas_limit tx) \<le> 2 ^ 32 \<and> unat (unwrap_or (tx_blob_gas tx) 0) \<le> 2 ^ 32
         then Ok (\<lparr> er_success = True, er_gas_used = min 21000 (tx_gas_limit tx), er_logs = [] \<rparr>, [])
         else Err (EvmOther ''gas'')),
       evm_effective_tip_per_gas = (\<lambda>_ _. Some 2),
       evm_sign_and_recover = (\<lambda>_ t. Some \<lparr> tx_hash = 77, tx_signer = 9, tx_to = Some (e1559_to t),
         tx_nonce = e1559_nonce t, tx_gas_limit = e1559_gas_limit t, tx_type = 2, tx_blob_gas = None,
         tx_rest = [] \<rparr>),
       evm_beacon_root_call = (\<lambda>_ _ _ _ _ _ db. Ok db), evm_show_error = (\<lambda>_. ''error''),
       evm_max_data_gas_per_block = 786432 \<rparr>"

definition sample_config :: build_config where
  "sample_config =
     \<lparr> bc_slot = 3,
       bc_attributes = \<lparr> pa_id = 1, pa_parent = 2, pa_timestamp = 150, pa_suggested_fee_recipient = 3,
         pa_prev_randao = 4, pa_withdrawals = [], pa_parent_beacon_block_root = None \<rparr>,
       bc_validator_info = sample_validator 30000000,
       bc_parent_block = \<lparr> sb_hash = 2, sb_number = 6, sb_gas_limit = 30000000, sb_timestamp = 138,
         sb_excess_blob_gas = None, sb_blob_gas_used = None, sb_parent_beacon_block_root = None \<rparr>,
       bc_block_number = 7,
       bc_initialized_block_env = \<lparr> be_number = 7, be_coinbase = 0, be_basefee = 10, be_rest = [] \<rparr>,
       bc_initialized_cfg = \<lparr> ce_chain_id = 1, ce_rest = [] \<rparr>,
       bc_block_gas_limit = 30000000, bc_basefee = 10 \<rparr>"

definition sample_payload_config :: "unit payload_config" where
  "sample_payload_config =
     \<lparr> pc_chain_spec = (), pc_builder_address = 9, pc_secret_key = 5, pc_extra_data = [] \<rparr>"

definition sample_state :: "(unit, unit) build_state" where
  "sample_state = BuildState_new 1 sample_config sample_payload_config 0"

definition sample_tx :: "b256 \<Rightarrow> recovered_tx" where
  "sample_tx h =
     \<lparr> tx_hash = h, tx_signer = 11, tx_to = Some 12, tx_nonce = 0, tx_gas_limit = 21000, tx_type = 2,
       tx_blob_gas = None, tx_rest = [] \<rparr>"

lemma sample_evm_sound: "evm_gas_sound sample_evm (2 ^ 32)"
  by (auto simp: evm_gas_sound_def sample_evm_def word_le_nat_alt [symmetric] split: if_splits)

lemma sample_limits: "sane_limits sample_evm (2 ^ 32) sample_state"
  by (simp add: sane_limits_def sample_evm_def sample_state_def BuildState_new_def
      block_env_with_coinbase_def sample_config_def)


text \<open>
  What a bundle does on the EVM, independently of how the builder simulates it: its transactions
  run one after another, each on the state the ones before it left; a transaction earns the
  builder the larger of its priority fee and the growth of the coinbase balance since the
  transaction before it; a refund is due on what the transaction at the refund index earned.
\<close>

type_synonym evm_runs = "(recovered_tx \<times> exec_result \<times> evm_state) list"

fun evm_run ::
  "('cs, 'db, 'sdb) evm \<Rightarrow> cfg_env \<Rightarrow> block_env \<Rightarrow> 'sdb \<Rightarrow> recovered_tx list \<Rightarrow> (evm_runs \<times> 'sdb) option"
where
  "evm_run e cfg benv sdb [] = Some ([], sdb)"
| "evm_run e cfg benv sdb (tx # txs) =
     (case evm_transact e cfg benv sdb tx of
        Ok (res, state) \<Rightarrow>
          map_option (\<lambda>(runs, sdb'). ((tx, res, state) # runs, sdb'))
            (evm_run e cfg benv (evm_sim_commit e sdb state) txs)
      | _ \<Rightarrow> None)"

definition run_balance :: "address \<Rightarrow> recovered_tx \<times> exec_result \<times> evm_state \<Rightarrow> u256" where
  "run_balance coinbase run = balance_of (map_of (snd (snd run)) coinbase)"

definition run_fees :: "('cs, 'db, 'sdb) evm \<Rightarrow> u64 \<Rightarrow> evm_runs \<Rightarrow> u256 list" where
  "run_fees e base_fee runs =
     map (\<lambda>(tx, res, _). u256_from_u128 (unwrap_or (evm_effective_tip_per_gas e tx base_fee) 0) *
                          u256_from_u64 (er_gas_used res)) runs"

definition run_growth :: "address \<Rightarrow> u256 \<Rightarrow> evm_runs \<Rightarrow> u256 list" where
  "run_growth coinbase before runs =
     map2 saturating_sub (map (run_balance coinbase) runs) (before # map (run_balance coinbase) runs)"

definition run_value :: "('cs, 'db, 'sdb) evm \<Rightarrow> u64 \<Rightarrow> address \<Rightarrow> u256 \<Rightarrow> evm_runs \<Rightarrow> u256" where
  "run_value e base_fee coinbase before runs =
     sum_list (map2 max (run_fees e base_fee runs) (run_growth coinbase before runs))"

definition refund_due ::
  "('cs, 'db, 'sdb) evm \<Rightarrow> recovered_bundle \<Rightarrow> u64 \<Rightarrow> address \<Rightarrow> u256 \<Rightarrow> evm_runs \<Rightarrow> u256"
where
  "refund_due e rb base_fee coinbase before runs =
     (case (rb_refund rb, refund_index rb) of
        (Some r, Some i) \<Rightarrow>
          if i < length runs
          then let fees = run_fees e base_fee runs ! i; growth = run_growth coinbase before runs ! i
               in refund_amount r fees (saturating_sub growth fees) base_fee
          else 0
      | _ \<Rightarrow> 0)"

text \<open>
  The refund transfer: none when nothing is due or there is nobody to pay; else one transfer of
  the amount due to the recipient, signed with the builder's key under the nonce its account
  has after the bundle, that executes successfully on the state the bundle left.
\<close>

definition refund_run ::
  "('cs, 'db, 'sdb) evm \<Rightarrow> ('cs, 'bst) build_state \<Rightarrow> 'sdb \<Rightarrow> address option \<Rightarrow> u256 \<Rightarrow> evm_runs \<Rightarrow> u256 \<Rightarrow> bool"
where
  "refund_run e bs sdb recipient due refund earned =
     (let benv = bc_initialized_block_env (bs_build_config bs);
          cfg = bc_initialized_cfg (bs_build_config bs); pc = bs_payload_config bs
      in if due = 0 \<or> recipient = None then refund = [] \<and> earned = 0
         else \<exists>t tx res state builder coinbase base_fee.
           evm_sim_basic e sdb (pc_builder_address pc) = Ok builder \<and>
           evm_sign_and_recover e (pc_secret_key pc) t = Some tx \<and>
           Some (e1559_to t) = recipient \<and> e1559_value t = due \<and>
           e1559_nonce t = (case builder of None \<Rightarrow> 0 | Some a \<Rightarrow> ai_nonce a) \<and>
           evm_transact e cfg benv sdb tx = Ok (res, state) \<and> er_success res \<and>
           refund = [(tx, res, state)] \<and>
           evm_sim_basic e sdb (be_coinbase benv) = Ok coinbase \<and>
           u256_to_u64 (be_basefee benv) = Some base_fee \<and>
           earned = run_value e base_fee (be_coinbase benv) (balance_of coinbase) refund)"

text \<open>The run that a list of simulated transactions records, and what the records say of it.\<close>

definition run_of :: "sim_tx \<Rightarrow> recovered_tx \<times> exec_result \<times> evm_state" where
  "run_of s = (st_tx s, so_evm_result (st_outcome s), so_evm_state (st_outcome s))"

lemma run_of_sel [simp]: "fst (run_of s) = st_tx s" "snd (snd (run_of s)) = so_evm_state (st_outcome s)"
  by (simp_all add: run_of_def)

lemma tx_outcome_earns:
  assumes "tx_outcome e cb bf before tx res state = Some out" and "u256_to_u64 bf = Some base_fee"
  shows "[so_fees out] = run_fees e base_fee [(tx, res, state)]"
    and "so_coinbase_transfer out = saturating_sub (saturating_sub (run_balance cb (tx, res, state)) before) (so_fees out)"
  using assms by (auto simp: tx_outcome_def Let_def run_fees_def run_balance_def)

lemma add_saturating_sub: "a + saturating_sub g a = max a g"
  by (auto simp: saturating_sub_def max_def)

lemma run_value_Cons:
  "run_value e f cb before (run # runs) =
     max (hd (run_fees e f [run])) (saturating_sub (run_balance cb run) before) +
     run_value e f cb (run_balance cb run) runs"
  by (simp add: run_value_def run_growth_def run_fees_def)

lemma simulate_tx_on_db_run:
  assumes "simulate_tx_on_db e bs sdb tx = Ok s"
  shows "let benv = bc_initialized_block_env (bs_build_config bs) in \<exists>acct base_fee.
    evm_transact e (bc_initialized_cfg (bs_build_config bs)) benv sdb tx = Ok (snd (run_of s)) \<and>
    fst (run_of s) = tx \<and> evm_sim_basic e sdb (be_coinbase benv) = Ok acct \<and>
    u256_to_u64 (be_basefee benv) = Some base_fee \<and>
    so_fees (st_outcome s) + so_coinbase_transfer (st_outcome s) =
      run_value e base_fee (be_coinbase benv) (balance_of acct) [run_of s]"
proof -
  let ?benv = "bc_initialized_block_env (bs_build_config bs)"
  from assms obtain res state acct out where
    t: "evm_transact e (bc_initialized_cfg (bs_build_config bs)) ?benv sdb tx = Ok (res, state)"
    and a: "evm_sim_basic e sdb (be_coinbase ?benv) = Ok acct"
    and o: "tx_outcome e (be_coinbase ?benv) (be_basefee ?benv) (balance_of acct) tx res state = Some out"
    and s: "s = \<lparr> st_tx = tx, st_outcome = out \<rparr>"
    by (auto simp: simulate_tx_on_db_def result_bind_Ok_iff Let_def)
  obtain f where f: "u256_to_u64 (be_basefee ?benv) = Some f"
    using o by (auto simp: tx_outcome_def bind_eq_Some_conv)
  have r: "run_of s = (tx, res, state)"
    using tx_outcome_OkD [OF o] by (simp add: run_of_def s)
  have "so_fees out + so_coinbase_transfer out =
      run_value e f (be_coinbase ?benv) (balance_of acct) [(tx, res, state)]"
    using tx_outcome_earns [OF o f]
    by (simp add: run_value_Cons add_saturating_sub) (simp add: run_value_def run_growth_def run_fees_def)
  moreover have "st_outcome s = out" by (simp add: s)
  ultimately show ?thesis using t a f by (auto simp: Let_def r)
qed

lemma simulate_bundle_loop_run:
  assumes "simulate_bundle_loop e bs sdb before txs = Ok (ss, sdb')"
    and "u256_to_u64 (bc_basefee (bs_build_config bs)) = Some base_fee"
  shows "let benv = bc_initialized_block_env (bs_build_config bs); runs = map run_of ss in
    evm_run e (bc_initialized_cfg (bs_build_config bs)) benv sdb txs = Some (runs, sdb') \<and>
    map (\<lambda>s. so_fees (st_outcome s)) ss = run_fees e base_fee runs \<and>
    map (\<lambda>s. so_coinbase_transfer (st_outcome s)) ss =
      map2 saturating_sub (run_growth (be_coinbase benv) before runs) (run_fees e base_fee runs)"
  using assms(1)
proof (induction txs arbitrary: sdb before ss)
  case Nil
  then show ?case by (simp add: run_fees_def run_growth_def)
next
  case (Cons tx txs)
  let ?benv = "bc_initialized_block_env (bs_build_config bs)"
  from Cons.prems obtain res state out ss1 where
    t: "evm_transact e (bc_initialized_cfg (bs_build_config bs)) ?benv sdb tx = Ok (res, state)"
    and o: "tx_outcome e (be_coinbase ?benv) (bc_basefee (bs_build_config bs)) before tx res state = Some out"
    and rest: "simulate_bundle_loop e bs (evm_sim_commit e sdb state)
                 (balance_of (map_of state (be_coinbase ?benv))) txs = Ok (ss1, sdb')"
    and ss: "ss = \<lparr> st_tx = tx, st_outcome = out \<rparr> # ss1"
    by (auto simp: result_bind_Ok_iff result_map_Ok_iff Let_def split: option.splits)
  have r: "run_of \<lparr> st_tx = tx, st_outcome = out \<rparr> = (tx, res, state)"
    using tx_outcome_OkD [OF o] by (simp add: run_of_def)
  show ?case
    using Cons.IH [OF rest] t tx_outcome_earns [OF o assms(2)]
    by (simp add: Let_def ss r run_fees_def run_growth_def run_balance_def)
qed

lemma sum_value_run:
  assumes "map (\<lambda>s. so_fees (st_outcome s)) ss = run_fees e f (map run_of ss)"
    and "map (\<lambda>s. so_coinbase_transfer (st_outcome s)) ss =
      map2 saturating_sub (run_growth cb before (map run_of ss)) (run_fees e f (map run_of ss))"
  shows "sum_value ss = run_value e f cb before (map run_of ss)"
proof -
  have len: "length (run_growth cb before (map run_of ss)) = length ss"
      "length (run_fees e f (map run_of ss)) = length ss"
    by (simp_all add: run_growth_def run_fees_def)
  have sum: "map (\<lambda>s. so_fees (st_outcome s) + so_coinbase_transfer (st_outcome s)) ss =
      map2 (+) (map (\<lambda>s. so_fees (st_outcome s)) ss) (map (\<lambda>s. so_coinbase_transfer (st_outcome s)) ss)"
    by (simp add: zip_map_map zip_same_conv_map)
  show ?thesis
    unfolding sum_value_def run_value_def sum assms
    by (rule arg_cong [where f = sum_list]) (auto simp: list_eq_iff_nth_eq len add_saturating_sub)
qed

lemma calculate_refund_due:
  assumes "map (\<lambda>s. so_fees (st_outcome s)) ss = run_fees e f (map run_of ss)"
    and "map (\<lambda>s. so_coinbase_transfer (st_outcome s)) ss =
      map2 saturating_sub (run_growth cb before (map run_of ss)) (run_fees e f (map run_of ss))"
  shows "calculate_refund rb ss f = refund_due e rb f cb before (map run_of ss)"
proof -
  have "so_fees (st_outcome (ss ! i)) = run_fees e f (map run_of ss) ! i" if "i < length ss" for i
    using arg_cong [OF assms(1), of "\<lambda>xs. xs ! i"] that by simp
  moreover have "so_coinbase_transfer (st_outcome (ss ! i)) =
      saturating_sub (run_growth cb before (map run_of ss) ! i) (run_fees e f (map run_of ss) ! i)"
    if "i < length ss" for i
    using arg_cong [OF assms(2), of "\<lambda>xs. xs ! i"] that by (simp add: run_growth_def run_fees_def)
  ultimately show ?thesis
    by (auto simp: calculate_refund_def refund_due_def vec_get_def Let_def split: option.splits)
qed

lemma simulate_refund_tx_run:
  assumes "simulate_refund_tx e bs sdb sb = Ok r"
  shows "refund_run e bs sdb (refund_recipient (sbn_bundle sb)) (bo_refund (sbn_outcome sb))
           (map run_of (case r of None \<Rightarrow> [] | Some s \<Rightarrow> [s]))
           (sum_value (case r of None \<Rightarrow> [] | Some s \<Rightarrow> [s]))"
proof (cases r)
  case None
  with assms show ?thesis
    by (auto simp: simulate_refund_tx_def refund_run_def Let_def result_bind_Ok_iff
        split: if_splits option.splits)
next
  case (Some s)
  with assms obtain recipient tx where
    1: "refund_recipient (sbn_bundle sb) = Some recipient" "bo_refund (sbn_outcome sb) \<noteq> 0"
    and tx: "create_builder_transfer_transaction e bs (evm_sim_basic e sdb) recipient
               (bo_refund (sbn_outcome sb)) = Ok tx"
    and s: "simulate_tx_on_db e bs sdb tx = Ok s" "er_success (so_evm_result (st_outcome s))"
    by (auto simp: simulate_refund_tx_def result_bind_Ok_iff Let_def split: if_splits option.splits)
  from tx obtain t builder where
    2: "evm_sim_basic e sdb (pc_builder_address (bs_payload_config bs)) = Ok builder"
       "evm_sign_and_recover e (pc_secret_key (bs_payload_config bs)) t = Some tx"
       "e1559_to t = recipient" "e1559_value t = bo_refund (sbn_outcome sb)"
       "e1559_nonce t = (case builder of None \<Rightarrow> 0 | Some a \<Rightarrow> ai_nonce a)"
    by (auto simp: create_builder_transfer_transaction_def result_bind_Ok_iff Let_def)
  have "run_of s = (tx, so_evm_result (st_outcome s), so_evm_state (st_outcome s))"
    using simulate_tx_on_db_OkD(1) [OF s(1)] by (simp add: run_of_def)
  then show ?thesis
    using simulate_tx_on_db_run [OF s(1)] 1 2 s(2)
    unfolding refund_run_def Let_def Some option.case list.map sum_simps by force
qed

text \<open>
  The nonce rule of the EVM, for a bundle: it is not run to the end when it repeats a transaction.
  A bundle that was executed was run to the end.
\<close>

definition nonces_checked :: "('cs, 'db, 'sdb) evm \<Rightarrow> recovered_bundle \<Rightarrow> bool" where
  "nonces_checked e rb \<longleftrightarrow>
     (\<forall>cfg benv sdb. evm_run e cfg benv sdb (rb_txs rb) \<noteq> None \<longrightarrow> distinct (rb_tx_hashes rb))"

lemma execute_bundle_nonces:
  assumes "execute_bundle e bs db rb = (bs', db', Ok ())" and "nonces_checked e rb"
  shows "distinct (rb_tx_hashes rb)"
proof -
  obtain sb where "simulate_bundle e bs db rb = Ok sb"
    using execute_bundle_cases [OF assms(1)] by blast
  then obtain before ss sdb' f where
    loop: "simulate_bundle_loop e bs (evm_simulation_db e db) before (rb_txs rb) = Ok (ss, sdb')"
    and f: "u256_to_u64 (bc_basefee (bs_build_config bs)) = Some f"
    by (auto simp: simulate_bundle_def result_bind_Ok_iff Let_def)
  from simulate_bundle_loop_run [OF loop f] assms(2) show ?thesis
    by (auto simp: nonces_checked_def Let_def)
qed

text \<open>
  C22: Bundles are atomic. A bundle that fails leaves the build state and the database as they
  were. A bundle that succeeds was run, transaction by transaction, on the EVM over the state of
  the block so far, and what it appends is what that run determines: exactly its own
  transactions, in order, each of which succeeded or was declared as possibly reverting and
  touched no blacklisted account; then, when a refund is due on the transaction at the refund
  index and there is a recipient, one transfer of exactly the refund, signed by the builder,
  that executes successfully on the state the bundle left. The database takes over the states
  of these runs and no others, and the block value grows by what they earned: per transaction
  the larger of the priority fee and the growth of the coinbase balance (a refund paid is not
  deducted from it).
\<close>

theorem execute_bundle_atomic:
  assumes "execute_bundle e bs db rb = (bs', db', r)"
  shows "(r \<noteq> Ok () \<longrightarrow> bs' = bs \<and> db' = db) \<and>
    (r = Ok () \<longrightarrow> (let bc = bs_build_config bs; benv = bc_initialized_block_env bc; cb = be_coinbase benv in
       \<exists>before runs sdb' base_fee refund earned.
         evm_sim_basic e (evm_simulation_db e db) cb = Ok before \<and>
         evm_run e (bc_initialized_cfg bc) benv (evm_simulation_db e db) (rb_txs rb) = Some (runs, sdb') \<and>
         u256_to_u64 (bc_basefee bc) = Some base_fee \<and>
         (\<forall>(tx, res, state) \<in> set runs.
            (er_success res \<or> tx_hash tx \<in> set (rb_reverting_tx_hashes rb)) \<and>
            (\<forall>(a, _) \<in> set state. \<not> is_ofac a)) \<and>
         refund_run e bs sdb' (refund_recipient rb)
           (refund_due e rb base_fee cb (balance_of before) runs) refund earned \<and>
         ed_executed_txs (bs_exec_details bs') =
           ed_executed_txs (bs_exec_details bs) @ rb_txs rb @ map fst refund \<and>
         db' = fold (\<lambda>(_, _, state) d. evm_commit e d state) (runs @ refund) db \<and>
         block_value bs' = block_value bs + run_value e base_fee cb (balance_of before) runs + earned))"
proof (cases "r = Ok ()")
  case False
  then show ?thesis using execute_bundle_cases [OF assms] by simp
next
  case True
  let ?benv = "bc_initialized_block_env (bs_build_config bs)"
  from True obtain sb where sb: "simulate_bundle e bs db rb = Ok sb"
      "verify_simulated_bundle e bs sb = Ok ()"
      and bs': "(bs', db') = commit e bs db (sbn_simulated_txs sb)"
    using execute_bundle_cases [OF assms] by blast
  from sb(1) obtain before sdb' ss f refund where
    b: "evm_sim_basic e (evm_simulation_db e db) (be_coinbase ?benv) = Ok before"
    and loop: "simulate_bundle_loop e bs (evm_simulation_db e db) (balance_of before) (rb_txs rb) = Ok (ss, sdb')"
    and f: "u256_to_u64 (bc_basefee (bs_build_config bs)) = Some f"
    and ref: "simulate_refund_tx e bs sdb' (SimulatedBundle_new rb ss f) = Ok refund"
    and txs: "sbn_simulated_txs sb = ss @ (case refund of None \<Rightarrow> [] | Some s \<Rightarrow> [s])"
    and rev: "bo_reverted (sbn_outcome sb) = position (not_allowed_to_revert rb) ss"
    by (auto simp: simulate_bundle_def result_bind_Ok_iff Let_def with_refund_Ok_iff add_tx_def
        add_tx_outcome_def SimulatedBundle_new_def from_txs_reverted)
  define rest where "rest = (case refund of None \<Rightarrow> [] | Some s \<Rightarrow> [s])"
  have run: "evm_run e (bc_initialized_cfg (bs_build_config bs)) ?benv (evm_simulation_db e db)
        (rb_txs rb) = Some (map run_of ss, sdb')"
    and fees: "map (\<lambda>s. so_fees (st_outcome s)) ss = run_fees e f (map run_of ss)"
      "map (\<lambda>s. so_coinbase_transfer (st_outcome s)) ss = map2 saturating_sub
         (run_growth (be_coinbase ?benv) (balance_of before) (map run_of ss)) (run_fees e f (map run_of ss))"
    using simulate_bundle_loop_run [OF loop f] by (simp_all add: Let_def)
  have "position (not_allowed_to_revert rb) ss = None"
    using sb(2) rev by (auto simp: verify_simulated_bundle_def split: option.splits)
  then have ok: "\<forall>(tx, res, state) \<in> set (map run_of ss).
      (er_success res \<or> tx_hash tx \<in> set (rb_reverting_tx_hashes rb)) \<and> (\<forall>(a, _) \<in> set state. \<not> is_ofac a)"
    using simulate_bundle_loop_OkD [OF loop]
    by (fastforce simp: position_None not_allowed_to_revert_def list_all_iff outcome_contains_ofac_def
        find_None_iff run_of_def)
  have refund: "refund_run e bs sdb' (refund_recipient rb)
      (refund_due e rb f (be_coinbase ?benv) (balance_of before) (map run_of ss)) (map run_of rest) (sum_value rest)"
    using simulate_refund_tx_run [OF ref] calculate_refund_due [OF fees, of rb]
    by (simp add: SimulatedBundle_new_def rest_def)
  have "ed_executed_txs (bs_exec_details bs') =
        ed_executed_txs (bs_exec_details bs) @ rb_txs rb @ map fst (map run_of rest)"
      "db' = fold (\<lambda>(_, _, state) d. evm_commit e d state) (map run_of ss @ map run_of rest) db"
      "block_value bs' = block_value bs +
        run_value e f (be_coinbase ?benv) (balance_of before) (map run_of ss) + sum_value rest"
    using bs' simulate_bundle_loop_OkD [OF loop]
    by (simp_all add: commit_def exec_simps txs rest_def [symmetric] block_value_def fold_map comp_def
        case_prod_unfold sum_value_run [OF fees])
  with b run f ok refund True show ?thesis unfolding Let_def by blast
qed

definition sample_rb :: recovered_bundle where
  "sample_rb = \<lparr> rb_txs = [sample_tx 1, sample_tx 2], rb_reverting_tx_hashes = [], rb_refund = None \<rparr>"

lemma sample_evm_simps:
  "evm_transact sample_evm cfg benv sdb (sample_tx h) =
     Ok (\<lparr> er_success = True, er_gas_used = 21000, er_logs = [] \<rparr>, [])"
  "evm_effective_tip_per_gas sample_evm tx f = Some 2"
  "evm_sim_basic sample_evm sdb a = Ok None"
  "evm_max_data_gas_per_block sample_evm = 786432"
  "u256_to_u64 (10 :: u256) = Some 10"
  by (simp_all add: sample_evm_def sample_tx_def u256_to_u64_def)

lemma sample_rb_executes:
  "snd (snd (execute_bundle sample_evm sample_state () sample_rb)) = Ok ()"
  by (simp add: execute_bundle_def simulate_bundle_def sample_rb_def sample_evm_simps
      sample_state_def BuildState_new_def block_env_with_coinbase_def sample_config_def
      ExecutionDetails_default_def tx_outcome_def outcome_contains_ofac_def
      simulate_refund_tx_def SimulatedBundle_new_def calculate_refund_def from_txs_def
      bundle_outcome_zero_def verify_simulated_bundle_def verify_capacity_def
      MAX_BUILDER_TRANSFER_GAS_LIMIT_def commit_def sample_tx_def [of 1] sample_tx_def [of 2]
      sample_evm_simps [unfolded sample_tx_def] Let_def split: prod.splits)

lemma sample_rb_run:
  "evm_run sample_evm cfg benv sdb (rb_txs sample_rb) =
     Some ([(sample_tx 1, \<lparr> er_success = True, er_gas_used = 21000, er_logs = [] \<rparr>, []),
            (sample_tx 2, \<lparr> er_success = True, er_gas_used = 21000, er_logs = [] \<rparr>, [])], ())"
  by (simp add: sample_rb_def sample_evm_simps)

theorem execute_bundle_atomic_witness:
  "let bs' = fst (execute_bundle sample_evm sample_state () sample_rb)
   in ed_executed_txs (bs_exec_details bs') = [sample_tx 1, sample_tx 2] \<and> block_value bs' = 84000"
proof -
  obtain bs' db' r where x: "execute_bundle sample_evm sample_state () sample_rb = (bs', db', r)"
    by (cases "execute_bundle sample_evm sample_state () sample_rb")
  have r: "r = Ok ()" using sample_rb_executes x by simp
  have new: "ed_executed_txs (bs_exec_details sample_state) = []" "block_value sample_state = 0"
    by (simp_all add: sample_state_def BuildState_new_def ExecutionDetails_default_def block_value_def)
  have refund: "refund_due sample_evm sample_rb f cb b runs = 0" for f cb b runs
    by (simp add: refund_due_def sample_rb_def)
  from execute_bundle_atomic [OF x] r obtain before base_fee where
    "ed_executed_txs (bs_exec_details bs') = rb_txs sample_rb"
    "block_value bs' = run_value sample_evm base_fee
       (be_coinbase (bc_initialized_block_env (bs_build_config sample_state))) (balance_of before)
       [(sample_tx 1, \<lparr> er_success = True, er_gas_used = 21000, er_logs = [] \<rparr>, []),
        (sample_tx 2, \<lparr> er_success = True, er_gas_used = 21000, er_logs = [] \<rparr>, [])]"
    by (auto simp: Let_def sample_rb_run refund refund_run_def new)
  then show ?thesis
    using x by (simp add: sample_rb_def run_value_def run_fees_def run_growth_def run_balance_def
        balance_of_def sample_evm_simps u256_from_u128_def u256_from_u64_def saturating_sub_def)
qed

text \<open>
  The aggregate outcome of a bundle names the first transaction that reverted without
  permission, and sums gas, blob gas, fees and coinbase transfers over the transactions before
  it (over all of them when there is none).
\<close>

lemma from_txs_spec:
  "bo_reverted (from_txs rb ss) = position (not_allowed_to_revert rb) ss \<and>
   (let ran = takeWhile (\<lambda>s. \<not> not_allowed_to_revert rb s) ss; out = from_txs rb ss
    in bo_gas_used out = sum_gas ran \<and> bo_blob_gas_used out = sum_blob_gas ran \<and>
       bo_fees out + bo_coinbase_transfer out = sum_value ran \<and> bo_refund out = 0)"
proof -
  have "bo_refund (from_txs_loop rb k acc ss) = bo_refund acc" for k acc
    by (induction ss arbitrary: k acc) auto
  then show ?thesis
    by (simp only: from_txs_reverted) (simp add: from_txs_def from_txs_loop_sums bundle_outcome_zero_def Let_def)
qed

text \<open>
  Bundles are ordered by total value (fees plus coinbase transfers less the refund), highest
  first, without losing or duplicating any; bundles of equal value keep their order.
\<close>

lemma sort_by_max_value_spec:
  "mset (sort_by_max_value bs) = mset bs \<and>
   sorted_wrt (\<lambda>a b. total_value (sbn_outcome b) \<le> total_value (sbn_outcome a)) (sort_by_max_value bs) \<and>
   filter (\<lambda>b. total_value (sbn_outcome b) = v) (sort_by_max_value bs) =
     filter (\<lambda>b. total_value (sbn_outcome b) = v) bs"
  unfolding sort_by_max_value_def
  by (simp add: sorted_sort_desc sort_desc_stable [where key = "\<lambda>sb. total_value (sbn_outcome sb)"])

text \<open>
  Coinbase accounting. When the coinbase balance grows by at least the priority fees, the
  fees and the coinbase transfer recorded for a transaction add up to exactly that growth.
\<close>

lemma coinbase_accounting:
  assumes "tx_outcome e coinbase basefee before tx res state = Some out"
    and "unat before + unat (so_fees out) \<le> unat (balance_of (map_of state coinbase))"
  shows "unat (so_fees out) + unat (so_coinbase_transfer out) =
           unat (balance_of (map_of state coinbase)) - unat before"
proof -
  have "so_coinbase_transfer out =
      saturating_sub (saturating_sub (balance_of (map_of state coinbase)) before) (so_fees out)"
    using assms(1) by (auto simp: tx_outcome_def bind_eq_Some_conv Let_def)
  then show ?thesis
    using assms(2) by (simp add: unat_saturating_sub)
qed

end
