(* ===== verification/Block_Sealing.thy ===== *)
theory Block_Sealing
  imports Build_State
begin

text \<open>
  Turning a build state into a finished block: \<open>commit_withdrawals\<close>, \<open>into_build\<close> and
  \<open>into_empty_build\<close> of \<open>crates/payload/src/strategy/state/mod.rs\<close>, \<open>WithdrawalsOutcome\<close> of
  \<open>strategy/mod.rs\<close>, and the type \<open>Build\<close> of \<open>crates/primitives/src/build/mod.rs\<close>.

  The state provider, trie roots, fork activation, blob store, gas schedule of blobs and sealing
  are fields of the record \<open>chain_api\<close>; library constants (empty roots, the beacon nonce) too.
\<close>

section \<open>Data\<close>

record header =
  hd_parent_hash :: b256
  hd_ommers_hash :: b256
  hd_beneficiary :: address
  hd_state_root :: b256
  hd_transactions_root :: b256
  hd_receipts_root :: b256
  hd_withdrawals_root :: "b256 option"
  hd_logs_bloom :: bytes
  hd_timestamp :: u64
  hd_mix_hash :: b256
  hd_nonce :: u64
  hd_base_fee_per_gas :: "u64 option"
  hd_number :: u64
  hd_gas_limit :: u64
  hd_difficulty :: u256
  hd_gas_used :: u64
  hd_extra_data :: bytes
  hd_parent_beacon_block_root :: "b256 option"
  hd_blob_gas_used :: "u64 option"
  hd_excess_blob_gas :: "u64 option"

record built_block =
  blk_hash :: b256
  blk_header :: header
  blk_body :: "recovered_tx list"
  blk_withdrawals :: "withdrawal list option"

record 'blob built_payload =
  pl_id :: u64
  pl_block :: built_block
  pl_fees :: u256
  pl_sidecars :: "'blob list"

record 'blob build =
  bd_id :: u64
  bd_validator_info :: validator_info
  bd_payload :: "'blob built_payload"
  bd_bid :: u256

record ('cs, 'db, 'bst, 'prov, 'blob) chain_api =
  api_state_by_block_hash :: "b256 \<Rightarrow> ('prov, payload_builder_error) result"
  api_bundle_default :: 'bst
  api_open_db :: "'prov \<Rightarrow> 'db"
  api_open_db_with_prestate :: "'prov \<Rightarrow> 'bst \<Rightarrow> 'db"
  api_take_bundle :: "'db \<Rightarrow> 'bst"
  api_is_shanghai_active_at_timestamp :: "'cs \<Rightarrow> u64 \<Rightarrow> bool"
  api_is_cancun_active_at_timestamp :: "'cs \<Rightarrow> u64 \<Rightarrow> bool"
  api_balance_increments :: "'cs \<Rightarrow> u64 \<Rightarrow> withdrawal list \<Rightarrow> (address \<times> u128) list"
  api_increment_balances :: "'db \<Rightarrow> (address \<times> u128) list \<Rightarrow> ('db, payload_builder_error) result"
  api_calculate_withdrawals_root :: "withdrawal list \<Rightarrow> b256"
  api_receipts_root_slow :: "'bst \<Rightarrow> receipt option list \<Rightarrow> u64 \<Rightarrow> b256 option"
  api_block_logs_bloom :: "'bst \<Rightarrow> receipt option list \<Rightarrow> u64 \<Rightarrow> bytes option"
  api_state_root :: "'prov \<Rightarrow> 'bst \<Rightarrow> (b256, payload_builder_error) result"
  api_calculate_transaction_root :: "recovered_tx list \<Rightarrow> b256"
  api_get_all_blobs_exact :: "b256 list \<Rightarrow> ('blob list, payload_builder_error) result"
  api_calculate_excess_blob_gas :: "u64 \<Rightarrow> u64 \<Rightarrow> u64"
  api_seal_slow :: "header \<Rightarrow> recovered_tx list \<Rightarrow> withdrawal list option \<Rightarrow> b256"
  api_EMPTY_WITHDRAWALS :: b256
  api_EMPTY_TRANSACTIONS :: b256
  api_EMPTY_RECEIPTS :: b256
  api_EMPTY_OMMER_ROOT_HASH :: b256
  api_BEACON_NONCE :: u64

definition as_block_number_and_ts :: "'blob build \<Rightarrow> u64 \<times> u64" where
  "as_block_number_and_ts b =
     (hd_number (blk_header (pl_block (bd_payload b))), hd_timestamp (blk_header (pl_block (bd_payload b))))"

section \<open>Withdrawals\<close>

record withdrawals_outcome =
  wo_withdrawals :: "withdrawal list option"
  wo_withdrawals_root :: "b256 option"

definition pre_shanghai :: withdrawals_outcome where
  "pre_shanghai = \<lparr> wo_withdrawals = None, wo_withdrawals_root = None \<rparr>"

definition WithdrawalsOutcome_empty :: "b256 \<Rightarrow> withdrawals_outcome" where
  "WithdrawalsOutcome_empty empty_root =
     \<lparr> wo_withdrawals = Some [], wo_withdrawals_root = Some empty_root \<rparr>"

definition commit_withdrawals ::
  "('cs, 'db, 'bst, 'prov, 'blob) chain_api \<Rightarrow> 'db \<Rightarrow> 'cs \<Rightarrow> u64 \<Rightarrow> withdrawal list \<Rightarrow>
   ('db \<times> withdrawals_outcome, payload_builder_error) result"
where
  "commit_withdrawals api db chain_spec timestamp ws =
     (if \<not> api_is_shanghai_active_at_timestamp api chain_spec timestamp then Ok (db, pre_shanghai)
      else if ws = [] then Ok (db, WithdrawalsOutcome_empty (api_EMPTY_WITHDRAWALS api))
      else
        let balance_increments = api_balance_increments api chain_spec timestamp ws
        in result_bind (api_increment_balances api db balance_increments) (\<lambda>db'.
             Ok (db', \<lparr> wo_withdrawals = Some ws,
                        wo_withdrawals_root = Some (api_calculate_withdrawals_root api ws) \<rparr>)))"

section \<open>Sealing\<close>

text \<open>
  The Cancun fields of both conversions: the blob sidecars of the executed blob transactions,
  the excess blob gas and the blob gas used, or none of them before Cancun.
\<close>

definition cancun_fields ::
  "('cs, 'db, 'bst, 'prov, 'blob) chain_api \<Rightarrow> 'cs payload_config \<Rightarrow> build_config \<Rightarrow> 'bst exec_details \<Rightarrow>
   ('blob list \<times> u64 option \<times> u64 option, payload_builder_error) result"
where
  "cancun_fields api pc bc ed =
     (if api_is_cancun_active_at_timestamp api (pc_chain_spec pc) (pa_timestamp (bc_attributes bc)) then
        result_bind (api_get_all_blobs_exact api
            (map tx_hash (filter (\<lambda>tx. tx_blob_gas tx \<noteq> None) (ed_executed_txs ed)))) (\<lambda>blobs.
          let parent = bc_parent_block bc;
              excess_blob_gas =
                (if api_is_cancun_active_at_timestamp api (pc_chain_spec pc) (sb_timestamp parent)
                 then api_calculate_excess_blob_gas api (unwrap_or (sb_excess_blob_gas parent) 0)
                        (unwrap_or (sb_blob_gas_used parent) 0)
                 else api_calculate_excess_blob_gas api 0 0)
          in Ok (blobs, Some excess_blob_gas, Some (ed_cumulative_blob_gas_used ed)))
      else Ok ([], None, None))"

definition into_build ::
  "('cs, 'db, 'sdb) evm \<Rightarrow> ('cs, 'db, 'bst, 'prov, 'blob) chain_api \<Rightarrow> ('cs, 'bst) build_state \<Rightarrow>
   ('blob build, payload_builder_error) result"
where
  "into_build e api bs =
     (let bc = bs_build_config bs; pc = bs_payload_config bs; ed = bs_exec_details bs
      in result_bind (api_state_by_block_hash api (sb_hash (bc_parent_block bc))) (\<lambda>provider.
         let db = api_open_db_with_prestate api provider (unwrap_or (ed_bundle_state ed) (api_bundle_default api));
             builder_payment = unwrap_or (ed_builder_payment ed) 0
         in
         result_bind (create_builder_transfer_transaction e bs (evm_basic e db)
            (vi_fee_recipient (bc_validator_info bc)) builder_payment) (\<lambda>payment_tx.
         case execute_transaction_skip_verify e bs db payment_tx True of (this, db1, r) \<Rightarrow>
         result_bind (map_err (\<lambda>err. Internal (''Builder payment tx failed: '' @ evm_show_error e err)) r) (\<lambda>_.
         result_bind (commit_withdrawals api db1 (pc_chain_spec pc) (pa_timestamp (bc_attributes bc))
            (pa_withdrawals (bc_attributes bc))) (\<lambda>(db2, wo).
         let bundle = api_take_bundle api db2;
             receipts = ed_receipts (bs_exec_details this)
         in
         result_bind (expect (api_receipts_root_slow api bundle receipts (bc_block_number bc))) (\<lambda>receipts_root.
         result_bind (expect (api_block_logs_bloom api bundle receipts (bc_block_number bc))) (\<lambda>logs_bloom.
         result_bind (api_state_by_block_hash api (sb_hash (bc_parent_block bc))) (\<lambda>provider2.
         result_bind (api_state_root api provider2 bundle) (\<lambda>state_root.
         let transactions_root = api_calculate_transaction_root api (ed_executed_txs (bs_exec_details this))
         in
         result_bind (cancun_fields api pc bc (bs_exec_details this)) (\<lambda>(blobs, excess, blob_used).
         result_bind (expect (u256_to_u64 (bc_basefee bc))) (\<lambda>base_fee.
         let hdr = \<lparr> hd_parent_hash = sb_hash (bc_parent_block bc),
                     hd_ommers_hash = api_EMPTY_OMMER_ROOT_HASH api,
                     hd_beneficiary = be_coinbase (bc_initialized_block_env bc),
                     hd_state_root = state_root,
                     hd_transactions_root = transactions_root,
                     hd_receipts_root = receipts_root,
                     hd_withdrawals_root = wo_withdrawals_root wo,
                     hd_logs_bloom = logs_bloom,
                     hd_timestamp = pa_timestamp (bc_attributes bc),
                     hd_mix_hash = pa_prev_randao (bc_attributes bc),
                     hd_nonce = api_BEACON_NONCE api,
                     hd_base_fee_per_gas = Some base_fee,
                     hd_number = sb_number (bc_parent_block bc) + 1,
                     hd_gas_limit = bc_block_gas_limit bc,
                     hd_difficulty = 0,
                     hd_gas_used = ed_cumulative_gas_used (bs_exec_details this),
                     hd_extra_data = pc_extra_data pc,
                     hd_parent_beacon_block_root = pa_parent_beacon_block_root (bc_attributes bc),
                     hd_blob_gas_used = blob_used,
                     hd_excess_blob_gas = excess \<rparr>;
             body = ed_executed_txs (bs_exec_details this);
             block = \<lparr> blk_hash = api_seal_slow api hdr body (wo_withdrawals wo), blk_header = hdr,
                       blk_body = body, blk_withdrawals = wo_withdrawals wo \<rparr>
         in Ok \<lparr> bd_id = bs_id bs, bd_validator_info = bc_validator_info bc,
                 bd_payload = \<lparr> pl_id = pa_id (bc_attributes bc), pl_block = block,
                                pl_fees = ed_sum_fees (bs_exec_details this), pl_sidecars = blobs \<rparr>,
                 bd_bid = builder_payment \<rparr>)))))))))))"

definition into_empty_build ::
  "('cs, 'db, 'bst, 'prov, 'blob) chain_api \<Rightarrow> ('cs, 'bst) build_state \<Rightarrow>
   ('blob build, payload_builder_error) result"
where
  "into_empty_build api bs =
     (let bc = bs_build_config bs; pc = bs_payload_config bs; ed = bs_exec_details bs;
          parent_hash = sb_hash (bc_parent_block bc)
      in result_bind (api_state_by_block_hash api parent_hash) (\<lambda>provider.
         let db = api_open_db_with_prestate api provider (unwrap_or (ed_bundle_state ed) (api_bundle_default api))
         in
         result_bind (commit_withdrawals api db (pc_chain_spec pc) (pa_timestamp (bc_attributes bc))
            (pa_withdrawals (bc_attributes bc))) (\<lambda>(db2, wo).
         let bundle = api_take_bundle api db2
         in
         result_bind (api_state_by_block_hash api parent_hash) (\<lambda>provider2.
         result_bind (api_state_root api provider2 bundle) (\<lambda>state_root.
         result_bind (cancun_fields api pc bc ed) (\<lambda>(blobs, excess, blob_used).
         result_bind (expect (u256_to_u64 (bc_basefee bc))) (\<lambda>base_fee.
         let hdr = \<lparr> hd_parent_hash = parent_hash,
                     hd_ommers_hash = api_EMPTY_OMMER_ROOT_HASH api,
                     hd_beneficiary = vi_fee_recipient (bc_validator_info bc),
                     hd_state_root = state_root,
                     hd_transactions_root = api_EMPTY_TRANSACTIONS api,
                     hd_receipts_root = api_EMPTY_RECEIPTS api,
                     hd_withdrawals_root = wo_withdrawals_root wo,
                     hd_logs_bloom = replicate 256 0,
                     hd_timestamp = pa_timestamp (bc_attributes bc),
                     hd_mix_hash = pa_prev_randao (bc_attributes bc),
                     hd_nonce = api_BEACON_NONCE api,
                     hd_base_fee_per_gas = Some base_fee,
                     hd_number = sb_number (bc_parent_block bc) + 1,
                     hd_gas_limit = bc_block_gas_limit bc,
                     hd_difficulty = 0,
                     hd_gas_used = 0,
                     hd_extra_data = pc_extra_data pc,
                     hd_parent_beacon_block_root = pa_parent_beacon_block_root (bc_attributes bc),
                     hd_blob_gas_used = blob_used,
                     hd_excess_blob_gas = excess \<rparr>;
             block = \<lparr> blk_hash = api_seal_slow api hdr [] (wo_withdrawals wo), blk_header = hdr,
                       blk_body = [], blk_withdrawals = wo_withdrawals wo \<rparr>
         in Ok \<lparr> bd_id = bs_id bs, bd_validator_info = bc_validator_info bc,
                 bd_payload = \<lparr> pl_id = pa_id (bc_attributes bc), pl_block = block,
                                pl_fees = ed_sum_fees ed, pl_sidecars = blobs \<rparr>,
                 bd_bid = 0 \<rparr>)))))))"

section \<open>Lemmas\<close>

lemma execute_skip_verify_OkD:
  assumes "snd (snd (execute_transaction_skip_verify e bs db tx True)) = Ok ()"
  shows "\<exists>s. simulate_tx e bs db tx = Ok s \<and>
             fst (execute_transaction_skip_verify e bs db tx True) = fst (commit e bs db [s])"
  using assms
  by (auto simp: execute_transaction_skip_verify_def split: result.splits prod.splits)

definition payment_tx_of ::
  "('cs, 'db, 'sdb) evm \<Rightarrow> ('cs, 'bst) build_state \<Rightarrow> 'db \<Rightarrow> recovered_tx \<Rightarrow> bool"
where
  "payment_tx_of e bs db tx \<longleftrightarrow>
     create_builder_transfer_transaction e bs (evm_basic e db)
       (vi_fee_recipient (bc_validator_info (bs_build_config bs)))
       (unwrap_or (ed_builder_payment (bs_exec_details bs)) 0) = Ok tx"

lemma into_build_OkE:
  assumes "into_build e api bs = Ok b"
  obtains db tx s where
    "payment_tx_of e bs db tx" and "simulate_tx e bs db tx = Ok s"
    and "hd_gas_used (blk_header (pl_block (bd_payload b))) =
           ed_cumulative_gas_used (bs_exec_details (fst (commit e bs db [s])))"
    and "hd_gas_limit (blk_header (pl_block (bd_payload b))) = bc_block_gas_limit (bs_build_config bs)"
    and "blk_body (pl_block (bd_payload b)) = ed_executed_txs (bs_exec_details bs) @ [tx]"
    and "hd_parent_beacon_block_root (blk_header (pl_block (bd_payload b))) =
           pa_parent_beacon_block_root (bc_attributes (bs_build_config bs))"
    and "hd_timestamp (blk_header (pl_block (bd_payload b))) =
           pa_timestamp (bc_attributes (bs_build_config bs))"
    and "hd_number (blk_header (pl_block (bd_payload b))) =
           sb_number (bc_parent_block (bs_build_config bs)) + 1"
    and "bd_bid b = unwrap_or (ed_builder_payment (bs_exec_details bs)) 0"
proof -
  from assms obtain db tx where 1: "payment_tx_of e bs db tx"
    and 2: "snd (snd (execute_transaction_skip_verify e bs db tx True)) = Ok ()"
    and 3: "hd_gas_used (blk_header (pl_block (bd_payload b))) =
        ed_cumulative_gas_used (bs_exec_details (fst (execute_transaction_skip_verify e bs db tx True)))"
      "blk_body (pl_block (bd_payload b)) =
        ed_executed_txs (bs_exec_details (fst (execute_transaction_skip_verify e bs db tx True)))"
    and 4: "hd_gas_limit (blk_header (pl_block (bd_payload b))) = bc_block_gas_limit (bs_build_config bs)"
      "hd_parent_beacon_block_root (blk_header (pl_block (bd_payload b))) =
           pa_parent_beacon_block_root (bc_attributes (bs_build_config bs))"
      "hd_timestamp (blk_header (pl_block (bd_payload b))) =
           pa_timestamp (bc_attributes (bs_build_config bs))"
      "hd_number (blk_header (pl_block (bd_payload b))) =
           sb_number (bc_parent_block (bs_build_config bs)) + 1"
      "bd_bid b = unwrap_or (ed_builder_payment (bs_exec_details bs)) 0"
    unfolding into_build_def Let_def payment_tx_of_def
    by (auto simp: result_bind_Ok_iff case_prod_unfold)
  from execute_skip_verify_OkD [OF 2] obtain s where s: "simulate_tx e bs db tx = Ok s"
      "fst (execute_transaction_skip_verify e bs db tx True) = fst (commit e bs db [s])" by blast
  moreover have "st_tx s = tx"
    using s(1) simulate_tx_on_db_OkD(1) by (auto simp: simulate_tx_def)
  ultimately show ?thesis
    using 1 3 4 by (intro that [of db tx s]) (simp_all add: commit_def exec_simps)
qed

lemma payment_gas_limit:
  assumes "payment_tx_of e bs db tx"
    and "\<And>key t tx. evm_sign_and_recover e key t = Some tx \<Longrightarrow> tx_gas_limit tx = e1559_gas_limit t"
  shows "unat (tx_gas_limit tx) = 32000"
proof -
  from assms(1) obtain t where "evm_sign_and_recover e (pc_secret_key (bs_payload_config bs)) t = Some tx"
      "e1559_gas_limit t = 32000"
    by (auto simp: payment_tx_of_def create_builder_transfer_transaction_def result_bind_Ok_iff Let_def
        MAX_BUILDER_TRANSFER_GAS_LIMIT_def)
  with assms(2) have "tx_gas_limit tx = 32000" by metis
  then show ?thesis by simp
qed

lemma into_build_fields:
  assumes "into_build e api bs = Ok b"
  shows "bd_validator_info b = bc_validator_info (bs_build_config bs)"
    and "hd_parent_hash (blk_header (pl_block (bd_payload b))) = sb_hash (bc_parent_block (bs_build_config bs))"
  using assms by (auto simp: into_build_def result_bind_Ok_iff case_prod_unfold Let_def)

lemma into_build_limits:
  assumes "into_build e api bs = Ok b"
    and "build_ok e bs" and "sane_limits e G bs" and "evm_gas_sound e G"
    and "\<And>key t tx. evm_sign_and_recover e key t = Some tx \<Longrightarrow> tx_gas_limit tx = e1559_gas_limit t"
  shows "let h = blk_header (pl_block (bd_payload b)) in
         hd_gas_used h \<le> hd_gas_limit h \<and>
         (\<exists>payment. blk_body (pl_block (bd_payload b)) = ed_executed_txs (bs_exec_details bs) @ [payment]) \<and>
         hd_number h = sb_number (bc_parent_block (bs_build_config bs)) + 1 \<and>
         hd_timestamp h = pa_timestamp (bc_attributes (bs_build_config bs)) \<and>
         bd_bid b = unwrap_or (ed_builder_payment (bs_exec_details bs)) 0"
proof -
  from assms(1) obtain db tx s where *: "payment_tx_of e bs db tx" "simulate_tx e bs db tx = Ok s"
      "hd_gas_used (blk_header (pl_block (bd_payload b))) =
         ed_cumulative_gas_used (bs_exec_details (fst (commit e bs db [s])))"
      "hd_gas_limit (blk_header (pl_block (bd_payload b))) = bc_block_gas_limit (bs_build_config bs)"
    and rest: "blk_body (pl_block (bd_payload b)) = ed_executed_txs (bs_exec_details bs) @ [tx]"
      "hd_timestamp (blk_header (pl_block (bd_payload b))) =
           pa_timestamp (bc_attributes (bs_build_config bs))"
      "hd_number (blk_header (pl_block (bd_payload b))) =
           sb_number (bc_parent_block (bs_build_config bs)) + 1"
      "bd_bid b = unwrap_or (ed_builder_payment (bs_exec_details bs)) 0"
    by (rule into_build_OkE)
  have "gas_le G s" "st_tx s = tx"
    using *(2) assms(4) simulate_tx_on_db_OkD by (auto simp: simulate_tx_def)
  then have g: "unat (so_gas_used (st_outcome s)) \<le> 32000"
    using payment_gas_limit [OF *(1) assms(5)] by (simp add: gas_le_def)
  have c: "unat (ed_cumulative_gas_used (bs_exec_details bs)) + 32000
      \<le> unat (bc_block_gas_limit (bs_build_config bs))"
      "unat (bc_block_gas_limit (bs_build_config bs)) < 2 ^ 62"
    using assms(2,3) by (auto simp: build_ok_def sane_limits_def)
  have "unat (hd_gas_used (blk_header (pl_block (bd_payload b)))) =
      unat (ed_cumulative_gas_used (bs_exec_details bs)) + unat (so_gas_used (st_outcome s))"
    using g c by (simp add: *(3) commit_def exec_simps unat_add_no_overflow)
  then have "hd_gas_used (blk_header (pl_block (bd_payload b))) \<le> hd_gas_limit (blk_header (pl_block (bd_payload b)))"
    using g c by (simp add: word_le_nat_alt *(4))
  with rest show ?thesis by (simp add: Let_def)
qed

section \<open>Properties\<close>

definition sample_api :: "(unit, unit, unit, unit, unit) chain_api" where
  "sample_api =
     \<lparr> api_state_by_block_hash = (\<lambda>_. Ok ()), api_bundle_default = (), api_open_db = (\<lambda>_. ()),
       api_open_db_with_prestate = (\<lambda>_ _. ()), api_take_bundle = (\<lambda>_. ()),
       api_is_shanghai_active_at_timestamp = (\<lambda>_ _. True),
       api_is_cancun_active_at_timestamp = (\<lambda>_ _. True),
       api_balance_increments = (\<lambda>_ _ _. []), api_increment_balances = (\<lambda>db _. Ok db),
       api_calculate_withdrawals_root = (\<lambda>_. 1),
       api_receipts_root_slow = (\<lambda>_ _ _. Some 2), api_block_logs_bloom = (\<lambda>_ _ _. Some []),
       api_state_root = (\<lambda>_ _. Ok 3), api_calculate_transaction_root = (\<lambda>_. 4),
       api_get_all_blobs_exact = (\<lambda>_. Ok []), api_calculate_excess_blob_gas = (\<lambda>_ _. 0),
       api_seal_slow = (\<lambda>_ _ _. 5), api_EMPTY_WITHDRAWALS = 6, api_EMPTY_TRANSACTIONS = 7,
       api_EMPTY_RECEIPTS = 8, api_EMPTY_OMMER_ROOT_HASH = 9, api_BEACON_NONCE = 0 \<rparr>"

text \<open>
  An empty build made from a build state that has executed transactions has an empty body
  and no gas used, but its state root is computed over the state those transactions left
  behind, and it still reports their fees.
\<close>

lemma empty_build_keeps_executed_state:
  assumes "into_empty_build api bs = Ok b"
    and "ed_bundle_state (bs_exec_details bs) = Some executed_state"
    and "pa_withdrawals (bc_attributes (bs_build_config bs)) = []"
  shows "blk_body (pl_block (bd_payload b)) = [] \<and>
         hd_gas_used (blk_header (pl_block (bd_payload b))) = 0 \<and>
         (\<exists>provider. api_state_root api provider
            (api_take_bundle api (api_open_db_with_prestate api provider executed_state)) =
              Ok (hd_state_root (blk_header (pl_block (bd_payload b))))) \<and>
         pl_fees (bd_payload b) = ed_sum_fees (bs_exec_details bs)"
  using assms unfolding into_empty_build_def Let_def commit_withdrawals_def
  by (auto simp: result_bind_Ok_iff split: if_splits)

end
