(* ===== verification/Strategy.thy ===== *)
theory Strategy
  imports Block_Sealing Bundle_Pool
begin

text \<open>
  The build strategies of \<open>crates/payload/src/strategy\<close>: \<open>EmptyStrat\<close> (\<open>empty.rs\<close>), \<open>MempoolStrat\<close>
  (\<open>mempool/\<close>) and \<open>BundlesStrat\<close> (\<open>bundle/\<close>).

  The transaction pool's iterator over its best transactions is a library value: the record
  \<open>best_txs\<close> has its operations.  The loops over it run as long as the iterator yields
  transactions, so they are partial functions: \<open>None\<close> is a run that never ends.  The
  cancellation flag is read once per iteration; \<open>cancelled k\<close> is what iteration \<open>k\<close> reads.
  Cached reads are an optimisation of the state provider and are not represented.
\<close>

section \<open>Outcomes\<close>

datatype ('cs, 'bst) build_outcome =
  Better "('cs, 'bst) build_state" | Aborted u256 | BuildCancelled

datatype tx_execution = JobCancelled | ExecFailed

record 'it best_txs =
  bt_open :: "u64 \<Rightarrow> u64 option \<Rightarrow> 'it"
  bt_next :: "'it \<Rightarrow> (recovered_tx \<times> 'it) option"
  bt_mark_invalid :: "'it \<Rightarrow> recovered_tx \<Rightarrow> 'it"
  bt_skip_blobs :: "'it \<Rightarrow> 'it"
  bt_get_blob_gasprice :: "block_env \<Rightarrow> u128 option"

text \<open>\<open>BestTransactionsAttributes::new(base_fee, blob_gas_price)\<close>; the price is cast to \<open>u64\<close>.\<close>

definition open_best_txs :: "'it best_txs \<Rightarrow> block_env \<Rightarrow> u64 \<Rightarrow> 'it" where
  "open_best_txs bt benv base_fee =
     bt_open bt base_fee (map_option (\<lambda>p. ucast p) (bt_get_blob_gasprice bt benv))"

section \<open>Reaction to a failed transaction\<close>

text \<open>
  The \<open>match err\<close> shared by \<open>MempoolStrat::execute_txs\<close> and \<open>BundlesStrat::execute_mempool_txs\<close>.
\<close>

datatype failure_action = KeepGoing | MarkInvalid | SkipBlobsMarkInvalid | Fail | Unreachable

fun failure_action_of :: "exec_error \<Rightarrow> failure_action" where
  "failure_action_of (OfacAddressDetected _) = MarkInvalid"
| "failure_action_of MaxGasExceeded = MarkInvalid"
| "failure_action_of MaxBlobGasExceeded = SkipBlobsMarkInvalid"
| "failure_action_of (PayloadBuilder (EvmExecutionError (EvmTransaction NonceTooLow))) = KeepGoing"
| "failure_action_of (PayloadBuilder (EvmExecutionError (EvmTransaction _))) = MarkInvalid"
| "failure_action_of (PayloadBuilder _) = Fail"
| "failure_action_of (BuilderRefundTx _) = Unreachable"
| "failure_action_of (BundleExection _) = Unreachable"
| "failure_action_of (BundleReverted _) = Unreachable"

section \<open>Mempool transactions\<close>

text \<open>
  The result carries the state and database left behind.  \<open>committed\<close> is \<open>None\<close> for the mempool
  strategy, which keeps no set of committed hashes, and \<open>Some\<close> for the bundle strategy.
\<close>

partial_function (option) execute_mempool_loop ::
  "('cs, 'db, 'sdb) evm \<Rightarrow> 'it best_txs \<Rightarrow> (nat \<Rightarrow> bool) \<Rightarrow> nat \<Rightarrow> b256 set option \<Rightarrow> 'it \<Rightarrow>
   ('cs, 'bst) build_state \<Rightarrow> 'db \<Rightarrow>
   (('cs, 'bst) build_state \<times> 'db \<times> (unit, tx_execution) result) option"
where
  "execute_mempool_loop e bt cancelled k committed it bs db =
     (case bt_next bt it of
        None \<Rightarrow> Some (bs, db, Ok ())
      | Some (tx, it1) \<Rightarrow>
          if cancelled k then Some (bs, db, Err JobCancelled)
          else if is_ofac_tx tx then
            execute_mempool_loop e bt cancelled (Suc k) committed (bt_mark_invalid bt it1 tx) bs db
          else if is_some_and committed (\<lambda>c. tx_hash tx \<in> c) then
            execute_mempool_loop e bt cancelled (Suc k) committed it1 bs db
          else
            (case execute_transaction e bs db tx of
               (bs1, db1, r) \<Rightarrow>
                 (case r of
                    Ok _ \<Rightarrow> execute_mempool_loop e bt cancelled (Suc k)
                              (map_option (insert (tx_hash tx)) committed) it1 bs1 db1
                  | Panic \<Rightarrow> Some (bs1, db1, Panic)
                  | Err err \<Rightarrow>
                      (case failure_action_of err of
                         KeepGoing \<Rightarrow> execute_mempool_loop e bt cancelled (Suc k) committed it1 bs1 db1
                       | MarkInvalid \<Rightarrow>
                           execute_mempool_loop e bt cancelled (Suc k) committed
                             (bt_mark_invalid bt it1 tx) bs1 db1
                       | SkipBlobsMarkInvalid \<Rightarrow>
                           execute_mempool_loop e bt cancelled (Suc k) committed
                             (bt_mark_invalid bt (bt_skip_blobs bt it1) tx) bs1 db1
                       | Fail \<Rightarrow> Some (bs1, db1, Err ExecFailed)
                       | Unreachable \<Rightarrow> Some (bs1, db1, Panic)))))"

definition execute_txs ::
  "('cs, 'db, 'sdb) evm \<Rightarrow> 'it best_txs \<Rightarrow> (nat \<Rightarrow> bool) \<Rightarrow> 'it \<Rightarrow> ('cs, 'bst) build_state \<Rightarrow> 'db \<Rightarrow>
   (('cs, 'bst) build_state \<times> 'db \<times> (unit, tx_execution) result) option"
where
  "execute_txs e bt cancelled it bs db = execute_mempool_loop e bt cancelled 0 None it bs db"

definition execute_mempool_txs ::
  "('cs, 'db, 'sdb) evm \<Rightarrow> 'it best_txs \<Rightarrow> (nat \<Rightarrow> bool) \<Rightarrow> b256 set \<Rightarrow> 'it \<Rightarrow>
   ('cs, 'bst) build_state \<Rightarrow> 'db \<Rightarrow>
   (('cs, 'bst) build_state \<times> 'db \<times> (unit, tx_execution) result) option"
where
  "execute_mempool_txs e bt cancelled committed_txs it bs db =
     execute_mempool_loop e bt cancelled 0 (Some committed_txs) it bs db"

section \<open>Bundles\<close>

text \<open>\<open>filter_map(|bundle| build_state.simulate_bundle(db, bundle).ok())\<close>; a panic unwinds.\<close>

fun collect_ok :: "('a, 'e) result list \<Rightarrow> 'a list option" where
  "collect_ok [] = Some []"
| "collect_ok (Ok x # rs) = map_option (Cons x) (collect_ok rs)"
| "collect_ok (Err _ # rs) = collect_ok rs"
| "collect_ok (Panic # rs) = None"

definition decode_and_filter_bundles ::
  "('cs, 'db, 'sdb) evm \<Rightarrow> (bytes \<Rightarrow> 'signed option) \<Rightarrow> ('signed \<Rightarrow> recovered_tx option) \<Rightarrow> bool \<Rightarrow>
   bundle_pool \<Rightarrow> ('cs, 'bst) build_state \<Rightarrow> 'db \<Rightarrow> sim_bundle list option"
where
  "decode_and_filter_bundles e decode_enveloped into_ecrecovered locked pool bs db =
     (let bundles = unwrap_or (pool_bundles locked pool (bc_block_number (bs_build_config bs))
                      (pa_timestamp (bc_attributes (bs_build_config bs)))) [];
          recovered_bundles = recover_bundles decode_enveloped into_ecrecovered bundles
      in map_option sort_by_max_value (collect_ok (map (simulate_bundle e bs db) recovered_bundles)))"

fun commit_selected_loop ::
  "('cs, 'db, 'sdb) evm \<Rightarrow> b256 set \<Rightarrow> sim_bundle list \<Rightarrow> ('cs, 'bst) build_state \<Rightarrow> 'db \<Rightarrow>
   ('cs, 'bst) build_state \<times> 'db \<times> (b256 set, payload_builder_error) result"
where
  "commit_selected_loop e committed [] bs db = (bs, db, Ok committed)"
| "commit_selected_loop e committed (sb # sbs) bs db =
     (if bundle_contains_ofac sb then commit_selected_loop e committed sbs bs db
      else if contains_committed_transaction sb committed then
        commit_selected_loop e committed sbs bs db
      else
        (case execute_bundle e bs db (sbn_bundle sb) of
           (bs1, db1, r) \<Rightarrow>
             (case r of
                Ok _ \<Rightarrow> commit_selected_loop e (committed \<union> set (rb_tx_hashes (sbn_bundle sb))) sbs bs1 db1
              | Panic \<Rightarrow> (bs1, db1, Panic)
              | Err (PayloadBuilder err) \<Rightarrow> (bs1, db1, Err err)
              | Err _ \<Rightarrow> commit_selected_loop e committed sbs bs1 db1)))"

definition commit_selected_bundles ::
  "('cs, 'db, 'sdb) evm \<Rightarrow> sim_bundle list \<Rightarrow> ('cs, 'bst) build_state \<Rightarrow> 'db \<Rightarrow>
   ('cs, 'bst) build_state \<times> 'db \<times> (b256 set, payload_builder_error) result"
where
  "commit_selected_bundles e processed bs db = commit_selected_loop e {} processed bs db"

section \<open>\<open>try_build\<close>\<close>

definition best_value :: "('cs, 'bst) build_state option \<Rightarrow> u256" where
  "best_value best = (case best of None \<Rightarrow> 0 | Some b \<Rightarrow> block_value b)"

text \<open>What both strategies do after executing the mempool transactions.\<close>

definition finish_build ::
  "('cs, 'db, 'bst, 'prov, 'blob) chain_api \<Rightarrow> ('cs, 'bst) build_state option \<Rightarrow>
   ('cs, 'bst) build_state \<times> 'db \<times> (unit, tx_execution) result \<Rightarrow>
   (('cs, 'bst) build_outcome, payload_builder_error) result"
where
  "finish_build api best outcome =
     (case outcome of (bs, db, r) \<Rightarrow>
        (case r of
           Err JobCancelled \<Rightarrow> Ok BuildCancelled
         | Err ExecFailed \<Rightarrow> Ok (Aborted (block_value bs))
         | Panic \<Rightarrow> Panic
         | Ok _ \<Rightarrow>
             let bs' = with_bundle_state (api_take_bundle api db) bs;
                 current_block_value = block_value bs'
             in if current_block_value \<le> best_value best then Ok (Aborted current_block_value)
                else Ok (Better bs')))"

definition mempool_try_build ::
  "('cs, 'db, 'sdb) evm \<Rightarrow> ('cs, 'db, 'bst, 'prov, 'blob) chain_api \<Rightarrow> 'it best_txs \<Rightarrow> (nat \<Rightarrow> bool) \<Rightarrow>
   u64 \<Rightarrow> nat \<Rightarrow> 'cs payload_config \<Rightarrow> build_config \<Rightarrow> ('cs, 'bst) build_state option \<Rightarrow>
   (('cs, 'bst) build_outcome, payload_builder_error) result option"
where
  "mempool_try_build e api bt cancelled build_id now pc bc best =
     (case api_state_by_block_hash api (sb_hash (bc_parent_block bc)) of
        Err err \<Rightarrow> Some (Err err)
      | Panic \<Rightarrow> Some Panic
      | Ok provider \<Rightarrow>
          (case u256_to_u64 (be_basefee (bc_initialized_block_env bc)) of
             None \<Rightarrow> Some Panic
           | Some base_fee \<Rightarrow>
               let bs = BuildState_new build_id bc pc now
               in (case pre_block_beacon_root_contract_call e bs (api_open_db api provider) of
                     Err err \<Rightarrow> Some (Err err)
                   | Panic \<Rightarrow> Some Panic
                   | Ok db \<Rightarrow>
                       map_option (finish_build api best)
                         (execute_txs e bt cancelled
                            (open_best_txs bt (bc_initialized_block_env bc) base_fee) bs db))))"

definition bundles_try_build ::
  "('cs, 'db, 'sdb) evm \<Rightarrow> ('cs, 'db, 'bst, 'prov, 'blob) chain_api \<Rightarrow> 'it best_txs \<Rightarrow>
   (bytes \<Rightarrow> 'signed option) \<Rightarrow> ('signed \<Rightarrow> recovered_tx option) \<Rightarrow> bool \<Rightarrow> bundle_pool \<Rightarrow> (nat \<Rightarrow> bool) \<Rightarrow>
   u64 \<Rightarrow> nat \<Rightarrow> 'cs payload_config \<Rightarrow> build_config \<Rightarrow> ('cs, 'bst) build_state option \<Rightarrow>
   (('cs, 'bst) build_outcome, payload_builder_error) result option"
where
  "bundles_try_build e api bt decode_enveloped into_ecrecovered locked pool cancelled build_id now pc bc best =
     (case u256_to_u64 (be_basefee (bc_initialized_block_env bc)) of
        None \<Rightarrow> Some Panic
      | Some base_fee \<Rightarrow>
     (case api_state_by_block_hash api (sb_hash (bc_parent_block bc)) of
        Err err \<Rightarrow> Some (Err err)
      | Panic \<Rightarrow> Some Panic
      | Ok provider \<Rightarrow>
     (let bs = BuildState_new build_id bc pc now
      in case pre_block_beacon_root_contract_call e bs (api_open_db api provider) of
           Err err \<Rightarrow> Some (Err err)
         | Panic \<Rightarrow> Some Panic
         | Ok db \<Rightarrow>
     (case decode_and_filter_bundles e decode_enveloped into_ecrecovered locked pool bs db of
        None \<Rightarrow> Some Panic
      | Some processed \<Rightarrow>
     (case commit_selected_bundles e processed bs db of
        (bs1, db1, r) \<Rightarrow>
     (case r of
        Err err \<Rightarrow> Some (Err err)
      | Panic \<Rightarrow> Some Panic
      | Ok committed_txs \<Rightarrow>
          map_option (finish_build api best)
            (execute_mempool_txs e bt cancelled committed_txs
               (open_best_txs bt (bc_initialized_block_env bc) base_fee) bs1 db1)))))))"

text \<open>The empty strategy reports its build as better without comparing it.\<close>

definition empty_try_build ::
  "('cs, 'db, 'sdb) evm \<Rightarrow> ('cs, 'db, 'bst, 'prov, 'blob) chain_api \<Rightarrow> u64 \<Rightarrow> nat \<Rightarrow> 'cs payload_config \<Rightarrow>
   build_config \<Rightarrow> (('cs, 'bst) build_outcome, payload_builder_error) result"
where
  "empty_try_build e api build_id now pc bc =
     result_bind (api_state_by_block_hash api (sb_hash (bc_parent_block bc))) (\<lambda>provider.
       let bs = BuildState_new build_id bc pc now
       in result_bind (pre_block_beacon_root_contract_call e bs (api_open_db api provider)) (\<lambda>_.
            Ok (Better bs)))"

definition build_empty_payload ::
  "('cs, 'db, 'sdb) evm \<Rightarrow> ('cs, 'db, 'bst, 'prov, 'blob) chain_api \<Rightarrow> u64 \<Rightarrow> nat \<Rightarrow> 'cs payload_config \<Rightarrow>
   build_config \<Rightarrow> ('blob build, payload_builder_error) result"
where
  "build_empty_payload e api build_id now default_config bc =
     (case empty_try_build e api build_id now default_config bc of
        Ok (Better bs) \<Rightarrow> into_empty_build api bs
      | Err err \<Rightarrow> Err err
      | _ \<Rightarrow> Panic)"

section \<open>Every state a strategy passes through is reachable\<close>

lemmas execute_mempool_induct =
  execute_mempool_loop.raw_induct [rotated, consumes 1, case_names step]

text \<open>An invariant of single executions is an invariant of the whole loop.\<close>

lemma execute_mempool_invariant:
  assumes "execute_mempool_loop e bt cancelled k committed it bs db = Some res"
    and "I committed bs db"
    and "\<And>committed bs db tx bs' db' r. I committed bs db \<Longrightarrow> \<not> is_ofac_tx tx \<Longrightarrow>
           \<not> is_some_and committed (\<lambda>c. tx_hash tx \<in> c) \<Longrightarrow>
           execute_transaction e bs db tx = (bs', db', r) \<Longrightarrow>
           I (if r = Ok () then map_option (insert (tx_hash tx)) committed else committed) bs' db'"
  shows "\<exists>committed'. I committed' (fst res) (fst (snd res))"
  using assms
proof (induction rule: execute_mempool_induct)
  case (step loop e bt cancelled k committed it bs db res)
  show ?case
  proof (cases "bt_next bt it")
    case None
    with step.hyps step.prems(1) show ?thesis by auto
  next
    case (Some nxt)
    obtain tx it1 where nxt: "nxt = (tx, it1)" by (cases nxt)
    obtain bs1 db1 r where ex: "execute_transaction e bs db tx = (bs1, db1, r)"
      by (cases "execute_transaction e bs db tx")
    note next_state = step.prems(2) [OF step.prems(1) _ _ ex]
    note rest = step.IH [OF _ _ step.prems(2)]
    show ?thesis
      using step.hyps step.prems(1) next_state
      by (auto simp: Some nxt ex split: if_splits result.splits failure_action.splits intro: rest)
  qed
qed

lemma execute_mempool_loop_reach:
  assumes "execute_mempool_loop e bt cancelled k committed it bs db = Some res"
    and "build_reach e bs0 db0 bs db"
  shows "build_reach e bs0 db0 (fst res) (fst (snd res))"
  using execute_mempool_invariant [OF assms(1), of "\<lambda>_. build_reach e bs0 db0"] assms(2)
  by (auto intro: reach_tx)

text \<open>What the loop over the selected bundles does with the first of them.\<close>

lemma commit_selected_ConsE:
  assumes "commit_selected_loop e c (sb # sbs) bs db = (bs', db', r)"
  obtains (skip) "commit_selected_loop e c sbs bs db = (bs', db', r)"
  | (failed) r1 where "execute_bundle e bs db (sbn_bundle sb) = (bs', db', r1)" "r1 \<noteq> Ok ()" "\<forall>c'. r \<noteq> Ok c'"
  | (err) bs1 db1 r1 where "execute_bundle e bs db (sbn_bundle sb) = (bs1, db1, r1)" "r1 \<noteq> Ok ()"
      "commit_selected_loop e c sbs bs1 db1 = (bs', db', r)"
  | (run) bs1 db1 where "execute_bundle e bs db (sbn_bundle sb) = (bs1, db1, Ok ())"
      "\<not> bundle_contains_ofac sb" "\<not> contains_committed_transaction sb c"
      "commit_selected_loop e (c \<union> set (rb_tx_hashes (sbn_bundle sb))) sbs bs1 db1 = (bs', db', r)"
proof -
  obtain bs1 db1 r1 where ex: "execute_bundle e bs db (sbn_bundle sb) = (bs1, db1, r1)"
    by (cases "execute_bundle e bs db (sbn_bundle sb)")
  show thesis
  proof (cases "bundle_contains_ofac sb \<or> contains_committed_transaction sb c")
    case True
    with assms show ?thesis by (intro skip) (auto split: if_splits)
  next
    case False
    show ?thesis
    proof (cases r1)
      case (Ok u)
      with assms False ex show ?thesis by (intro run) simp_all
    next
      case (Err x)
      with assms False ex err [OF ex] failed show ?thesis by (cases x) auto
    next
      case Panic
      with assms False ex failed show ?thesis by simp
    qed
  qed
qed

lemma commit_selected_reach:
  assumes "commit_selected_loop e committed sbs bs db = (bs', db', r)"
    and "build_reach e bs0 db0 bs db"
    and "list_all (\<lambda>sb. length (rb_txs (sbn_bundle sb)) < 2 ^ 29) sbs"
  shows "build_reach e bs0 db0 bs' db'"
  using assms
proof (induction sbs arbitrary: committed bs db)
  case (Cons sb sbs)
  have step: "build_reach e bs0 db0 bs1 db1" if "execute_bundle e bs db (sbn_bundle sb) = (bs1, db1, r1)" for bs1 db1 r1
    using Cons.prems(2,3) that by (auto intro: reach_bundle)
  have rest: "list_all (\<lambda>sb. length (rb_txs (sbn_bundle sb)) < 2 ^ 29) sbs" using Cons.prems(3) by simp
  from Cons.prems(1) show ?case
    by (cases rule: commit_selected_ConsE) (use Cons.IH Cons.prems(2) step rest in blast)+
qed simp

text \<open>No execution changes what is built or for whom.\<close>

lemma execute_mempool_loop_configs:
  fixes db :: 'db
  assumes "execute_mempool_loop e bt cancelled k committed it bs db = Some res"
    and "bs_payload_config bs = pc" and "bs_build_config bs = bc"
  shows "bs_payload_config (fst res) = pc \<and> bs_build_config (fst res) = bc"
proof -
  let ?I = "\<lambda>(_ :: b256 set option) bs' (_ :: 'db). bs_payload_config bs' = pc \<and> bs_build_config bs' = bc"
  have "\<exists>committed'. ?I committed' (fst res) (fst (snd res))"
  proof (rule execute_mempool_invariant [OF assms(1)])
    show "?I committed bs db" using assms(2,3) by simp
  next
    fix c bs1 db1 tx bs2 db2 r
    assume "?I c bs1 db1" and "execute_transaction e bs1 db1 tx = (bs2, db2, r)"
    with execute_configs(1) [OF this(2)]
    show "?I (if r = Ok () then map_option (insert (tx_hash tx)) c else c) bs2 db2" by simp
  qed
  then show ?thesis by simp
qed

lemma commit_selected_configs:
  "commit_selected_loop e committed sbs bs db = (bs', db', r) \<Longrightarrow>
     bs_payload_config bs' = bs_payload_config bs \<and> bs_build_config bs' = bs_build_config bs"
proof (induction sbs arbitrary: committed bs db)
  case (Cons sb sbs)
  from Cons.prems show ?case
    by (cases rule: commit_selected_ConsE) (auto dest!: Cons.IH execute_configs(2))
qed simp

section \<open>Which transactions a strategy executes\<close>

text \<open>
  Of the executed transactions, those not signed by the builder: never blacklisted, and for the
  bundle strategy all recorded as committed and, if \<open>d\<close>, never twice the same.
\<close>

definition foreign :: "address \<Rightarrow> recovered_tx list \<Rightarrow> recovered_tx list" where
  "foreign builder txs = filter (\<lambda>tx. tx_signer tx \<noteq> builder) txs"

definition clean_txs :: "bool \<Rightarrow> address \<Rightarrow> b256 set option \<Rightarrow> recovered_tx list \<Rightarrow> bool" where
  "clean_txs d builder committed txs \<longleftrightarrow>
     list_all (\<lambda>tx. \<not> is_ofac_tx tx) (foreign builder txs) \<and>
     (case committed of None \<Rightarrow> True
      | Some c \<Rightarrow> (d \<longrightarrow> distinct (map tx_hash (foreign builder txs))) \<and>
                  tx_hash ` set (foreign builder txs) \<subseteq> c)"

lemma foreign_append [simp]: "foreign a (xs @ ys) = foreign a xs @ foreign a ys"
  by (simp add: foreign_def)

lemma clean_snoc:
  assumes "clean_txs d builder committed txs" and "\<not> is_ofac_tx tx"
    and "\<not> is_some_and committed (\<lambda>c. tx_hash tx \<in> c)"
  shows "clean_txs d builder (map_option (insert (tx_hash tx)) committed) (txs @ [tx])"
  using assms
  by (auto simp: clean_txs_def is_some_and_def foreign_def split: option.splits)

lemma clean_bundle:
  assumes "clean_txs d builder (Some c) txs"
    and "list_all (\<lambda>tx. \<not> is_ofac_tx tx) new" and "d \<Longrightarrow> distinct (map tx_hash new)"
    and "list_all (\<lambda>tx. tx_hash tx \<notin> c) new"
    and "list_all (\<lambda>tx. tx_signer tx = builder) refund"
  shows "clean_txs d builder (Some (c \<union> set (map tx_hash new))) (txs @ new @ refund)"
proof -
  have r: "foreign builder refund = []"
    using assms(5) by (auto simp: foreign_def list_all_iff filter_empty_conv)
  have "d \<Longrightarrow> distinct (map tx_hash (foreign builder new))"
    using assms(3) by (simp add: foreign_def distinct_map_filter)
  moreover have "set (foreign builder new) \<subseteq> set new" by (auto simp: foreign_def)
  ultimately show ?thesis
    using assms r by (fastforce simp: clean_txs_def list_all_iff)
qed

lemma execute_mempool_clean:
  fixes db :: 'db
  assumes "execute_mempool_loop e bt cancelled k committed it bs db = Some res"
    and "clean_txs d builder committed (ed_executed_txs (bs_exec_details bs))"
  shows "\<exists>committed'. clean_txs d builder committed' (ed_executed_txs (bs_exec_details (fst res))) \<and>
           (committed' = None \<longleftrightarrow> committed = None)"
proof -
  let ?I = "\<lambda>c bs (db :: 'db). clean_txs d builder c (ed_executed_txs (bs_exec_details bs)) \<and>
              (c = None \<longleftrightarrow> committed = None)"
  have step: "?I (if r = Ok () then map_option (insert (tx_hash tx)) c else c) bs' db'"
    if "?I c bs db" "\<not> is_ofac_tx tx" "\<not> is_some_and c (\<lambda>c. tx_hash tx \<in> c)"
      "execute_transaction e bs db tx = (bs', db', r)" for c bs db tx bs' db' r
    using that clean_snoc [of d builder c "ed_executed_txs (bs_exec_details bs)" tx]
      execute_transaction_cases [OF that(4)] execute_transaction_executed [of e bs db tx bs' db']
    by auto
  have "\<exists>c'. ?I c' (fst res) (fst (snd res))"
    by (rule execute_mempool_invariant [where I = ?I, OF assms(1)]) (simp add: assms(2), rule step)
  then show ?thesis .
qed

lemma commit_selected_clean:
  assumes "commit_selected_loop e c sbs bs db = (bs', db', r)"
    and "clean_txs d (pc_builder_address (bs_payload_config bs)) (Some c)
           (ed_executed_txs (bs_exec_details bs))"
    and "d \<Longrightarrow> list_all (\<lambda>sb. nonces_checked e (sbn_bundle sb)) sbs"
    and "\<And>tx. builder_signed e bs tx \<Longrightarrow> tx_signer tx = pc_builder_address (bs_payload_config bs)"
  shows "bs_payload_config bs' = bs_payload_config bs \<and>
         (\<forall>c'. r = Ok c' \<longrightarrow> clean_txs d (pc_builder_address (bs_payload_config bs)) (Some c')
            (ed_executed_txs (bs_exec_details bs')))"
  using assms
proof (induction sbs arbitrary: c bs db)
  case Nil
  then show ?case by auto
next
  case (Cons sb sbs)
  let ?rb = "sbn_bundle sb" and ?own = "\<lambda>tx. tx_signer tx = pc_builder_address (bs_payload_config bs)"
  have rest: "d \<Longrightarrow> list_all (\<lambda>sb. nonces_checked e (sbn_bundle sb)) sbs"
    using Cons.prems(3) by simp
  from Cons.prems(1) show ?case
  proof (cases rule: commit_selected_ConsE)
    case skip
    from Cons.IH [OF this Cons.prems(2) rest Cons.prems(4)] show ?thesis .
  next
    case (failed r1)
    with execute_configs(2) [OF failed(1)] show ?thesis by simp
  next
    case (err bs1 db1 r1)
    with execute_bundle_cases [OF err(1)] have "bs1 = bs" by auto
    with err(3) Cons.IH [OF _ Cons.prems(2) rest Cons.prems(4)] show ?thesis by blast
  next
    case (run bs1 db1)
    have cfg: "bs_payload_config bs1 = bs_payload_config bs"
      by (rule execute_configs(2) [OF run(1), THEN conjunct1])
    have signed: "builder_signed e bs1 tx \<longleftrightarrow> builder_signed e bs tx" for tx
      by (simp add: builder_signed_def cfg)
    obtain refund where ref: "ed_executed_txs (bs_exec_details bs1) =
        ed_executed_txs (bs_exec_details bs) @ rb_txs ?rb @ refund" "list_all (builder_signed e bs) refund"
      using execute_bundle_executed [OF run(1)] by auto
    have "list_all ?own refund" using ref(2) Cons.prems(4) by (auto simp: list_all_iff)
    have "d \<Longrightarrow> distinct (map tx_hash (rb_txs ?rb))"
      using execute_bundle_nonces [OF run(1)] Cons.prems(3) by (simp add: rb_tx_hashes_def)
    with \<open>list_all ?own refund\<close> Cons.prems(2) run(2,3) have "clean_txs d (pc_builder_address (bs_payload_config bs))
        (Some (c \<union> set (rb_tx_hashes ?rb))) (ed_executed_txs (bs_exec_details bs1))"
      unfolding ref(1) rb_tx_hashes_def
      by (intro clean_bundle) (auto simp: rb_tx_hashes_def bundle_contains_ofac_def
          contains_committed_transaction_def list_all_iff list_ex_iff)
    with Cons.IH [OF run(4) _ rest] Cons.prems(4) show ?thesis by (simp add: cfg signed)
  qed
qed

section \<open>Termination\<close>

text \<open>
  An iterator over a finite pool: some measure decreases with every transaction yielded and
  is not increased by removing invalid or blob transactions.
\<close>

definition finite_iterator :: "'it best_txs \<Rightarrow> ('it \<Rightarrow> nat) \<Rightarrow> bool" where
  "finite_iterator bt m \<longleftrightarrow>
     (\<forall>it tx it'. bt_next bt it = Some (tx, it') \<longrightarrow> m it' < m it) \<and>
     (\<forall>it tx. m (bt_mark_invalid bt it tx) \<le> m it) \<and> (\<forall>it. m (bt_skip_blobs bt it) \<le> m it)"

lemma execute_mempool_loop_returns:
  assumes "finite_iterator bt m"
  shows "\<exists>res. execute_mempool_loop e bt cancelled k committed it bs db = Some res"
proof (induction "m it" arbitrary: k committed it bs db rule: less_induct)
  case less
  show ?case
  proof (cases "bt_next bt it")
    case None
    then show ?thesis by (simp add: execute_mempool_loop.simps)
  next
    case (Some nxt)
    obtain tx it1 where nxt: "nxt = (tx, it1)" by (cases nxt)
    have m: "m it1 < m it" "\<And>tx. m (bt_mark_invalid bt it1 tx) < m it"
        "\<And>tx. m (bt_mark_invalid bt (bt_skip_blobs bt it1) tx) < m it"
      using assms Some nxt unfolding finite_iterator_def by (meson le_less_trans)+
    obtain bs1 db1 r where ex: "execute_transaction e bs db tx = (bs1, db1, r)"
      by (cases "execute_transaction e bs db tx")
    show ?thesis
      using less.hyps [OF m(1)] less.hyps [OF m(2)] less.hyps [OF m(3)]
      by (subst execute_mempool_loop.simps)
        (auto simp: Some nxt ex split: result.splits failure_action.splits)
  qed
qed

section \<open>Contract of a strategy\<close>

text \<open>
  What the payload jobs rely on: a build reported as better is worth strictly more than the
  best build the strategy was given.
\<close>

definition keep_better ::
  "(('cs, 'bst) build_outcome, payload_builder_error) result option \<Rightarrow> ('cs, 'bst) build_state option \<Rightarrow>
   ('cs, 'bst) build_state option"
where
  "keep_better outcome best = (case outcome of Some (Ok (Better bs)) \<Rightarrow> Some bs | _ \<Rightarrow> best)"

locale build_strategy =
  fixes try_build :: "('cs, 'bst) build_state option \<Rightarrow>
    (('cs, 'bst) build_outcome, payload_builder_error) result option"
  assumes better: "try_build best = Some (Ok (Better bs)) \<Longrightarrow> best_value best < block_value bs"
begin

lemma keep_better_mono: "best_value best \<le> best_value (keep_better (try_build best) best)"
  using better [of best]
  by (auto simp: keep_better_def best_value_def split: option.splits result.splits build_outcome.splits)

lemma attempts_mono:
  "best_value best \<le> best_value (((\<lambda>b. keep_better (try_build b) b) ^^ n) best)"
proof (induction n)
  case 0
  then show ?case by simp
next
  case (Suc n)
  with keep_better_mono show ?case by (auto intro: order_trans)
qed

end

lemma finish_build_better:
  "finish_build api best outcome = Ok (Better bs) \<Longrightarrow>
     best_value best < block_value bs \<and>
     (\<exists>bs0 db. outcome = (bs0, db, Ok ()) \<and> bs = with_bundle_state (api_take_bundle api db) bs0)"
  by (auto simp: finish_build_def Let_def not_le split: prod.splits result.splits tx_execution.splits if_splits)

lemma mempool_try_build_BetterE:
  assumes "mempool_try_build e api bt cancelled build_id now pc bc best = Some (Ok (Better bs))"
  obtains db0 it bs0 db where
    "execute_txs e bt cancelled it (BuildState_new build_id bc pc now) db0 = Some (bs0, db, Ok ())"
    and "bs = with_bundle_state (api_take_bundle api db) bs0" and "best_value best < block_value bs"
  using assms
  by (fastforce simp: mempool_try_build_def Let_def split: result.splits option.splits
      dest: finish_build_better)

lemma bundles_try_build_BetterE:
  fixes bs :: "('cs, 'bst) build_state"
  assumes "bundles_try_build e api bt dec rec locked pool cancelled build_id now pc bc best
             = Some (Ok (Better bs))"
  obtains db0 processed bs1 db1 committed it bs0 db where
    "decode_and_filter_bundles e dec rec locked pool
       (BuildState_new build_id bc pc now :: ('cs, 'bst) build_state) db0 = Some processed"
    and "commit_selected_bundles e processed (BuildState_new build_id bc pc now) db0 = (bs1, db1, Ok committed)"
    and "execute_mempool_txs e bt cancelled committed it bs1 db1 = Some (bs0, db, Ok ())"
    and "bs = with_bundle_state (api_take_bundle api db) bs0" and "best_value best < block_value bs"
  using assms
  by (fastforce simp: bundles_try_build_def Let_def split: result.splits option.splits prod.splits
      dest: finish_build_better)

interpretation mempool: build_strategy "mempool_try_build e api bt cancelled build_id now pc bc"
  for e api bt cancelled build_id now pc bc
  by unfold_locales (erule mempool_try_build_BetterE)

interpretation bundles: build_strategy
  "bundles_try_build e api bt dec rec locked pool cancelled build_id now pc bc"
  for e api bt dec rec locked pool cancelled build_id now pc bc
  by unfold_locales (erule bundles_try_build_BetterE)

section \<open>Properties\<close>

lemma collect_ok_mem: "collect_ok rs = Some xs \<Longrightarrow> x \<in> set xs \<Longrightarrow> Ok x \<in> set rs"
  by (induction rs arbitrary: xs rule: collect_ok.induct) auto

lemma decode_and_filter_mem:
  assumes "decode_and_filter_bundles e dec rec locked pool bs db = Some processed"
    and "sb \<in> set processed"
  shows "sbn_bundle sb \<in> set (recover_bundles dec rec
           (unwrap_or (pool_bundles locked pool (bc_block_number (bs_build_config bs))
              (pa_timestamp (bc_attributes (bs_build_config bs)))) []))"
proof -
  from assms obtain rb where "rb \<in> set (recover_bundles dec rec
           (unwrap_or (pool_bundles locked pool (bc_block_number (bs_build_config bs))
              (pa_timestamp (bc_attributes (bs_build_config bs)))) []))"
      and sim: "simulate_bundle e bs db rb = Ok sb"
    by (auto simp: decode_and_filter_bundles_def Let_def sort_by_max_value_def dest!: collect_ok_mem)
  moreover have "sbn_bundle sb = rb" using sim by (rule simulate_bundle_OkE)
  ultimately show ?thesis by simp
qed

definition pool_rbs ::
  "(bytes \<Rightarrow> 'signed option) \<Rightarrow> ('signed \<Rightarrow> recovered_tx option) \<Rightarrow> bool \<Rightarrow> bundle_pool \<Rightarrow> build_config \<Rightarrow>
   recovered_bundle list"
where
  "pool_rbs dec rec locked pool bc =
     recover_bundles dec rec
       (unwrap_or (pool_bundles locked pool (bc_block_number bc) (pa_timestamp (bc_attributes bc))) [])"

lemma new_state_fields [simp]:
  "bs_payload_config (BuildState_new i bc pc t) = pc"
  "bc_block_number (bs_build_config (BuildState_new i bc pc t)) = bc_block_number bc"
  "bc_attributes (bs_build_config (BuildState_new i bc pc t)) = bc_attributes bc"
  "ed_executed_txs (bs_exec_details (BuildState_new i bc pc t)) = []"
  by (simp_all add: BuildState_new_def block_env_with_coinbase_def ExecutionDetails_default_def)

lemma build_ok_with_bundle_state [simp]: "build_ok e (with_bundle_state x bs) \<longleftrightarrow> build_ok e bs"
  by (simp add: build_ok_def with_bundle_state_def set_bundle_state_def receipts_inv_def)

lemma executed_with_bundle_state [simp]:
  "ed_executed_txs (bs_exec_details (with_bundle_state x bs)) = ed_executed_txs (bs_exec_details bs)"
  by (simp add: with_bundle_state_def set_bundle_state_def)

lemma bundles_better_configs:
  fixes bs :: "('cs, 'bst) build_state"
  assumes "bundles_try_build e api bt dec rec locked pool cancelled build_id now pc bc best
             = Some (Ok (Better bs))"
  shows "bs_payload_config bs = pc \<and> bs_build_config bs = block_env_with_coinbase (pc_builder_address pc) bc"
proof -
  let ?bs0 = "BuildState_new build_id bc pc now :: ('cs, 'bst) build_state"
  obtain db0 processed bs1 db1 committed it bs2 db where
    *: "commit_selected_bundles e processed ?bs0 db0 = (bs1, db1, Ok committed)"
      "execute_mempool_txs e bt cancelled committed it bs1 db1 = Some (bs2, db, Ok ())"
      "bs = with_bundle_state (api_take_bundle api db) bs2"
    using bundles_try_build_BetterE [OF assms] by metis
  show ?thesis
    using commit_selected_configs [OF *(1) [unfolded commit_selected_bundles_def]]
      execute_mempool_loop_configs [OF *(2) [unfolded execute_mempool_txs_def] refl refl]
    by (simp add: *(3) with_bundle_state_def BuildState_new_def)
qed

lemma bundles_better_clean:
  fixes bs :: "('cs, 'bst) build_state"
  assumes "bundles_try_build e api bt dec rec locked pool cancelled build_id now pc bc best
             = Some (Ok (Better bs))"
    and "\<And>t tx. evm_sign_and_recover e (pc_secret_key pc) t = Some tx \<Longrightarrow>
           tx_signer tx = pc_builder_address pc"
  defines "txs \<equiv> foreign (pc_builder_address pc) (ed_executed_txs (bs_exec_details bs))"
  shows "list_all (\<lambda>tx. \<not> is_ofac_tx tx) txs"
    and "list_all (nonces_checked e) (pool_rbs dec rec locked pool bc) \<Longrightarrow> distinct (map tx_hash txs)"
proof -
  let ?bs0 = "BuildState_new build_id bc pc now :: ('cs, 'bst) build_state"
  obtain db0 processed bs1 db1 committed it bs2 db where
    *: "decode_and_filter_bundles e dec rec locked pool ?bs0 db0 = Some processed"
      "commit_selected_bundles e processed ?bs0 db0 = (bs1, db1, Ok committed)"
      "execute_mempool_txs e bt cancelled committed it bs1 db1 = Some (bs2, db, Ok ())"
      "bs = with_bundle_state (api_take_bundle api db) bs2"
    using bundles_try_build_BetterE [OF assms(1)] by metis
  let ?d = "list_all (nonces_checked e) (pool_rbs dec rec locked pool bc)"
  have nonces: "?d \<Longrightarrow> list_all (\<lambda>sb. nonces_checked e (sbn_bundle sb)) processed"
    using decode_and_filter_mem [OF *(1)] by (auto simp: list_all_iff pool_rbs_def)
  have init: "clean_txs ?d (pc_builder_address (bs_payload_config ?bs0)) (Some {})
      (ed_executed_txs (bs_exec_details ?bs0))"
    by (simp add: clean_txs_def foreign_def)
  have "clean_txs ?d (pc_builder_address pc) (Some committed) (ed_executed_txs (bs_exec_details bs1))"
    using commit_selected_clean [OF *(2) [unfolded commit_selected_bundles_def] init nonces] assms(2)
    by (auto simp: builder_signed_def)
  from execute_mempool_clean [OF *(3) [unfolded execute_mempool_txs_def] this]
  obtain c where "clean_txs ?d (pc_builder_address pc) (Some c) (ed_executed_txs (bs_exec_details bs2))"
    by auto
  then show "list_all (\<lambda>tx. \<not> is_ofac_tx tx) txs" "?d \<Longrightarrow> distinct (map tx_hash txs)"
    by (auto simp: *(4) clean_txs_def txs_def)
qed

lemma bundles_better_within_limits:
  fixes bs :: "('cs, 'bst) build_state"
  assumes "bundles_try_build e api bt dec rec locked pool cancelled build_id now pc bc best
             = Some (Ok (Better bs))"
    and "list_all (\<lambda>rb. length (rb_txs rb) < 2 ^ 29) (pool_rbs dec rec locked pool bc)"
    and "32000 \<le> unat (bc_block_gas_limit bc)"
    and "sane_limits e G (BuildState_new build_id bc pc now :: ('cs, 'bst) build_state)"
    and "evm_gas_sound e G"
  shows "build_ok e bs"
proof -
  let ?bs0 = "BuildState_new build_id bc pc now :: ('cs, 'bst) build_state"
  obtain db0 processed bs1 db1 committed it bs2 db where
    *: "decode_and_filter_bundles e dec rec locked pool ?bs0 db0 = Some processed"
      "commit_selected_bundles e processed ?bs0 db0 = (bs1, db1, Ok committed)"
      "execute_mempool_txs e bt cancelled committed it bs1 db1 = Some (bs2, db, Ok ())"
      "bs = with_bundle_state (api_take_bundle api db) bs2"
    using bundles_try_build_BetterE [OF assms(1)] by metis
  have len: "list_all (\<lambda>sb. length (rb_txs (sbn_bundle sb)) < 2 ^ 29) processed"
    using assms(2) decode_and_filter_mem [OF *(1)] by (auto simp: list_all_iff pool_rbs_def)
  have "build_reach e ?bs0 db0 bs1 db1"
    using commit_selected_reach [OF *(2) [unfolded commit_selected_bundles_def] reach_init len] .
  from execute_mempool_loop_reach [OF *(3) [unfolded execute_mempool_txs_def] this]
  have "build_reach e ?bs0 db0 bs2 db" by simp
  from reach_build_ok [OF this build_ok_new [OF assms(3)] assms(4,5)]
  show ?thesis by (simp add: *(4))
qed

text \<open>
  A build either strategy reports as better is worth strictly more than the best build so
  far, so keeping the better build over any number of attempts never lowers the best value.
\<close>

lemma strategies_never_lower_best:
  "best_value best \<le> best_value
     (((\<lambda>b. keep_better (bundles_try_build e api bt dec rec locked pool cancelled build_id now pc bc b) b)
        ^^ n) best) \<and>
   best_value best \<le> best_value
     (((\<lambda>b. keep_better (mempool_try_build e api bt cancelled build_id now pc bc b) b) ^^ n) best)"
  by (intro conjI bundles.attempts_mono mempool.attempts_mono)

text \<open>
  C29: Both strategies return: with an iterator over a finite pool no attempt runs forever,
  whatever transactions fail and however they are marked.
\<close>

theorem strategies_return:
  assumes "finite_iterator bt m"
  shows "(\<exists>r. bundles_try_build e api bt dec rec locked pool cancelled build_id now pc bc best = Some r) \<and>
         (\<exists>r. mempool_try_build e api bt cancelled build_id now pc bc best = Some r)"
proof -
  have "\<exists>res. execute_mempool_txs e bt cancelled c it bs db = Some res" for c it bs db
    unfolding execute_mempool_txs_def by (rule execute_mempool_loop_returns [OF assms])
  moreover have "\<exists>res. execute_txs e bt cancelled it bs db = Some res" for it bs db
    unfolding execute_txs_def by (rule execute_mempool_loop_returns [OF assms])
  ultimately show ?thesis
    by (auto simp: bundles_try_build_def mempool_try_build_def Let_def
        split: option.splits result.splits prod.splits)
qed

text \<open>
  Executing a single transaction never reports a blacklisted account: the accounts its
  execution touched are only screened for bundles, so the \<open>OfacAddressDetected\<close> branch of both
  mempool loops is dead, and a mempool transaction is screened by signer and recipient alone.
\<close>

lemma mempool_execution_not_screened:
  "snd (snd (execute_transaction e bs db tx)) \<noteq> Err (OfacAddressDetected a)"
  by (auto simp: execute_transaction_def execute_transaction_skip_verify_def
      verify_simulated_transaction_def verify_capacity_def split: result.splits prod.splits)

text \<open>A concrete run: a mempool that offers one transaction twice and a second one.\<close>

definition sample_best_txs :: "recovered_tx list best_txs" where
  "sample_best_txs =
     \<lparr> bt_open = (\<lambda>_ _. [sample_tx 1, sample_tx 1, sample_tx 2]),
       bt_next = (\<lambda>it. case it of [] \<Rightarrow> None | tx # txs \<Rightarrow> Some (tx, txs)),
       bt_mark_invalid = (\<lambda>it _. it), bt_skip_blobs = (\<lambda>it. it),
       bt_get_blob_gasprice = (\<lambda>_. None) \<rparr>"

definition sample_out :: sim_outcome where
  "sample_out =
     \<lparr> so_evm_result = \<lparr> er_success = True, er_gas_used = 21000, er_logs = [] \<rparr>, so_evm_state = [],
       so_gas_used = 21000, so_blob_gas_used = 0, so_fees = 42000, so_coinbase_transfer = 0 \<rparr>"

definition sample_committed :: "b256 list \<Rightarrow> (unit, unit) build_state" where
  "sample_committed hs =
     sample_state\<lparr> bs_exec_details :=
       fold commit_tx (map (\<lambda>h. \<lparr> st_tx = sample_tx h, st_outcome = sample_out \<rparr>) hs)
         (bs_exec_details sample_state) \<rparr>"

lemma sample_config_simps:
  "bs_build_config (sample_committed hs) = bs_build_config sample_state"
  "bc_initialized_block_env (bs_build_config sample_state) =
     \<lparr> be_number = 7, be_coinbase = 9, be_basefee = 10, be_rest = [] \<rparr>"
  "bc_block_gas_limit (bs_build_config sample_state) = 30000000"
  by (simp_all add: sample_committed_def sample_state_def BuildState_new_def sample_config_def
      block_env_with_coinbase_def sample_payload_config_def)

lemma sample_totals:
  "ed_cumulative_gas_used (bs_exec_details (sample_committed hs)) =
     sum_gas (map (\<lambda>h. \<lparr> st_tx = sample_tx h, st_outcome = sample_out \<rparr>) hs)"
  "ed_cumulative_blob_gas_used (bs_exec_details (sample_committed hs)) =
     sum_blob_gas (map (\<lambda>h. \<lparr> st_tx = sample_tx h, st_outcome = sample_out \<rparr>) hs)"
  "ed_executed_txs (bs_exec_details (sample_committed hs)) = map sample_tx hs"
  "block_value (sample_committed hs) =
     sum_value (map (\<lambda>h. \<lparr> st_tx = sample_tx h, st_outcome = sample_out \<rparr>) hs)"
  by (simp_all add: sample_committed_def exec_simps sample_state_def BuildState_new_def
      ExecutionDetails_default_def comp_def block_value_def)

lemma sample_executes:
  assumes "length hs = 0 \<or> length hs = 1"
  shows "execute_transaction sample_evm (sample_committed hs) () (sample_tx h) =
           (sample_committed (hs @ [h]), (), Ok ())"
proof -
  have sim: "simulate_tx sample_evm (sample_committed hs) () (sample_tx h) =
      Ok \<lparr> st_tx = sample_tx h, st_outcome = sample_out \<rparr>"
    by (simp add: simulate_tx_def simulate_tx_on_db_def sample_evm_simps sample_config_simps
        tx_outcome_def sample_out_def u256_from_u128_def u256_from_u64_def balance_of_def
        saturating_sub_def sample_tx_def Let_def)
      (simp add: sample_evm_simps [unfolded sample_tx_def])
  have "verify_capacity sample_evm (sample_committed hs) 21000 0 = Ok ()"
    using assms by (cases hs)
      (auto simp: verify_capacity_def sample_config_simps sample_totals sample_out_def
        MAX_BUILDER_TRANSFER_GAS_LIMIT_def sample_evm_simps)
  moreover have "so_gas_used sample_out = 21000" "so_blob_gas_used sample_out = 0"
    by (simp_all add: sample_out_def)
  moreover have "commit sample_evm (sample_committed hs) () [\<lparr> st_tx = sample_tx h, st_outcome = sample_out \<rparr>]
      = (sample_committed (hs @ [h]), ())"
    by (simp add: commit_def sample_committed_def)
  ultimately show ?thesis
    by (simp add: execute_transaction_def execute_transaction_skip_verify_def sim
        verify_simulated_transaction_def)
qed

lemma sample_not_ofac: "\<not> is_ofac_tx (sample_tx h)"
  by (simp add: is_ofac_tx_iff is_some_and_def sample_tx_def small_not_ofac)

lemma sample_loop:
  "execute_mempool_txs sample_evm sample_best_txs (\<lambda>_. False) {}
     [sample_tx 1, sample_tx 1, sample_tx 2] sample_state () =
   Some (sample_committed [1, 2], (), Ok ())"
proof -
  have s0: "sample_state = sample_committed []" by (simp add: sample_committed_def)
  have h: "tx_hash (sample_tx h) = h" for h by (simp add: sample_tx_def)
  note step = execute_mempool_loop.simps [of sample_evm sample_best_txs]
  show ?thesis
    unfolding execute_mempool_txs_def s0
    apply (subst step, simp add: sample_best_txs_def sample_not_ofac is_some_and_def sample_executes h)
    apply (subst step [unfolded sample_best_txs_def], simp add: sample_not_ofac is_some_and_def h)
    apply (subst step [unfolded sample_best_txs_def], simp add: sample_not_ofac is_some_and_def sample_executes h)
    apply (subst step [unfolded sample_best_txs_def], simp)
    done
qed

lemma sample_build:
  "bundles_try_build sample_evm sample_api sample_best_txs (\<lambda>_. None :: unit option) (\<lambda>_. None) True
     BundlePool_new (\<lambda>_. False) 1 0 sample_payload_config sample_config None =
   Some (Ok (Better (with_bundle_state () (sample_committed [1, 2]))))"
proof -
  have "pool_bundles True BundlePool_new n t = Some []" for n t
    by (simp add: pool_bundles_def BundlePool_new_def BundlePoolInner_new_def inner_bundles_def)
  then have d: "decode_and_filter_bundles sample_evm (\<lambda>_. None :: unit option) (\<lambda>_. None) True BundlePool_new
      sample_state () = Some []"
    by (simp add: decode_and_filter_bundles_def recover_bundles_Nil sort_by_max_value_def sort_desc_def)
  have v: "block_value (with_bundle_state () (sample_committed [1, 2])) = 84000"
    using sample_totals(4) [of "[1, 2]"]
    by (simp add: block_value_def with_bundle_state_def set_bundle_state_def sample_out_def)
  have it: "open_best_txs sample_best_txs benv f = [sample_tx 1, sample_tx 1, sample_tx 2]" for benv f
    by (simp add: open_best_txs_def sample_best_txs_def)
  have api: "api_state_by_block_hash sample_api h = Ok ()" "api_take_bundle sample_api db = ()"
      "pre_block_beacon_root_contract_call sample_evm bs () = Ok ()"
      "u256_to_u64 (be_basefee (bc_initialized_block_env sample_config)) = Some 10" for h db bs
    by (simp_all add: sample_api_def pre_block_beacon_root_contract_call_def sample_evm_def
        sample_config_def u256_to_u64_def)
  have "sample_state = BuildState_new 1 sample_config sample_payload_config 0"
    by (simp add: sample_state_def)
  note st = this [symmetric]
  show ?thesis
    by (simp add: bundles_try_build_def api st d commit_selected_bundles_def it sample_loop
        finish_build_def v best_value_def Let_def)
qed

lemma sample_pool_rbs:
  "pool_rbs (\<lambda>_. None :: unit option) (\<lambda>_. None) True BundlePool_new sample_config = []"
  by (simp add: pool_rbs_def pool_bundles_def BundlePool_new_def BundlePoolInner_new_def
      inner_bundles_def recover_bundles_Nil)

theorem strategies_return_witness:
  "\<exists>r. mempool_try_build sample_evm sample_api sample_best_txs (\<lambda>_. False) 1 0 sample_payload_config
     sample_config None = Some r"
proof -
  have "finite_iterator sample_best_txs length"
    by (auto simp: finite_iterator_def sample_best_txs_def split: list.splits)
  from strategies_return [OF this] show ?thesis by blast
qed

end
