(* ===== verification/Execution_Db.thy ===== *)
theory Execution_Db
  imports Builder_Prelude
begin

text \<open>
  The database wrapper of \<open>payload/src/strategy/state/db.rs\<close>.  A simulation runs on a cache over a
  shared reference to the execution database.  revm's \<open>Database\<close> reads through \<open>&mut self\<close>, its
  \<open>DatabaseRef\<close> through \<open>&self\<close>; \<open>ExecutionDBRef\<close> gives the second from the first with a \<open>RefCell\<close>, whose
  content is the state that the reads pass on here.  Every read borrows the cell only for itself, so
  the borrow never fails.

  The contract of a database whose reads do not change its answers is the locale \<open>lawful_database\<close>;
  revm's \<open>CacheDB\<close> is a parameter.
\<close>

section \<open>The two kinds of databases\<close>

record ('db, 'info, 'code, 'err) database =
  db_basic :: "'db \<Rightarrow> address \<Rightarrow> ('info option, 'err) result \<times> 'db"
  db_code_by_hash :: "'db \<Rightarrow> b256 \<Rightarrow> ('code, 'err) result \<times> 'db"
  db_storage :: "'db \<Rightarrow> address \<Rightarrow> u256 \<Rightarrow> (u256, 'err) result \<times> 'db"
  db_block_hash :: "'db \<Rightarrow> u256 \<Rightarrow> (b256, 'err) result \<times> 'db"

text \<open>\<open>ExecutionDBRef\<close>: the content of its cell.\<close>

datatype 'db execution_db_ref = ExecutionDBRef (cell: 'db)

definition ExecutionDBRef_from :: "'db \<Rightarrow> 'db execution_db_ref" where
  "ExecutionDBRef_from db = ExecutionDBRef db"

definition basic_ref ::
  "('db, 'info, 'code, 'err) database \<Rightarrow> 'db execution_db_ref \<Rightarrow> address \<Rightarrow>
   ('info option, 'err) result \<times> 'db execution_db_ref"
where
  "basic_ref ops r a = map_prod (\<lambda>x. x) ExecutionDBRef (db_basic ops (cell r) a)"

definition code_by_hash_ref ::
  "('db, 'info, 'code, 'err) database \<Rightarrow> 'db execution_db_ref \<Rightarrow> b256 \<Rightarrow>
   ('code, 'err) result \<times> 'db execution_db_ref"
where
  "code_by_hash_ref ops r h = map_prod (\<lambda>x. x) ExecutionDBRef (db_code_by_hash ops (cell r) h)"

definition storage_ref ::
  "('db, 'info, 'code, 'err) database \<Rightarrow> 'db execution_db_ref \<Rightarrow> address \<Rightarrow> u256 \<Rightarrow>
   (u256, 'err) result \<times> 'db execution_db_ref"
where
  "storage_ref ops r a i = map_prod (\<lambda>x. x) ExecutionDBRef (db_storage ops (cell r) a i)"

definition block_hash_ref ::
  "('db, 'info, 'code, 'err) database \<Rightarrow> 'db execution_db_ref \<Rightarrow> u256 \<Rightarrow>
   (b256, 'err) result \<times> 'db execution_db_ref"
where
  "block_hash_ref ops r n = map_prod (\<lambda>x. x) ExecutionDBRef (db_block_hash ops (cell r) n)"

text \<open>\<open>cache_new\<close> is \<open>CacheDB::new\<close>.\<close>

definition simulation_db :: "('db execution_db_ref \<Rightarrow> 'sdb) \<Rightarrow> 'db \<Rightarrow> 'sdb" where
  "simulation_db cache_new db = cache_new (ExecutionDBRef_from db)"

section \<open>Reads\<close>

text \<open>One read of either kind, so that any sequence of reads can be followed.\<close>

datatype db_query = Basic address | CodeByHash b256 | Storage address u256 | BlockHash u256

datatype ('info, 'code, 'err) db_answer =
  BasicAnswer "('info option, 'err) result" | CodeAnswer "('code, 'err) result"
  | StorageAnswer "(u256, 'err) result" | HashAnswer "(b256, 'err) result"

fun db_read ::
  "('db, 'info, 'code, 'err) database \<Rightarrow> 'db \<Rightarrow> db_query \<Rightarrow> ('info, 'code, 'err) db_answer \<times> 'db"
where
  "db_read ops db (Basic a) = map_prod BasicAnswer (\<lambda>x. x) (db_basic ops db a)"
| "db_read ops db (CodeByHash h) = map_prod CodeAnswer (\<lambda>x. x) (db_code_by_hash ops db h)"
| "db_read ops db (Storage a i) = map_prod StorageAnswer (\<lambda>x. x) (db_storage ops db a i)"
| "db_read ops db (BlockHash n) = map_prod HashAnswer (\<lambda>x. x) (db_block_hash ops db n)"

fun ref_read ::
  "('db, 'info, 'code, 'err) database \<Rightarrow> 'db execution_db_ref \<Rightarrow> db_query \<Rightarrow>
   ('info, 'code, 'err) db_answer \<times> 'db execution_db_ref"
where
  "ref_read ops r (Basic a) = map_prod BasicAnswer (\<lambda>x. x) (basic_ref ops r a)"
| "ref_read ops r (CodeByHash h) = map_prod CodeAnswer (\<lambda>x. x) (code_by_hash_ref ops r h)"
| "ref_read ops r (Storage a i) = map_prod StorageAnswer (\<lambda>x. x) (storage_ref ops r a i)"
| "ref_read ops r (BlockHash n) = map_prod HashAnswer (\<lambda>x. x) (block_hash_ref ops r n)"

fun reads :: "('st \<Rightarrow> 'q \<Rightarrow> 'a \<times> 'st) \<Rightarrow> 'st \<Rightarrow> 'q list \<Rightarrow> 'a list \<times> 'st" where
  "reads rd st [] = ([], st)"
| "reads rd st (q # qs) =
     (case rd st q of (a, st') \<Rightarrow> (case reads rd st' qs of (as, st'') \<Rightarrow> (a # as, st'')))"

text \<open>The wrapper passes every read on.\<close>

lemma ref_read_cell: "ref_read ops r q = map_prod (\<lambda>x. x) ExecutionDBRef (db_read ops (cell r) q)"
  by (cases q) (simp_all add: basic_ref_def code_by_hash_ref_def storage_ref_def block_hash_ref_def
      prod.map_comp comp_def)

lemma reads_cell:
  "reads (ref_read ops) (ExecutionDBRef db) qs = map_prod (\<lambda>x. x) ExecutionDBRef (reads (db_read ops) db qs)"
  by (induction qs arbitrary: db) (simp_all add: ref_read_cell case_prod_unfold map_prod_def)

section \<open>Databases whose reads keep their answers\<close>

text \<open>
  What a cache of reads promises: \<open>answer db q\<close> is what the database answers, and no read changes
  it.
\<close>

locale lawful_database =
  fixes rd :: "'st \<Rightarrow> 'q \<Rightarrow> 'a \<times> 'st" and lawful :: "'st \<Rightarrow> bool" and answer :: "'st \<Rightarrow> 'q \<Rightarrow> 'a"
  assumes read_answer: "lawful st \<Longrightarrow> fst (rd st q) = answer st q"
    and read_lawful: "lawful st \<Longrightarrow> lawful (snd (rd st q))"
    and read_keeps: "lawful st \<Longrightarrow> answer (snd (rd st q)) = answer st"
begin

lemma reads_answers:
  assumes "lawful st"
  shows "fst (reads rd st qs) = map (answer st) qs \<and> lawful (snd (reads rd st qs)) \<and>
         answer (snd (reads rd st qs)) = answer st"
  using assms
proof (induction qs arbitrary: st)
  case (Cons q qs)
  obtain a st' where r: "rd st q = (a, st')" by (cases "rd st q")
  with read_answer [OF Cons.prems, of q] read_lawful [OF Cons.prems, of q] read_keeps [OF Cons.prems, of q]
  have "a = answer st q" "lawful st'" "answer st' = answer st" by simp_all
  with Cons.IH [of st'] show ?case by (simp add: r case_prod_unfold)
qed simp

end

text \<open>A database of the library is lawful when its reads have the same answers after every read.\<close>

coinductive stable_reads :: "('db, 'info, 'code, 'err) database \<Rightarrow> 'db \<Rightarrow> bool" for ops where
  "(\<And>q. stable_reads ops (snd (db_read ops db q)) \<and>
        (\<forall>q'. fst (db_read ops (snd (db_read ops db q)) q') = fst (db_read ops db q'))) \<Longrightarrow>
   stable_reads ops db"

inductive_cases stable_readsE: "stable_reads ops db"

lemma stable_readsD:
  assumes "stable_reads ops db"
  shows "stable_reads ops (snd (db_read ops db q))"
    and "fst (db_read ops (snd (db_read ops db q)) q') = fst (db_read ops db q')"
  using assms by (auto elim!: stable_readsE)

interpretation execution: lawful_database "db_read ops" "stable_reads ops" "\<lambda>db q. fst (db_read ops db q)" for ops
  by unfold_locales (auto simp: stable_readsD)

text \<open>Through the wrapper the same contract holds of the content of the cell.\<close>

interpretation execution_ref: lawful_database "ref_read ops" "\<lambda>r. stable_reads ops (cell r)"
  "\<lambda>r q. fst (db_read ops (cell r) q)" for ops
  by unfold_locales (auto simp: ref_read_cell stable_readsD)

section \<open>Properties\<close>

text \<open>
  A simulation reads the execution database through the wrapper as if it read it directly. Any
  sequence of reads gets, one by one, the answers the database gave before the simulation, errors
  included, whatever the reads cache on the way, and leaves a database with the same answers for
  the next simulation.
\<close>

lemma simulation_reads_transparent:
  assumes "stable_reads ops db"
  shows "fst (reads (ref_read ops) (ExecutionDBRef_from db) qs) = map (\<lambda>q. fst (db_read ops db q)) qs \<and>
         (\<forall>q. fst (db_read ops (cell (snd (reads (ref_read ops) (ExecutionDBRef_from db) qs))) q) =
              fst (db_read ops db q)) \<and>
         cell (snd (reads (ref_read ops) (ExecutionDBRef_from db) qs)) = snd (reads (db_read ops) db qs)"
  using execution_ref.reads_answers [of ops "ExecutionDBRef db" qs] assms
  by (simp add: ExecutionDBRef_from_def reads_cell fun_eq_iff)

text \<open>A database that counts its reads and caches the last address.\<close>

definition counting_db :: "(nat \<times> address, nat, nat, unit) database" where
  "counting_db =
     \<lparr> db_basic = (\<lambda>(n, _) a. (Ok (Some (unat a)), (Suc n, a))),
       db_code_by_hash = (\<lambda>(n, l) h. (Err (), (Suc n, l))),
       db_storage = (\<lambda>(n, l) a i. (Ok (i + 1), (Suc n, a))),
       db_block_hash = (\<lambda>(n, l) k. (Ok k, (Suc n, l))) \<rparr>"

lemma counting_db_stable: "stable_reads counting_db db"
proof (coinduction arbitrary: db)
  case (stable_reads db)
  have "fst (db_read counting_db (snd (db_read counting_db db q)) q') = fst (db_read counting_db db q')" for q q'
    by (cases q; cases q') (simp_all add: counting_db_def case_prod_unfold)
  then show ?case by blast
qed

end
