(* ===== verification/Bid_Policy.thy ===== *)
theory Bid_Policy
  imports Build_State
begin

text \<open>
  Auction state and bid policies of \<open>crates/payload/src/bidder/policy.rs\<close>.

  Times are signed milliseconds (\<open>i128\<close>), modelled as integers: their sums and differences stay
  far inside the range.  The product of the market share and the blocks per month is computed
  with floating point; the resulting number of blocks is a parameter of the constructor.
  A result \<open>Panic\<close> is the panic of \<open>U256::from\<close> on a negative value or of a division by zero.
\<close>

section \<open>Auction state\<close>

definition GWEI_TO_WEI :: u256 where "GWEI_TO_WEI = 1000000000"

definition gwei_to_wei :: "u64 \<Rightarrow> u256" where
  "gwei_to_wei v = u256_from_u64 v * GWEI_TO_WEI"

record ('cs, 'bst) auction_bid_info =
  abi_slot :: u64
  abi_block_number :: u64
  abi_auction_time_left :: int
  abi_bid_count :: u64
  abi_best_block :: "('cs, 'bst) build_state option"
  abi_best_block_value :: u256
  abi_best_bid_value :: u256
  abi_last_bid_value :: u256
  abi_best_auction_bid_value :: u256
  abi_last_auction_bid_value :: u256

definition AuctionBidInfo_new :: "u64 \<Rightarrow> u64 \<Rightarrow> ('cs, 'bst) auction_bid_info" where
  "AuctionBidInfo_new slot block_number =
     \<lparr> abi_slot = slot, abi_block_number = block_number, abi_auction_time_left = 12000,
       abi_bid_count = 0, abi_best_block = None, abi_best_block_value = 0, abi_best_bid_value = 0,
       abi_last_bid_value = 0, abi_best_auction_bid_value = 0, abi_last_auction_bid_value = 0 \<rparr>"

definition refresh_time :: "int \<Rightarrow> ('cs, 'bst) auction_bid_info \<Rightarrow> ('cs, 'bst) auction_bid_info" where
  "refresh_time time_left info = info\<lparr> abi_auction_time_left := time_left \<rparr>"

definition update_block_info ::
  "('cs, 'bst) build_state \<Rightarrow> u256 \<Rightarrow> ('cs, 'bst) auction_bid_info \<Rightarrow> ('cs, 'bst) auction_bid_info"
where
  "update_block_info bs new_value info =
     (if abi_best_block_value info \<le> new_value
      then info\<lparr> abi_best_block := Some bs, abi_best_block_value := new_value \<rparr>
      else info)"

definition update_bid_info :: "u256 \<Rightarrow> ('cs, 'bst) auction_bid_info \<Rightarrow> ('cs, 'bst) auction_bid_info" where
  "update_bid_info bid info =
     info\<lparr> abi_bid_count := abi_bid_count info + 1,
           abi_best_bid_value := max (abi_best_bid_value info) bid,
           abi_last_bid_value := bid \<rparr>"

definition update_auction_bid_info ::
  "u256 \<Rightarrow> ('cs, 'bst) auction_bid_info \<Rightarrow> ('cs, 'bst) auction_bid_info"
where
  "update_auction_bid_info bid info =
     info\<lparr> abi_best_auction_bid_value := max (abi_best_auction_bid_value info) bid,
           abi_last_auction_bid_value := bid \<rparr>"

section \<open>Policies\<close>

record linear_surplus_policy =
  ls_offset :: int
  ls_max_block_subsidy :: u256
  ls_min_bid_surplus :: u256
  ls_max_bid_surplus :: u256

datatype bid_selection_policy =
  NoProfitPolicy int | LinearSurplusPolicy linear_surplus_policy | DevnetPolicy

text \<open>\<open>LinearSurplusPolicy::new\<close>; \<open>None\<close> is the division by a zero number of target blocks.\<close>

definition LinearSurplusPolicy_new ::
  "int \<Rightarrow> u64 \<Rightarrow> u64 \<Rightarrow> u64 \<Rightarrow> u64 \<Rightarrow> linear_surplus_policy option"
where
  "LinearSurplusPolicy_new offset monthly_subsidy_budget target_winning_blocks min_surplus max_surplus =
     map_option (\<lambda>max_block_subsidy.
       \<lparr> ls_offset = offset, ls_max_block_subsidy = max_block_subsidy,
         ls_min_bid_surplus = gwei_to_wei min_surplus, ls_max_bid_surplus = gwei_to_wei max_surplus \<rparr>)
       (checked_div (gwei_to_wei monthly_subsidy_budget) (u256_from_u64 target_winning_blocks))"

text \<open>All policies value a block by its fees and coinbase transfers.\<close>

definition policy_block_value :: "bid_selection_policy \<Rightarrow> 'bst exec_details \<Rightarrow> u256" where
  "policy_block_value policy ed =
     (case policy of
        NoProfitPolicy _ \<Rightarrow> ed_sum_fees ed + ed_sum_coinbase_transfers ed
      | LinearSurplusPolicy _ \<Rightarrow> ed_sum_fees ed + ed_sum_coinbase_transfers ed
      | DevnetPolicy \<Rightarrow> ed_sum_fees ed + ed_sum_coinbase_transfers ed)"

definition is_better_block_value ::
  "bid_selection_policy \<Rightarrow> 'bst exec_details \<Rightarrow> 'bst exec_details \<Rightarrow> bool"
where
  "is_better_block_value policy best_ed new_ed =
     (policy_block_value policy best_ed < policy_block_value policy new_ed)"

definition bid_transaction_gas_fees :: "('cs, 'bst) build_state \<Rightarrow> u256" where
  "bid_transaction_gas_fees best_block =
     bc_basefee (bs_build_config best_block) * u256_from_u64 MAX_BUILDER_TRANSFER_GAS_LIMIT"

definition no_profit_compute_bid ::
  "int \<Rightarrow> ('cs, 'bst) auction_bid_info \<Rightarrow> (u256 option, unit) result"
where
  "no_profit_compute_bid offset info =
     (if offset < abi_auction_time_left info then Ok None
      else case abi_best_block info of
             None \<Rightarrow> Ok None
           | Some best_block \<Rightarrow>
               Ok (Some (saturating_sub (abi_best_block_value info) (bid_transaction_gas_fees best_block))))"

definition linear_surplus_compute_bid ::
  "linear_surplus_policy \<Rightarrow> ('cs, 'bst) auction_bid_info \<Rightarrow> (u256 option, unit) result"
where
  "linear_surplus_compute_bid p info =
     (let time_left = abi_auction_time_left info
      in if ls_offset p < time_left then Ok None
         else case abi_best_block info of
           None \<Rightarrow> Ok None
         | Some best_block \<Rightarrow>
             let total_value =
                   saturating_sub (abi_best_block_value info) (bid_transaction_gas_fees best_block);
                 bid_surplus_diff = saturating_sub (ls_max_bid_surplus p) (ls_min_bid_surplus p)
             in result_bind (expect (u256_from_i128 (ls_offset p + 1000))) (\<lambda>bid_window.
                result_bind (expect (u256_from_i128 (ls_offset p - time_left))) (\<lambda>time_into_offset.
                result_bind (expect (checked_div (bid_surplus_diff * time_into_offset) bid_window)) (\<lambda>weighted.
                  let to_bid_surplus = saturating_add weighted (ls_min_bid_surplus p);
                      to_bid_value = abi_best_auction_bid_value info + to_bid_surplus;
                      max_bid_value = ls_max_block_subsidy p + total_value;
                      bid_value = min max_bid_value to_bid_value
                  in if bid_value < abi_best_auction_bid_value info then Ok None
                     else Ok (Some bid_value)))))"

definition devnet_compute_bid :: "('cs, 'bst) auction_bid_info \<Rightarrow> (u256 option, unit) result" where
  "devnet_compute_bid info = Ok (Some (abi_best_block_value info))"

definition compute_bid ::
  "bid_selection_policy \<Rightarrow> ('cs, 'bst) auction_bid_info \<Rightarrow> (u256 option, unit) result"
where
  "compute_bid policy info =
     (case policy of
        NoProfitPolicy offset \<Rightarrow> no_profit_compute_bid offset info
      | LinearSurplusPolicy p \<Rightarrow> linear_surplus_compute_bid p info
      | DevnetPolicy \<Rightarrow> devnet_compute_bid info)"

section \<open>Contract of a policy\<close>

text \<open>
  The most a policy may spend on a block: its value, less the cost of the payment for the two
  policies used on public networks, plus the subsidy of the linear one.
\<close>

definition block_profit :: "('cs, 'bst) auction_bid_info \<Rightarrow> nat" where
  "block_profit info =
     (case abi_best_block info of
        None \<Rightarrow> 0
      | Some b \<Rightarrow> unat (abi_best_block_value info) - unat (bid_transaction_gas_fees b))"

definition bid_cap :: "bid_selection_policy \<Rightarrow> ('cs, 'bst) auction_bid_info \<Rightarrow> nat" where
  "bid_cap policy info =
     (case policy of
        NoProfitPolicy _ \<Rightarrow> block_profit info
      | LinearSurplusPolicy p \<Rightarrow> unat (ls_max_block_subsidy p) + block_profit info
      | DevnetPolicy \<Rightarrow> unat (abi_best_block_value info))"

text \<open>When a policy bids at all: the Devnet policy always, the others from their offset on.\<close>

definition may_bid :: "bid_selection_policy \<Rightarrow> ('cs, 'bst) auction_bid_info \<Rightarrow> bool" where
  "may_bid policy info =
     (case policy of
        NoProfitPolicy offset \<Rightarrow> abi_auction_time_left info \<le> offset \<and> abi_best_block info \<noteq> None
      | LinearSurplusPolicy p \<Rightarrow> abi_auction_time_left info \<le> ls_offset p \<and> abi_best_block info \<noteq> None
      | DevnetPolicy \<Rightarrow> True)"

locale bid_policy =
  fixes compute :: "('cs, 'bst) auction_bid_info \<Rightarrow> (u256 option, unit) result"
    and cap :: "('cs, 'bst) auction_bid_info \<Rightarrow> nat"
    and ready :: "('cs, 'bst) auction_bid_info \<Rightarrow> bool"
  assumes capped: "compute info = Ok (Some bid) \<Longrightarrow> unat bid \<le> cap info"
    and only_when_ready: "compute info = Ok (Some bid) \<Longrightarrow> ready info"
    and cap_ignores_bids: "cap (update_bid_info b info) = cap info"
begin

text \<open>Bids recorded for the same block stay within the cap of that block.\<close>

lemma recorded_bid_capped:
  assumes "compute info = Ok (Some bid)" and "unat (abi_best_bid_value info) \<le> cap info"
  shows "unat (abi_best_bid_value (update_bid_info bid info)) \<le> cap (update_bid_info bid info)"
  using assms capped [OF assms(1)]
  by (simp add: cap_ignores_bids) (simp add: update_bid_info_def max_def)

end

lemma linear_surplus_OkE:
  assumes "linear_surplus_compute_bid p info = Ok (Some bid)"
  obtains best_block weighted where "abi_best_block info = Some best_block"
    and "abi_auction_time_left info \<le> ls_offset p"
    and "checked_div (saturating_sub (ls_max_bid_surplus p) (ls_min_bid_surplus p)
           * word_of_int (ls_offset p - abi_auction_time_left info)) (word_of_int (ls_offset p + 1000)) = Some weighted"
    and "bid = min (ls_max_block_subsidy p + saturating_sub (abi_best_block_value info)
                      (bid_transaction_gas_fees best_block))
                   (abi_best_auction_bid_value info + saturating_add weighted (ls_min_bid_surplus p))"
    and "abi_best_auction_bid_value info \<le> bid" and "0 \<le> ls_offset p + 1000"
  using assms
  by (auto simp: linear_surplus_compute_bid_def result_bind_Ok_iff Let_def u256_from_i128_def not_less
      split: if_splits option.splits)

lemma unat_add_le: "unat (a + b) \<le> unat a + unat (b :: 'a::len word)"
  by (simp add: unat_word_ariths)

interpretation policies: bid_policy "compute_bid policy" "bid_cap policy" "may_bid policy" for policy
proof unfold_locales
  fix info :: "('a, 'b) auction_bid_info" and bid
  assume c: "compute_bid policy info = Ok (Some bid)"
  show "unat bid \<le> bid_cap policy info"
  proof (cases policy)
    case (NoProfitPolicy offset)
    with c show ?thesis
      by (auto simp: compute_bid_def no_profit_compute_bid_def bid_cap_def block_profit_def
          unat_saturating_sub split: if_splits option.splits)
  next
    case (LinearSurplusPolicy p)
    with c have "linear_surplus_compute_bid p info = Ok (Some bid)" by (simp add: compute_bid_def)
    then obtain b weighted where b: "abi_best_block info = Some b"
      and bid: "bid = min (ls_max_block_subsidy p + saturating_sub (abi_best_block_value info)
                      (bid_transaction_gas_fees b))
                   (abi_best_auction_bid_value info + saturating_add weighted (ls_min_bid_surplus p))"
      by (rule linear_surplus_OkE)
    have "unat bid \<le> unat (ls_max_block_subsidy p +
        saturating_sub (abi_best_block_value info) (bid_transaction_gas_fees b))"
      by (simp add: bid flip: word_le_nat_alt)
    also have "\<dots> \<le> unat (ls_max_block_subsidy p) + block_profit info"
      using unat_add_le [of "ls_max_block_subsidy p"]
      by (simp add: block_profit_def b unat_saturating_sub flip: unat_saturating_sub)
    finally show ?thesis by (simp add: LinearSurplusPolicy bid_cap_def)
  next
    case DevnetPolicy
    with c show ?thesis by (simp add: compute_bid_def devnet_compute_bid_def bid_cap_def)
  qed
  show "may_bid policy info"
  proof (cases policy)
    case (NoProfitPolicy offset)
    with c show ?thesis
      by (auto simp: compute_bid_def no_profit_compute_bid_def may_bid_def split: if_splits option.splits)
  next
    case (LinearSurplusPolicy p)
    with c have "linear_surplus_compute_bid p info = Ok (Some bid)" by (simp add: compute_bid_def)
    then show ?thesis
      using LinearSurplusPolicy by (auto elim: linear_surplus_OkE simp: may_bid_def)
  next
    case DevnetPolicy
    then show ?thesis by (simp add: may_bid_def)
  qed
next
  fix b and info :: "('a, 'b) auction_bid_info"
  show "bid_cap policy (update_bid_info b info) = bid_cap policy info"
    by (simp add: bid_cap_def block_profit_def update_bid_info_def
        split: bid_selection_policy.splits option.splits)
qed

section \<open>The linear policy over the integers\<close>

text \<open>The surplus as an integer expression: \<open>min + (max - min) * (offset - t) div (offset + 1000)\<close>.\<close>

definition surplus_at :: "linear_surplus_policy \<Rightarrow> int \<Rightarrow> nat" where
  "surplus_at p t =
     (unat (ls_max_bid_surplus p) - unat (ls_min_bid_surplus p)) * nat (ls_offset p - t)
       div nat (ls_offset p + 1000) + unat (ls_min_bid_surplus p)"

text \<open>Amounts and times far below the range of the types, so that no step wraps or saturates.\<close>

definition policy_in_range :: "linear_surplus_policy \<Rightarrow> bool" where
  "policy_in_range p \<longleftrightarrow>
     unat (ls_min_bid_surplus p) < 2 ^ 128 \<and> unat (ls_max_bid_surplus p) < 2 ^ 128 \<and>
     unat (ls_max_block_subsidy p) < 2 ^ 254 \<and> - 1000 < ls_offset p \<and> ls_offset p < 2 ^ 62"

definition auction_in_range :: "('cs, 'bst) auction_bid_info \<Rightarrow> bool" where
  "auction_in_range info \<longleftrightarrow>
     unat (abi_best_auction_bid_value info) < 2 ^ 254 \<and> unat (abi_best_block_value info) < 2 ^ 254 \<and>
     - (2 ^ 62) < abi_auction_time_left info"

lemma unat_u256_of_int: "0 \<le> i \<Longrightarrow> i < 2 ^ 256 \<Longrightarrow> unat (word_of_int i :: u256) = nat i"
  by (rule unat_u256_from_i128)

lemma linear_surplus_eval:
  assumes p: "policy_in_range p" and a: "auction_in_range info"
    and t: "abi_auction_time_left info \<le> ls_offset p" and b: "abi_best_block info = Some b"
  shows "\<exists>bid. unat bid = min (unat (ls_max_block_subsidy p) + block_profit info)
                          (unat (abi_best_auction_bid_value info) + surplus_at p (abi_auction_time_left info)) \<and>
           linear_surplus_compute_bid p info =
             (if unat (ls_max_block_subsidy p) + block_profit info < unat (abi_best_auction_bid_value info)
              then Ok None else Ok (Some bid))"
proof -
  let ?t = "abi_auction_time_left info"
  let ?d = "saturating_sub (ls_max_bid_surplus p) (ls_min_bid_surplus p)"
  define w :: u256 where "w = word_of_int (ls_offset p + 1000)"
  define i :: u256 where "i = word_of_int (ls_offset p - ?t)"
  define q where "q = (?d * i) div w"
  let ?total = "saturating_sub (abi_best_block_value info) (bid_transaction_gas_fees b)"
  let ?A = "abi_best_auction_bid_value info"
  have uw: "unat w = nat (ls_offset p + 1000)"
    using p unfolding w_def by (intro unat_u256_of_int) (auto simp: policy_in_range_def)
  have ui: "unat i = nat (ls_offset p - ?t)"
    using p a t unfolding i_def by (intro unat_u256_of_int) (auto simp: policy_in_range_def auction_in_range_def)
  have w0: "w \<noteq> 0" using uw p by (auto simp: policy_in_range_def simp flip: unat_eq_zero)
  have d: "unat ?d = unat (ls_max_bid_surplus p) - unat (ls_min_bid_surplus p)"
    by (rule unat_saturating_sub)
  have "nat (ls_offset p - ?t) \<le> 2 ^ 63"
    using p a by (auto simp: policy_in_range_def auction_in_range_def)
  moreover have "unat ?d \<le> 2 ^ 128" using p by (auto simp: d policy_in_range_def)
  ultimately have prod: "unat ?d * unat i \<le> 2 ^ 128 * 2 ^ 63"
    unfolding ui by (intro mult_le_mono)
  have di: "unat (?d * i) = unat ?d * unat i"
    using prod by (intro unat_mult_no_overflow) simp
  have uq: "unat q = (unat (ls_max_bid_surplus p) - unat (ls_min_bid_surplus p)) * nat (ls_offset p - ?t)
      div nat (ls_offset p + 1000)"
    by (simp only: q_def unat_div_distrib di d ui uw)
  have qle: "unat q \<le> 2 ^ 191"
  proof -
    have "unat q \<le> unat (?d * i)" by (simp add: q_def unat_div_distrib)
    with di prod show ?thesis by simp
  qed
  have s: "unat (saturating_add q (ls_min_bid_surplus p)) = surplus_at p ?t"
    using qle p by (simp add: unat_saturating_add surplus_at_def uq [symmetric] policy_in_range_def)
  have slt: "surplus_at p ?t < 2 ^ 192"
    using qle p by (simp add: surplus_at_def uq [symmetric] policy_in_range_def)
  have profit: "unat ?total = block_profit info"
    by (simp add: unat_saturating_sub block_profit_def b)
  have tot: "unat (ls_max_block_subsidy p + ?total) = unat (ls_max_block_subsidy p) + block_profit info"
    using p a by (subst unat_add_no_overflow)
      (auto simp: profit policy_in_range_def auction_in_range_def block_profit_def b)
  have tob: "unat (?A + saturating_add q (ls_min_bid_surplus p)) = unat ?A + surplus_at p ?t"
    using slt a by (subst unat_add_no_overflow) (auto simp: s auction_in_range_def)
  let ?bid = "min (ls_max_block_subsidy p + ?total) (?A + saturating_add q (ls_min_bid_surplus p))"
  have bid: "unat ?bid = min (unat (ls_max_block_subsidy p) + block_profit info) (unat ?A + surplus_at p ?t)"
    by (simp add: min_def word_le_nat_alt tot tob)
  have lt: "?bid < ?A \<longleftrightarrow> unat (ls_max_block_subsidy p) + block_profit info < unat ?A"
    by (auto simp: word_less_nat_alt bid min_less_iff_disj)
  have "u256_from_i128 (ls_offset p + 1000) = Some w" "u256_from_i128 (ls_offset p - ?t) = Some i"
    using p t by (simp_all add: u256_from_i128_def w_def i_def policy_in_range_def)
  then have "linear_surplus_compute_bid p info = (if ?bid < ?A then Ok None else Ok (Some ?bid))"
    using t b w0 by (simp add: linear_surplus_compute_bid_def checked_div_def q_def Let_def)
  with bid lt show ?thesis by auto
qed

lemma surplus_antimono:
  assumes "t' \<le> t"
  shows "surplus_at p t \<le> surplus_at p t'"
  using assms by (auto simp: surplus_at_def intro!: div_le_mono mult_le_mono)

lemma surplus_window:
  assumes "- 1000 \<le> t" and "- 1000 < ls_offset p"
    and "unat (ls_min_bid_surplus p) \<le> unat (ls_max_bid_surplus p)"
  shows "unat (ls_min_bid_surplus p) \<le> surplus_at p t" "surplus_at p t \<le> unat (ls_max_bid_surplus p)"
proof -
  let ?d = "unat (ls_max_bid_surplus p) - unat (ls_min_bid_surplus p)"
  have "?d * nat (ls_offset p - t) div nat (ls_offset p + 1000)
      \<le> ?d * nat (ls_offset p + 1000) div nat (ls_offset p + 1000)"
    using assms(1) by (intro div_le_mono mult_le_mono) auto
  also have "\<dots> = ?d" using assms(2) by simp
  finally show "surplus_at p t \<le> unat (ls_max_bid_surplus p)"
    using assms(3) by (simp add: surplus_at_def)
  show "unat (ls_min_bid_surplus p) \<le> surplus_at p t" by (simp add: surplus_at_def)
qed

section \<open>Properties\<close>

text \<open>
  Whatever the policy, a bid is at most what the policy may spend on the block: the block
  value less the cost of the payment transaction (plus the block subsidy for the linear policy,
  the plain block value on Devnet), and no public policy bids before its offset or without a
  block.
\<close>

lemma bid_within_cap:
  assumes "compute_bid policy info = Ok (Some bid)"
  shows "unat bid \<le> bid_cap policy info \<and> may_bid policy info"
  using policies.capped [OF assms] policies.only_when_ready [OF assms] by simp

definition sample_info :: "int \<Rightarrow> (unit, unit) auction_bid_info" where
  "sample_info t =
     (AuctionBidInfo_new 3 7)\<lparr> abi_auction_time_left := t, abi_best_block := Some sample_state,
        abi_best_block_value := 330000, abi_best_auction_bid_value := 4000 \<rparr>"

definition sample_policy :: linear_surplus_policy where
  "sample_policy = \<lparr> ls_offset = 2000, ls_max_block_subsidy = 5, ls_min_bid_surplus = 1,
     ls_max_bid_surplus = 7 \<rparr>"

lemma sample_info_simps [simp]:
  "abi_best_block (sample_info t) = Some sample_state"
  "abi_best_block_value (sample_info t) = 330000"
  "abi_best_auction_bid_value (sample_info t) = 4000"
  "abi_auction_time_left (sample_info t) = t"
  "bid_transaction_gas_fees sample_state = 320000"
  by (simp_all add: sample_info_def bid_transaction_gas_fees_def sample_state_def BuildState_new_def
      block_env_with_coinbase_def sample_config_def u256_from_u64_def MAX_BUILDER_TRANSFER_GAS_LIMIT_def)

text \<open>
  The linear policy within its window. From the offset down to one second after the end of
  the slot it bids the current top bid plus a surplus between its minimum and maximum, or all it
  may spend if that is less; it abstains exactly when it cannot reach the current top bid; and
  waiting longer never lowers the surplus.
\<close>

lemma linear_policy_window:
  assumes "policy_in_range p" and "auction_in_range info" and "abi_best_block info \<noteq> None"
    and "- 1000 \<le> abi_auction_time_left info" and "abi_auction_time_left info \<le> ls_offset p"
    and "unat (ls_min_bid_surplus p) \<le> unat (ls_max_bid_surplus p)"
  shows "let cap = bid_cap (LinearSurplusPolicy p) info; top = unat (abi_best_auction_bid_value info);
             s = surplus_at p (abi_auction_time_left info)
         in unat (ls_min_bid_surplus p) \<le> s \<and> s \<le> unat (ls_max_bid_surplus p) \<and>
            (\<forall>t'. t' \<le> abi_auction_time_left info \<longrightarrow> s \<le> surplus_at p t') \<and>
            (if cap < top then compute_bid (LinearSurplusPolicy p) info = Ok None
             else \<exists>bid. compute_bid (LinearSurplusPolicy p) info = Ok (Some bid) \<and>
                        unat bid = min cap (top + s))"
proof -
  obtain b where b: "abi_best_block info = Some b" using assms(3) by auto
  have "- 1000 < ls_offset p" using assms(1) by (simp add: policy_in_range_def)
  with linear_surplus_eval [OF assms(1,2,5) b] surplus_window [OF assms(4) _ assms(6)]
    surplus_antimono [of _ "abi_auction_time_left info" p]
  show ?thesis by (auto simp: Let_def bid_cap_def compute_bid_def)
qed

text \<open>
  Outside its window the linear policy is not bounded by its maximum surplus: by the time as
  much time has passed after the window as the window is long, the surplus is the maximum plus
  the whole range again. And with an offset of one second after the end of the slot every
  evaluation that has a block panics on a division by zero.
\<close>

lemma linear_policy_out_of_window:
  assumes "unat (ls_min_bid_surplus p) \<le> unat (ls_max_bid_surplus p)"
  shows "(- 1000 < ls_offset p \<longrightarrow>
            surplus_at p (- 2000 - ls_offset p) =
              unat (ls_max_bid_surplus p) + (unat (ls_max_bid_surplus p) - unat (ls_min_bid_surplus p))) \<and>
         (ls_offset p = - 1000 \<and> abi_best_block info \<noteq> None \<and> abi_auction_time_left info \<le> - 1000 \<longrightarrow>
            compute_bid (LinearSurplusPolicy p) info = Panic)"
proof (intro conjI impI)
  assume o: "- 1000 < ls_offset p"
  let ?d = "unat (ls_max_bid_surplus p) - unat (ls_min_bid_surplus p)"
  let ?w = "nat (ls_offset p + 1000)"
  have "nat (ls_offset p - (- 2000 - ls_offset p)) = 2 * ?w" using o by auto
  moreover have "?d * (2 * ?w) div ?w = 2 * ?d"
    using o by (simp add: mult.left_commute [of _ 2] mult.assoc [symmetric])
  ultimately show "surplus_at p (- 2000 - ls_offset p) = unat (ls_max_bid_surplus p) + ?d"
    using assms by (simp add: surplus_at_def)
next
  assume a: "ls_offset p = - 1000 \<and> abi_best_block info \<noteq> None \<and> abi_auction_time_left info \<le> - 1000"
  then obtain b where "abi_best_block info = Some b" by auto
  with a show "compute_bid (LinearSurplusPolicy p) info = Panic"
    by (simp add: compute_bid_def linear_surplus_compute_bid_def u256_from_i128_def checked_div_def Let_def)
qed

end
