(* ===== verification/Bidder.thy ===== *)
theory Bidder
  imports Bid_Policy Block_Sealing Clock
begin

text \<open>
  The bidder service of \<open>crates/payload/src/bidder/service.rs\<close> with its metrics
  (\<open>bidder/metrics.rs\<close>): a future polled with whatever has arrived on its channels.

  One poll is a function of the service state and a \<open>poll_input\<close>: the messages waiting on the two
  channels, whether their senders are gone, the answer to the pending top-bid request if it has
  arrived, and the system time.  It returns the new state, the tasks it spawns, and whether the
  future has ended.  Latency histograms are not represented.
\<close>

section \<open>State\<close>

record bidder_metrics =
  bm_initiated_finalized_builds :: u64
  bm_successful_finalized_builds :: u64
  bm_failed_finalized_builds :: u64
  bm_initiated_bids :: u64
  bm_successful_bids :: u64
  bm_failed_bids :: u64
  bm_auction_infos :: u64
  bm_auction_top_bids :: u64

definition bidder_metrics_default :: bidder_metrics where
  "bidder_metrics_default =
     \<lparr> bm_initiated_finalized_builds = 0, bm_successful_finalized_builds = 0,
       bm_failed_finalized_builds = 0, bm_initiated_bids = 0, bm_successful_bids = 0,
       bm_failed_bids = 0, bm_auction_infos = 0, bm_auction_top_bids = 0 \<rparr>"

text \<open>\<open>bd_top_bid\<close> is the pending request, with the block number it was spawned for.\<close>

record ('cs, 'bst) bidder =
  bd_top_bid :: "u64 option"
  bd_policy :: bid_selection_policy
  bd_clock :: network_clock
  bd_info :: "('cs, 'bst) auction_bid_info option"
  bd_metrics :: bidder_metrics

text \<open>The answer of the relay service to a request for the top bid; any error is one case.\<close>

datatype top_bid_answer = TopBid u256 | TopBidNotFound | TopBidFailed

record ('cs, 'bst) poll_input =
  in_starts :: "(u64 \<times> u64) list"
  in_starts_closed :: bool
  in_top_bid :: "top_bid_answer option"
  in_builds :: "('cs, 'bst) build_state list"
  in_builds_closed :: bool
  in_now :: u128

datatype ('cs, 'bst) bidder_task =
  RequestTopBid u64 | FinalizeAndSubmit "('cs, 'bst) build_state" u256

definition BidderService_new :: "bid_selection_policy \<Rightarrow> network_clock \<Rightarrow> ('cs, 'bst) bidder" where
  "BidderService_new policy clock =
     \<lparr> bd_top_bid = None, bd_policy = policy, bd_clock = clock, bd_info = None,
       bd_metrics = bidder_metrics_default \<rparr>"

section \<open>The parts of \<open>poll\<close>\<close>

definition on_new_slot_auction :: "u64 \<Rightarrow> u64 \<Rightarrow> ('cs, 'bst) bidder \<Rightarrow> ('cs, 'bst) bidder" where
  "on_new_slot_auction slot block_number s = s\<lparr> bd_info := Some (AuctionBidInfo_new slot block_number) \<rparr>"

definition handle_start :: "u64 \<times> u64 \<Rightarrow> ('cs, 'bst) bidder \<Rightarrow> ('cs, 'bst) bidder" where
  "handle_start msg s =
     (case msg of (slot, block_number) \<Rightarrow>
        if is_none_or (bd_info s) (\<lambda>info. abi_slot info < slot)
        then on_new_slot_auction slot block_number
               (s\<lparr> bd_metrics := (bd_metrics s)\<lparr> bm_auction_infos := bm_auction_infos (bd_metrics s) + 1 \<rparr> \<rparr>)
        else s)"

definition spawn_top_bid_request ::
  "('cs, 'bst) bidder \<Rightarrow> ('cs, 'bst) bidder \<times> ('cs, 'bst) bidder_task list"
where
  "spawn_top_bid_request s =
     (case bd_info s of
        None \<Rightarrow> (s, [])
      | Some info \<Rightarrow>
          (s\<lparr> bd_top_bid := Some (abi_block_number info) \<rparr>, [RequestTopBid (abi_block_number info)]))"

text \<open>\<open>this.top_bid.take()\<close> and the match on the answer.\<close>

definition handle_top_bid ::
  "top_bid_answer option \<Rightarrow> ('cs, 'bst) bidder \<Rightarrow> ('cs, 'bst) bidder \<times> ('cs, 'bst) bidder_task list"
where
  "handle_top_bid answer s =
     (case bd_top_bid s of
        None \<Rightarrow> spawn_top_bid_request s
      | Some _ \<Rightarrow>
          (case answer of
             None \<Rightarrow> (s, [])
           | Some a \<Rightarrow>
               let s1 = s\<lparr> bd_top_bid := None \<rparr>;
                   s2 = (case a of
                           TopBid v \<Rightarrow>
                             s1\<lparr> bd_metrics := (bd_metrics s1)\<lparr> bm_auction_top_bids :=
                                   bm_auction_top_bids (bd_metrics s1) + 1 \<rparr>,
                                 bd_info := map_option (update_auction_bid_info v) (bd_info s1) \<rparr>
                         | TopBidNotFound \<Rightarrow> s1
                         | TopBidFailed \<Rightarrow> s1)
               in spawn_top_bid_request s2))"

definition handle_build :: "('cs, 'bst) build_state \<Rightarrow> ('cs, 'bst) bidder \<Rightarrow> ('cs, 'bst) bidder" where
  "handle_build bs s =
     (case bd_info s of
        None \<Rightarrow> s
      | Some info \<Rightarrow>
          let slot = bc_slot (bs_build_config bs)
          in if slot < abi_slot info then s
             else if abi_slot info < slot then s
             else
               let is_better =
                     (case abi_best_block info of
                        None \<Rightarrow> True
                      | Some b \<Rightarrow> is_better_block_value (bd_policy s) (bs_exec_details b) (bs_exec_details bs))
               in if \<not> is_better then s
                  else s\<lparr> bd_info := Some (update_block_info bs
                             (policy_block_value (bd_policy s) (bs_exec_details bs)) info) \<rparr>)"

definition place_bid ::
  "u128 \<Rightarrow> ('cs, 'bst) bidder \<Rightarrow> (('cs, 'bst) bidder \<times> ('cs, 'bst) bidder_task list, unit) result"
where
  "place_bid now s =
     (case bd_info s of
        None \<Rightarrow> Ok (s, [])
      | Some info \<Rightarrow>
          let info1 = refresh_time (time_until_slot_signed_ms (bd_clock s) now (abi_slot info)) info
          in result_bind (compute_bid (bd_policy s) info1) (\<lambda>bid.
               case (bid, abi_best_block info1) of
                 (Some bid_value, Some bs) \<Rightarrow>
                   Ok (s\<lparr> bd_info := Some (update_bid_info bid_value info1) \<rparr>, [FinalizeAndSubmit bs bid_value])
               | _ \<Rightarrow> Ok (s\<lparr> bd_info := Some info1 \<rparr>, [])))"

text \<open>The whole poll; \<open>True\<close> is \<open>Poll::Ready(())\<close>, after a channel was closed.\<close>

definition bidder_poll ::
  "('cs, 'bst) poll_input \<Rightarrow> ('cs, 'bst) bidder \<Rightarrow>
   (('cs, 'bst) bidder \<times> ('cs, 'bst) bidder_task list \<times> bool, unit) result"
where
  "bidder_poll inp s =
     (let s1 = fold handle_start (in_starts inp) s
      in if in_starts_closed inp then Ok (s1, [], True)
         else
           case handle_top_bid (in_top_bid inp) s1 of
             (s2, requests) \<Rightarrow>
               let s3 = fold handle_build (in_builds inp) s2
               in if in_builds_closed inp then Ok (s3, requests, True)
                  else result_bind (place_bid (in_now inp) s3) (\<lambda>(s4, bids). Ok (s4, requests @ bids, False)))"

section \<open>Finalizing and submitting\<close>

datatype ('cs, 'bst) bidder_error =
  SendState "('cs, 'bst) build_state"
  | UnexpectedExecutionResult string
  | Finalize payload_builder_error
  | BidderPayloadBuilder payload_builder_error
  | BuilderPayment exec_error

definition build_submission_with_builder_payment ::
  "('cs, 'db, 'sdb) evm \<Rightarrow> ('cs, 'db, 'bst, 'prov, 'blob) chain_api \<Rightarrow> ('cs, 'bst) build_state \<Rightarrow> u256 \<Rightarrow>
   ('blob build, ('cs, 'bst) bidder_error) result"
where
  "build_submission_with_builder_payment e api bs bid =
     map_err Finalize (into_build e api (with_payment bid bs))"

text \<open>
  \<open>submit\<close> signs the bid and sends it through the relay handle; its outcome is a parameter. The
  function runs as a task of its own: its counters are those of the service, whatever becomes of
  the task, and a submission that panics unwinds the task before either counter of bids moves.
\<close>

datatype task_end = TaskDone | TaskPanicked

definition finalize_and_submit_build ::
  "('cs, 'db, 'sdb) evm \<Rightarrow> ('cs, 'db, 'bst, 'prov, 'blob) chain_api \<Rightarrow>
   ('blob build \<Rightarrow> (unit, 'serr) result) \<Rightarrow> ('cs, 'bst) build_state \<Rightarrow> u256 \<Rightarrow> bidder_metrics \<Rightarrow>
   bidder_metrics \<times> 'blob build option \<times> task_end"
where
  "finalize_and_submit_build e api submit bs bid m =
     (let m1 = m\<lparr> bm_initiated_finalized_builds := bm_initiated_finalized_builds m + 1 \<rparr>
      in case build_submission_with_builder_payment e api bs bid of
           Ok build \<Rightarrow>
             let m2 = m1\<lparr> bm_successful_finalized_builds := bm_successful_finalized_builds m1 + 1,
                          bm_initiated_bids := bm_initiated_bids m1 + 1 \<rparr>
             in (case submit build of
                   Ok _ \<Rightarrow> (m2\<lparr> bm_successful_bids := bm_successful_bids m2 + 1 \<rparr>, Some build, TaskDone)
                 | Err _ \<Rightarrow> (m2\<lparr> bm_failed_bids := bm_failed_bids m2 + 1 \<rparr>, Some build, TaskDone)
                 | Panic \<Rightarrow> (m2, Some build, TaskPanicked))
         | Err err \<Rightarrow>
             (m1\<lparr> bm_failed_finalized_builds := bm_failed_finalized_builds m1 + 1 \<rparr>, None, TaskDone)
         | Panic \<Rightarrow> (m1, None, TaskPanicked))"

section \<open>Invariant\<close>

text \<open>
  The best block belongs to the slot of the auction, and its recorded value is its value; there
  is none recorded without a block.
\<close>

definition info_inv :: "bid_selection_policy \<Rightarrow> ('cs, 'bst) auction_bid_info \<Rightarrow> bool" where
  "info_inv policy info \<longleftrightarrow>
     (case abi_best_block info of
        None \<Rightarrow> abi_best_block_value info = 0
      | Some b \<Rightarrow> bc_slot (bs_build_config b) = abi_slot info \<and>
                  abi_best_block_value info = policy_block_value policy (bs_exec_details b))"

definition bidder_inv :: "('cs, 'bst) bidder \<Rightarrow> bool" where
  "bidder_inv s \<longleftrightarrow> is_none_or (bd_info s) (info_inv (bd_policy s))"

text \<open>How the auction may move: never to an earlier slot, and within a slot never to a worse block.\<close>

definition progress ::
  "('cs, 'bst) auction_bid_info option \<Rightarrow> ('cs, 'bst) auction_bid_info option \<Rightarrow> bool"
where
  "progress old new \<longleftrightarrow>
     (case old of None \<Rightarrow> True
      | Some i \<Rightarrow> (case new of None \<Rightarrow> False
          | Some j \<Rightarrow> abi_slot i < abi_slot j \<or>
                      abi_slot i = abi_slot j \<and> abi_best_block_value i \<le> abi_best_block_value j))"

lemma progress_refl: "progress i i"
  by (simp add: progress_def split: option.splits)

lemma progress_trans: "progress i j \<Longrightarrow> progress j k \<Longrightarrow> progress i k"
  by (auto simp: progress_def split: option.splits)

lemma handle_start_step:
  assumes "bidder_inv s"
  shows "bidder_inv (handle_start m s) \<and> progress (bd_info s) (bd_info (handle_start m s)) \<and>
         bd_policy (handle_start m s) = bd_policy s"
  using assms
  by (auto simp: handle_start_def on_new_slot_auction_def bidder_inv_def info_inv_def is_none_or_def
      AuctionBidInfo_new_def progress_def split: prod.splits option.splits)

lemma update_block_info_step:
  assumes "info_inv policy info" and "bc_slot (bs_build_config b) = abi_slot info"
  shows "info_inv policy (update_block_info b (policy_block_value policy (bs_exec_details b)) info)"
    and "abi_slot (update_block_info b v info) = abi_slot info"
    and "abi_best_block_value info \<le> abi_best_block_value (update_block_info b v info)"
  using assms by (simp_all add: info_inv_def update_block_info_def)

lemma handle_build_cases:
  assumes "bd_info s = Some info"
  obtains "handle_build b s = s"
  | "bc_slot (bs_build_config b) = abi_slot info" and "handle_build b s =
       s\<lparr> bd_info := Some (update_block_info b (policy_block_value (bd_policy s) (bs_exec_details b)) info) \<rparr>"
  using assms unfolding handle_build_def Let_def by (simp split: if_splits) (metis less_linear)

lemma handle_build_step:
  assumes "bidder_inv s"
  shows "bidder_inv (handle_build b s) \<and> progress (bd_info s) (bd_info (handle_build b s)) \<and>
         bd_policy (handle_build b s) = bd_policy s"
proof (cases "bd_info s")
  case None
  then show ?thesis using assms by (simp add: handle_build_def progress_refl)
next
  case (Some info)
  then have inv: "info_inv (bd_policy s) info"
    using assms by (simp add: bidder_inv_def is_none_or_def)
  from Some show ?thesis
  proof (cases rule: handle_build_cases [where b = b])
    case 1
    with assms show ?thesis by (simp add: progress_refl)
  next
    case 2
    with update_block_info_step [OF inv 2(1)] Some show ?thesis
      by (simp add: bidder_inv_def is_none_or_def progress_def)
  qed
qed

lemma spawn_top_bid_request_step [simp]:
  "bd_info (fst (spawn_top_bid_request s)) = bd_info s"
  "bd_policy (fst (spawn_top_bid_request s)) = bd_policy s"
  by (simp_all add: spawn_top_bid_request_def split: option.splits)

lemma handle_top_bid_step:
  assumes "bidder_inv s"
  shows "bidder_inv (fst (handle_top_bid a s)) \<and> progress (bd_info s) (bd_info (fst (handle_top_bid a s))) \<and>
         bd_policy (fst (handle_top_bid a s)) = bd_policy s"
  using assms
  by (auto simp: handle_top_bid_def bidder_inv_def info_inv_def is_none_or_def progress_def Let_def
      update_auction_bid_info_def split: option.splits top_bid_answer.splits)

lemma fold_step:
  assumes "\<And>x s. bidder_inv s \<Longrightarrow>
      bidder_inv (f x s) \<and> progress (bd_info s) (bd_info (f x s)) \<and> bd_policy (f x s) = bd_policy s"
    and "bidder_inv s"
  shows "bidder_inv (fold f xs s) \<and> progress (bd_info s) (bd_info (fold f xs s)) \<and>
         bd_policy (fold f xs s) = bd_policy s"
  using assms(2)
proof (induction xs arbitrary: s)
  case Nil
  then show ?case by (simp add: progress_refl)
next
  case (Cons x xs)
  with assms(1) [OF Cons.prems, of x] show ?case by (auto intro: progress_trans)
qed

definition timed :: "u128 \<Rightarrow> ('cs, 'bst) bidder \<Rightarrow> ('cs, 'bst) auction_bid_info \<Rightarrow> ('cs, 'bst) auction_bid_info" where
  "timed now s info = refresh_time (time_until_slot_signed_ms (bd_clock s) now (abi_slot info)) info"

lemma timed_fields [simp]:
  "abi_slot (timed now s info) = abi_slot info" "abi_best_block (timed now s info) = abi_best_block info"
  "abi_best_block_value (timed now s info) = abi_best_block_value info"
  "info_inv policy (timed now s info) \<longleftrightarrow> info_inv policy info"
  by (simp_all add: timed_def refresh_time_def info_inv_def split: option.split)

lemma place_bid_cases:
  assumes "bd_info s = Some info" and "place_bid now s = Ok (s', tasks)"
  obtains (silent) "s' = s\<lparr> bd_info := Some (timed now s info) \<rparr>" and "tasks = []"
  | (bid) bid bs where "compute_bid (bd_policy s) (timed now s info) = Ok (Some bid)"
      and "abi_best_block info = Some bs" and "tasks = [FinalizeAndSubmit bs bid]"
      and "s' = s\<lparr> bd_info := Some (update_bid_info bid (timed now s info)) \<rparr>"
proof (cases "compute_bid (bd_policy s) (timed now s info)")
  case (Ok bid)
  with assms timed_fields(2) [of now s info] show ?thesis
    unfolding place_bid_def Let_def timed_def [symmetric]
    by (cases bid; cases "abi_best_block info") (auto intro: that)
next
  case (Err x)
  with assms show ?thesis by (simp add: place_bid_def Let_def timed_def [symmetric])
next
  case Panic
  with assms show ?thesis by (simp add: place_bid_def Let_def timed_def [symmetric])
qed

lemma update_bid_info_fields [simp]:
  "abi_slot (update_bid_info bid info) = abi_slot info"
  "abi_best_block_value (update_bid_info bid info) = abi_best_block_value info"
  "abi_best_block (update_bid_info bid info) = abi_best_block info"
  "info_inv policy (update_bid_info bid info) \<longleftrightarrow> info_inv policy info"
  by (simp_all add: update_bid_info_def info_inv_def split: option.split)

lemma place_bid_step:
  assumes "bidder_inv s" and "place_bid now s = Ok (s', tasks)"
  shows "bidder_inv s' \<and> progress (bd_info s) (bd_info s') \<and> bd_policy s' = bd_policy s"
proof (cases "bd_info s")
  case None
  with assms show ?thesis by (simp add: place_bid_def progress_refl)
next
  case (Some info)
  from Some assms(2) show ?thesis
    by (cases rule: place_bid_cases)
      (use Some assms(1) in \<open>simp_all add: bidder_inv_def is_none_or_def progress_def\<close>)
qed

lemma bidder_poll_step:
  assumes inv: "bidder_inv s" and poll: "bidder_poll inp s = Ok (s', tasks, ended)"
  shows "bidder_inv s' \<and> progress (bd_info s) (bd_info s') \<and> bd_policy s' = bd_policy s"
proof -
  define s1 where "s1 = fold handle_start (in_starts inp) s"
  define s2 where "s2 = fst (handle_top_bid (in_top_bid inp) s1)"
  define s3 where "s3 = fold handle_build (in_builds inp) s2"
  have 1: "bidder_inv s1 \<and> progress (bd_info s) (bd_info s1) \<and> bd_policy s1 = bd_policy s"
    unfolding s1_def by (rule fold_step [OF handle_start_step inv])
  have 2: "bidder_inv s2 \<and> progress (bd_info s1) (bd_info s2) \<and> bd_policy s2 = bd_policy s1"
    unfolding s2_def using 1 by (intro handle_top_bid_step) simp
  have 3: "bidder_inv s3 \<and> progress (bd_info s2) (bd_info s3) \<and> bd_policy s3 = bd_policy s2"
    unfolding s3_def using 2 by (intro fold_step handle_build_step) simp_all
  from poll consider "s' = s1" | "s' = s3" | bids where "place_bid (in_now inp) s3 = Ok (s', bids)"
    by (auto simp: bidder_poll_def Let_def case_prod_unfold result_bind_Ok_iff
        s1_def [symmetric] s2_def [symmetric] s3_def [symmetric] split: if_splits)
  then show ?thesis
  proof cases
    case 3
    with place_bid_step [of s3 _ s'] 1 2 \<open>bidder_inv s3 \<and> _\<close> show ?thesis
      by (metis progress_trans)
  qed (use 1 2 3 in \<open>auto intro: progress_trans\<close>)
qed

inductive bidder_reach :: "bid_selection_policy \<Rightarrow> network_clock \<Rightarrow> ('cs, 'bst) bidder \<Rightarrow> bool"
  for policy clock
where
  bidder_init: "bidder_reach policy clock (BidderService_new policy clock)"
| bidder_step: "bidder_reach policy clock s \<Longrightarrow> bidder_poll inp s = Ok (s', tasks, ended) \<Longrightarrow>
     bidder_reach policy clock s'"

lemma bidder_reach_inv:
  "bidder_reach policy clock s \<Longrightarrow> bidder_inv s \<and> bd_policy s = policy"
proof (induction rule: bidder_reach.induct)
  case bidder_init
  then show ?case by (simp add: bidder_inv_def BidderService_new_def is_none_or_def)
next
  case (bidder_step s inp s' tasks ended)
  then show ?case using bidder_poll_step by metis
qed

section \<open>Properties\<close>

lemma top_bid_tasks: "FinalizeAndSubmit bs bid \<notin> set (snd (handle_top_bid a s))"
  by (auto simp: handle_top_bid_def spawn_top_bid_request_def Let_def
      split: option.splits top_bid_answer.splits)

text \<open>The most a policy may pay for the block of a given build state.\<close>

definition spend_limit :: "bid_selection_policy \<Rightarrow> ('cs, 'bst) build_state \<Rightarrow> nat" where
  "spend_limit policy bs =
     (let profit = unat (block_value bs) - unat (bid_transaction_gas_fees bs)
      in case policy of
           NoProfitPolicy _ \<Rightarrow> profit
         | LinearSurplusPolicy p \<Rightarrow> unat (ls_max_block_subsidy p) + profit
         | DevnetPolicy \<Rightarrow> unat (block_value bs))"

lemma bid_cap_spend_limit:
  assumes "info_inv policy info" and "abi_best_block info = Some bs"
  shows "bid_cap policy info = spend_limit policy bs"
  using assms
  by (cases policy) (simp_all add: info_inv_def bid_cap_def block_profit_def spend_limit_def
      block_value_def policy_block_value_def Let_def)

text \<open>Whatever holds of every build that arrives holds of the best block and of what is submitted.\<close>

definition best_all :: "(('cs, 'bst) build_state \<Rightarrow> bool) \<Rightarrow> ('cs, 'bst) bidder \<Rightarrow> bool" where
  "best_all P s \<longleftrightarrow> is_none_or (bd_info s) (\<lambda>info. is_none_or (abi_best_block info) P)"

lemma handle_start_best: "best_all P s \<Longrightarrow> best_all P (handle_start m s)"
  by (auto simp: best_all_def handle_start_def on_new_slot_auction_def is_none_or_def
      AuctionBidInfo_new_def split: prod.splits option.splits)

lemma handle_top_bid_best: "best_all P s \<Longrightarrow> best_all P (fst (handle_top_bid a s))"
  by (auto simp: best_all_def handle_top_bid_def is_none_or_def Let_def update_auction_bid_info_def
      split: option.splits top_bid_answer.splits)

lemma handle_build_best: "best_all P s \<Longrightarrow> P b \<Longrightarrow> best_all P (handle_build b s)"
  by (auto simp: best_all_def handle_build_def is_none_or_def Let_def update_block_info_def
      split: option.splits)

lemma fold_handle_start_best: "best_all P s \<Longrightarrow> best_all P (fold handle_start ms s)"
  by (induction ms arbitrary: s) (simp_all add: handle_start_best)

lemma fold_handle_build_best: "best_all P s \<Longrightarrow> list_all P bs \<Longrightarrow> best_all P (fold handle_build bs s)"
  by (induction bs arbitrary: s) (simp_all add: handle_build_best)

lemma place_bid_best:
  assumes "best_all P s" and "place_bid now s = Ok (s', tasks)"
  shows "best_all P s' \<and> (\<forall>bs bid. FinalizeAndSubmit bs bid \<in> set tasks \<longrightarrow> P bs)"
proof (cases "bd_info s")
  case None
  with assms show ?thesis by (simp add: place_bid_def)
next
  case (Some info)
  from Some assms(2) show ?thesis
    by (cases rule: place_bid_cases) (use Some assms(1) in \<open>auto simp: best_all_def is_none_or_def\<close>)
qed

lemma bidder_poll_best:
  assumes "bidder_poll inp s = Ok (s', tasks, ended)" and "best_all P s" and "list_all P (in_builds inp)"
  shows "best_all P s' \<and> (\<forall>bs bid. FinalizeAndSubmit bs bid \<in> set tasks \<longrightarrow> P bs)"
proof -
  define s1 where "s1 = fold handle_start (in_starts inp) s"
  define s2 where "s2 = fst (handle_top_bid (in_top_bid inp) s1)"
  define s3 where "s3 = fold handle_build (in_builds inp) s2"
  have 1: "best_all P s1" unfolding s1_def by (rule fold_handle_start_best [OF assms(2)])
  have 2: "best_all P s2" unfolding s2_def by (rule handle_top_bid_best [OF 1])
  have 3: "best_all P s3" unfolding s3_def by (rule fold_handle_build_best [OF 2 assms(3)])
  have t: "FinalizeAndSubmit bs bid \<notin> set (snd (handle_top_bid (in_top_bid inp) s1))" for bs bid
    by (rule top_bid_tasks)
  from assms(1) consider "s' = s1" "tasks = []"
    | "s' = s3" "tasks = snd (handle_top_bid (in_top_bid inp) s1)"
    | bids where "place_bid (in_now inp) s3 = Ok (s', bids)"
      "tasks = snd (handle_top_bid (in_top_bid inp) s1) @ bids"
    by (auto simp: bidder_poll_def Let_def case_prod_unfold result_bind_Ok_iff
        s1_def [symmetric] s2_def [symmetric] s3_def [symmetric] split: if_splits)
  then show ?thesis
  proof cases
    case (3 bids)
    from place_bid_best [OF \<open>best_all P s3\<close> 3(1)] t show ?thesis by (auto simp: 3(2))
  qed (use 1 3 t in simp_all)
qed

text \<open>
  C23: The auction never moves backwards. From any reachable state one poll keeps the policy,
  never returns to an earlier slot, and within a slot never replaces the best block by one of
  lower value; and the best block always belongs to the slot of the auction.
\<close>

theorem bidder_makes_progress:
  assumes "bidder_reach policy clock s" and "bidder_poll inp s = Ok (s', tasks, ended)"
  shows "progress (bd_info s) (bd_info s') \<and> bidder_inv s' \<and> bd_policy s' = policy"
  using bidder_poll_step [OF _ assms(2)] bidder_reach_inv [OF assms(1)] by auto

lemma bidder_poll_submissions:
  assumes "bidder_reach policy clock s" and "bidder_poll inp s = Ok (s', tasks, ended)"
    and "FinalizeAndSubmit bs bid \<in> set tasks"
  shows "\<exists>info. bd_info s' = Some info \<and> bc_slot (bs_build_config bs) = abi_slot info \<and>
           may_bid policy info \<and> unat bid \<le> spend_limit policy bs"
proof -
  define s1 where "s1 = fold handle_start (in_starts inp) s"
  define s2 where "s2 = fst (handle_top_bid (in_top_bid inp) s1)"
  define s3 where "s3 = fold handle_build (in_builds inp) s2"
  have inv: "bidder_inv s3" "bd_policy s3 = policy"
    using bidder_reach_inv [OF assms(1)]
      fold_step [of handle_start s "in_starts inp", OF handle_start_step]
      handle_top_bid_step [of s1 "in_top_bid inp"]
      fold_step [of handle_build s2 "in_builds inp", OF handle_build_step]
    by (auto simp: s1_def s2_def s3_def)
  have "\<exists>bids. place_bid (in_now inp) s3 = Ok (s', bids) \<and> FinalizeAndSubmit bs bid \<in> set bids"
    using assms(2,3)
    by (auto simp: bidder_poll_def Let_def case_prod_unfold result_bind_Ok_iff top_bid_tasks
        s1_def [symmetric] s2_def [symmetric] s3_def [symmetric] split: if_splits)
  then obtain bids where place: "place_bid (in_now inp) s3 = Ok (s', bids)"
      "FinalizeAndSubmit bs bid \<in> set bids" by blast
  obtain info where info: "bd_info s3 = Some info"
    using place by (cases "bd_info s3") (auto simp: place_bid_def)
  from info place(1) show ?thesis
  proof (cases rule: place_bid_cases)
    case silent
    with place(2) show ?thesis by simp
  next
    case (bid bid' bs')
    then have eq: "bid' = bid" "bs' = bs" using place(2) by simp_all
    let ?t = "timed (in_now inp) s3 info"
    have i: "info_inv policy ?t" using inv info by (simp add: bidder_inv_def is_none_or_def)
    have c: "compute_bid policy ?t = Ok (Some bid)" using bid(1) inv(2) eq by simp
    have "unat bid \<le> spend_limit policy bs"
      using policies.capped [OF c] bid_cap_spend_limit [OF i, of bs] bid(2) eq by simp
    moreover have "may_bid policy (update_bid_info bid ?t)"
      using policies.only_when_ready [OF c]
      by (simp add: may_bid_def update_bid_info_def split: bid_selection_policy.splits)
    moreover have "bc_slot (bs_build_config bs) = abi_slot info"
      using i bid(2) eq by (simp add: info_inv_def)
    ultimately show ?thesis using bid(4) eq by simp
  qed
qed

text \<open>
  C7: Every build the bidder submits is a block of the current slot, the policy allowed bidding
  at that moment, and the bid is within what the policy may pay for that very block.
\<close>

theorem bidder_submissions_within_limit:
  assumes "bidder_reach policy clock s" and "bidder_poll inp s = Ok (s', tasks, ended)"
    and "FinalizeAndSubmit bs bid \<in> set tasks"
  shows "\<exists>info. bd_info s' = Some info \<and> bc_slot (bs_build_config bs) = abi_slot info \<and>
           may_bid policy info \<and> unat bid \<le> spend_limit policy bs"
  by (rule bidder_poll_submissions [OF assms])

text \<open>
  A pending request for the top bid survives the start of a new auction: when its answer,
  which is about the block of the previous auction, arrives after a new slot has started, it
  is recorded as the best bid of the new auction.
\<close>

lemma stale_top_bid_enters_new_auction:
  assumes "bd_info s = Some old" and "bd_top_bid s = Some (abi_block_number old)"
    and "abi_slot old < slot" and "in_starts inp = [(slot, block_number)]"
    and "in_starts_closed inp = False" and "in_top_bid inp = Some (TopBid v)"
    and "in_builds inp = []" and "in_builds_closed inp = True"
  shows "\<exists>s' tasks info. bidder_poll inp s = Ok (s', tasks, True) \<and> bd_info s' = Some info \<and>
           abi_slot info = slot \<and> abi_block_number info = block_number \<and>
           abi_best_auction_bid_value info = v"
  using assms
  by (simp add: bidder_poll_def handle_start_def is_none_or_def on_new_slot_auction_def
      handle_top_bid_def spawn_top_bid_request_def AuctionBidInfo_new_def update_auction_bid_info_def
      Let_def max_def)

definition sample_clock :: network_clock where
  "sample_clock = NetworkClock_new 100 SECONDS_PER_SLOT"

definition sample_input :: "(unit, unit) poll_input" where
  "sample_input = \<lparr> in_starts = [(3, 7)], in_starts_closed = False, in_top_bid = None,
     in_builds = [sample_state], in_builds_closed = False, in_now = 0 \<rparr>"

lemma sample_poll:
  "\<exists>s'. bidder_poll sample_input (BidderService_new DevnetPolicy sample_clock) =
     Ok (s', [RequestTopBid 7, FinalizeAndSubmit sample_state 0], False) \<and>
     bd_info s' \<noteq> None"
  by (simp add: bidder_poll_def sample_input_def BidderService_new_def handle_start_def is_none_or_def
      on_new_slot_auction_def handle_top_bid_def spawn_top_bid_request_def AuctionBidInfo_new_def
      handle_build_def update_block_info_def place_bid_def compute_bid_def devnet_compute_bid_def
      refresh_time_def policy_block_value_def sample_state_def BuildState_new_def sample_config_def
      block_env_with_coinbase_def ExecutionDetails_default_def Let_def)

theorem bidder_makes_progress_witness:
  "\<exists>s' tasks. bidder_poll sample_input (BidderService_new DevnetPolicy sample_clock) = Ok (s', tasks, False) \<and>
     bidder_inv s'"
  using bidder_makes_progress [OF bidder_init, of sample_input DevnetPolicy sample_clock] sample_poll
  by blast

theorem bidder_submissions_within_limit_witness:
  "\<exists>info :: (unit, unit) auction_bid_info. bc_slot (bs_build_config sample_state) = abi_slot info \<and>
     unat (0 :: u256) \<le> spend_limit DevnetPolicy sample_state"
proof -
  obtain s' where p: "bidder_poll sample_input (BidderService_new DevnetPolicy sample_clock) =
     Ok (s', [RequestTopBid 7, FinalizeAndSubmit sample_state 0], False)"
    using sample_poll by blast
  show ?thesis
    using bidder_submissions_within_limit [OF bidder_init p, of sample_state 0] by auto
qed

end
