(* ===== verification/Build_Jobs.thy ===== *)
theory Build_Jobs
  imports Strategy Clock
begin

text \<open>
  The build jobs of \<open>crates/payload/src/job\<close>, the generators of \<open>crates/payload/src/generator\<close> and
  the dispatch over the strategies (\<open>strategy/mod.rs\<close>).

  A job is a future.  One poll is a function of the job and of what the poll finds: the time,
  the ticks of the interval, and what the channel of the pending build answers.  It returns the
  status, the new job, the effects (tasks spawned, states handed to the bidder) and the set of
  sources that will wake the job again.  A spawned task is represented by its arguments; what it
  answers is \<open>run_build_task\<close> of them in the world at the time it runs.  The semaphore of
  \<open>PayloadTaskGuard\<close> only delays a task.  Cached reads are not represented.

  The interface between jobs and strategies is the locale \<open>job_strategy\<close>: what a job relies on to
  never panic and never lower its best build.  It is interpreted on both real strategies.
\<close>

section \<open>Dispatch over the strategies\<close>

datatype 'cs strategy =
  EmptyStrat "'cs payload_config" | MempoolStrat "'cs payload_config" | BundlesStrat "'cs payload_config"

text \<open>What a task reads when it runs: the libraries, the pools, the random id and the time.\<close>

record ('cs, 'db, 'sdb, 'bst, 'prov, 'blob, 'it, 'signed) build_world =
  w_evm :: "('cs, 'db, 'sdb) evm"
  w_api :: "('cs, 'db, 'bst, 'prov, 'blob) chain_api"
  w_best_txs :: "'it best_txs"
  w_decode_enveloped :: "bytes \<Rightarrow> 'signed option"
  w_into_ecrecovered :: "'signed \<Rightarrow> recovered_tx option"
  w_locked :: bool
  w_bundle_pool :: bundle_pool
  w_build_id :: u64
  w_instant :: nat

text \<open>The flag shared by all clones of a \<open>Cancelled\<close>; no code sets it.\<close>

type_synonym cancelled = bool

definition Cancelled_default :: cancelled where
  "Cancelled_default = False"

definition is_cancelled :: "cancelled \<Rightarrow> bool" where
  "is_cancelled c = c"

record ('cs, 'bst) build_arguments =
  ba_build_config :: build_config
  ba_cancel :: cancelled
  ba_best_build :: "('cs, 'bst) build_state option"

definition BuildArguments_new ::
  "build_config \<Rightarrow> cancelled \<Rightarrow> ('cs, 'bst) build_state option \<Rightarrow> ('cs, 'bst) build_arguments"
where
  "BuildArguments_new build_config cancel best_build =
     \<lparr> ba_build_config = build_config, ba_cancel = cancel, ba_best_build = best_build \<rparr>"

definition strategy_try_build ::
  "'cs strategy \<Rightarrow> ('cs, 'db, 'sdb, 'bst, 'prov, 'blob, 'it, 'signed) build_world \<Rightarrow>
   ('cs, 'bst) build_arguments \<Rightarrow> (('cs, 'bst) build_outcome, payload_builder_error) result option"
where
  "strategy_try_build strategy w args =
     (case strategy of
        EmptyStrat pc \<Rightarrow>
          Some (empty_try_build (w_evm w) (w_api w) (w_build_id w) (w_instant w) pc (ba_build_config args))
      | MempoolStrat pc \<Rightarrow>
          mempool_try_build (w_evm w) (w_api w) (w_best_txs w) (\<lambda>_. is_cancelled (ba_cancel args))
            (w_build_id w) (w_instant w) pc (ba_build_config args) (ba_best_build args)
      | BundlesStrat pc \<Rightarrow>
          bundles_try_build (w_evm w) (w_api w) (w_best_txs w) (w_decode_enveloped w)
            (w_into_ecrecovered w) (w_locked w) (w_bundle_pool w) (\<lambda>_. is_cancelled (ba_cancel args))
            (w_build_id w) (w_instant w) pc (ba_build_config args) (ba_best_build args))"

section \<open>\<open>build_utils.rs\<close>\<close>

text \<open>What polling the receiver of a oneshot channel finds.\<close>

datatype 'a rx_answer = NotReady | SenderDropped | Received 'a

text \<open>\<open>PendingBuild::poll\<close>; \<open>None\<close> is \<open>Poll::Pending\<close>.\<close>

definition pending_build_poll ::
  "('a, payload_builder_error) result rx_answer \<Rightarrow> ('a, payload_builder_error) result option"
where
  "pending_build_poll answer =
     (case answer of
        NotReady \<Rightarrow> None
      | SenderDropped \<Rightarrow> Some (Err ChannelClosed)
      | Received r \<Rightarrow> Some r)"

text \<open>What a spawned task leaves in its channel: a task that panics drops its sender.\<close>

definition task_answer :: "('a, 'e) result option \<Rightarrow> ('a, 'e) result rx_answer" where
  "task_answer r =
     (case r of
        None \<Rightarrow> NotReady
      | Some Panic \<Rightarrow> SenderDropped
      | Some r' \<Rightarrow> Received r')"

text \<open>
  \<open>ResolveBestPayload\<close>: the task of the empty payload is represented by its build configuration;
  \<open>maybe_better\<close> is never read.
\<close>

record 'blob resolve_best_payload =
  rb_best_payload :: "'blob build option"
  rb_empty_payload :: "build_config option"

definition resolve_best_payload_poll ::
  "('blob build, payload_builder_error) result rx_answer \<Rightarrow> 'blob resolve_best_payload \<Rightarrow>
   ('blob build, payload_builder_error) result option \<times> 'blob resolve_best_payload"
where
  "resolve_best_payload_poll answer fut =
     (case rb_best_payload fut of
        Some best \<Rightarrow> (Some (Ok best), fut\<lparr> rb_best_payload := None \<rparr>)
      | None \<Rightarrow>
          (case rb_empty_payload fut of
             None \<Rightarrow> (Some Panic, fut)
           | Some cfg \<Rightarrow>
               (case answer of
                  Received r \<Rightarrow> (Some r, fut\<lparr> rb_empty_payload := None \<rparr>)
                | SenderDropped \<Rightarrow> (Some (Err ChannelClosed), fut\<lparr> rb_empty_payload := None \<rparr>)
                | NotReady \<Rightarrow> (None, fut))))"

section \<open>Metrics, status and effects\<close>

record payload_metrics =
  pm_initiated_payload_builds :: u64
  pm_successful_payload_builds :: u64
  pm_failed_payload_builds :: u64

definition payload_metrics_default :: payload_metrics where
  "payload_metrics_default =
     \<lparr> pm_initiated_payload_builds = 0, pm_successful_payload_builds = 0, pm_failed_payload_builds = 0 \<rparr>"

definition inc_initiated_payload_builds :: "payload_metrics \<Rightarrow> payload_metrics" where
  "inc_initiated_payload_builds m = m\<lparr> pm_initiated_payload_builds := pm_initiated_payload_builds m + 1 \<rparr>"

definition inc_successful_payload_builds :: "payload_metrics \<Rightarrow> payload_metrics" where
  "inc_successful_payload_builds m = m\<lparr> pm_successful_payload_builds := pm_successful_payload_builds m + 1 \<rparr>"

definition inc_failed_payload_builds :: "payload_metrics \<Rightarrow> payload_metrics" where
  "inc_failed_payload_builds m = m\<lparr> pm_failed_payload_builds := pm_failed_payload_builds m + 1 \<rparr>"

datatype job_status = JobPending | JobFinished | JobFailed payload_builder_error

datatype ('cs, 'bst) job_effect =
  SpawnBuild "('cs, 'bst) build_arguments" | MakeBid "('cs, 'bst) build_state" | ResetInterval

datatype wake_source = WakeDeadline | WakeBuild | WakeInterval | WakeNow

section \<open>\<open>stream_job.rs\<close>\<close>

record ('cs, 'bst) stream_job =
  sj_build_config :: build_config
  sj_deadline :: nat
  sj_best_build :: "('cs, 'bst) build_state option"
  sj_pending_build :: "('cs, 'bst) build_arguments option"
  sj_metrics :: payload_metrics

text \<open>A job spawns a build when none is pending.\<close>

definition stream_spawn ::
  "('cs, 'bst) stream_job \<Rightarrow> ('cs, 'bst) stream_job \<times> ('cs, 'bst) job_effect list"
where
  "stream_spawn j =
     (case sj_pending_build j of
        Some _ \<Rightarrow> (j, [])
      | None \<Rightarrow>
          let args = BuildArguments_new (sj_build_config j) Cancelled_default (sj_best_build j)
          in (j\<lparr> sj_pending_build := Some args, sj_metrics := inc_initiated_payload_builds (sj_metrics j) \<rparr>,
              [SpawnBuild args]))"

definition stream_poll ::
  "nat \<Rightarrow> (('cs, 'bst) build_outcome, payload_builder_error) result rx_answer \<Rightarrow>
   ('cs, 'bst) stream_job \<Rightarrow>
   (job_status \<times> ('cs, 'bst) stream_job \<times> ('cs, 'bst) job_effect list \<times> wake_source set, unit) result"
where
  "stream_poll now answer j =
     (if sj_deadline j \<le> now then Ok (JobFinished, j, [], {})
      else
        let (j1, spawned) = stream_spawn j
        in case pending_build_poll answer of
             None \<Rightarrow> Ok (JobPending, j1, spawned, {WakeDeadline, WakeBuild})
           | Some (Ok (Better bs)) \<Rightarrow>
               Ok (JobPending,
                   j1\<lparr> sj_pending_build := None, sj_best_build := Some bs,
                       sj_metrics := inc_successful_payload_builds (sj_metrics j1) \<rparr>,
                   spawned @ [MakeBid bs], {WakeDeadline, WakeNow})
           | Some (Ok (Aborted v)) \<Rightarrow>
               Ok (JobPending, j1\<lparr> sj_pending_build := None \<rparr>, spawned, {WakeDeadline, WakeNow})
           | Some (Ok BuildCancelled) \<Rightarrow> Panic
           | Some (Err err) \<Rightarrow>
               Ok (JobPending,
                   j1\<lparr> sj_pending_build := None, sj_metrics := inc_failed_payload_builds (sj_metrics j1) \<rparr>,
                   spawned, {WakeDeadline})
           | Some Panic \<Rightarrow> Panic)"

text \<open>The \<open>PayloadJob\<close> operations of a stream job are \<open>unimplemented!()\<close>.\<close>

definition stream_best_payload :: "('cs, 'bst) stream_job \<Rightarrow> ('blob build, payload_builder_error) result" where
  "stream_best_payload j = Panic"

definition stream_payload_attributes ::
  "('cs, 'bst) stream_job \<Rightarrow> (payload_attributes, payload_builder_error) result"
where
  "stream_payload_attributes j = Panic"

definition stream_resolve :: "('cs, 'bst) stream_job \<Rightarrow> ('fut, unit) result" where
  "stream_resolve j = Panic"

section \<open>\<open>interval_job.rs\<close>\<close>

record ('cs, 'bst) interval_job =
  ij_build_config :: build_config
  ij_deadline :: nat
  ij_best_build :: "('cs, 'bst) build_state option"
  ij_pending_build :: "('cs, 'bst) build_arguments option"
  ij_metrics :: payload_metrics

text \<open>\<open>while this.interval.poll_tick(cx).is_ready()\<close>, run for each tick that is due.\<close>

fun interval_ticks ::
  "nat \<Rightarrow> ('cs, 'bst) interval_job \<Rightarrow> ('cs, 'bst) interval_job \<times> ('cs, 'bst) job_effect list"
where
  "interval_ticks 0 j = (j, [])"
| "interval_ticks (Suc n) j =
     (case ij_pending_build j of
        Some _ \<Rightarrow> interval_ticks n j
      | None \<Rightarrow>
          let args = BuildArguments_new (ij_build_config j) Cancelled_default (ij_best_build j);
              j1 = j\<lparr> ij_pending_build := Some args, ij_metrics := inc_initiated_payload_builds (ij_metrics j) \<rparr>;
              (j2, effects) = interval_ticks n j1
          in (j2, SpawnBuild args # effects))"

definition interval_poll ::
  "nat \<Rightarrow> nat \<Rightarrow> (('cs, 'bst) build_outcome, payload_builder_error) result rx_answer \<Rightarrow>
   ('cs, 'bst) interval_job \<Rightarrow>
   (job_status \<times> ('cs, 'bst) interval_job \<times> ('cs, 'bst) job_effect list \<times> wake_source set, unit) result"
where
  "interval_poll now ticks answer j =
     (if ij_deadline j \<le> now then Ok (JobFinished, j, [], {})
      else
        let (j1, spawned) = interval_ticks ticks j
        in case ij_pending_build j1 of
             None \<Rightarrow> Ok (JobPending, j1, spawned, {WakeDeadline, WakeInterval})
           | Some _ \<Rightarrow>
               (case pending_build_poll answer of
                  None \<Rightarrow> Ok (JobPending, j1, spawned, {WakeDeadline, WakeInterval, WakeBuild})
                | Some (Ok outcome) \<Rightarrow>
                    let j2 = j1\<lparr> ij_pending_build := None,
                                 ij_metrics := inc_successful_payload_builds (ij_metrics j1) \<rparr>
                    in (case outcome of
                          Better bs \<Rightarrow>
                            Ok (JobPending, j2\<lparr> ij_best_build := Some bs \<rparr>, spawned @ [ResetInterval],
                                {WakeDeadline, WakeInterval})
                        | Aborted v \<Rightarrow>
                            Ok (JobPending, j2, spawned @ [ResetInterval], {WakeDeadline, WakeInterval})
                        | BuildCancelled \<Rightarrow> Panic)
                | Some (Err err) \<Rightarrow>
                    Ok (JobPending,
                        j1\<lparr> ij_pending_build := None, ij_metrics := inc_failed_payload_builds (ij_metrics j1) \<rparr>,
                        spawned, {WakeDeadline, WakeInterval})
                | Some Panic \<Rightarrow> Panic))"

definition interval_best_payload ::
  "('cs, 'db, 'sdb) evm \<Rightarrow> ('cs, 'db, 'bst, 'prov, 'blob) chain_api \<Rightarrow> u64 \<Rightarrow> nat \<Rightarrow> 'cs payload_config \<Rightarrow>
   ('cs, 'bst) interval_job \<Rightarrow> ('blob build, payload_builder_error) result"
where
  "interval_best_payload e api build_id now default_config j =
     (case ij_best_build j of
        Some bs \<Rightarrow> into_empty_build api bs
      | None \<Rightarrow> build_empty_payload e api build_id now default_config (ij_build_config j))"

definition interval_payload_attributes ::
  "('cs, 'bst) interval_job \<Rightarrow> (payload_attributes, payload_builder_error) result"
where
  "interval_payload_attributes j = Ok (bc_attributes (ij_build_config j))"

datatype keep_payload_job_alive = KeepYes | KeepNo

text \<open>
  \<open>resolve\<close> takes the best build out of the job.  Only when it cannot be sealed, or there is none,
  is the task of the empty payload spawned.
\<close>

definition interval_resolve ::
  "('cs, 'db, 'bst, 'prov, 'blob) chain_api \<Rightarrow> ('cs, 'bst) interval_job \<Rightarrow>
   ('blob resolve_best_payload \<times> keep_payload_job_alive \<times> ('cs, 'bst) interval_job, unit) result"
where
  "interval_resolve api j =
     (let j1 = j\<lparr> ij_best_build := None \<rparr>;
          best = (case ij_best_build j of
                    None \<Rightarrow> Ok None
                  | Some bs \<Rightarrow>
                      (case into_empty_build api bs of
                         Ok b \<Rightarrow> Ok (Some b)
                       | Err _ \<Rightarrow> Ok None
                       | Panic \<Rightarrow> Panic))
      in result_bind best (\<lambda>best_build.
           Ok (\<lparr> rb_best_payload = best_build,
                 rb_empty_payload = (if best_build = None then Some (ij_build_config j) else None) \<rparr>,
               KeepNo, j1)))"

text \<open>The task \<open>resolve\<close> spawns; its build configuration stands for it in \<open>rb_empty_payload\<close>.\<close>

definition empty_payload_task ::
  "('cs, 'db, 'sdb) evm \<Rightarrow> ('cs, 'db, 'bst, 'prov, 'blob) chain_api \<Rightarrow> u64 \<Rightarrow> nat \<Rightarrow> 'cs payload_config \<Rightarrow>
   build_config \<Rightarrow> ('blob build, payload_builder_error) result rx_answer"
where
  "empty_payload_task e api build_id now default_config cfg =
     task_answer (Some (build_empty_payload e api build_id now default_config cfg))"

section \<open>\<open>generator/config.rs\<close> and \<open>generator/mod.rs\<close>\<close>

text \<open>Durations are milliseconds.\<close>

record 'cs job_generator_config =
  gc_interval :: nat
  gc_deadline :: nat
  gc_max_payload_tasks :: nat
  gc_payload_config :: "'cs payload_config"

definition gc_set_interval :: "nat \<Rightarrow> 'cs job_generator_config \<Rightarrow> 'cs job_generator_config" where
  "gc_set_interval interval c = c\<lparr> gc_interval := interval \<rparr>"

definition gc_set_deadline :: "nat \<Rightarrow> 'cs job_generator_config \<Rightarrow> 'cs job_generator_config" where
  "gc_set_deadline deadline c = c\<lparr> gc_deadline := deadline \<rparr>"

definition gc_set_max_payload_tasks ::
  "nat \<Rightarrow> 'cs job_generator_config \<Rightarrow> ('cs job_generator_config, unit) result"
where
  "gc_set_max_payload_tasks n c = (if 0 < n then Ok (c\<lparr> gc_max_payload_tasks := n \<rparr>) else Panic)"

definition gc_set_payload_config :: "'cs payload_config \<Rightarrow> 'cs job_generator_config \<Rightarrow> 'cs job_generator_config" where
  "gc_set_payload_config pc c = c\<lparr> gc_payload_config := pc \<rparr>"

definition job_generator_config_default :: "'cs payload_config \<Rightarrow> 'cs job_generator_config" where
  "job_generator_config_default default_payload_config =
     \<lparr> gc_interval = 1000, gc_deadline = 12000, gc_max_payload_tasks = 3,
       gc_payload_config = default_payload_config \<rparr>"

text \<open>A generator is its configuration; the permits of its task guard are \<open>gc_max_payload_tasks\<close>.\<close>

definition stream_new_payload_job ::
  "'cs job_generator_config \<Rightarrow> nat \<Rightarrow> build_config \<Rightarrow> (('cs, 'bst) stream_job, payload_builder_error) result"
where
  "stream_new_payload_job c now build_config =
     Ok \<lparr> sj_build_config = build_config, sj_deadline = now + gc_deadline c, sj_best_build = None,
          sj_pending_build = None, sj_metrics = payload_metrics_default \<rparr>"

definition stream_job_strategy :: "'cs job_generator_config \<Rightarrow> 'cs strategy" where
  "stream_job_strategy c = BundlesStrat (gc_payload_config c)"

section \<open>\<open>generator/empty.rs\<close> and \<open>job/empty.rs\<close>\<close>

text \<open>The client's block lookups; \<open>cc_seal\<close> seals a block under a known hash.\<close>

record 'blk chain_client =
  cc_latest :: "('blk option, payload_builder_error) result"
  cc_find_by_hash :: "b256 \<Rightarrow> ('blk option, payload_builder_error) result"
  cc_seal_slow :: "'blk \<Rightarrow> sealed_block"
  cc_seal :: "'blk \<Rightarrow> b256 \<Rightarrow> sealed_block"

definition ok_or_missing :: "b256 \<Rightarrow> 'a option \<Rightarrow> ('a, payload_builder_error) result" where
  "ok_or_missing parent x = (case x of None \<Rightarrow> Err (MissingParentBlock parent) | Some b \<Rightarrow> Ok b)"

definition find_parent_block ::
  "'blk chain_client \<Rightarrow> b256 \<Rightarrow> (sealed_block, payload_builder_error) result"
where
  "find_parent_block c parent =
     (if parent = 0 then
        result_bind (cc_latest c) (\<lambda>b. result_map (cc_seal_slow c) (ok_or_missing parent b))
      else
        result_bind (cc_find_by_hash c parent) (\<lambda>b.
          result_map (\<lambda>blk. cc_seal c blk parent) (ok_or_missing parent b)))"

text \<open>
  The empty job is generic in the payload builder: its configuration type \<open>'config\<close>, the
  constructor \<open>payload_config_new\<close> and the builder's \<open>build_empty_payload\<close> are the library's.
\<close>

definition empty_new_payload_job ::
  "'blk chain_client \<Rightarrow> (sealed_block \<Rightarrow> bytes \<Rightarrow> 'attr \<Rightarrow> 'cs \<Rightarrow> 'config) \<Rightarrow> ('attr \<Rightarrow> b256) \<Rightarrow> 'cs \<Rightarrow>
   'attr \<Rightarrow> ('config, payload_builder_error) result"
where
  "empty_new_payload_job c payload_config_new parent_of chain_spec attributes =
     result_map (\<lambda>parent_block. payload_config_new parent_block [] attributes chain_spec)
       (find_parent_block c (parent_of attributes))"

definition empty_best_payload ::
  "('config \<Rightarrow> ('payload, payload_builder_error) result) \<Rightarrow> 'config \<Rightarrow> ('payload, payload_builder_error) result"
where
  "empty_best_payload build_empty config = build_empty config"

definition empty_payload_attributes :: "('config \<Rightarrow> 'attr) \<Rightarrow> 'config \<Rightarrow> ('attr, payload_builder_error) result"
where
  "empty_payload_attributes attributes_of config = Ok (attributes_of config)"

text \<open>The future of \<open>resolve\<close> is ready at once with what \<open>best_payload\<close> returned.\<close>

definition empty_resolve ::
  "('config \<Rightarrow> ('payload, payload_builder_error) result) \<Rightarrow> 'config \<Rightarrow>
   ('payload, payload_builder_error) result \<times> keep_payload_job_alive"
where
  "empty_resolve build_empty config = (empty_best_payload build_empty config, KeepNo)"

definition empty_poll :: "'config \<Rightarrow> job_status \<times> wake_source set" where
  "empty_poll config = (JobPending, {})"

section \<open>What a job relies on\<close>

text \<open>
  The contract between a job and its strategy: a better build is worth more than the best one in
  the arguments, and a build is only reported cancelled when the flag is set.
\<close>

locale job_strategy =
  fixes try_build :: "'w \<Rightarrow> ('cs, 'bst) build_arguments \<Rightarrow>
    (('cs, 'bst) build_outcome, payload_builder_error) result option"
  assumes better: "try_build w args = Some (Ok (Better bs)) \<Longrightarrow>
      best_value (ba_best_build args) < block_value bs"
    and not_cancelled: "\<not> is_cancelled (ba_cancel args) \<Longrightarrow> try_build w args \<noteq> Some (Ok BuildCancelled)"
begin

lemma answer_cases:
  assumes "a = NotReady \<or> (\<exists>w. a = task_answer (try_build w args))" and "\<not> is_cancelled (ba_cancel args)"
  obtains "pending_build_poll a = None"
  | bs where "pending_build_poll a = Some (Ok (Better bs))" "best_value (ba_best_build args) < block_value bs"
  | v where "pending_build_poll a = Some (Ok (Aborted v))"
  | err where "pending_build_poll a = Some (Err err)"
proof (cases "a = NotReady")
  case True
  then show ?thesis using that(1) by (simp add: pending_build_poll_def)
next
  case False
  with assms(1) obtain w where a: "a = task_answer (try_build w args)" by blast
  show ?thesis
  proof (cases "try_build w args")
    case None
    then show ?thesis using that(1) a by (simp add: pending_build_poll_def task_answer_def)
  next
    case (Some r)
    show ?thesis
    proof (cases r)
      case (Ok out)
      with a Some have "pending_build_poll a = Some (Ok out)"
        by (simp add: pending_build_poll_def task_answer_def)
      then show ?thesis
        using that(2,3) better [of w args] not_cancelled [OF assms(2), of w] Some Ok
        by (cases out) auto
    next
      case (Err err)
      with a Some show ?thesis using that(4) by (simp add: pending_build_poll_def task_answer_def)
    next
      case Panic
      with a Some show ?thesis using that(4) by (simp add: pending_build_poll_def task_answer_def)
    qed
  qed
qed

end

lemma execute_mempool_not_cancelled:
  assumes "execute_mempool_loop e bt cancelled k committed it bs db = Some res"
    and "\<And>k. \<not> cancelled k"
  shows "snd (snd res) \<noteq> Err JobCancelled"
  using assms
proof (induction rule: execute_mempool_induct)
  case (step loop e bt cancelled k committed it bs db res)
  show ?case
  proof (cases "bt_next bt it")
    case None
    with step.hyps step.prems show ?thesis by auto
  next
    case (Some nxt)
    obtain tx it1 where nxt: "nxt = (tx, it1)" by (cases nxt)
    show ?thesis
      using step.hyps step.prems
      by (auto simp: Some nxt split: if_splits result.splits failure_action.splits prod.splits
          dest: step.IH)
  qed
qed

lemma finish_build_not_cancelled:
  "snd (snd out) \<noteq> Err JobCancelled \<Longrightarrow> finish_build api best out \<noteq> Ok BuildCancelled"
  by (cases out) (auto simp: finish_build_def Let_def split: result.splits tx_execution.splits)

lemma loop_finish_not_cancelled:
  "map_option (finish_build api best) (execute_mempool_loop e bt (\<lambda>_. False) k committed it bs db)
     \<noteq> Some (Ok BuildCancelled)"
proof (cases "execute_mempool_loop e bt (\<lambda>_. False) k committed it bs db")
  case None
  then show ?thesis by simp
next
  case (Some res)
  from finish_build_not_cancelled [OF execute_mempool_not_cancelled [OF this], of api best] Some
  show ?thesis by simp
qed

lemma mempool_not_cancelled:
  "mempool_try_build e api bt (\<lambda>_. False) build_id now pc bc best \<noteq> Some (Ok BuildCancelled)"
  unfolding mempool_try_build_def execute_txs_def Let_def
  by (simp only: loop_finish_not_cancelled result.distinct result.inject option.inject option.distinct
      not_False_eq_True simp_thms split: result.split option.split)

lemma bundles_not_cancelled:
  "bundles_try_build e api bt dec rec locked pool (\<lambda>_. False) build_id now pc bc best \<noteq> Some (Ok BuildCancelled)"
  unfolding bundles_try_build_def execute_mempool_txs_def Let_def
  by (simp only: loop_finish_not_cancelled result.distinct result.inject option.inject option.distinct
      not_False_eq_True simp_thms split: result.split option.split prod.split)

interpretation bundle_jobs: job_strategy "strategy_try_build (BundlesStrat pc)" for pc
  by unfold_locales (auto simp: strategy_try_build_def bundles_not_cancelled elim!: bundles_try_build_BetterE)

interpretation mempool_jobs: job_strategy "strategy_try_build (MempoolStrat pc)" for pc
  by unfold_locales (auto simp: strategy_try_build_def mempool_not_cancelled elim!: mempool_try_build_BetterE)

section \<open>Runs of a job\<close>

text \<open>The arguments of the pending build, or of the build the next poll spawns.\<close>

definition stream_args :: "('cs, 'bst) stream_job \<Rightarrow> ('cs, 'bst) build_arguments" where
  "stream_args j = BuildArguments_new (sj_build_config j) Cancelled_default (sj_best_build j)"

definition interval_args :: "('cs, 'bst) interval_job \<Rightarrow> ('cs, 'bst) build_arguments" where
  "interval_args j = BuildArguments_new (ij_build_config j) Cancelled_default (ij_best_build j)"

text \<open>What the channel of a build with these arguments may answer.\<close>

definition may_answer ::
  "('w \<Rightarrow> ('cs, 'bst) build_arguments \<Rightarrow> (('cs, 'bst) build_outcome, payload_builder_error) result option) \<Rightarrow>
   ('cs, 'bst) build_arguments \<Rightarrow> (('cs, 'bst) build_outcome, payload_builder_error) result rx_answer \<Rightarrow> bool"
where
  "may_answer try_build args a = (a = NotReady \<or> (\<exists>w. a = task_answer (try_build w args)))"

definition stream_inv :: "('cs, 'bst) stream_job \<Rightarrow> bool" where
  "stream_inv j = (sj_pending_build j = None \<or> sj_pending_build j = Some (stream_args j))"

definition interval_inv :: "('cs, 'bst) interval_job \<Rightarrow> bool" where
  "interval_inv j = (ij_pending_build j = None \<or> ij_pending_build j = Some (interval_args j))"

inductive stream_reach ::
  "('w \<Rightarrow> ('cs, 'bst) build_arguments \<Rightarrow> (('cs, 'bst) build_outcome, payload_builder_error) result option) \<Rightarrow>
   ('cs, 'bst) stream_job \<Rightarrow> bool"
  for try_build
where
  start: "stream_new_payload_job c now cfg = Ok j \<Longrightarrow> stream_reach try_build j"
| poll: "stream_reach try_build j \<Longrightarrow> may_answer try_build (stream_args j) a \<Longrightarrow>
         stream_poll now a j = Ok (st, j', effects, wakes) \<Longrightarrow> stream_reach try_build j'"

text \<open>What one poll guarantees.\<close>

definition bids_improve :: "u256 \<Rightarrow> ('cs, 'bst) job_effect list \<Rightarrow> bool" where
  "bids_improve v effects =
     list_all (\<lambda>e. case e of MakeBid bs \<Rightarrow> v < block_value bs | _ \<Rightarrow> True) effects"

lemma stream_spawn_cases:
  assumes "stream_inv j"
  obtains j1 effects where "stream_spawn j = (j1, effects)" "sj_pending_build j1 = Some (stream_args j)"
    "sj_best_build j1 = sj_best_build j" "sj_build_config j1 = sj_build_config j"
    "sj_deadline j1 = sj_deadline j" "bids_improve v effects"
proof (cases "sj_pending_build j")
  case None
  show ?thesis
    by (rule that [of "j\<lparr> sj_pending_build := Some (stream_args j),
          sj_metrics := inc_initiated_payload_builds (sj_metrics j) \<rparr>" "[SpawnBuild (stream_args j)]"])
      (simp_all add: None stream_spawn_def stream_args_def [symmetric] bids_improve_def Let_def)
next
  case (Some args)
  with assms have "args = stream_args j" by (simp add: stream_inv_def)
  with Some show ?thesis
    by (intro that [of j "[]"]) (simp_all add: stream_spawn_def bids_improve_def)
qed

context job_strategy
begin

lemma stream_step:
  assumes "stream_inv j" and "may_answer try_build (stream_args j) a"
  shows "\<exists>st j' effects wakes. stream_poll now a j = Ok (st, j', effects, wakes) \<and> stream_inv j' \<and>
           best_value (sj_best_build j) \<le> best_value (sj_best_build j') \<and>
           bids_improve (best_value (sj_best_build j)) effects \<and>
           (st = JobFinished) = (sj_deadline j \<le> now)"
proof (cases "sj_deadline j \<le> now")
  case True
  then show ?thesis using assms(1) by (simp add: stream_poll_def bids_improve_def)
next
  case False
  obtain j1 effects where sp: "stream_spawn j = (j1, effects)"
      "sj_pending_build j1 = Some (stream_args j)" "sj_best_build j1 = sj_best_build j"
      "sj_build_config j1 = sj_build_config j" "sj_deadline j1 = sj_deadline j"
      "bids_improve (best_value (sj_best_build j)) effects"
    using stream_spawn_cases [OF assms(1)] by metis
  have nc: "\<not> is_cancelled (ba_cancel (stream_args j))" "ba_best_build (stream_args j) = sj_best_build j"
    by (simp_all add: stream_args_def BuildArguments_new_def Cancelled_default_def is_cancelled_def)
  have same: "stream_args (j1\<lparr> sj_pending_build := x, sj_metrics := m \<rparr>) = stream_args j" for x m
    using sp by (simp add: stream_args_def)
  show ?thesis
  proof (rule answer_cases [OF assms(2) [unfolded may_answer_def] nc(1)])
    assume "pending_build_poll a = None"
    then show ?thesis using False sp by (simp add: stream_poll_def stream_inv_def stream_args_def)
  next
    fix bs assume "pending_build_poll a = Some (Ok (Better bs))"
      and "best_value (ba_best_build (stream_args j)) < block_value bs"
    then show ?thesis using False sp nc
      by (simp add: stream_poll_def stream_inv_def bids_improve_def best_value_def)
  next
    fix v assume "pending_build_poll a = Some (Ok (Aborted v))"
    then show ?thesis using False sp by (simp add: stream_poll_def stream_inv_def)
  next
    fix err assume "pending_build_poll a = Some (Err err)"
    then show ?thesis using False sp by (simp add: stream_poll_def stream_inv_def)
  qed
qed

lemma stream_reach_inv: "stream_reach try_build j \<Longrightarrow> stream_inv j"
proof (induction rule: stream_reach.induct)
  case (start c now cfg j)
  then show ?case by (auto simp: stream_new_payload_job_def stream_inv_def)
next
  case (poll j a now st j' effects wakes)
  with stream_step [of j a now] show ?case by auto
qed

lemmas stream_reach_step = stream_step [OF stream_reach_inv]

end

text \<open>The loop over the ticks spawns at most one build.\<close>

lemma interval_ticks_eq:
  "interval_ticks n j =
     (if n = 0 \<or> ij_pending_build j \<noteq> None then (j, [])
      else (j\<lparr> ij_pending_build := Some (interval_args j),
               ij_metrics := inc_initiated_payload_builds (ij_metrics j) \<rparr>, [SpawnBuild (interval_args j)]))"
  by (induction n arbitrary: j) (auto simp: interval_args_def Let_def split: option.splits)

lemma interval_ticks_cases:
  assumes "interval_inv j"
  obtains j1 effects where "interval_ticks n j = (j1, effects)" "interval_inv j1"
    "ij_best_build j1 = ij_best_build j" "ij_build_config j1 = ij_build_config j"
    "ij_deadline j1 = ij_deadline j" "length effects \<le> 1"
  using assms
  by (rule_tac that [OF surjective_pairing])
    (simp_all add: interval_ticks_eq interval_inv_def interval_args_def)

context job_strategy
begin

lemma interval_step:
  assumes "interval_inv j" and "may_answer try_build (interval_args j) a"
  shows "\<exists>st j' effects wakes. interval_poll now ticks a j = Ok (st, j', effects, wakes) \<and> interval_inv j' \<and>
           best_value (ij_best_build j) \<le> best_value (ij_best_build j') \<and>
           (st = JobFinished) = (ij_deadline j \<le> now)"
proof (cases "ij_deadline j \<le> now")
  case True
  then show ?thesis using assms(1) by (simp add: interval_poll_def)
next
  case False
  obtain j1 effects where t: "interval_ticks ticks j = (j1, effects)" "interval_inv j1"
      "ij_best_build j1 = ij_best_build j" "ij_build_config j1 = ij_build_config j"
      "ij_deadline j1 = ij_deadline j"
    using interval_ticks_cases [OF assms(1)] by metis
  have nc: "\<not> is_cancelled (ba_cancel (interval_args j))" "ba_best_build (interval_args j) = ij_best_build j"
    by (simp_all add: interval_args_def BuildArguments_new_def Cancelled_default_def is_cancelled_def)
  show ?thesis
  proof (cases "ij_pending_build j1")
    case None
    then show ?thesis using False t by (simp add: interval_poll_def)
  next
    case (Some args)
    show ?thesis
    proof (rule answer_cases [OF assms(2) [unfolded may_answer_def] nc(1)])
      assume "pending_build_poll a = None"
      then show ?thesis using False t Some by (simp add: interval_poll_def)
    next
      fix bs assume "pending_build_poll a = Some (Ok (Better bs))"
        and "best_value (ba_best_build (interval_args j)) < block_value bs"
      then show ?thesis using False t Some nc
        by (simp add: interval_poll_def interval_inv_def best_value_def)
    next
      fix v assume "pending_build_poll a = Some (Ok (Aborted v))"
      then show ?thesis using False t Some by (simp add: interval_poll_def interval_inv_def)
    next
      fix err assume "pending_build_poll a = Some (Err err)"
      then show ?thesis using False t Some by (simp add: interval_poll_def interval_inv_def)
    qed
  qed
qed

end

text \<open>Polling a resolve future with the successive answers of its channel.\<close>

fun resolve_run ::
  "('blob build, payload_builder_error) result rx_answer list \<Rightarrow> 'blob resolve_best_payload \<Rightarrow>
   ('blob build, payload_builder_error) result option"
where
  "resolve_run [] fut = None"
| "resolve_run (a # as) fut =
     (case resolve_best_payload_poll a fut of
        (Some r, _) \<Rightarrow> Some r
      | (None, fut') \<Rightarrow> resolve_run as fut')"

lemma resolve_run_best:
  "rb_best_payload fut = Some b \<Longrightarrow> resolve_run (a # as) fut = Some (Ok b)"
  by (simp add: resolve_best_payload_poll_def)

lemma resolve_run_waits:
  "rb_best_payload fut = None \<Longrightarrow> rb_empty_payload fut = Some cfg \<Longrightarrow>
     resolve_run (replicate n NotReady @ as) fut = resolve_run as fut"
  by (induction n) (simp_all add: resolve_best_payload_poll_def)

section \<open>Properties\<close>

text \<open>
  C11: A stream job never panics and never goes backwards. Whatever build tasks of the bundle
  strategy answer, a poll of a reachable job returns, its best build never loses value, every
  state handed to the bidder is worth more than the best one before, and the job finishes exactly
  when its deadline has passed.
\<close>

theorem stream_job_progress:
  fixes c :: "'cs job_generator_config"
  assumes "stream_reach (strategy_try_build (stream_job_strategy c) ::
      ('cs, 'db, 'sdb, 'bst, 'prov, 'blob, 'it, 'signed) build_world \<Rightarrow> _) j"
    and "may_answer (strategy_try_build (stream_job_strategy c) ::
      ('cs, 'db, 'sdb, 'bst, 'prov, 'blob, 'it, 'signed) build_world \<Rightarrow> _) (stream_args j) a"
  shows "\<exists>st j' effects wakes. stream_poll now a j = Ok (st, j', effects, wakes) \<and>
           best_value (sj_best_build j) \<le> best_value (sj_best_build j') \<and>
           bids_improve (best_value (sj_best_build j)) effects \<and>
           (st = JobFinished) = (sj_deadline j \<le> now)"
  using bundle_jobs.stream_reach_step [OF assms [unfolded stream_job_strategy_def], of now] by blast

text \<open>
  After a failed build attempt a stream job is woken by nothing but its deadline: although it
  means to try again, no build is pending and no source that would poll it earlier is armed. An
  interval job in the same situation is woken by its next tick.
\<close>

lemma failed_build_stalls_stream_job:
  assumes "pending_build_poll a = Some (Err err)"
    and "now < sj_deadline j" and "now < ij_deadline i"
  shows "(\<exists>j' effects. stream_poll now a j = Ok (JobPending, j', effects, {WakeDeadline}) \<and>
            sj_pending_build j' = None) \<and>
         (\<exists>i' effects wakes. interval_poll now ticks a i = Ok (JobPending, i', effects, wakes) \<and>
            WakeInterval \<in> wakes)"
  using assms
  by (auto simp: stream_poll_def interval_poll_def case_prod_unfold Let_def split: option.split)

text \<open>
  Resolving an interval job always yields an answer. The future never panics: it gives the
  sealed best build at once when there is one, and otherwise, after any number of polls, the
  result of the empty payload task; the job is dropped and its best build is gone.
\<close>

lemma resolve_always_answers:
  assumes "interval_resolve api j = Ok (fut, keep, j')"
  shows "keep = KeepNo \<and> ij_best_build j' = None \<and>
         resolve_run (replicate n NotReady @ [empty_payload_task e api build_id now pc (ij_build_config j)]) fut =
           Some (case rb_best_payload fut of
                   Some b \<Rightarrow> Ok b
                 | None \<Rightarrow> (case build_empty_payload e api build_id now pc (ij_build_config j) of
                             Panic \<Rightarrow> Err ChannelClosed
                           | r \<Rightarrow> r))"
proof (cases "rb_best_payload fut")
  case None
  with assms have "rb_empty_payload fut = Some (ij_build_config j)"
    by (auto simp: interval_resolve_def Let_def result_bind_Ok_iff)
  with None assms show ?thesis
    by (cases "build_empty_payload e api build_id now pc (ij_build_config j)")
      (auto simp: interval_resolve_def Let_def result_bind_Ok_iff resolve_run_waits
        resolve_best_payload_poll_def empty_payload_task_def task_answer_def)
next
  case (Some b)
  have "resolve_run (replicate n NotReady @ [x]) fut = Some (Ok b)" for x
    using resolve_run_best [OF Some] by (cases n) simp_all
  moreover have "keep = KeepNo \<and> ij_best_build j' = None"
    using assms by (auto simp: interval_resolve_def Let_def result_bind_Ok_iff)
  ultimately show ?thesis by (simp add: Some)
qed

definition sample_job :: "(unit, unit) stream_job" where
  "sample_job =
     \<lparr> sj_build_config = sample_config, sj_deadline = 12000, sj_best_build = None,
       sj_pending_build = None, sj_metrics = payload_metrics_default \<rparr>"

definition sample_interval_job :: "(unit, unit) interval_job" where
  "sample_interval_job =
     \<lparr> ij_build_config = sample_config, ij_deadline = 12000, ij_best_build = None,
       ij_pending_build = None, ij_metrics = payload_metrics_default \<rparr>"

definition sample_world :: "(unit, unit, unit, unit, unit, unit, recovered_tx list, unit) build_world" where
  "sample_world =
     \<lparr> w_evm = sample_evm, w_api = sample_api, w_best_txs = sample_best_txs,
       w_decode_enveloped = (\<lambda>_. None), w_into_ecrecovered = (\<lambda>_. None), w_locked = True,
       w_bundle_pool = BundlePool_new, w_build_id = 1, w_instant = 0 \<rparr>"

lemma sample_task:
  "task_answer (strategy_try_build (BundlesStrat sample_payload_config) sample_world (stream_args sample_job)) =
     Received (Ok (Better (with_bundle_state () (sample_committed [1, 2]))))"
  using sample_build
  by (simp add: strategy_try_build_def sample_world_def stream_args_def sample_job_def
      BuildArguments_new_def Cancelled_default_def is_cancelled_def task_answer_def)

theorem stream_job_progress_witness:
  "\<exists>st j' effects wakes.
     stream_poll 5 (Received (Ok (Better (with_bundle_state () (sample_committed [1, 2]))))) sample_job =
       Ok (st, j', effects, wakes) \<and> st \<noteq> JobFinished"
proof -
  let ?c = "\<lparr> gc_interval = 1, gc_deadline = 12000, gc_max_payload_tasks = 3,
      gc_payload_config = sample_payload_config \<rparr>"
  have st: "stream_job_strategy ?c = BundlesStrat sample_payload_config"
    by (simp add: stream_job_strategy_def)
  let ?attempt = "strategy_try_build (stream_job_strategy ?c) ::
    (unit, unit, unit, unit, unit, unit, recovered_tx list, unit) build_world \<Rightarrow> _"
  have "stream_reach ?attempt sample_job"
    by (rule stream_reach.start [of ?c 0 sample_config])
      (simp add: stream_new_payload_job_def sample_job_def)
  moreover have "may_answer ?attempt (stream_args sample_job)
      (Received (Ok (Better (with_bundle_state () (sample_committed [1, 2])))))"
    unfolding may_answer_def st using sample_task by metis
  ultimately obtain st j' effects wakes where
    "stream_poll 5 (Received (Ok (Better (with_bundle_state () (sample_committed [1, 2]))))) sample_job =
       Ok (st, j', effects, wakes)" "(st = JobFinished) = (sj_deadline sample_job \<le> 5)"
    using stream_job_progress [of ?c sample_job _ 5] by blast
  then show ?thesis by (auto simp: sample_job_def)
qed

end
