(* ===== verification/Payload_Service.thy ===== *)
theory Payload_Service
  imports Build_Jobs
begin

text \<open>
  The payload service of \<open>crates/payload/src/service\<close>: it keeps the active jobs, polls them, and
  serves the commands of its handles.

  The service is generic in its generator.  The operations of the traits \<open>PayloadJob\<close> and
  \<open>PayloadJobGenerator\<close> (\<open>traits.rs\<close>) are the record \<open>job_ops\<close>; \<open>'env\<close> is everything they read
  and change outside the job (time, channels, chain).  One poll of the service takes the batches
  of commands that each turn of its loop finds in the channel.
\<close>

section \<open>State\<close>

record ('env, 'job, 'payload, 'fut) job_ops =
  jo_poll :: "'env \<Rightarrow> 'job \<Rightarrow> (job_status \<times> 'job \<times> 'env, unit) result"
  jo_best_payload :: "'env \<Rightarrow> 'job \<Rightarrow> ('payload, payload_builder_error) result"
  jo_payload_attributes :: "'job \<Rightarrow> (payload_attributes, payload_builder_error) result"
  jo_resolve :: "'env \<Rightarrow> 'job \<Rightarrow> ('fut \<times> keep_payload_job_alive \<times> 'job \<times> 'env, unit) result"
  jo_new_payload_job :: "'env \<Rightarrow> build_config \<Rightarrow> ('job, payload_builder_error) result"

record service_metrics =
  sm_active_jobs :: nat
  sm_initiated_jobs :: u64
  sm_failed_jobs :: u64

definition inc_initiated_jobs :: "service_metrics \<Rightarrow> service_metrics" where
  "inc_initiated_jobs m = m\<lparr> sm_initiated_jobs := sm_initiated_jobs m + 1 \<rparr>"

definition inc_failed_jobs :: "service_metrics \<Rightarrow> service_metrics" where
  "inc_failed_jobs m = m\<lparr> sm_failed_jobs := sm_failed_jobs m + 1 \<rparr>"

definition set_active_jobs :: "nat \<Rightarrow> service_metrics \<Rightarrow> service_metrics" where
  "set_active_jobs n m = m\<lparr> sm_active_jobs := n \<rparr>"

record 'job payload_service =
  ps_payload_jobs :: "('job \<times> u64) list"
  ps_metrics :: service_metrics

definition PayloadBuilderService_new :: "'job payload_service" where
  "PayloadBuilderService_new =
     \<lparr> ps_payload_jobs = [],
       ps_metrics = \<lparr> sm_active_jobs = 0, sm_initiated_jobs = 0, sm_failed_jobs = 0 \<rparr> \<rparr>"

datatype payload_service_command =
  BuildNewPayload build_config | BestPayload u64 | PayloadAttributes u64 | Resolve u64

datatype ('payload, 'fut) service_reply =
  NewPayloadReply "(u64, payload_builder_error) result"
  | BestPayloadReply "('payload, payload_builder_error) result option"
  | AttributesReply "(payload_attributes, payload_builder_error) result option"
  | ResolveReply "'fut option"

section \<open>Operations\<close>

definition contains_payload :: "'job payload_service \<Rightarrow> u64 \<Rightarrow> bool" where
  "contains_payload s pid = list_ex (\<lambda>(_, job_id). job_id = pid) (ps_payload_jobs s)"

definition find_job :: "'job payload_service \<Rightarrow> u64 \<Rightarrow> 'job option" where
  "find_job s pid = map_option fst (find (\<lambda>(_, job_id). job_id = pid) (ps_payload_jobs s))"

definition service_best_payload ::
  "('env, 'job, 'payload, 'fut) job_ops \<Rightarrow> 'env \<Rightarrow> 'job payload_service \<Rightarrow> u64 \<Rightarrow>
   ('payload, payload_builder_error) result option"
where
  "service_best_payload ops env s pid = map_option (jo_best_payload ops env) (find_job s pid)"

definition service_payload_attributes ::
  "('env, 'job, 'payload, 'fut) job_ops \<Rightarrow> 'job payload_service \<Rightarrow> u64 \<Rightarrow>
   (payload_attributes, payload_builder_error) result option"
where
  "service_payload_attributes ops s pid = map_option (jo_payload_attributes ops) (find_job s pid)"

definition service_resolve ::
  "('env, 'job, 'payload, 'fut) job_ops \<Rightarrow> 'env \<Rightarrow> 'job payload_service \<Rightarrow> u64 \<Rightarrow>
   ('fut option \<times> 'job payload_service \<times> 'env, unit) result"
where
  "service_resolve ops env s pid =
     (case position (\<lambda>(_, job_id). job_id = pid) (ps_payload_jobs s) of
        None \<Rightarrow> Ok (None, s, env)
      | Some i \<Rightarrow>
          result_bind (jo_resolve ops env (fst (ps_payload_jobs s ! i))) (\<lambda>(fut, keep_alive, job, env').
            let jobs = (ps_payload_jobs s)[i := (job, snd (ps_payload_jobs s ! i))]
            in Ok (Some fut,
                   s\<lparr> ps_payload_jobs := (if keep_alive = KeepNo then vec_remove jobs i else jobs) \<rparr>,
                   env')))"

section \<open>The poll loop\<close>

text \<open>One job: taken out with \<open>swap_remove\<close>, polled, and pushed back while it is pending.\<close>

definition poll_job ::
  "('env, 'job, 'payload, 'fut) job_ops \<Rightarrow> nat \<Rightarrow> 'env \<Rightarrow> 'job payload_service \<Rightarrow>
   ('env \<times> 'job payload_service, unit) result"
where
  "poll_job ops idx env s =
     (case ps_payload_jobs s ! idx of
        (job, pid) \<Rightarrow>
          let jobs = swap_remove (ps_payload_jobs s) idx
          in result_bind (jo_poll ops env job) (\<lambda>(status, job', env').
               Ok (env',
                 case status of
                   JobFinished \<Rightarrow>
                     s\<lparr> ps_payload_jobs := jobs, ps_metrics := set_active_jobs (length jobs) (ps_metrics s) \<rparr>
                 | JobFailed err \<Rightarrow>
                     s\<lparr> ps_payload_jobs := jobs,
                        ps_metrics := set_active_jobs (length jobs) (inc_failed_jobs (ps_metrics s)) \<rparr>
                 | JobPending \<Rightarrow> s\<lparr> ps_payload_jobs := jobs @ [(job', pid)] \<rparr>)))"

text \<open>\<open>for idx in (0..len).rev()\<close>\<close>

fun poll_jobs_loop ::
  "('env, 'job, 'payload, 'fut) job_ops \<Rightarrow> nat \<Rightarrow> 'env \<Rightarrow> 'job payload_service \<Rightarrow>
   ('env \<times> 'job payload_service, unit) result"
where
  "poll_jobs_loop ops 0 env s = Ok (env, s)"
| "poll_jobs_loop ops (Suc idx) env s =
     result_bind (poll_job ops idx env s) (\<lambda>(env', s'). poll_jobs_loop ops idx env' s')"

definition poll_jobs ::
  "('env, 'job, 'payload, 'fut) job_ops \<Rightarrow> 'env \<Rightarrow> 'job payload_service \<Rightarrow>
   ('env \<times> 'job payload_service, unit) result"
where
  "poll_jobs ops env s = poll_jobs_loop ops (length (ps_payload_jobs s)) env s"

text \<open>One command; the last component says whether a new job was created.\<close>

definition handle_command ::
  "('env, 'job, 'payload, 'fut) job_ops \<Rightarrow> 'env \<Rightarrow> 'job payload_service \<Rightarrow> payload_service_command \<Rightarrow>
   (('payload, 'fut) service_reply \<times> 'job payload_service \<times> 'env \<times> bool, unit) result"
where
  "handle_command ops env s cmd =
     (case cmd of
        BuildNewPayload config \<Rightarrow>
          let pid = pa_id (bc_attributes config)
          in if contains_payload s pid then Ok (NewPayloadReply (Ok pid), s, env, False)
             else (case jo_new_payload_job ops env config of
                     Ok job \<Rightarrow>
                       Ok (NewPayloadReply (Ok pid),
                           s\<lparr> ps_payload_jobs := ps_payload_jobs s @ [(job, pid)],
                              ps_metrics := inc_initiated_jobs (ps_metrics s) \<rparr>, env, True)
                   | Err err \<Rightarrow>
                       Ok (NewPayloadReply (Err err), s\<lparr> ps_metrics := inc_failed_jobs (ps_metrics s) \<rparr>, env, False)
                   | Panic \<Rightarrow> Panic)
      | BestPayload pid \<Rightarrow>
          (case service_best_payload ops env s pid of
             Some Panic \<Rightarrow> Panic
           | r \<Rightarrow> Ok (BestPayloadReply r, s, env, False))
      | PayloadAttributes pid \<Rightarrow>
          (case service_payload_attributes ops s pid of
             Some Panic \<Rightarrow> Panic
           | r \<Rightarrow> Ok (AttributesReply r, s, env, False))
      | Resolve pid \<Rightarrow>
          result_bind (service_resolve ops env s pid) (\<lambda>(fut, s', env').
            Ok (ResolveReply fut, s', env', False)))"

fun drain_commands ::
  "('env, 'job, 'payload, 'fut) job_ops \<Rightarrow> 'env \<Rightarrow> 'job payload_service \<Rightarrow> payload_service_command list \<Rightarrow>
   (('payload, 'fut) service_reply list \<times> 'job payload_service \<times> 'env \<times> bool, unit) result"
where
  "drain_commands ops env s [] = Ok ([], s, env, False)"
| "drain_commands ops env s (cmd # cmds) =
     result_bind (handle_command ops env s cmd) (\<lambda>(reply, s1, env1, new1).
     result_bind (drain_commands ops env1 s1 cmds) (\<lambda>(replies, s2, env2, new2).
       Ok (reply # replies, s2, env2, new1 \<or> new2)))"

text \<open>
  The outer loop: poll all jobs, drain the commands that have arrived, and turn again while a new
  job was created.  The last component is what arrives after the poll has returned.
\<close>

fun service_poll ::
  "('env, 'job, 'payload, 'fut) job_ops \<Rightarrow> 'env \<Rightarrow> 'job payload_service \<Rightarrow> payload_service_command list list \<Rightarrow>
   (('payload, 'fut) service_reply list \<times> 'job payload_service \<times> 'env \<times> payload_service_command list list, unit) result"
where
  "service_poll ops env s [] =
     result_bind (poll_jobs ops env s) (\<lambda>(env1, s1). Ok ([], s1, env1, []))"
| "service_poll ops env s (cmds # batches) =
     result_bind (poll_jobs ops env s) (\<lambda>(env1, s1).
     result_bind (drain_commands ops env1 s1 cmds) (\<lambda>(replies, s2, env2, new_job).
       if new_job then
         result_bind (service_poll ops env2 s2 batches) (\<lambda>(replies', s3, env3, rest).
           Ok (replies @ replies', s3, env3, rest))
       else Ok (replies, s2, env2, batches)))"

section \<open>Polling each job once\<close>

text \<open>
  The reference: poll the jobs of a list one after the other, keep those that are pending in
  order, and count the failed ones.
\<close>

fun poll_each ::
  "('env, 'job, 'payload, 'fut) job_ops \<Rightarrow> 'env \<Rightarrow> ('job \<times> u64) list \<Rightarrow>
   ('env \<times> ('job \<times> u64) list \<times> nat, unit) result"
where
  "poll_each ops env [] = Ok (env, [], 0)"
| "poll_each ops env ((job, pid) # jobs) =
     result_bind (jo_poll ops env job) (\<lambda>(status, job', env1).
     result_bind (poll_each ops env1 jobs) (\<lambda>(env2, alive, failed).
       Ok (env2, (if status = JobPending then (job', pid) # alive else alive),
           (case status of JobFailed _ \<Rightarrow> Suc failed | _ \<Rightarrow> failed))))"

lemma poll_each_ids:
  "poll_each ops env jobs = Ok (env', alive, failed) \<Longrightarrow>
     mset (map snd alive) \<subseteq># mset (map snd jobs)"
proof (induction jobs arbitrary: env env' alive failed)
  case (Cons x jobs)
  obtain job pid where x: "x = (job, pid)" by (cases x)
  from Cons.prems obtain env1 alive1 failed1 where
    "poll_each ops env1 jobs = Ok (env', alive1, failed1)"
    and a: "mset (map snd alive) \<subseteq># add_mset pid (mset (map snd alive1))"
    by (auto simp: x result_bind_Ok_iff split: if_splits)
  from Cons.IH [OF this(1)] have "add_mset pid (mset (map snd alive1)) \<subseteq># mset (map snd (x # jobs))"
    by (simp add: x)
  with a show ?case by (rule subset_mset.order_trans)
qed simp

lemma poll_each_length:
  "poll_each ops env jobs = Ok (env', alive, failed) \<Longrightarrow> length alive \<le> length jobs"
  using size_mset_mono [OF poll_each_ids] by fastforce

text \<open>\<open>swap_remove\<close> at the end of the jobs still to be polled, followed by the polled ones.\<close>

lemma swap_remove_split:
  "\<exists>zs. swap_remove (xs @ x # ys) (length xs) = xs @ zs \<and> mset zs = mset ys"
proof (cases ys rule: rev_cases)
  case Nil
  then show ?thesis by (simp add: swap_remove_def butlast_append)
next
  case (snoc us u)
  have "swap_remove (xs @ x # ys) (length xs) = xs @ u # us"
    by (simp add: snoc swap_remove_def butlast_append)
  then show ?thesis by (intro exI [of _ "u # us"]) (simp add: snoc)
qed

definition rotated :: "('job \<times> u64) list \<Rightarrow> 'job payload_service \<Rightarrow> 'job payload_service \<Rightarrow> nat \<Rightarrow> bool" where
  "rotated alive s s' failed =
     (mset (ps_payload_jobs s') = mset alive \<and>
      sm_initiated_jobs (ps_metrics s') = sm_initiated_jobs (ps_metrics s) \<and>
      sm_failed_jobs (ps_metrics s') = sm_failed_jobs (ps_metrics s) + of_nat failed \<and>
      sm_active_jobs (ps_metrics s') =
        (if length alive < length (ps_payload_jobs s) then length (ps_payload_jobs s')
         else sm_active_jobs (ps_metrics s)))"

lemma poll_jobs_loop_each:
  assumes "ps_payload_jobs s = xs @ ys"
  shows "case poll_each ops env (rev xs) of
           Ok (env', alive, failed) \<Rightarrow>
             \<exists>s'. poll_jobs_loop ops (length xs) env s = Ok (env', s') \<and> rotated (alive @ ys) s s' failed
         | Err u \<Rightarrow> poll_jobs_loop ops (length xs) env s = Err u
         | Panic \<Rightarrow> poll_jobs_loop ops (length xs) env s = Panic"
  using assms
proof (induction xs arbitrary: env s ys rule: rev_induct)
  case Nil
  then show ?case by (simp add: rotated_def)
next
  case (snoc x xs)
  obtain job pid where x: "x = (job, pid)" by (cases x)
  obtain zs where zs: "swap_remove (ps_payload_jobs s) (length xs) = xs @ zs" "mset zs = mset ys"
    using swap_remove_split [of xs x ys] snoc.prems by auto
  have lz: "length zs = length ys" using zs(2) by (metis size_mset)
  have nth: "ps_payload_jobs s ! length xs = (job, pid)" by (simp add: snoc.prems x)
  show ?case
  proof (cases "jo_poll ops env job")
    case (Ok r)
    obtain status job' env1 where r: "r = (status, job', env1)" by (cases r)
    define s1 where "s1 = (case status of
        JobFinished \<Rightarrow>
          s\<lparr> ps_payload_jobs := xs @ zs, ps_metrics := set_active_jobs (length (xs @ zs)) (ps_metrics s) \<rparr>
      | JobFailed err \<Rightarrow>
          s\<lparr> ps_payload_jobs := xs @ zs,
             ps_metrics := set_active_jobs (length (xs @ zs)) (inc_failed_jobs (ps_metrics s)) \<rparr>
      | JobPending \<Rightarrow> s\<lparr> ps_payload_jobs := (xs @ zs) @ [(job', pid)] \<rparr>)"
    define ys1 where "ys1 = (if status = JobPending then zs @ [(job', pid)] else zs)"
    have s1: "ps_payload_jobs s1 = xs @ ys1" by (cases status) (simp_all add: s1_def ys1_def)
    have step: "poll_job ops (length xs) env s = Ok (env1, s1)"
      by (simp add: poll_job_def nth Ok r zs(1) s1_def Let_def)
    show ?thesis
    proof (cases "poll_each ops env1 (rev xs)")
      case (Ok r2)
      obtain env2 alive failed where r2: "r2 = (env2, alive, failed)" by (cases r2)
      from snoc.IH [OF s1, of env1] Ok r2 obtain s' where
        s': "poll_jobs_loop ops (length xs) env1 s1 = Ok (env2, s')" "rotated (alive @ ys1) s1 s' failed"
        by auto
      have len: "length (ps_payload_jobs s') = length alive + length ys1"
        using s'(2) by (metis length_append rotated_def size_mset)
      have "rotated ((if status = JobPending then (job', pid) # alive else alive) @ ys) s s'
          (case status of JobFailed _ \<Rightarrow> Suc failed | _ \<Rightarrow> failed)"
        using s'(2) zs(2) lz len poll_each_length [OF Ok [unfolded r2]]
        by (cases status)
          (auto simp: rotated_def s1_def ys1_def snoc.prems set_active_jobs_def inc_failed_jobs_def)
      with s'(1) Ok r2 \<open>jo_poll ops env job = Ok r\<close> r step show ?thesis by (simp add: x)
    next
      case (Err u)
      with snoc.IH [OF s1, of env1] \<open>jo_poll ops env job = Ok r\<close> r step show ?thesis by (simp add: x)
    next
      case Panic
      with snoc.IH [OF s1, of env1] \<open>jo_poll ops env job = Ok r\<close> r step show ?thesis by (simp add: x)
    qed
  next
    case (Err u)
    then show ?thesis by (simp add: x poll_job_def nth Let_def)
  next
    case Panic
    then show ?thesis by (simp add: x poll_job_def nth Let_def)
  qed
qed

section \<open>One job per payload\<close>

definition service_inv :: "'job payload_service \<Rightarrow> bool" where
  "service_inv s = distinct (map snd (ps_payload_jobs s))"

lemma distinct_submset:
  assumes "distinct xs" and "mset ys \<subseteq># mset xs"
  shows "distinct ys"
  unfolding distinct_count_atmost_1
proof
  fix a
  have le: "count (mset ys) a \<le> count (mset xs) a" using assms(2) by (rule mset_subset_eq_count)
  have one: "count (mset xs) a \<le> 1" using assms(1) by (simp add: distinct_count_atmost_1)
  show "count (mset ys) a = (if a \<in> set ys then 1 else 0)"
  proof (cases "a \<in> set ys")
    case True
    then have "0 < count (mset ys) a" by simp
    with le one have "count (mset ys) a = 1" by linarith
    with True show ?thesis by simp
  next
    case False
    then show ?thesis by (simp add: count_mset_0_iff)
  qed
qed

lemma poll_jobs_each:
  "poll_jobs ops env s = Ok (env', s') \<Longrightarrow>
     \<exists>alive failed. poll_each ops env (rev (ps_payload_jobs s)) = Ok (env', alive, failed) \<and> rotated alive s s' failed"
  using poll_jobs_loop_each [of s "ps_payload_jobs s" "[]" ops env]
  by (auto simp: poll_jobs_def split: result.splits prod.splits)

lemma poll_jobs_inv: "poll_jobs ops env s = Ok (env', s') \<Longrightarrow> service_inv s \<Longrightarrow> service_inv s'"
proof -
  assume p: "poll_jobs ops env s = Ok (env', s')" and inv: "service_inv s"
  from poll_jobs_each [OF p] obtain alive failed where
    a: "poll_each ops env (rev (ps_payload_jobs s)) = Ok (env', alive, failed)"
      "mset (ps_payload_jobs s') = mset alive"
    by (auto simp: rotated_def)
  have "mset (map snd (ps_payload_jobs s')) = mset (map snd alive)" using a(2) by simp
  with poll_each_ids [OF a(1)] have "mset (map snd (ps_payload_jobs s')) \<subseteq># mset (map snd (ps_payload_jobs s))"
    by (simp add: rev_map [symmetric])
  with inv show "service_inv s'" unfolding service_inv_def by (rule distinct_submset)
qed

lemma contains_payload_iff: "contains_payload s pid \<longleftrightarrow> pid \<in> snd ` set (ps_payload_jobs s)"
  by (force simp: contains_payload_def list_ex_iff)

lemma find_job_None: "find_job s pid = None \<longleftrightarrow> \<not> contains_payload s pid"
  by (force simp: find_job_def contains_payload_iff find_None_iff)

lemma service_resolve_jobs:
  assumes "service_resolve ops env s pid = Ok (fut, s', env')"
  shows "(fut = None \<and> \<not> contains_payload s pid \<and> s' = s) \<or>
    (\<exists>i job f keep job'. fut = Some f \<and> i < length (ps_payload_jobs s) \<and>
       ps_payload_jobs s ! i = (job, pid) \<and> jo_resolve ops env job = Ok (f, keep, job', env') \<and>
       ps_payload_jobs s' = (if keep = KeepNo then vec_remove (ps_payload_jobs s) i
                             else (ps_payload_jobs s)[i := (job', pid)]))"
proof (cases "position (\<lambda>(_, job_id). job_id = pid) (ps_payload_jobs s)")
  case None
  then have "\<not> contains_payload s pid"
    by (auto simp: position_None contains_payload_def list_ex_iff)
  with None assms show ?thesis by (simp add: service_resolve_def)
next
  case (Some i)
  obtain job where job: "i < length (ps_payload_jobs s)" "ps_payload_jobs s ! i = (job, pid)"
    using position_SomeD [OF Some] by (cases "ps_payload_jobs s ! i") auto
  from assms obtain f keep job' where "jo_resolve ops env job = Ok (f, keep, job', env')"
      "fut = Some f" "s' = s\<lparr> ps_payload_jobs := (if keep = KeepNo
         then vec_remove ((ps_payload_jobs s)[i := (job', pid)]) i
         else (ps_payload_jobs s)[i := (job', pid)]) \<rparr>"
    by (auto simp: service_resolve_def Some job(2) result_bind_Ok_iff Let_def)
  then show ?thesis using job
    by (intro disjI2 exI [of _ i] exI [of _ job] exI [of _ f] exI [of _ keep] exI [of _ job'])
      (simp add: vec_remove_def)
qed

lemma distinct_vec_remove:
  assumes "distinct (map f xs)" and "i < length xs"
  shows "distinct (map f (vec_remove xs i)) \<and> set (vec_remove xs i) = set xs - {xs ! i}"
proof -
  have xs: "xs = take i xs @ xs ! i # drop (Suc i) xs" using assms(2) by (rule id_take_nth_drop)
  have d: "distinct (map f (take i xs @ xs ! i # drop (Suc i) xs))" using assms(1) xs by metis
  have "set xs = set (take i xs @ xs ! i # drop (Suc i) xs)" using xs by metis
  with d show ?thesis unfolding vec_remove_def by auto
qed

lemma handle_command_inv:
  assumes "handle_command ops env s cmd = Ok (reply, s', env', new_job)" and "service_inv s"
  shows "service_inv s'"
proof (cases cmd)
  case (BuildNewPayload config)
  with assms show ?thesis
    by (auto simp: handle_command_def service_inv_def contains_payload_iff Let_def
        split: if_splits result.splits)
next
  case (Resolve pid)
  with assms have r: "\<exists>fut. service_resolve ops env s pid = Ok (fut, s', env')"
    by (auto simp: handle_command_def result_bind_Ok_iff)
  then obtain fut where r: "service_resolve ops env s pid = Ok (fut, s', env')" by blast
  have upd: "map snd ((ps_payload_jobs s)[i := (job', pid)]) = map snd (ps_payload_jobs s)"
    if "i < length (ps_payload_jobs s)" "ps_payload_jobs s ! i = (job, pid)" for i job job'
    using that by (metis list_update_id map_update nth_map snd_conv)
  from service_resolve_jobs [OF r] show ?thesis
  proof (elim disjE exE conjE)
    assume "s' = s"
    with assms(2) show ?thesis by simp
  next
    fix i job f keep job'
    assume i: "i < length (ps_payload_jobs s)" "ps_payload_jobs s ! i = (job, pid)"
      and "ps_payload_jobs s' = (if keep = KeepNo then vec_remove (ps_payload_jobs s) i
             else (ps_payload_jobs s)[i := (job', pid)])"
    then show ?thesis
      using upd [OF i] distinct_vec_remove [OF assms(2) [unfolded service_inv_def] i(1)] assms(2)
      by (simp add: service_inv_def del: map_update)
  qed
next
  case (BestPayload pid)
  with assms show ?thesis by (auto simp: handle_command_def split: option.splits result.splits)
next
  case (PayloadAttributes pid)
  with assms show ?thesis by (auto simp: handle_command_def split: option.splits result.splits)
qed

lemma drain_commands_inv:
  "drain_commands ops env s cmds = Ok (replies, s', env', new_job) \<Longrightarrow> service_inv s \<Longrightarrow> service_inv s'"
  by (induction cmds arbitrary: env s replies new_job)
    (auto simp: result_bind_Ok_iff dest: handle_command_inv)

lemma service_poll_inv:
  "service_poll ops env s batches = Ok (replies, s', env', rest) \<Longrightarrow> service_inv s \<Longrightarrow> service_inv s'"
  by (induction ops env s batches arbitrary: replies rule: service_poll.induct)
    (auto simp: result_bind_Ok_iff dest!: poll_jobs_inv drain_commands_inv split: if_splits)

text \<open>The service over its whole life: each poll with its environment and its batches.\<close>

inductive service_reach :: "('env, 'job, 'payload, 'fut) job_ops \<Rightarrow> 'job payload_service \<Rightarrow> bool"
  for ops
where
  start: "service_reach ops PayloadBuilderService_new"
| poll: "service_reach ops s \<Longrightarrow> service_poll ops env s batches = Ok (replies, s', env', rest) \<Longrightarrow>
         service_reach ops s'"

lemma service_reach_inv: "service_reach ops s \<Longrightarrow> service_inv s"
  by (induction rule: service_reach.induct)
    (auto simp: PayloadBuilderService_new_def service_inv_def intro: service_poll_inv [unfolded service_inv_def])

section \<open>Every job is polled before the service sleeps\<close>

text \<open>
  What the service guarantees about its jobs when a poll returns: whatever a pending poll
  establishes and resolving keeps.
\<close>

definition all_jobs :: "('job \<Rightarrow> bool) \<Rightarrow> 'job payload_service \<Rightarrow> bool" where
  "all_jobs P s = list_all (\<lambda>(job, _). P job) (ps_payload_jobs s)"

locale polled_job =
  fixes ops :: "('env, 'job, 'payload, 'fut) job_ops" and polled :: "'job \<Rightarrow> bool"
  assumes pending: "jo_poll ops env job = Ok (JobPending, job', env') \<Longrightarrow> polled job'"
    and resolved: "polled job \<Longrightarrow> jo_resolve ops env job = Ok (f, KeepYes, job', env') \<Longrightarrow> polled job'"
begin

lemma poll_each_polled:
  "poll_each ops env jobs = Ok (env', alive, failed) \<Longrightarrow> list_all (\<lambda>(job, _). polled job) alive"
  by (induction jobs arbitrary: env env' alive failed)
    (auto simp: result_bind_Ok_iff pending split: if_splits)

lemma poll_jobs_polled:
  assumes "poll_jobs ops env s = Ok (env', s')"
  shows "all_jobs polled s'"
proof -
  from poll_jobs_each [OF assms] obtain alive failed where
    "poll_each ops env (rev (ps_payload_jobs s)) = Ok (env', alive, failed)"
      "mset (ps_payload_jobs s') = mset alive"
    by (auto simp: rotated_def)
  with poll_each_polled show ?thesis unfolding all_jobs_def list_all_iff by (metis set_mset_mset)
qed

lemma handle_command_polled:
  assumes "handle_command ops env s cmd = Ok (reply, s', env', False)" and "all_jobs polled s"
  shows "all_jobs polled s'"
proof (cases cmd)
  case (BuildNewPayload config)
  with assms show ?thesis
    by (auto simp: handle_command_def all_jobs_def Let_def split: if_splits result.splits)
next
  case (Resolve pid)
  with assms obtain fut where r: "service_resolve ops env s pid = Ok (fut, s', env')"
    by (auto simp: handle_command_def result_bind_Ok_iff)
  from service_resolve_jobs [OF r] show ?thesis
  proof (elim disjE exE conjE)
    assume "s' = s"
    with assms(2) show ?thesis by simp
  next
    fix i job f keep job'
    assume i: "i < length (ps_payload_jobs s)" "ps_payload_jobs s ! i = (job, pid)"
      and res: "jo_resolve ops env job = Ok (f, keep, job', env')"
      and s': "ps_payload_jobs s' = (if keep = KeepNo then vec_remove (ps_payload_jobs s) i
             else (ps_payload_jobs s)[i := (job', pid)])"
    have "polled job" using assms(2) i nth_mem [OF i(1)] by (auto simp: all_jobs_def list_all_iff)
    then have "keep = KeepYes \<Longrightarrow> polled job'" using resolved res by blast
    then show ?thesis using assms(2) s' set_update_subset_insert [of "ps_payload_jobs s" i "(job', pid)"]
      by (cases keep)
        (auto simp: all_jobs_def list_all_iff vec_remove_def dest!: in_set_takeD in_set_dropD)
  qed
next
  case (BestPayload pid)
  with assms show ?thesis by (auto simp: handle_command_def split: option.splits result.splits)
next
  case (PayloadAttributes pid)
  with assms show ?thesis by (auto simp: handle_command_def split: option.splits result.splits)
qed

lemma drain_commands_polled:
  "drain_commands ops env s cmds = Ok (replies, s', env', False) \<Longrightarrow> all_jobs polled s \<Longrightarrow> all_jobs polled s'"
proof (induction cmds arbitrary: env s replies)
  case (Cons cmd cmds)
  from Cons.prems(1) obtain reply s1 env1 replies1 where
    "handle_command ops env s cmd = Ok (reply, s1, env1, False)"
    "drain_commands ops env1 s1 cmds = Ok (replies1, s', env', False)"
    by (auto simp: result_bind_Ok_iff)
  with Cons show ?case by (blast intro: handle_command_polled)
qed simp

lemma service_poll_polled:
  "service_poll ops env s batches = Ok (replies, s', env', rest) \<Longrightarrow> all_jobs polled s'"
proof (induction batches arbitrary: env s replies)
  case Nil
  then show ?case by (auto simp: result_bind_Ok_iff dest: poll_jobs_polled)
next
  case (Cons cmds batches)
  then obtain env1 s1 replies1 s2 env2 new_job where
    p: "poll_jobs ops env s = Ok (env1, s1)"
      "drain_commands ops env1 s1 cmds = Ok (replies1, s2, env2, new_job)"
    by (auto simp: result_bind_Ok_iff)
  show ?case
  proof (cases new_job)
    case True
    with Cons p show ?thesis by (auto simp: result_bind_Ok_iff)
  next
    case False
    with Cons.prems p have "s' = s2" by (simp add: result_bind_Ok_iff)
    with drain_commands_polled [OF _ poll_jobs_polled [OF p(1)], of env1 cmds replies1 s2 env2] p(2) False
    show ?thesis by simp
  qed
qed

end

section \<open>What the jobs and their environment keep\<close>

text \<open>
  An invariant of jobs that creation from an acceptable configuration establishes and polling and
  resolving keep, together with one of the environment.
\<close>

locale job_invariant =
  fixes ops :: "('env, 'job, 'payload, 'fut) job_ops" and job_ok :: "'job \<Rightarrow> bool"
    and env_ok :: "'env \<Rightarrow> bool" and config_ok :: "build_config \<Rightarrow> bool"
  assumes polled: "job_ok job \<Longrightarrow> env_ok env \<Longrightarrow> jo_poll ops env job = Ok (st, job', env') \<Longrightarrow>
      job_ok job' \<and> env_ok env'"
    and resolved: "job_ok job \<Longrightarrow> env_ok env \<Longrightarrow> jo_resolve ops env job = Ok (f, keep, job', env') \<Longrightarrow>
      job_ok job' \<and> env_ok env'"
    and created: "config_ok config \<Longrightarrow> env_ok env \<Longrightarrow> jo_new_payload_job ops env config = Ok job \<Longrightarrow>
      job_ok job"
begin

definition commands_ok :: "payload_service_command list \<Rightarrow> bool" where
  "commands_ok cmds = (\<forall>config. BuildNewPayload config \<in> set cmds \<longrightarrow> config_ok config)"

lemma poll_each_ok:
  "poll_each ops env jobs = Ok (env', alive, failed) \<Longrightarrow> env_ok env \<Longrightarrow>
     list_all (\<lambda>(job, _). job_ok job) jobs \<Longrightarrow>
     env_ok env' \<and> list_all (\<lambda>(job, _). job_ok job) alive"
proof (induction jobs arbitrary: env env' alive failed)
  case (Cons x jobs)
  obtain job pid where x: "x = (job, pid)" by (cases x)
  from Cons.prems(1) obtain st job' env1 alive1 failed1 where
    1: "jo_poll ops env job = Ok (st, job', env1)" "poll_each ops env1 jobs = Ok (env', alive1, failed1)"
    and a: "set alive \<subseteq> insert (job', pid) (set alive1)"
    by (auto simp: x result_bind_Ok_iff split: if_splits)
  have 2: "job_ok job' \<and> env_ok env1" using polled [OF _ Cons.prems(2) 1(1)] Cons.prems(3) by (simp add: x)
  then have "env_ok env' \<and> list_all (\<lambda>(job, _). job_ok job) alive1"
    using Cons.IH [OF 1(2)] Cons.prems(3) by simp
  with a 2 show ?case by (auto simp: list_all_iff)
qed simp

lemma poll_jobs_ok:
  assumes "poll_jobs ops env s = Ok (env', s')" and "env_ok env" and "all_jobs job_ok s"
  shows "env_ok env' \<and> all_jobs job_ok s'"
proof -
  from poll_jobs_each [OF assms(1)] obtain alive failed where
    "poll_each ops env (rev (ps_payload_jobs s)) = Ok (env', alive, failed)"
      "mset (ps_payload_jobs s') = mset alive"
    by (auto simp: rotated_def)
  with poll_each_ok [of env "rev (ps_payload_jobs s)" env' alive failed] assms(2,3) show ?thesis
    unfolding all_jobs_def list_all_iff by (metis set_mset_mset set_rev)
qed

lemma handle_command_ok:
  assumes "handle_command ops env s cmd = Ok (reply, s', env', new_job)"
    and "env_ok env" and "all_jobs job_ok s" and "commands_ok [cmd]"
  shows "env_ok env' \<and> all_jobs job_ok s'"
proof (cases cmd)
  case (BuildNewPayload config)
  with assms(4) have "config_ok config" by (simp add: commands_ok_def)
  with BuildNewPayload assms(1-3) show ?thesis
    by (auto simp: handle_command_def all_jobs_def Let_def dest: created split: if_splits result.splits)
next
  case (Resolve pid)
  with assms(1) obtain fut where r: "service_resolve ops env s pid = Ok (fut, s', env')"
    by (auto simp: handle_command_def result_bind_Ok_iff)
  show ?thesis
  proof (cases fut)
    case None
    with r assms(2,3) show ?thesis
      by (auto simp: service_resolve_def result_bind_Ok_iff Let_def split: option.splits)
  next
    case (Some f)
    with service_resolve_jobs [OF r] obtain i job keep job' where
      i: "i < length (ps_payload_jobs s)" "ps_payload_jobs s ! i = (job, pid)"
      and res: "jo_resolve ops env job = Ok (f, keep, job', env')"
      and s': "ps_payload_jobs s' = (if keep = KeepNo then vec_remove (ps_payload_jobs s) i
             else (ps_payload_jobs s)[i := (job', pid)])"
      by auto
    have "job_ok job" using assms(3) i nth_mem [OF i(1)] by (auto simp: all_jobs_def list_all_iff)
    then have "job_ok job' \<and> env_ok env'" using resolved [OF _ assms(2) res] by simp
    then show ?thesis using assms(3) s' set_update_subset_insert [of "ps_payload_jobs s" i "(job', pid)"]
      by (auto simp: all_jobs_def list_all_iff vec_remove_def dest!: in_set_takeD in_set_dropD split: if_splits)
  qed
next
  case (BestPayload pid)
  with assms show ?thesis by (auto simp: handle_command_def split: option.splits result.splits)
next
  case (PayloadAttributes pid)
  with assms show ?thesis by (auto simp: handle_command_def split: option.splits result.splits)
qed

lemma drain_commands_ok:
  "drain_commands ops env s cmds = Ok (replies, s', env', new_job) \<Longrightarrow> env_ok env \<Longrightarrow> all_jobs job_ok s \<Longrightarrow>
     commands_ok cmds \<Longrightarrow> env_ok env' \<and> all_jobs job_ok s'"
proof (induction cmds arbitrary: env s replies new_job)
  case (Cons cmd cmds)
  from Cons.prems(1) obtain x where x: "handle_command ops env s cmd = Ok x"
    and bound: "result_bind (drain_commands ops (fst (snd (snd x))) (fst (snd x)) cmds)
      (\<lambda>y. Ok (fst x # fst y, fst (snd y), fst (snd (snd y)), snd (snd (snd x)) \<or> snd (snd (snd y)))) =
      Ok (replies, s', env', new_job)"
    unfolding drain_commands.simps result_bind_Ok_iff case_prod_unfold by blast
  from bound obtain y where y: "drain_commands ops (fst (snd (snd x))) (fst (snd x)) cmds = Ok y"
    and s': "s' = fst (snd y)" "env' = fst (snd (snd y))"
    unfolding result_bind_Ok_iff by blast
  have "env_ok (fst (snd (snd x))) \<and> all_jobs job_ok (fst (snd x))"
    using handle_command_ok [of env s cmd "fst x" "fst (snd x)" "fst (snd (snd x))" "snd (snd (snd x))"] x Cons.prems(2-4)
    by (simp add: commands_ok_def)
  moreover have "commands_ok cmds" using Cons.prems(4) by (simp add: commands_ok_def)
  ultimately show ?case
    using Cons.IH [of "fst (snd (snd x))" "fst (snd x)" "fst y" "snd (snd (snd y))"] y by (simp add: s')
qed simp

lemma service_poll_ok:
  "service_poll ops env s batches = Ok (replies, s', env', rest) \<Longrightarrow> env_ok env \<Longrightarrow> all_jobs job_ok s \<Longrightarrow>
     commands_ok (concat batches) \<Longrightarrow>
     env_ok env' \<and> all_jobs job_ok s' \<and> set (concat rest) \<subseteq> set (concat batches)"
proof (induction batches arbitrary: env s replies)
  case Nil
  then show ?case by (auto simp: result_bind_Ok_iff dest: poll_jobs_ok)
next
  case (Cons cmds batches)
  then obtain env1 s1 replies1 s2 env2 new_job where
    p: "poll_jobs ops env s = Ok (env1, s1)"
      "drain_commands ops env1 s1 cmds = Ok (replies1, s2, env2, new_job)"
    by (auto simp: result_bind_Ok_iff)
  have "commands_ok cmds" "commands_ok (concat batches)"
    using Cons.prems(4) by (simp_all add: commands_ok_def)
  with poll_jobs_ok [OF p(1) Cons.prems(2,3)] drain_commands_ok [OF p(2)]
  have 2: "env_ok env2 \<and> all_jobs job_ok s2" by simp
  show ?case
  proof (cases new_job)
    case True
    with Cons.prems(1) p obtain replies2 where
      "service_poll ops env2 s2 batches = Ok (replies2, s', env', rest)"
      by (auto simp: result_bind_Ok_iff)
    from Cons.IH [OF this] 2 \<open>commands_ok (concat batches)\<close> show ?thesis by auto
  next
    case False
    with Cons.prems(1) p 2 show ?thesis by (auto simp: result_bind_Ok_iff)
  qed
qed

end

section \<open>The service over stream jobs\<close>

text \<open>
  A stream job together with the sources its last poll armed; a job that was never polled has armed
  none.  The environment answers for a pending build by its arguments and collects the effects.
\<close>

record ('cs, 'bst) stream_env =
  se_now :: nat
  se_answer :: "('cs, 'bst) build_arguments \<Rightarrow> (('cs, 'bst) build_outcome, payload_builder_error) result rx_answer"
  se_effects :: "('cs, 'bst) job_effect list"

definition stream_ops ::
  "'cs job_generator_config \<Rightarrow>
   (('cs, 'bst) stream_env, ('cs, 'bst) stream_job \<times> wake_source set, 'blob build, 'fut) job_ops"
where
  "stream_ops c =
     \<lparr> jo_poll = (\<lambda>env (j, _).
         result_map (\<lambda>(st, j', effects, wakes). (st, (j', wakes), env\<lparr> se_effects := se_effects env @ effects \<rparr>))
           (stream_poll (se_now env) (se_answer env (unwrap_or (sj_pending_build j) (stream_args j))) j)),
       jo_best_payload = (\<lambda>_ (j, _). stream_best_payload j),
       jo_payload_attributes = (\<lambda>(j, _). stream_payload_attributes j),
       jo_resolve = (\<lambda>_ (j, _). stream_resolve j),
       jo_new_payload_job = (\<lambda>env cfg. result_map (\<lambda>j. (j, {})) (stream_new_payload_job c (se_now env) cfg)) \<rparr>"

lemma stream_poll_armed:
  "stream_poll now a j = Ok (JobPending, j', effects, wakes) \<Longrightarrow> WakeDeadline \<in> wakes"
  by (auto simp: stream_poll_def Let_def
      split: if_splits option.splits result.splits build_outcome.splits prod.splits)

interpretation stream_service: polled_job "stream_ops c" "\<lambda>(j, wakes). WakeDeadline \<in> wakes" for c
  by unfold_locales
    (auto simp: stream_ops_def result_map_Ok_iff stream_resolve_def dest: stream_poll_armed)

lemma stream_ops_panic:
  "jo_best_payload (stream_ops c) env x = Panic"
  "jo_payload_attributes (stream_ops c) x = Panic"
  "jo_resolve (stream_ops c) env x = Panic"
  by (simp_all add: stream_ops_def stream_best_payload_def stream_payload_attributes_def
      stream_resolve_def case_prod_unfold)

section \<open>Properties\<close>

text \<open>
  C13: The polling loop polls every active job exactly once. Although it takes the jobs out with
  \<open>swap_remove\<close> and pushes the pending ones back while it walks the vector backwards, its result is
  that of polling the jobs one after the other, last to first: the same environment, the same
  surviving jobs up to order, the failures counted, the gauge at the number of jobs left when
  any job ended, and the same panic.
\<close>

theorem poll_jobs_polls_each_once:
  "case poll_each ops env (rev (ps_payload_jobs s)) of
     Ok (env', alive, failed) \<Rightarrow> \<exists>s'. poll_jobs ops env s = Ok (env', s') \<and> rotated alive s s' failed
   | Err u \<Rightarrow> poll_jobs ops env s = Err u
   | Panic \<Rightarrow> poll_jobs ops env s = Panic"
  using poll_jobs_loop_each [of s "ps_payload_jobs s" "[]" ops env, unfolded append_Nil2, OF refl]
  unfolding poll_jobs_def .

text \<open>
  C12: The service never runs two jobs for one payload. In every state the service reaches the
  identifiers of its jobs are distinct, and asking again for a payload that is being built
  returns its identifier and changes nothing.
\<close>

theorem one_job_per_payload:
  assumes "service_reach ops s"
  shows "distinct (map snd (ps_payload_jobs s)) \<and>
         (contains_payload s (pa_id (bc_attributes config)) \<longrightarrow>
            handle_command ops env s (BuildNewPayload config) =
              Ok (NewPayloadReply (Ok (pa_id (bc_attributes config))), s, env, False))"
  using service_reach_inv [OF assms] by (simp add: service_inv_def handle_command_def)

text \<open>
  C14: When a poll of the service returns, every stream job it holds, also one created during that
  very poll, has been polled since and has armed its deadline.
\<close>

theorem service_sleeps_armed:
  assumes "service_poll (stream_ops c) env s batches = Ok (replies, s', env', rest)"
  shows "all_jobs (\<lambda>(j, wakes). WakeDeadline \<in> wakes) s'"
  by (rule stream_service.service_poll_polled [OF assms])

text \<open>
  With the stream generator every query about an active payload panics the service:
  \<open>best_payload\<close>, \<open>payload_attributes\<close> and \<open>resolve\<close> of a stream job are unimplemented. A query
  about any other payload is answered with nothing found.
\<close>

lemma stream_queries_panic:
  "(if contains_payload s pid
    then handle_command (stream_ops c) env s (BestPayload pid) = Panic \<and>
         handle_command (stream_ops c) env s (PayloadAttributes pid) = Panic \<and>
         handle_command (stream_ops c) env s (Resolve pid) = Panic
    else handle_command (stream_ops c) env s (BestPayload pid) = Ok (BestPayloadReply None, s, env, False) \<and>
         handle_command (stream_ops c) env s (PayloadAttributes pid) = Ok (AttributesReply None, s, env, False) \<and>
         handle_command (stream_ops c) env s (Resolve pid) = Ok (ResolveReply None, s, env, False))"
proof (cases "contains_payload s pid")
  case True
  then obtain j wakes where j: "find_job s pid = Some (j, wakes)"
    using find_job_None [of s pid] by (cases "find_job s pid") auto
  obtain i where i: "position (\<lambda>(_, job_id). job_id = pid) (ps_payload_jobs s) = Some i"
    using True by (cases "position (\<lambda>(_, job_id). job_id = pid) (ps_payload_jobs s)")
      (auto simp: position_None contains_payload_def list_ex_iff)
  show ?thesis
    by (simp add: True handle_command_def service_best_payload_def service_payload_attributes_def
        service_resolve_def j i stream_ops_panic)
next
  case False
  then have "find_job s pid = None" by (simp add: find_job_None)
  moreover have "position (\<lambda>(_, job_id). job_id = pid) (ps_payload_jobs s) = None"
    using False by (auto simp: position_None contains_payload_def list_ex_iff)
  ultimately show ?thesis
    using False by (simp add: handle_command_def service_best_payload_def service_payload_attributes_def
        service_resolve_def)
qed

definition sample_generator :: "unit job_generator_config" where
  "sample_generator = job_generator_config_default sample_payload_config"

definition sample_env :: "(unit, unit) stream_env" where
  "sample_env = \<lparr> se_now = 5, se_answer = (\<lambda>_. NotReady), se_effects = [] \<rparr>"

lemma sample_service_poll:
  "\<exists>s' env'. service_poll (stream_ops sample_generator) sample_env PayloadBuilderService_new
     [[BuildNewPayload sample_config, BuildNewPayload sample_config]] =
     Ok ([NewPayloadReply (Ok (pa_id (bc_attributes sample_config))),
          NewPayloadReply (Ok (pa_id (bc_attributes sample_config)))], s', env', []) \<and>
     map snd (ps_payload_jobs s') = [pa_id (bc_attributes sample_config)]"
  by (simp add: poll_jobs_def PayloadBuilderService_new_def handle_command_def contains_payload_def
      stream_ops_def stream_new_payload_job_def poll_job_def swap_remove_def stream_poll_def
      sample_generator_def job_generator_config_default_def sample_env_def stream_spawn_def
      pending_build_poll_def Let_def)

theorem one_job_per_payload_witness:
  "\<exists>s. map snd (ps_payload_jobs s) = [pa_id (bc_attributes sample_config)] \<and>
     handle_command (stream_ops sample_generator ::
       ((unit, unit) stream_env, (unit, unit) stream_job \<times> wake_source set, unit build, unit) job_ops)
       sample_env s (BuildNewPayload sample_config) =
       Ok (NewPayloadReply (Ok (pa_id (bc_attributes sample_config))), s, sample_env, False)"
proof -
  let ?ops = "stream_ops sample_generator ::
    ((unit, unit) stream_env, (unit, unit) stream_job \<times> wake_source set, unit build, unit) job_ops"
  obtain s' env' where s: "service_poll ?ops
      sample_env PayloadBuilderService_new [[BuildNewPayload sample_config, BuildNewPayload sample_config]] =
      Ok ([NewPayloadReply (Ok (pa_id (bc_attributes sample_config))),
           NewPayloadReply (Ok (pa_id (bc_attributes sample_config)))], s', env', [])"
      "map snd (ps_payload_jobs s') = [pa_id (bc_attributes sample_config)]"
    using sample_service_poll by metis
  have r: "service_reach ?ops s'" by (rule service_reach.poll [OF service_reach.start s(1)])
  have "contains_payload s' (pa_id (bc_attributes sample_config))"
    using s(2) by (auto simp: contains_payload_iff)
  with one_job_per_payload [OF r, of sample_config sample_env] s(2) show ?thesis
    by (intro exI [of _ s']) simp
qed

theorem service_sleeps_armed_witness:
  "\<exists>s' env'. service_poll (stream_ops sample_generator :: ((unit, unit) stream_env, (unit, unit) stream_job \<times> wake_source set, unit build, unit) job_ops) sample_env
      PayloadBuilderService_new [[BuildNewPayload sample_config, BuildNewPayload sample_config]] =
      Ok ([NewPayloadReply (Ok (pa_id (bc_attributes sample_config))),
           NewPayloadReply (Ok (pa_id (bc_attributes sample_config)))], s', env', []) \<and>
     all_jobs (\<lambda>(j, wakes). WakeDeadline \<in> wakes) s'"
  using sample_service_poll service_sleeps_armed by blast

end
