(* ===== verification/Service_Handle.thy ===== *)
theory Service_Handle
  imports Payload_Service
begin

text \<open>
  The handle of the payload service, \<open>PayloadBuilderHandle\<close> of \<open>payload/src/service/mod.rs\<close>: its calls
  over the two channels, and what they do with a service that serves them.  A oneshot receiver
  yields \<open>None\<close> when its sender was dropped without an answer; the conversion of that error is
  \<open>ChannelClosed\<close>.  A service that panicked drops its jobs, the receiver of the commands and every
  sender it still held; it is \<open>None\<close> here.
\<close>

section \<open>The calls of the handle\<close>

text \<open>
  \<open>sent\<close> is whether the service still holds the receiver of the commands, \<open>rx\<close> what the oneshot
  receiver yields, \<open>await\<close> the run of the future a job resolved with.
\<close>

definition handle_resolve ::
  "('fut \<Rightarrow> ('payload, payload_builder_error) result) \<Rightarrow> bool \<Rightarrow> 'fut option option \<Rightarrow>
   ('payload, payload_builder_error) result option"
where
  "handle_resolve await sent rx =
     (if sent then
        (case rx of
           None \<Rightarrow> Some (Err ChannelClosed)
         | Some None \<Rightarrow> None
         | Some (Some fut) \<Rightarrow> Some (await fut))
      else None)"

definition handle_best_payload ::
  "bool \<Rightarrow> ('payload, payload_builder_error) result option option \<Rightarrow> ('payload, payload_builder_error) result option"
where
  "handle_best_payload sent rx = (if sent then (case rx of None \<Rightarrow> None | Some r \<Rightarrow> r) else None)"

definition handle_payload_attributes ::
  "bool \<Rightarrow> (payload_attributes, payload_builder_error) result option option \<Rightarrow>
   (payload_attributes, payload_builder_error) result option"
where
  "handle_payload_attributes sent rx = (if sent then (case rx of None \<Rightarrow> None | Some r \<Rightarrow> r) else None)"

text \<open>A command that cannot be sent is dropped, and the sender of its answer with it.\<close>

definition build_new_payload ::
  "bool \<Rightarrow> (u64, payload_builder_error) result option \<Rightarrow> (u64, payload_builder_error) result option"
where
  "build_new_payload sent rx = (if sent then rx else None)"

definition new_payload ::
  "bool \<Rightarrow> (u64, payload_builder_error) result option \<Rightarrow> (u64, payload_builder_error) result"
where
  "new_payload sent rx = (case build_new_payload sent rx of None \<Rightarrow> Err ChannelClosed | Some r \<Rightarrow> r)"

section \<open>The handle and the service\<close>

text \<open>
  One poll of the service as its callers see it: the turns of \<open>service_poll\<close>, every one of which
  polls all jobs before it drains the commands that wait, with the answers sent so far kept when
  the service panics.  An answer is \<open>None\<close> when the service panicked before it was sent; commands
  that arrive after the last turn are not answered in this poll.
\<close>

fun serve_commands ::
  "('env, 'job, 'payload, 'fut) job_ops \<Rightarrow> 'env \<Rightarrow> 'job payload_service \<Rightarrow> payload_service_command list \<Rightarrow>
   ('payload, 'fut) service_reply option list \<times> 'job payload_service option \<times> 'env \<times> bool"
where
  "serve_commands ops env s [] = ([], Some s, env, False)"
| "serve_commands ops env s (cmd # cmds) =
     (case handle_command ops env s cmd of
        Ok (reply, s1, env1, new1) \<Rightarrow>
          (case serve_commands ops env1 s1 cmds of
             (replies, service, env2, new2) \<Rightarrow> (Some reply # replies, service, env2, new1 \<or> new2))
      | _ \<Rightarrow> (map (\<lambda>_. None) (cmd # cmds), None, env, False))"

fun serve_poll ::
  "('env, 'job, 'payload, 'fut) job_ops \<Rightarrow> 'env \<Rightarrow> 'job payload_service \<Rightarrow> payload_service_command list list \<Rightarrow>
   ('payload, 'fut) service_reply option list \<times> 'job payload_service option \<times> 'env"
where
  "serve_poll ops env s [] =
     (case poll_jobs ops env s of Ok (env1, s1) \<Rightarrow> ([], Some s1, env1) | _ \<Rightarrow> ([], None, env))"
| "serve_poll ops env s (cmds # batches) =
     (case poll_jobs ops env s of
        Ok (env1, s1) \<Rightarrow>
          (case serve_commands ops env1 s1 cmds of
             (replies, None, env2, _) \<Rightarrow> (replies, None, env2)
           | (replies, Some s2, env2, new_job) \<Rightarrow>
               if new_job then
                 (case serve_poll ops env2 s2 batches of
                    (replies', service, env3) \<Rightarrow> (replies @ replies', service, env3))
               else (replies, Some s2, env2))
      | _ \<Rightarrow> (map (\<lambda>_. None) cmds, None, env))"

datatype 'payload handle_answer =
  NewPayloadAnswer "(u64, payload_builder_error) result"
  | BestPayloadAnswer "('payload, payload_builder_error) result option"
  | AttributesAnswer "(payload_attributes, payload_builder_error) result option"
  | ResolveAnswer "('payload, payload_builder_error) result option"

text \<open>Each call reads the answer that belongs to its command.\<close>

definition handle_answer_of ::
  "('fut \<Rightarrow> ('payload, payload_builder_error) result) \<Rightarrow> payload_service_command \<Rightarrow> bool \<Rightarrow>
   ('payload, 'fut) service_reply option \<Rightarrow> 'payload handle_answer"
where
  "handle_answer_of await cmd sent reply =
     (case cmd of
        BuildNewPayload _ \<Rightarrow>
          NewPayloadAnswer (new_payload sent (case reply of Some (NewPayloadReply r) \<Rightarrow> Some r | _ \<Rightarrow> None))
      | BestPayload _ \<Rightarrow>
          BestPayloadAnswer
            (handle_best_payload sent (case reply of Some (BestPayloadReply r) \<Rightarrow> Some r | _ \<Rightarrow> None))
      | PayloadAttributes _ \<Rightarrow>
          AttributesAnswer
            (handle_payload_attributes sent (case reply of Some (AttributesReply r) \<Rightarrow> Some r | _ \<Rightarrow> None))
      | Resolve _ \<Rightarrow>
          ResolveAnswer (handle_resolve await sent (case reply of Some (ResolveReply r) \<Rightarrow> Some r | _ \<Rightarrow> None)))"

text \<open>
  The calls of all handles over one poll of the service.  Once the service is gone nothing can be
  sent any more.
\<close>

definition handle_poll ::
  "('env, 'job, 'payload, 'fut) job_ops \<Rightarrow> ('fut \<Rightarrow> ('payload, payload_builder_error) result) \<Rightarrow> 'env \<Rightarrow>
   'job payload_service option \<Rightarrow> payload_service_command list list \<Rightarrow>
   'payload handle_answer list \<times> 'job payload_service option \<times> 'env"
where
  "handle_poll ops await env service batches =
     (case service of
        None \<Rightarrow> (map (\<lambda>cmd. handle_answer_of await cmd False None) (concat batches), None, env)
      | Some s \<Rightarrow>
          (case serve_poll ops env s batches of
             (replies, service', env') \<Rightarrow>
               (map2 (\<lambda>cmd reply. handle_answer_of await cmd True reply) (concat batches) replies, service', env')))"

text \<open>A run of the service: every poll in an environment of its own, with what arrives during it.\<close>

fun handle_run ::
  "('env, 'job, 'payload, 'fut) job_ops \<Rightarrow> ('fut \<Rightarrow> ('payload, payload_builder_error) result) \<Rightarrow>
   'job payload_service option \<Rightarrow> ('env \<times> payload_service_command list list) list \<Rightarrow>
   ('payload handle_answer list \<times> 'env) list \<times> 'job payload_service option"
where
  "handle_run ops await service [] = ([], service)"
| "handle_run ops await service ((env, batches) # polls) =
     (case handle_poll ops await env service batches of
        (answers, service', env') \<Rightarrow>
          (case handle_run ops await service' polls of
             (outs, service'') \<Rightarrow> ((answers, env') # outs, service'')))"

section \<open>The table of jobs\<close>

text \<open>
  The specification: a table from payload identifiers to jobs.  Polling the table polls each of its
  jobs once, in some order, and drops those that end.  A call or poll that makes a job panic ends
  the service; commands that were waiting then are lost: a new payload and a payload to resolve get
  \<open>ChannelClosed\<close>, a query nothing.  A service that has ended answers \<open>ChannelClosed\<close> to a new
  payload and nothing to the rest.
\<close>

definition table_of :: "('job \<times> u64) list \<Rightarrow> u64 \<rightharpoonup> 'job" where
  "table_of jobs = map_of (map (\<lambda>(job, pid). (pid, job)) jobs)"

definition job_table :: "'job payload_service \<Rightarrow> u64 \<rightharpoonup> 'job" where
  "job_table s = table_of (ps_payload_jobs s)"

definition table_polled ::
  "('env, 'job, 'payload, 'fut) job_ops \<Rightarrow> 'env \<Rightarrow> (u64 \<rightharpoonup> 'job) \<Rightarrow> 'env \<Rightarrow> (u64 \<rightharpoonup> 'job) \<Rightarrow> bool"
where
  "table_polled ops env jobs env' jobs' \<longleftrightarrow>
     (\<exists>xs alive failed. distinct (map snd xs) \<and> table_of xs = jobs \<and>
        poll_each ops env xs = Ok (env', alive, failed) \<and> table_of alive = jobs')"

definition table_poll_panics :: "('env, 'job, 'payload, 'fut) job_ops \<Rightarrow> 'env \<Rightarrow> (u64 \<rightharpoonup> 'job) \<Rightarrow> bool" where
  "table_poll_panics ops env jobs \<longleftrightarrow>
     (\<exists>xs. distinct (map snd xs) \<and> table_of xs = jobs \<and> (\<forall>r. poll_each ops env xs \<noteq> Ok r))"

definition table_new_payload ::
  "('env, 'job, 'payload, 'fut) job_ops \<Rightarrow> 'env \<Rightarrow> (u64 \<rightharpoonup> 'job) \<Rightarrow> build_config \<Rightarrow>
   (u64, payload_builder_error) result \<times> (u64 \<rightharpoonup> 'job) option"
where
  "table_new_payload ops env jobs config =
     (let pid = pa_id (bc_attributes config)
      in if pid \<in> dom jobs then (Ok pid, Some jobs)
         else (case jo_new_payload_job ops env config of
                 Ok job \<Rightarrow> (Ok pid, Some (jobs(pid \<mapsto> job)))
               | Err err \<Rightarrow> (Err err, Some jobs)
               | Panic \<Rightarrow> (Err ChannelClosed, None)))"

definition table_query ::
  "('job \<Rightarrow> ('a, payload_builder_error) result) \<Rightarrow> (u64 \<rightharpoonup> 'job) \<Rightarrow> u64 \<Rightarrow>
   ('a, payload_builder_error) result option \<times> (u64 \<rightharpoonup> 'job) option"
where
  "table_query query jobs pid =
     (case map_option query (jobs pid) of
        Some Panic \<Rightarrow> (None, None)
      | r \<Rightarrow> (r, Some jobs))"

definition table_resolve ::
  "('env, 'job, 'payload, 'fut) job_ops \<Rightarrow> ('fut \<Rightarrow> ('payload, payload_builder_error) result) \<Rightarrow> 'env \<Rightarrow>
   (u64 \<rightharpoonup> 'job) \<Rightarrow> u64 \<Rightarrow> ('payload, payload_builder_error) result option \<times> (u64 \<rightharpoonup> 'job) option \<times> 'env"
where
  "table_resolve ops await env jobs pid =
     (case jobs pid of
        None \<Rightarrow> (None, Some jobs, env)
      | Some job \<Rightarrow>
          (case jo_resolve ops env job of
             Ok (fut, keep_alive, job', env') \<Rightarrow>
               (Some (await fut), Some (jobs(pid := (if keep_alive = KeepNo then None else Some job'))), env')
           | _ \<Rightarrow> (Some (Err ChannelClosed), None, env)))"

fun table_call ::
  "('env, 'job, 'payload, 'fut) job_ops \<Rightarrow> ('fut \<Rightarrow> ('payload, payload_builder_error) result) \<Rightarrow> 'env \<Rightarrow>
   (u64 \<rightharpoonup> 'job) option \<Rightarrow> payload_service_command \<Rightarrow> 'payload handle_answer \<times> (u64 \<rightharpoonup> 'job) option \<times> 'env"
where
  "table_call ops await env (Some jobs) (BuildNewPayload config) =
     (case table_new_payload ops env jobs config of (r, jobs') \<Rightarrow> (NewPayloadAnswer r, jobs', env))"
| "table_call ops await env (Some jobs) (BestPayload pid) =
     (case table_query (jo_best_payload ops env) jobs pid of (r, jobs') \<Rightarrow> (BestPayloadAnswer r, jobs', env))"
| "table_call ops await env (Some jobs) (PayloadAttributes pid) =
     (case table_query (jo_payload_attributes ops) jobs pid of (r, jobs') \<Rightarrow> (AttributesAnswer r, jobs', env))"
| "table_call ops await env (Some jobs) (Resolve pid) =
     (case table_resolve ops await env jobs pid of (r, jobs', env') \<Rightarrow> (ResolveAnswer r, jobs', env'))"
| "table_call ops await env None (BuildNewPayload config) = (NewPayloadAnswer (Err ChannelClosed), None, env)"
| "table_call ops await env None (BestPayload pid) = (BestPayloadAnswer None, None, env)"
| "table_call ops await env None (PayloadAttributes pid) = (AttributesAnswer None, None, env)"
| "table_call ops await env None (Resolve pid) = (ResolveAnswer None, None, env)"

fun lost_answer :: "payload_service_command \<Rightarrow> 'payload handle_answer" where
  "lost_answer (BuildNewPayload _) = NewPayloadAnswer (Err ChannelClosed)"
| "lost_answer (BestPayload _) = BestPayloadAnswer None"
| "lost_answer (PayloadAttributes _) = AttributesAnswer None"
| "lost_answer (Resolve _) = ResolveAnswer (Some (Err ChannelClosed))"

text \<open>The commands of one drain; the last component says whether a job was started.\<close>

fun table_calls ::
  "('env, 'job, 'payload, 'fut) job_ops \<Rightarrow> ('fut \<Rightarrow> ('payload, payload_builder_error) result) \<Rightarrow> 'env \<Rightarrow>
   (u64 \<rightharpoonup> 'job) \<Rightarrow> payload_service_command list \<Rightarrow>
   'payload handle_answer list \<times> (u64 \<rightharpoonup> 'job) option \<times> 'env \<times> bool"
where
  "table_calls ops await env jobs [] = ([], Some jobs, env, False)"
| "table_calls ops await env jobs (cmd # cmds) =
     (case table_call ops await env (Some jobs) cmd of
        (answer, None, env1) \<Rightarrow> (answer # map lost_answer cmds, None, env1, False)
      | (answer, Some jobs1, env1) \<Rightarrow>
          (case table_calls ops await env1 jobs1 cmds of
             (answers, jobs2, env2, started) \<Rightarrow>
               (answer # answers, jobs2, env2, \<not> dom jobs1 \<subseteq> dom jobs \<or> started)))"

text \<open>
  One poll of the service: the jobs are polled, then the waiting commands are served, and again as
  long as a job was started.
\<close>

inductive table_turns ::
  "('env, 'job, 'payload, 'fut) job_ops \<Rightarrow> ('fut \<Rightarrow> ('payload, payload_builder_error) result) \<Rightarrow> 'env \<Rightarrow>
   (u64 \<rightharpoonup> 'job) \<Rightarrow> payload_service_command list list \<Rightarrow> 'payload handle_answer list \<Rightarrow>
   (u64 \<rightharpoonup> 'job) option \<Rightarrow> 'env \<Rightarrow> bool"
  for ops :: "('env, 'job, 'payload, 'fut) job_ops" and await
where
  turns_panic: "table_poll_panics ops env jobs \<Longrightarrow>
     table_turns ops await env jobs batches (map lost_answer (concat (take 1 batches))) None env"
| turns_idle: "table_polled ops env jobs env1 jobs1 \<Longrightarrow>
     table_turns ops await env jobs [] [] (Some jobs1) env1"
| turns_last: "table_polled ops env jobs env1 jobs1 \<Longrightarrow>
     table_calls ops await env1 jobs1 cmds = (answers, jobs2, env2, started) \<Longrightarrow>
     jobs2 = None \<or> \<not> started \<Longrightarrow>
     table_turns ops await env jobs (cmds # batches) answers jobs2 env2"
| turns_again: "table_polled ops env jobs env1 jobs1 \<Longrightarrow>
     table_calls ops await env1 jobs1 cmds = (answers, Some jobs2, env2, True) \<Longrightarrow>
     table_turns ops await env2 jobs2 batches answers' jobs3 env3 \<Longrightarrow>
     table_turns ops await env jobs (cmds # batches) (answers @ answers') jobs3 env3"

inductive table_run ::
  "('env, 'job, 'payload, 'fut) job_ops \<Rightarrow> ('fut \<Rightarrow> ('payload, payload_builder_error) result) \<Rightarrow>
   (u64 \<rightharpoonup> 'job) option \<Rightarrow> ('env \<times> payload_service_command list list) list \<Rightarrow>
   ('payload handle_answer list \<times> 'env) list \<Rightarrow> (u64 \<rightharpoonup> 'job) option \<Rightarrow> bool"
  for ops :: "('env, 'job, 'payload, 'fut) job_ops" and await
where
  run_end: "table_run ops await jobs [] [] jobs"
| run_poll: "table_turns ops await env jobs batches answers jobs1 env' \<Longrightarrow>
     table_run ops await jobs1 polls outs jobs2 \<Longrightarrow>
     table_run ops await (Some jobs) ((env, batches) # polls) ((answers, env') # outs) jobs2"
| run_gone: "table_run ops await None polls outs jobs2 \<Longrightarrow>
     table_run ops await None ((env, batches) # polls)
       ((map (\<lambda>cmd. fst (table_call ops await env None cmd)) (concat batches), env) # outs) jobs2"

section \<open>The poll as the callers see it\<close>

text \<open>It is the poll of the service: the same answers, service and environment, and the same panics.\<close>

lemma serve_commands_drain:
  "case drain_commands ops env s cmds of
     Ok (replies, s', env', new_job) \<Rightarrow> serve_commands ops env s cmds = (map Some replies, Some s', env', new_job)
   | _ \<Rightarrow> fst (snd (serve_commands ops env s cmds)) = None"
proof (induction cmds arbitrary: env s)
  case (Cons cmd cmds)
  show ?case
  proof (cases "handle_command ops env s cmd")
    case (Ok r)
    obtain reply s1 env1 new1 where r: "r = (reply, s1, env1, new1)" by (cases r)
    show ?thesis
      using Cons.IH [where env = env1 and s = s1]
      by (cases "drain_commands ops env1 s1 cmds"; cases "serve_commands ops env1 s1 cmds") (auto simp: Ok r)
  qed simp_all
qed simp

lemma serve_poll_is_service_poll:
  "case service_poll ops env s batches of
     Ok (replies, s', env', rest) \<Rightarrow> serve_poll ops env s batches = (map Some replies, Some s', env')
   | _ \<Rightarrow> fst (snd (serve_poll ops env s batches)) = None"
proof (induction batches arbitrary: env s)
  case Nil
  then show ?case by (cases "poll_jobs ops env s") auto
next
  case (Cons cmds batches)
  show ?case
  proof (cases "poll_jobs ops env s")
    case (Ok p)
    obtain env1 s1 where p: "p = (env1, s1)" by (cases p)
    show ?thesis
    proof (cases "drain_commands ops env1 s1 cmds")
      case d: (Ok r)
      obtain replies s2 env2 new_job where r: "r = (replies, s2, env2, new_job)" by (cases r)
      have c: "serve_commands ops env1 s1 cmds = (map Some replies, Some s2, env2, new_job)"
        using serve_commands_drain [where ops = ops and env = env1 and s = s1 and cmds = cmds] by (simp add: d r)
      show ?thesis
        using Cons.IH [where env = env2 and s = s2]
        by (cases "service_poll ops env2 s2 batches"; cases "serve_poll ops env2 s2 batches")
          (auto simp: Ok p d r c)
    next
      case d: (Err u)
      with serve_commands_drain [where ops = ops and env = env1 and s = s1 and cmds = cmds] show ?thesis
        by (cases "serve_commands ops env1 s1 cmds") (auto simp: Ok p)
    next
      case d: Panic
      with serve_commands_drain [where ops = ops and env = env1 and s = s1 and cmds = cmds] show ?thesis
        by (cases "serve_commands ops env1 s1 cmds") (auto simp: Ok p)
    qed
  qed simp_all
qed

section \<open>Refinement\<close>

lemma find_job_table: "find_job s pid = job_table s pid"
proof -
  have "map_option fst (find (\<lambda>(_, job_id). job_id = pid) jobs) =
      map_of (map (\<lambda>(job, pid). (pid, job)) jobs) pid" for jobs :: "('job \<times> u64) list"
    by (induction jobs) auto
  then show ?thesis by (simp add: find_job_def job_table_def table_of_def)
qed

lemma contains_job_table: "contains_payload s pid \<longleftrightarrow> pid \<in> dom (job_table s)"
  using find_job_None [of s pid] by (auto simp: find_job_table domIff)

lemma table_of_mem:
  assumes "distinct (map snd jobs)"
  shows "table_of jobs pid = Some job \<longleftrightarrow> (job, pid) \<in> set jobs"
proof -
  have "distinct (map fst (map (\<lambda>(job, pid). (pid, job)) jobs))"
    using assms by (simp add: comp_def case_prod_unfold)
  then show ?thesis by (force simp: table_of_def map_of_eq_Some_iff image_iff)
qed

lemma job_table_mem:
  assumes "service_inv s"
  shows "job_table s pid = Some job \<longleftrightarrow> (job, pid) \<in> set (ps_payload_jobs s)"
  using table_of_mem [of "ps_payload_jobs s"] assms by (simp add: service_inv_def job_table_def)

lemma option_eqI: "(\<And>x. a = Some x \<longleftrightarrow> b = Some x) \<Longrightarrow> a = b"
  by (cases a; cases b) auto

lemma table_of_mset:
  assumes "distinct (map snd xs)" and "mset xs = mset ys"
  shows "table_of xs = table_of ys"
proof -
  have "distinct (map snd ys)"
    using assms by (metis mset_map mset_eq_imp_distinct_iff)
  with assms show ?thesis
    by (intro ext option_eqI) (simp add: table_of_mem mset_eq_setD [OF assms(2)])
qed

lemma job_table_snoc:
  assumes "pid \<notin> dom (job_table s)"
  shows "job_table (s\<lparr> ps_payload_jobs := ps_payload_jobs s @ [(job, pid)], ps_metrics := m \<rparr>) =
         (job_table s)(pid \<mapsto> job)"
  using assms by (auto simp: job_table_def table_of_def map_add_def domIff split: option.splits)

text \<open>Resolving replaces or removes the one entry of the payload.\<close>

lemma job_table_resolved:
  assumes "service_inv s" and "service_inv s'"
    and "i < length (ps_payload_jobs s)" and "ps_payload_jobs s ! i = (job, pid)"
    and jobs: "ps_payload_jobs s' = (if keep = KeepNo then vec_remove (ps_payload_jobs s) i
                   else (ps_payload_jobs s)[i := (job', pid)])"
  shows "job_table s' = (job_table s)(pid := (if keep = KeepNo then None else Some job'))"
proof -
  have d: "distinct (map snd (ps_payload_jobs s))" using assms(1) by (simp add: service_inv_def)
  then have distinct: "distinct (ps_payload_jobs s)" by (simp add: distinct_map)
  have set': "set (ps_payload_jobs s') = set (ps_payload_jobs s) - {(job, pid)} \<union>
      (if keep = KeepNo then {} else {(job', pid)})"
    using distinct_vec_remove [OF d assms(3)] set_update_distinct [OF distinct assms(3)] assms(4)
    by (simp add: jobs)
  have mem: "(job, pid) \<in> set (ps_payload_jobs s)" using assms(3,4) by (metis nth_mem)
  have only: "k = job" if "(k, pid) \<in> set (ps_payload_jobs s)" for k
    using that mem job_table_mem [OF assms(1), of pid k] job_table_mem [OF assms(1), of pid job] by auto
  have "job_table s' p = Some k \<longleftrightarrow>
      ((job_table s)(pid := (if keep = KeepNo then None else Some job'))) p = Some k" for p k
    unfolding job_table_mem [OF assms(2)] set' using job_table_mem [OF assms(1), of p k] only [of k]
    by (cases "p = pid"; cases "keep = KeepNo") (auto simp: fun_upd_def)
  then show ?thesis by (intro ext option_eqI)
qed

lemma service_resolve_table:
  assumes "service_inv s"
  shows "case service_resolve ops env s pid of
           Ok (fut, s', env') \<Rightarrow>
             table_resolve ops await env (job_table s) pid = (map_option await fut, Some (job_table s'), env')
         | _ \<Rightarrow> table_resolve ops await env (job_table s) pid = (Some (Err ChannelClosed), None, env)"
proof (cases "service_resolve ops env s pid")
  case (Ok r)
  obtain fut s' env' where r: "r = (fut, s', env')" by (cases r)
  note resolved = Ok [unfolded r]
  have inv': "service_inv s'"
    using handle_command_inv [of ops env s "Resolve pid" "ResolveReply fut" s' env' False] resolved assms
    by (simp add: handle_command_def)
  from service_resolve_jobs [OF resolved] show ?thesis
  proof (elim disjE exE conjE)
    assume "fut = None" and "\<not> contains_payload s pid" and "s' = s"
    moreover from this(2) have "job_table s pid = None" by (simp add: contains_job_table domIff)
    moreover have "env' = env"
      using resolved \<open>fut = None\<close>
      by (auto simp: service_resolve_def result_bind_Ok_iff Let_def split: option.splits)
    ultimately show ?thesis by (simp add: resolved table_resolve_def)
  next
    fix i job f keep job'
    assume a: "fut = Some f" "i < length (ps_payload_jobs s)" "ps_payload_jobs s ! i = (job, pid)"
      "jo_resolve ops env job = Ok (f, keep, job', env')"
      "ps_payload_jobs s' = (if keep = KeepNo then vec_remove (ps_payload_jobs s) i
         else (ps_payload_jobs s)[i := (job', pid)])"
    then have "job_table s pid = Some job"
      using job_table_mem [OF assms, of pid job] by (metis nth_mem)
    then show ?thesis
      using a(1,4) job_table_resolved [OF assms inv' a(2,3,5)] by (simp add: resolved table_resolve_def)
  qed
next
  case (Err u)
  then obtain i where "position (\<lambda>(_, job_id). job_id = pid) (ps_payload_jobs s) = Some i"
    and e: "jo_resolve ops env (fst (ps_payload_jobs s ! i)) = Err u"
    by (auto simp: service_resolve_def Let_def split: option.splits elim!: result_bind.elims)
  then have "job_table s pid = Some (fst (ps_payload_jobs s ! i))"
    using position_SomeD [of _ _ i] job_table_mem [OF assms, of pid] by (metis (mono_tags, lifting) case_prod_beta nth_mem prod.collapse)
  then show ?thesis by (simp add: Err table_resolve_def e)
next
  case Panic
  then obtain i where "position (\<lambda>(_, job_id). job_id = pid) (ps_payload_jobs s) = Some i"
    and e: "jo_resolve ops env (fst (ps_payload_jobs s ! i)) = Panic"
    by (auto simp: service_resolve_def Let_def split: option.splits elim!: result_bind.elims)
  then have "job_table s pid = Some (fst (ps_payload_jobs s ! i))"
    using position_SomeD [of _ _ i] job_table_mem [OF assms, of pid] by (metis (mono_tags, lifting) case_prod_beta nth_mem prod.collapse)
  then show ?thesis by (simp add: Panic table_resolve_def e)
qed

lemmas handle_defs = handle_answer_of_def new_payload_def build_new_payload_def handle_best_payload_def
  handle_payload_attributes_def handle_resolve_def

lemma handle_answer_gone: "handle_answer_of await cmd False None = fst (table_call ops await env None cmd)"
  by (cases cmd) (simp_all add: handle_defs)

lemma handle_answer_lost: "handle_answer_of await cmd True None = lost_answer cmd"
  by (cases cmd) (simp_all add: handle_defs)

lemma handle_command_table:
  assumes "service_inv s"
  shows "case handle_command ops env s cmd of
           Ok (reply, s', env', new_job) \<Rightarrow>
             table_call ops await env (Some (job_table s)) cmd =
               (handle_answer_of await cmd True (Some reply), Some (job_table s'), env') \<and>
             new_job = (\<not> dom (job_table s') \<subseteq> dom (job_table s))
         | _ \<Rightarrow> table_call ops await env (Some (job_table s)) cmd = (lost_answer cmd, None, env)"
proof (cases cmd)
  case (BuildNewPayload config)
  moreover have "job_table (s\<lparr> ps_metrics := m \<rparr>) = job_table s" for m by (simp add: job_table_def)
  ultimately show ?thesis
    by (auto simp: handle_defs handle_command_def table_new_payload_def contains_job_table job_table_snoc Let_def
        split: result.splits)
next
  case (BestPayload pid)
  then show ?thesis
    by (cases "job_table s pid"; cases "jo_best_payload ops env (the (job_table s pid))")
      (simp_all add: handle_defs handle_command_def service_best_payload_def find_job_table table_query_def)
next
  case (PayloadAttributes pid)
  then show ?thesis
    by (cases "job_table s pid"; cases "jo_payload_attributes ops (the (job_table s pid))")
      (simp_all add: handle_defs handle_command_def service_payload_attributes_def find_job_table table_query_def)
next
  case (Resolve pid)
  have shrinks: "dom jobs' \<subseteq> dom jobs"
    if "table_resolve ops await env jobs pid = (r, Some jobs', env')" for jobs jobs' r env'
    using that by (auto simp: table_resolve_def split: option.splits result.splits if_splits)
  show ?thesis
    using service_resolve_table [OF assms, where ops = ops and env = env and pid = pid and await = await] Resolve
    by (auto simp: handle_defs handle_command_def dest: shrinks split: result.splits option.splits)
qed

lemma serve_commands_table:
  assumes "service_inv s" and "serve_commands ops env s cmds = (replies, service, env', new_job)"
  shows "table_calls ops await env (job_table s) cmds =
           (map2 (\<lambda>cmd reply. handle_answer_of await cmd True reply) cmds replies,
            map_option job_table service, env', new_job) \<and>
         length replies = length cmds \<and> pred_option service_inv service"
  using assms
proof (induction cmds arbitrary: env s replies new_job)
  case (Cons cmd cmds)
  note table = handle_command_table [OF Cons.prems(1), where ops = ops and env = env and cmd = cmd and await = await]
  have lost: "zip cmds (map (\<lambda>_. None) cmds) = map (\<lambda>cmd. (cmd, None)) cmds"
    by (simp add: zip_map2 zip_same_conv_map)
  show ?case
  proof (cases "handle_command ops env s cmd")
    case (Ok r)
    obtain reply s1 env1 new1 where r: "r = (reply, s1, env1, new1)" by (cases r)
    have inv: "service_inv s1" using handle_command_inv [OF Ok [unfolded r] Cons.prems(1)] .
    obtain replies1 new2 where rest: "serve_commands ops env1 s1 cmds = (replies1, service, env', new2)"
      "replies = Some reply # replies1" "new_job = (new1 \<or> new2)"
      using Cons.prems(2) by (auto simp: Ok r split: prod.splits)
    show ?thesis using Cons.IH [OF inv rest(1)] table rest(2,3) by (simp add: Ok r)
  qed (use Cons.prems(2) table in \<open>auto simp: lost handle_answer_lost\<close>)
qed auto

lemma poll_jobs_table:
  assumes "service_inv s"
  shows "case poll_jobs ops env s of
           Ok (env', s') \<Rightarrow> table_polled ops env (job_table s) env' (job_table s') \<and> service_inv s'
         | _ \<Rightarrow> table_poll_panics ops env (job_table s)"
proof -
  let ?xs = "rev (ps_payload_jobs s)"
  have d: "distinct (map snd ?xs)" using assms by (simp add: service_inv_def rev_map [symmetric])
  then have t: "table_of ?xs = job_table s"
    unfolding job_table_def by (rule table_of_mset) simp
  have polled: "table_polled ops env (job_table s) env' (job_table s') \<and> service_inv s'"
    if p: "poll_jobs ops env s = Ok (env', s')" for env' s'
  proof -
    obtain alive failed where a: "poll_each ops env ?xs = Ok (env', alive, failed)"
      "mset (ps_payload_jobs s') = mset alive"
      using poll_jobs_each [OF p] by (auto simp: rotated_def)
    have inv: "service_inv s'" by (rule poll_jobs_inv [OF p assms])
    then have "table_of alive = job_table s'"
      unfolding job_table_def service_inv_def by (rule table_of_mset [OF _ a(2), symmetric])
    with d t a(1) inv show ?thesis unfolding table_polled_def by blast
  qed
  have "table_poll_panics ops env (job_table s)" if "\<forall>r. poll_jobs ops env s \<noteq> Ok r"
  proof -
    have "poll_each ops env ?xs \<noteq> Ok r" for r
      using poll_jobs_loop_each [of s "ps_payload_jobs s" "[]" ops env] that
      by (cases r) (auto simp: poll_jobs_def)
    with d t show ?thesis unfolding table_poll_panics_def by blast
  qed
  with polled show ?thesis by (cases "poll_jobs ops env s") auto
qed

lemma map2_append_prefix:
  "length ys = length xs \<Longrightarrow> map2 f (xs @ xs') (ys @ ys') = map2 f xs ys @ map2 f xs' ys'"
  by (simp add: zip_append)

lemma serve_poll_table:
  assumes "service_inv s" and "serve_poll ops env s batches = (replies, service, env')"
  shows "table_turns ops await env (job_table s) batches
           (map2 (\<lambda>cmd reply. handle_answer_of await cmd True reply) (concat batches) replies)
           (map_option job_table service) env' \<and> pred_option service_inv service"
  using assms
proof (induction batches arbitrary: env s replies)
  case Nil
  then show ?case
    using poll_jobs_table [OF Nil.prems(1), where ops = ops and env = env] turns_panic [of ops env "job_table s" await "[]"]
    by (cases "poll_jobs ops env s") (auto intro: turns_idle)
next
  case (Cons cmds batches)
  let ?answers = "map2 (\<lambda>cmd reply. handle_answer_of await cmd True reply)"
  note polled = poll_jobs_table [OF Cons.prems(1), where ops = ops and env = env]
  have lost: "zip (cmds @ xs) (map (\<lambda>_. None) cmds) = map (\<lambda>cmd. (cmd, None)) cmds" for xs
    by (induction cmds) simp_all
  show ?case
  proof (cases "poll_jobs ops env s")
    case (Ok p)
    obtain env1 s1 where p: "p = (env1, s1)" by (cases p)
    obtain replies1 service2 env2 new_job where
      c: "serve_commands ops env1 s1 cmds = (replies1, service2, env2, new_job)"
      by (cases "serve_commands ops env1 s1 cmds")
    have p1: "table_polled ops env (job_table s) env1 (job_table s1)" "service_inv s1"
      using polled by (simp_all add: Ok p)
    note calls = serve_commands_table [OF p1(2) c, of await]
    then have len: "length replies1 = length cmds" by simp
    show ?thesis
    proof (cases "\<exists>s2. service2 = Some s2 \<and> new_job")
      case True
      then obtain s2 where s2: "service2 = Some s2" "new_job" by blast
      obtain replies2 where rest: "serve_poll ops env2 s2 batches = (replies2, service, env')"
        "replies = replies1 @ replies2"
        using Cons.prems(2) by (auto simp: Ok p c s2 split: prod.splits)
      have "service_inv s2" using calls s2 by simp
      from Cons.IH [OF this rest(1)] turns_again [OF p1(1)] calls s2 show ?thesis
        by (auto simp: rest(2) map2_append_prefix [OF len])
    next
      case False
      then have res: "replies = replies1" "service = service2" "env' = env2"
        using Cons.prems(2) by (auto simp: Ok p c split: option.splits if_splits)
      have "?answers (concat (cmds # batches)) replies1 = ?answers cmds replies1"
        using map2_append_prefix [OF len, where ys' = "[]"] by simp
      with turns_last [OF p1(1)] calls False show ?thesis by (cases service2) (auto simp: res)
    qed
  qed (use Cons.prems(2) polled turns_panic [of ops env "job_table s" await "cmds # batches"] in
      \<open>auto simp: lost handle_answer_lost comp_def\<close>)
qed

lemma handle_run_table:
  assumes "pred_option service_inv service" and "handle_run ops await service polls = (outs, service')"
  shows "table_run ops await (map_option job_table service) polls outs (map_option job_table service')"
  using assms
proof (induction polls arbitrary: service outs)
  case Nil
  then show ?case by (auto intro: run_end)
next
  case (Cons x polls)
  obtain env batches where x: "x = (env, batches)" by (cases x)
  obtain answers service1 env1 where h: "handle_poll ops await env service batches = (answers, service1, env1)"
    by (cases "handle_poll ops await env service batches")
  obtain outs1 where r: "handle_run ops await service1 polls = (outs1, service')" "outs = (answers, env1) # outs1"
    using Cons.prems(2) by (auto simp: x h split: prod.splits)
  show ?case
  proof (cases service)
    case None
    then have "answers = map (\<lambda>cmd. fst (table_call ops await env None cmd)) (concat batches)" "service1 = None" "env1 = env"
      using h by (auto simp: handle_poll_def handle_answer_gone)
    with Cons.IH [OF _ r(1)] show ?thesis by (auto simp: x r(2) None intro: run_gone)
  next
    case (Some s)
    then have inv: "service_inv s" using Cons.prems(1) by simp
    obtain replies where sp: "serve_poll ops env s batches = (replies, service1, env1)"
      "answers = map2 (\<lambda>cmd reply. handle_answer_of await cmd True reply) (concat batches) replies"
      using h by (auto simp: handle_poll_def Some split: prod.splits)
    from serve_poll_table [OF inv sp(1), of await] Cons.IH [OF _ r(1)] show ?thesis
      by (auto simp: x r(2) Some sp(2) intro: run_poll)
  qed
qed

section \<open>Properties\<close>

text \<open>
  C15: The handles act on the service as on a table of jobs. Take a service in a state it reaches and
  any further polls of it, each in an environment of its own and with whatever commands of any
  handles arrive before and during it. Every answer a call gets is that of the table: in each turn
  of a poll all jobs of the table are polled once, in some order, those that ended leave it, and
  then the waiting commands are served; a new payload gets the identifier of the job that is
  running or was started (then there is another turn), a query the answer of that very job,
  resolving the future of the job, which then leaves the table unless it wants to be kept. If a job
  panics in a poll or a call, the service is gone: calls already waiting get the error of a closed
  channel, or nothing for the plain queries, later ones the error for a new payload and nothing else.
\<close>

theorem handle_calls_refine_table:
  assumes "service_reach ops s"
    and "handle_run ops await (Some s) polls = (outs, service')"
  shows "table_run ops await (Some (job_table s)) polls outs (map_option job_table service')"
  using handle_run_table [OF _ assms(2)] service_reach_inv [OF assms(1)] by simp

text \<open>
  A new service over stream jobs that is asked for a payload twice at once; the poll turns again for
  the job it started.  A query for the payload then panics, and a later call finds the service gone.
\<close>

definition sample_polls :: "((unit, unit) stream_env \<times> payload_service_command list list) list" where
  "sample_polls =
     [(sample_env, [[BuildNewPayload sample_config, BuildNewPayload sample_config]]),
      (sample_env, [[Resolve (pa_id (bc_attributes sample_config))]]),
      (sample_env, [[BuildNewPayload sample_config]])]"

theorem handle_calls_refine_table_witness:
  "\<exists>outs. map fst outs =
       [[NewPayloadAnswer (Ok (pa_id (bc_attributes sample_config))),
         NewPayloadAnswer (Ok (pa_id (bc_attributes sample_config)))],
        [ResolveAnswer (Some (Err ChannelClosed))], [NewPayloadAnswer (Err ChannelClosed)]] \<and>
     table_run (stream_ops sample_generator ::
       ((unit, unit) stream_env, (unit, unit) stream_job \<times> wake_source set, unit build, unit) job_ops)
       (\<lambda>_. Err ChannelClosed) (Some Map.empty) sample_polls outs None"
proof -
  let ?ops = "stream_ops sample_generator ::
    ((unit, unit) stream_env, (unit, unit) stream_job \<times> wake_source set, unit build, unit) job_ops"
  obtain outs where run: "handle_run ?ops (\<lambda>_. Err ChannelClosed) (Some PayloadBuilderService_new) sample_polls =
      (outs, None)" and outs: "map fst outs =
       [[NewPayloadAnswer (Ok (pa_id (bc_attributes sample_config))),
         NewPayloadAnswer (Ok (pa_id (bc_attributes sample_config)))],
        [ResolveAnswer (Some (Err ChannelClosed))], [NewPayloadAnswer (Err ChannelClosed)]]"
    by (simp add: sample_polls_def handle_poll_def handle_defs poll_jobs_def PayloadBuilderService_new_def
        handle_command_def contains_payload_def service_resolve_def
        stream_ops_def stream_new_payload_job_def poll_job_def swap_remove_def stream_poll_def
        sample_generator_def job_generator_config_default_def sample_env_def stream_spawn_def
        pending_build_poll_def stream_resolve_def Let_def)
  from handle_calls_refine_table [OF service_reach.start run]
  have "table_run ?ops (\<lambda>_. Err ChannelClosed) (Some Map.empty) sample_polls outs None"
    by (simp add: job_table_def table_of_def PayloadBuilderService_new_def)
  with outs show ?thesis by (intro exI conjI)
qed

end
