(* ===== verification/Consensus_Layer.thy ===== *)
theory Consensus_Layer
  imports Payload_Config
begin

text \<open>
  The consensus layer client of \<open>crates/consensus_layer/src\<close>: the types it receives (\<open>types.rs\<close>),
  the connection task (\<open>connection.rs\<close>) and the stream of payload attributes (\<open>lib.rs\<close>).

  A connection task is a number, the order in which it was spawned; what joining it yields is the
  function \<open>join\<close>.  The event stream of the SSE library is a state with the operation \<open>next\<close>.
\<close>

section \<open>\<open>types.rs\<close>\<close>

record lighthouse_withdrawal =
  lw_index :: u64
  lw_validator_index :: u64
  lw_address :: address
  lw_amount :: u64

definition withdrawal_from :: "lighthouse_withdrawal \<Rightarrow> withdrawal" where
  "withdrawal_from w =
     \<lparr> wd_index = lw_index w, wd_validator_index = lw_validator_index w, wd_address = lw_address w,
       wd_amount = lw_amount w \<rparr>"

definition to_reth_withdrawals :: "lighthouse_withdrawal list \<Rightarrow> withdrawal list option" where
  "to_reth_withdrawals ws = (if ws = [] then None else Some (map withdrawal_from ws))"

record sse_payload_attributes =
  spa_timestamp :: u64
  spa_prev_randao :: b256
  spa_suggested_fee_recipient :: address
  spa_withdrawals :: "lighthouse_withdrawal list"

record sse_extended_payload_attributes =
  sx_proposal_slot :: u64
  sx_proposer_index :: u64
  sx_parent_block_root :: b256
  sx_parent_block_number :: u64
  sx_parent_block_hash :: b256
  sx_payload_attributes :: sse_payload_attributes

datatype fork_name = Base | Altair | Merge | Capella | Deneb

record fork_versioned_response =
  fv_version :: "fork_name option"
  fv_data :: sse_extended_payload_attributes

text \<open>reth's \<open>PayloadAttributes\<close>; \<open>EthPayloadBuilderAttributes::new\<close> is a parameter.\<close>

record reth_payload_attributes =
  rp_timestamp :: u64
  rp_prev_randao :: b256
  rp_suggested_fee_recipient :: address
  rp_withdrawals :: "withdrawal list option"
  rp_parent_beacon_block_root :: "b256 option"

definition into_reth_payload_attributes ::
  "(b256 \<Rightarrow> reth_payload_attributes \<Rightarrow> payload_attributes) \<Rightarrow> fork_versioned_response \<Rightarrow> payload_attributes"
where
  "into_reth_payload_attributes new_attributes r =
     (let data = fv_data r; attrs = sx_payload_attributes data
      in new_attributes (sx_parent_block_hash data)
           \<lparr> rp_timestamp = spa_timestamp attrs,
             rp_prev_randao = spa_prev_randao attrs,
             rp_suggested_fee_recipient = spa_suggested_fee_recipient attrs,
             rp_withdrawals = to_reth_withdrawals (spa_withdrawals attrs),
             rp_parent_beacon_block_root = Some (sx_parent_block_root data) \<rparr>)"

text \<open>\<open>to_lowercase\<close> on ASCII, where all names of forks are.\<close>

definition to_lowercase_char :: "char \<Rightarrow> char" where
  "to_lowercase_char c =
     (if 65 \<le> (of_char c :: nat) \<and> (of_char c :: nat) \<le> 90 then char_of (of_char c + 32 :: nat) else c)"

definition to_lowercase :: "string \<Rightarrow> string" where
  "to_lowercase s = map to_lowercase_char s"

definition fork_name_from_str :: "string \<Rightarrow> (fork_name, string) result" where
  "fork_name_from_str fork_name =
     (let s = to_lowercase fork_name
      in if s = ''phase0'' \<or> s = ''base'' then Ok Base
         else if s = ''altair'' then Ok Altair
         else if s = ''bellatrix'' \<or> s = ''merge'' then Ok Merge
         else if s = ''capella'' then Ok Capella
         else if s = ''deneb'' then Ok Deneb
         else Err (''unknown fork name: '' @ fork_name))"

fun fork_name_display :: "fork_name \<Rightarrow> string" where
  "fork_name_display Base = ''phase0''"
| "fork_name_display Altair = ''altair''"
| "fork_name_display Merge = ''bellatrix''"
| "fork_name_display Capella = ''capella''"
| "fork_name_display Deneb = ''deneb''"

section \<open>\<open>connection.rs\<close>\<close>

datatype 'st join_poll = Joined 'st | JoinError | JoinPending

text \<open>
  The task loops until it has subscribed; each attempt of the \<open>n\<close>-th task either succeeds or is
  retried after five seconds.
\<close>

partial_function (option) connection_task_loop :: "(nat \<Rightarrow> ('st, string) result) \<Rightarrow> nat \<Rightarrow> ('st \<times> nat) option" where
  "connection_task_loop subscribe attempt =
     (case subscribe attempt of
        Ok stream \<Rightarrow> Some (stream, attempt)
      | _ \<Rightarrow> connection_task_loop subscribe (Suc attempt))"

text \<open>
  \<open>ClConnection\<close>: its current task and the number of tasks spawned so far.  A failed task is
  replaced by a new one, which is polled once so that it wakes the future; a result it should
  already have is dropped.
\<close>

record cl_connection =
  cn_inner :: nat
  cn_spawned :: nat

definition connection_new :: "nat \<Rightarrow> cl_connection" where
  "connection_new spawned = \<lparr> cn_inner = spawned, cn_spawned = Suc spawned \<rparr>"

definition connection_poll ::
  "(nat \<Rightarrow> 'st join_poll) \<Rightarrow> cl_connection \<Rightarrow> 'st option \<times> cl_connection"
where
  "connection_poll join c =
     (case join (cn_inner c) of
        Joined stream \<Rightarrow> (Some stream, c)
      | JoinError \<Rightarrow> (None, connection_new (cn_spawned c))
      | JoinPending \<Rightarrow> (None, c))"

section \<open>\<open>lib.rs\<close>\<close>

datatype 'a item_poll = Item 'a | ItemError | Ended | NoItem

datatype 'a stream_poll = PollItem 'a | PollEnd | PollPending

record 'st consensus_layer =
  cl_connection :: cl_connection
  cl_payload_stream :: "'st option"

definition ConsensusLayer_new :: "'st consensus_layer" where
  "ConsensusLayer_new = \<lparr> cl_connection = connection_new 0, cl_payload_stream = None \<rparr>"

text \<open>
  \<open>poll_next\<close>.  The last component tells whether the future will be woken again: by the stream or
  the connection it has polled without a result, or at once.  After an error item it is not: the
  stream was ready, so it keeps no waker.
\<close>

definition consensus_poll_next ::
  "(b256 \<Rightarrow> reth_payload_attributes \<Rightarrow> payload_attributes) \<Rightarrow>
   ('st \<Rightarrow> 'st \<times> fork_versioned_response item_poll) \<Rightarrow> (nat \<Rightarrow> 'st join_poll) \<Rightarrow> 'st consensus_layer \<Rightarrow>
   (payload_attributes \<times> u64) stream_poll \<times> 'st consensus_layer \<times> bool"
where
  "consensus_poll_next new_attributes next_item join cl =
     (case cl_payload_stream cl of
        Some stream \<Rightarrow>
          (case next_item stream of
             (stream', polled) \<Rightarrow>
               let cl1 = cl\<lparr> cl_payload_stream := Some stream' \<rparr>
               in (case polled of
                     Item payload \<Rightarrow>
                       (PollItem (into_reth_payload_attributes new_attributes payload,
                                  sx_proposal_slot (fv_data payload)), cl1, True)
                   | ItemError \<Rightarrow> (PollPending, cl1, False)
                   | Ended \<Rightarrow>
                       let fresh = connection_new (cn_spawned (cl_connection cl1));
                           (_, polled_once) = connection_poll join fresh
                       in (PollPending, cl1\<lparr> cl_connection := polled_once \<rparr>, True)
                   | NoItem \<Rightarrow> (PollPending, cl1, True)))
      | None \<Rightarrow>
          (case connection_poll join (cl_connection cl) of
             (Some stream, c) \<Rightarrow>
               (PollPending, cl\<lparr> cl_connection := c, cl_payload_stream := Some stream \<rparr>, True)
           | (None, c) \<Rightarrow> (PollPending, cl\<lparr> cl_connection := c \<rparr>, True)))"

section \<open>Lemmas\<close>

lemma to_lowercase_char_idem: "to_lowercase_char (to_lowercase_char c) = to_lowercase_char c"
proof (cases "65 \<le> (of_char c :: nat) \<and> (of_char c :: nat) \<le> 90")
  case True
  then have "of_char (char_of (of_char c + 32 :: nat)) = (of_char c + 32 :: nat)"
    by (simp add: of_char_of)
  with True show ?thesis by (simp add: to_lowercase_char_def)
qed (auto simp: to_lowercase_char_def)

lemma to_lowercase_idem: "to_lowercase (to_lowercase s) = to_lowercase s"
  by (simp add: to_lowercase_def to_lowercase_char_idem)

lemma consensus_never_ends: "fst (consensus_poll_next new_attributes next_item join cl) \<noteq> PollEnd"
  by (simp add: consensus_poll_next_def Let_def split: option.split prod.split item_poll.split)

text \<open>
  The items of a run: one poll for each state of the world, that is for what the streams answer then
  and how the connection tasks stand.
\<close>

type_synonym ('st, 'a) stream_world = "('st \<Rightarrow> 'st \<times> 'a item_poll) \<times> (nat \<Rightarrow> 'st join_poll)"

fun consensus_run ::
  "(b256 \<Rightarrow> reth_payload_attributes \<Rightarrow> payload_attributes) \<Rightarrow>
   ('st, fork_versioned_response) stream_world list \<Rightarrow> 'st consensus_layer \<Rightarrow>
   (payload_attributes \<times> u64) stream_poll list \<times> 'st consensus_layer"
where
  "consensus_run new_attributes [] cl = ([], cl)"
| "consensus_run new_attributes ((next_item, join) # worlds) cl =
     (case consensus_poll_next new_attributes next_item join cl of
        (r, cl1, _) \<Rightarrow>
          (case consensus_run new_attributes worlds cl1 of (rs, cl2) \<Rightarrow> (r # rs, cl2)))"

text \<open>What one stream answers when it is polled once in each world, and what the layer makes of it.\<close>

fun stream_run :: "('st, 'a) stream_world list \<Rightarrow> 'st \<Rightarrow> 'a item_poll list \<times> 'st" where
  "stream_run [] stream = ([], stream)"
| "stream_run ((next_item, _) # worlds) stream =
     (case next_item stream of
        (stream1, p) \<Rightarrow> (case stream_run worlds stream1 of (ps, stream2) \<Rightarrow> (p # ps, stream2)))"

fun event_of ::
  "(b256 \<Rightarrow> reth_payload_attributes \<Rightarrow> payload_attributes) \<Rightarrow> fork_versioned_response item_poll \<Rightarrow>
   (payload_attributes \<times> u64) stream_poll"
where
  "event_of new_attributes (Item payload) =
     PollItem (into_reth_payload_attributes new_attributes payload, sx_proposal_slot (fv_data payload))"
| "event_of new_attributes _ = PollPending"

lemma connection_poll_spawned: "cn_spawned c \<le> cn_spawned (snd (connection_poll join c))"
  by (simp add: connection_poll_def connection_new_def split: join_poll.split)

lemma connected_step:
  assumes "cl_payload_stream cl = Some stream" and "next_item stream = (stream', p)"
  shows "\<exists>cl' woken. consensus_poll_next new_attributes next_item join cl = (event_of new_attributes p, cl', woken) \<and>
           cl_payload_stream cl' = Some stream' \<and>
           cn_spawned (cl_connection cl) + (if p = Ended then 1 else 0) \<le> cn_spawned (cl_connection cl')"
  using assms connection_poll_spawned [of "connection_new (cn_spawned (cl_connection cl))" join]
  by (cases p) (auto simp: consensus_poll_next_def connection_new_def case_prod_unfold Let_def)

section \<open>Properties\<close>

text \<open>
  Names of forks round trip: parsing the displayed name of a fork gives the fork back, the
  parser ignores the case of its input, and it fails on every other string with a message that
  carries the input unchanged.
\<close>

lemma fork_name_roundtrip:
  "fork_name_from_str (fork_name_display f) = Ok f \<and>
   fork_name_from_str (to_lowercase s) = map_err (\<lambda>_. ''unknown fork name: '' @ to_lowercase s) (fork_name_from_str s) \<and>
   (fork_name_from_str s = Err e \<longleftrightarrow>
      to_lowercase s \<notin> {''phase0'', ''base'', ''altair'', ''bellatrix'', ''merge'', ''capella'', ''deneb''} \<and>
      e = ''unknown fork name: '' @ s)"
proof (intro conjI)
  show "fork_name_from_str (fork_name_display f) = Ok f"
    by (cases f) (simp_all add: fork_name_from_str_def to_lowercase_def to_lowercase_char_def Let_def of_char_def char_of_def)
  show "fork_name_from_str (to_lowercase s) = map_err (\<lambda>_. ''unknown fork name: '' @ to_lowercase s) (fork_name_from_str s)"
    by (simp add: fork_name_from_str_def to_lowercase_idem Let_def)
  show "fork_name_from_str s = Err e \<longleftrightarrow>
      to_lowercase s \<notin> {''phase0'', ''base'', ''altair'', ''bellatrix'', ''merge'', ''capella'', ''deneb''} \<and>
      e = ''unknown fork name: '' @ s"
    by (auto simp: fork_name_from_str_def Let_def)
qed


definition sample_new_attributes :: "b256 \<Rightarrow> reth_payload_attributes \<Rightarrow> payload_attributes" where
  "sample_new_attributes parent a =
     \<lparr> pa_id = 1, pa_parent = parent, pa_timestamp = rp_timestamp a,
       pa_suggested_fee_recipient = rp_suggested_fee_recipient a, pa_prev_randao = rp_prev_randao a,
       pa_withdrawals = unwrap_or (rp_withdrawals a) [],
       pa_parent_beacon_block_root = rp_parent_beacon_block_root a \<rparr>"


end
