(* ===== verification/Builder_Service.thy ===== *)
theory Builder_Service
  imports Consensus_Layer Build_Jobs
begin

text \<open>
  The main service of \<open>bin/builder/src/service.rs\<close>: it turns payload attributes of the consensus
  layer into build configurations, prunes the bundle pool, and starts the payload job and the
  auction of each slot.

  The two handles are channels: what is sent on them is a list of effects.  One poll is a partial
  function, since its loop runs as long as the stream yields items.
\<close>

section \<open>State\<close>

record 'st block_builder =
  bb_slot :: u64
  bb_consensus :: "'st consensus_layer"
  bb_bundles_pool :: bundle_pool

text \<open>What the service reads: the configuration, the client, the schedule and the time.\<close>

record ('cs, 'blk, 'st) builder_env =
  bse_new_attributes :: "b256 \<Rightarrow> reth_payload_attributes \<Rightarrow> payload_attributes"
  bse_next_item :: "'st \<Rightarrow> 'st \<times> fork_versioned_response item_poll"
  bse_join :: "nat \<Rightarrow> 'st join_poll"
  bse_client :: "'blk chain_client"
  bse_cfg_and_block_env :: "'cs \<Rightarrow> payload_attributes \<Rightarrow> sealed_block \<Rightarrow> cfg_env \<times> block_env"
  bse_chain_spec :: 'cs
  bse_schedule :: validator_schedule
  bse_now_secs :: u64
  bse_pool_locked :: bool

datatype builder_effect = BuildPayload build_config | AuctionStart u64 u64

definition BlockBuilderService_new :: "bundle_pool \<Rightarrow> 'st block_builder" where
  "BlockBuilderService_new pool =
     \<lparr> bb_slot = 0, bb_consensus = ConsensusLayer_new, bb_bundles_pool = pool \<rparr>"

section \<open>Operations\<close>

definition parent_block ::
  "('cs, 'blk, 'st) builder_env \<Rightarrow> payload_attributes \<Rightarrow> (sealed_block, payload_builder_error) result"
where
  "parent_block env attributes = find_parent_block (bse_client env) (pa_parent attributes)"

definition build_configs ::
  "('cs, 'blk, 'st) builder_env \<Rightarrow> payload_attributes \<Rightarrow> u64 \<Rightarrow> (build_config option, unit) result"
where
  "build_configs env attributes slot =
     (case parent_block env attributes of
        Err e \<Rightarrow> Ok None
      | Panic \<Rightarrow> Panic
      | Ok parent \<Rightarrow>
          (case get_by_slot (bse_schedule env) slot of
             None \<Rightarrow> Ok None
           | Some info \<Rightarrow>
               (case BuildConfig_new (bse_cfg_and_block_env env) (bse_chain_spec env) attributes parent slot info of
                  None \<Rightarrow> Panic
                | Some config \<Rightarrow> Ok (Some config))))"

definition prune_bundle_pool :: "bool \<Rightarrow> build_config \<Rightarrow> bundle_pool \<Rightarrow> bundle_pool" where
  "prune_bundle_pool locked config pool =
     (let prune_block = bc_block_number config - 1;
          prune_timestamp = pa_timestamp (bc_attributes config) - 12
      in prune locked pool prune_block prune_timestamp)"

text \<open>The loop of \<open>poll\<close>: the last item before the stream is pending; \<open>None\<close> inside is its end.\<close>

partial_function (option) drain_consensus ::
  "('cs, 'blk, 'st) builder_env \<Rightarrow> 'st consensus_layer \<Rightarrow> (payload_attributes \<times> u64) option \<Rightarrow>
   ('st consensus_layer \<times> (payload_attributes \<times> u64) option option) option"
where
  "drain_consensus env cl args =
     (case consensus_poll_next (bse_new_attributes env) (bse_next_item env) (bse_join env) cl of
        (polled, cl', _) \<Rightarrow>
          (case polled of
             PollItem item \<Rightarrow> drain_consensus env cl' (Some item)
           | PollEnd \<Rightarrow> Some (cl', None)
           | PollPending \<Rightarrow> Some (cl', Some args)))"

definition handle_attributes ::
  "('cs, 'blk, 'st) builder_env \<Rightarrow> 'st block_builder \<Rightarrow> payload_attributes \<Rightarrow> u64 \<Rightarrow>
   ('st block_builder \<times> builder_effect list, unit) result"
where
  "handle_attributes env s attributes slot =
     (if bb_slot s = slot then Ok (s, [])
      else if pa_timestamp attributes \<le> bse_now_secs env then Ok (s, [])
      else
        let s1 = s\<lparr> bb_slot := slot \<rparr>
        in result_bind (build_configs env attributes slot) (\<lambda>configs.
             case configs of
               None \<Rightarrow> Ok (s1, [])
             | Some config \<Rightarrow>
                 Ok (s1\<lparr> bb_bundles_pool := prune_bundle_pool (bse_pool_locked env) config (bb_bundles_pool s1) \<rparr>,
                     [BuildPayload config, AuctionStart slot (bc_block_number config)])))"

text \<open>\<open>True\<close> is \<open>Poll::Ready(())\<close>.\<close>

definition builder_poll ::
  "('cs, 'blk, 'st) builder_env \<Rightarrow> 'st block_builder \<Rightarrow>
   (bool \<times> 'st block_builder \<times> builder_effect list, unit) result option"
where
  "builder_poll env s =
     map_option (\<lambda>(cl, args).
       let s1 = s\<lparr> bb_consensus := cl \<rparr>
       in case args of
            None \<Rightarrow> Ok (True, s1, [])
          | Some None \<Rightarrow> Ok (False, s1, [])
          | Some (Some (attributes, slot)) \<Rightarrow>
              result_map (\<lambda>(s2, effects). (False, s2, effects)) (handle_attributes env s1 attributes slot))
       (drain_consensus env (bb_consensus s) None)"

section \<open>Lemmas\<close>

lemmas drain_consensus_induct =
  drain_consensus.raw_induct [rotated, consumes 1, case_names step]

lemma drain_consensus_not_ended:
  assumes "drain_consensus env cl args = Some res"
  shows "snd res \<noteq> None"
  using assms
proof (induction rule: drain_consensus_induct)
  case (step drain env cl args res)
  from step.hyps consensus_never_ends [of "bse_new_attributes env" "bse_next_item env" "bse_join env" cl]
  show ?case by (auto split: prod.splits stream_poll.splits dest: step.IH)
qed

lemma build_configs_SomeD:
  assumes "build_configs env attributes slot = Ok (Some config)"
  shows "bc_slot config = slot \<and> bc_attributes config = attributes \<and>
         get_by_slot (bse_schedule env) slot = Some (bc_validator_info config) \<and>
         parent_block env attributes = Ok (bc_parent_block config)"
  using assms
  by (auto simp: build_configs_def BuildConfig_new_def case_prod_unfold Let_def
      split: result.splits option.splits)

lemma build_configs_gas_limit:
  assumes "build_configs env attributes slot = Ok (Some config)"
  shows "bc_block_gas_limit config =
    suggest_gas_limit (bc_validator_info config) (sb_gas_limit (bc_parent_block config))"
  using assms
  by (auto simp: build_configs_def BuildConfig_new_def case_prod_unfold Let_def
      split: result.splits option.splits)

lemma handle_attributes_cases:
  assumes "handle_attributes env s attributes slot = Ok (s', effects)"
  obtains (ignored) "s' = s" "effects = []" "bb_slot s = slot \<or> pa_timestamp attributes \<le> bse_now_secs env"
  | (no_config) "s' = s\<lparr> bb_slot := slot \<rparr>" "effects = []" "build_configs env attributes slot = Ok None"
      "bb_slot s \<noteq> slot" "bse_now_secs env < pa_timestamp attributes"
  | (started) config where "build_configs env attributes slot = Ok (Some config)"
      "s' = s\<lparr> bb_slot := slot,
               bb_bundles_pool := prune_bundle_pool (bse_pool_locked env) config (bb_bundles_pool s) \<rparr>"
      "effects = [BuildPayload config, AuctionStart slot (bc_block_number config)]"
      "bb_slot s \<noteq> slot" "bse_now_secs env < pa_timestamp attributes"
  using assms
  by (auto simp: handle_attributes_def Let_def result_bind_Ok_iff not_le split: if_splits option.splits)

lemma prune_bundle_pool_dom:
  assumes "bp_inner p = pool_run ops" and "b \<in> set (inner_bundles (bp_inner (prune_bundle_pool True config p)) n t)"
  shows "\<not> is_prunable b (bc_block_number config - 1) (pa_timestamp (bc_attributes config) - 12)"
proof -
  let ?n = "bc_block_number config - 1" and ?t = "pa_timestamp (bc_attributes config) - 12"
  have q: "bp_inner (prune_bundle_pool True config p) = fst (inner_prune (pool_run ops) ?n ?t)"
    by (simp add: prune_bundle_pool_def prune_def assms(1) case_prod_unfold Let_def)
  have inv: "pool_inv (fst (inner_prune (pool_run ops) ?n ?t))" by (rule prune_inv [OF pool_run_inv])
  from assms(2) have "map_of (pi_bundles (fst (inner_prune (pool_run ops) ?n ?t))) (bundle_hash b) = Some b"
    unfolding q by (simp add: inner_bundles_iff [OF inv])
  then show ?thesis
    by (auto simp: prune_bundles [OF pool_run_inv] abs_pruned_def is_some_and_def
        split: option.splits if_splits)
qed

lemma builder_poll_configs:
  assumes "builder_poll env s = Some (Ok (finished, s', effects))" and "BuildPayload config \<in> set effects"
  shows "build_configs env (bc_attributes config) (bc_slot config) = Ok (Some config) \<and>
         bse_now_secs env < pa_timestamp (bc_attributes config)"
proof -
  from assms(1) obtain cl args where
    r: "(case args of
            None \<Rightarrow> Ok (True, s\<lparr> bb_consensus := cl \<rparr>, [])
          | Some None \<Rightarrow> Ok (False, s\<lparr> bb_consensus := cl \<rparr>, [])
          | Some (Some (attributes, slot)) \<Rightarrow>
              result_map (Pair False)
                (handle_attributes env (s\<lparr> bb_consensus := cl \<rparr>) attributes slot)) = Ok (finished, s', effects)"
    by (auto simp: builder_poll_def Let_def)
  with assms(2) obtain attributes slot where
    h: "handle_attributes env (s\<lparr> bb_consensus := cl \<rparr>) attributes slot = Ok (s', effects)"
    by (auto simp: result_map_Ok_iff split: option.splits)
  from h show ?thesis
  proof (cases rule: handle_attributes_cases)
    case (started config')
    with assms(2) build_configs_SomeD [OF started(1)] show ?thesis by auto
  qed (use assms(2) in simp_all)
qed

section \<open>Properties\<close>

lemma builder_poll_effects:
  assumes "builder_poll env s = Some (Ok (finished, s', effects))"
  shows "\<not> finished \<and>
         (effects = [] \<or>
          (\<exists>config. effects = [BuildPayload config, AuctionStart (bc_slot config) (bc_block_number config)] \<and>
             bc_slot config \<noteq> bb_slot s \<and> bb_slot s' = bc_slot config \<and>
             bse_now_secs env < pa_timestamp (bc_attributes config) \<and>
             get_by_slot (bse_schedule env) (bc_slot config) = Some (bc_validator_info config) \<and>
             find_parent_block (bse_client env) (pa_parent (bc_attributes config)) = Ok (bc_parent_block config)))"
proof -
  from assms obtain cl args where d: "drain_consensus env (bb_consensus s) None = Some (cl, args)"
    and r: "(case args of
            None \<Rightarrow> Ok (True, s\<lparr> bb_consensus := cl \<rparr>, [])
          | Some None \<Rightarrow> Ok (False, s\<lparr> bb_consensus := cl \<rparr>, [])
          | Some (Some (attributes, slot)) \<Rightarrow>
              result_map (Pair False)
                (handle_attributes env (s\<lparr> bb_consensus := cl \<rparr>) attributes slot)) = Ok (finished, s', effects)"
    by (auto simp: builder_poll_def Let_def)
  from drain_consensus_not_ended [OF d] obtain args' where args: "args = Some args'" by auto
  show ?thesis
  proof (cases args')
    case None
    with r args show ?thesis by simp
  next
    case (Some item)
    obtain attributes slot where item: "item = (attributes, slot)" by (cases item)
    from r have h: "handle_attributes env (s\<lparr> bb_consensus := cl \<rparr>) attributes slot = Ok (s', effects)"
      and f: "\<not> finished"
      by (auto simp: args Some item result_map_Ok_iff)
    from h show ?thesis
    proof (cases rule: handle_attributes_cases)
      case (started config)
      with f build_configs_SomeD [OF started(1)] show ?thesis by (auto simp: parent_block_def)
    qed (use f in simp_all)
  qed
qed

text \<open>
  C27: The service never ends, and what it starts is consistent. A poll that returns either starts
  nothing, or starts exactly one payload job and one auction, in this order, for one build
  configuration: its slot is the auction's and differs from the last slot the service handled, its
  timestamp lies in the future, its validator is the one scheduled for the slot, and its parent
  block is the one the attributes name. The service remembers the slot.
\<close>

theorem builder_starts_slots:
  assumes "builder_poll env s = Some (Ok (finished, s', effects))"
  shows "\<not> finished \<and>
         (effects = [] \<or>
          (\<exists>config. effects = [BuildPayload config, AuctionStart (bc_slot config) (bc_block_number config)] \<and>
             bc_slot config \<noteq> bb_slot s \<and> bb_slot s' = bc_slot config \<and>
             bse_now_secs env < pa_timestamp (bc_attributes config) \<and>
             get_by_slot (bse_schedule env) (bc_slot config) = Some (bc_validator_info config) \<and>
             find_parent_block (bse_client env) (pa_parent (bc_attributes config)) = Ok (bc_parent_block config)))"
  by (rule builder_poll_effects [OF assms])

text \<open>
  C37: Starting a slot drops the very bundles that become valid for it. The pool is pruned with the
  slot's timestamp less twelve seconds, and a bundle that is not yet valid then counts as prunable.
  So a bundle for the block being built whose minimum timestamp lies in the last twelve seconds
  before the slot, which the pool would have returned for the slot, is gone before the build starts.
\<close>

theorem starting_slot_drops_fresh_bundles:
  assumes "handle_attributes env s attributes slot = Ok (s', [BuildPayload config, auction])"
    and "bp_inner (bb_bundles_pool s) = pool_run ops" and "bse_pool_locked env"
    and "bundle_min_timestamp b = Some m" and "pa_timestamp attributes - 12 < m"
    and "b \<in> set (inner_bundles (bp_inner (bb_bundles_pool s)) (bc_block_number config) (pa_timestamp attributes))"
  shows "b \<notin> set (inner_bundles (bp_inner (bb_bundles_pool s')) (bc_block_number config) (pa_timestamp attributes))"
  using assms(1)
proof (cases rule: handle_attributes_cases)
  case (started config')
  then have c: "config' = config" by simp
  have attrs: "bc_attributes config = attributes" using build_configs_SomeD [OF started(1)] c by simp
  have "is_prunable b n (pa_timestamp attributes - 12)" for n
    using assms(4,5) by (simp add: is_prunable_def is_timestamp_out_of_bounds_def is_some_and_def Let_def)
  then show ?thesis
    using prune_bundle_pool_dom [OF assms(2), of b config] started(2) assms(3) by (auto simp: c attrs)
qed simp_all

text \<open>
  A slot whose configuration could not be built is not tried again. When the parent block or
  the validator of a slot is missing, the slot is remembered all the same, so a later event for it
  is ignored even when everything it needs has arrived.
\<close>

lemma failed_slot_not_retried:
  assumes "build_configs env attributes slot = Ok None"
    and "bb_slot s \<noteq> slot" and "bse_now_secs env < pa_timestamp attributes"
  shows "\<exists>s'. handle_attributes env s attributes slot = Ok (s', []) \<and>
           handle_attributes env' s' attributes' slot = Ok (s', [])"
  using assms by (intro exI [of _ "s\<lparr> bb_slot := slot \<rparr>"]) (simp add: handle_attributes_def not_le)

definition sample_response :: fork_versioned_response where
  "sample_response =
     \<lparr> fv_version = Some Deneb,
       fv_data = \<lparr> sx_proposal_slot = 3, sx_proposer_index = 0, sx_parent_block_root = 0,
         sx_parent_block_number = 6, sx_parent_block_hash = 2,
         sx_payload_attributes = \<lparr> spa_timestamp = 150, spa_prev_randao = 4,
           spa_suggested_fee_recipient = 3, spa_withdrawals = [] \<rparr> \<rparr> \<rparr>"

definition sample_builder_env :: "validator_schedule \<Rightarrow> (unit, unit, nat) builder_env" where
  "sample_builder_env schedule =
     \<lparr> bse_new_attributes = sample_new_attributes,
       bse_next_item = (\<lambda>st. if st = 0 then (1, Item sample_response) else (st, NoItem)),
       bse_join = (\<lambda>_. JoinPending),
       bse_client = \<lparr> cc_latest = Ok None, cc_find_by_hash = (\<lambda>_. Ok (Some ())),
         cc_seal_slow = (\<lambda>_. bc_parent_block sample_config), cc_seal = (\<lambda>_ _. bc_parent_block sample_config) \<rparr>,
       bse_cfg_and_block_env = (\<lambda>_ _ _. (bc_initialized_cfg sample_config, bc_initialized_block_env sample_config)),
       bse_chain_spec = (), bse_schedule = schedule, bse_now_secs = 100, bse_pool_locked = True \<rparr>"

definition sample_builder :: "nat block_builder" where
  "sample_builder =
     (BlockBuilderService_new
        (BundlePool_new\<lparr> bp_inner := pool_run [OpAdd ((sample_bundle 5 None)\<lparr> bundle_min_timestamp := Some 140 \<rparr>)] \<rparr>))
     \<lparr> bb_consensus := ConsensusLayer_new\<lparr> cl_payload_stream := Some 0 \<rparr> \<rparr>"

definition sample_attributes :: payload_attributes where
  "sample_attributes = into_reth_payload_attributes sample_new_attributes sample_response"

lemma sample_attributes_fields:
  "pa_timestamp sample_attributes = 150" "pa_parent sample_attributes = 2"
  by (simp_all add: sample_attributes_def into_reth_payload_attributes_def sample_new_attributes_def
      sample_response_def Let_def)

lemma sample_drain:
  "\<exists>cl. drain_consensus (sample_builder_env sched) (bb_consensus sample_builder) None =
     Some (cl, Some (Some (sample_attributes, 3)))"
proof -
  note step = drain_consensus.simps [of "sample_builder_env sched"]
  show ?thesis
    unfolding sample_builder_def
    apply (subst step, simp add: sample_builder_env_def consensus_poll_next_def BlockBuilderService_new_def)
    apply (subst step [unfolded sample_builder_env_def], simp add: consensus_poll_next_def)
    apply (simp add: sample_attributes_def sample_response_def)
    done
qed

lemma sample_build_configs:
  "\<exists>config. build_configs (sample_builder_env [3 \<mapsto> sample_validator 30000000]) sample_attributes 3 = Ok (Some config) \<and>
     bc_block_number config = 7"
  by (simp add: build_configs_def parent_block_def find_parent_block_def sample_builder_env_def
      ok_or_missing_def get_by_slot_def BuildConfig_new_def sample_attributes_fields sample_config_def
      u256_to_u64_def)

lemma sample_handle:
  "\<exists>s' config. handle_attributes (sample_builder_env [3 \<mapsto> sample_validator 30000000])
      (sample_builder\<lparr> bb_consensus := cl \<rparr>) sample_attributes 3 = Ok (s', [BuildPayload config, AuctionStart 3 7]) \<and>
     bc_block_number config = 7"
proof -
  have n: "bb_slot sample_builder \<noteq> 3" "bse_now_secs (sample_builder_env sched) = 100" for sched
    by (simp_all add: sample_builder_def BlockBuilderService_new_def sample_builder_env_def)
  from sample_build_configs obtain config where
    "build_configs (sample_builder_env [3 \<mapsto> sample_validator 30000000]) sample_attributes 3 = Ok (Some config)"
      "bc_block_number config = 7" by blast
  then show ?thesis by (simp add: handle_attributes_def n sample_attributes_fields)
qed

theorem builder_starts_slots_witness:
  "\<exists>s' config. builder_poll (sample_builder_env [3 \<mapsto> sample_validator 30000000]) sample_builder =
     Some (Ok (False, s', [BuildPayload config, AuctionStart 3 7])) \<and> bb_slot s' = 3"
proof -
  obtain cl where d: "drain_consensus (sample_builder_env [3 \<mapsto> sample_validator 30000000])
      (bb_consensus sample_builder) None = Some (cl, Some (Some (sample_attributes, 3)))"
    using sample_drain by blast
  obtain s' config where h: "handle_attributes (sample_builder_env [3 \<mapsto> sample_validator 30000000])
      (sample_builder\<lparr> bb_consensus := cl \<rparr>) sample_attributes 3 = Ok (s', [BuildPayload config, AuctionStart 3 7])"
    using sample_handle by blast
  have p: "builder_poll (sample_builder_env [3 \<mapsto> sample_validator 30000000]) sample_builder =
     Some (Ok (False, s', [BuildPayload config, AuctionStart 3 7]))"
    by (simp add: builder_poll_def d h)
  from builder_starts_slots [OF p] p show ?thesis by auto
qed

theorem starting_slot_drops_fresh_bundles_witness:
  "\<exists>s' config. handle_attributes (sample_builder_env [3 \<mapsto> sample_validator 30000000]) sample_builder
      sample_attributes 3 = Ok (s', [BuildPayload config, AuctionStart 3 7]) \<and>
     (sample_bundle 5 None)\<lparr> bundle_min_timestamp := Some 140 \<rparr>
       \<notin> set (inner_bundles (bp_inner (bb_bundles_pool s')) 7 150)"
proof -
  let ?b = "(sample_bundle 5 None)\<lparr> bundle_min_timestamp := Some 140 \<rparr>"
  obtain s' config where h: "handle_attributes (sample_builder_env [3 \<mapsto> sample_validator 30000000])
      (sample_builder\<lparr> bb_consensus := bb_consensus sample_builder \<rparr>) sample_attributes 3 =
        Ok (s', [BuildPayload config, AuctionStart 3 7])" "bc_block_number config = 7"
    using sample_handle by blast
  then have h': "handle_attributes (sample_builder_env [3 \<mapsto> sample_validator 30000000])
      sample_builder sample_attributes 3 = Ok (s', [BuildPayload config, AuctionStart 3 7])" by simp
  have p: "bp_inner (bb_bundles_pool sample_builder) = pool_run [OpAdd ?b]"
    by (simp add: sample_builder_def BlockBuilderService_new_def)
  have w: "is_within_block_number ?b 7" "is_within_timestamp ?b 150"
    by (simp_all add: sample_bundle_def is_within_block_number_def is_within_timestamp_def is_none_or_def Let_def)
  have "?b \<in> set (inner_bundles (pool_run ([] @ OpAdd ?b # [])) 7 150)"
    using pool.query_after_run [OF pool_run_inv, of ?b "[]" 7 150 "[]"] w by (simp add: pool_run_def run_op_def)
  then have m: "?b \<in> set (inner_bundles (bp_inner (bb_bundles_pool sample_builder)) (bc_block_number config)
      (pa_timestamp sample_attributes))"
    by (simp add: p h(2) sample_attributes_fields)
  have "?b \<notin> set (inner_bundles (bp_inner (bb_bundles_pool s')) 7 150)"
    using starting_slot_drops_fresh_bundles [OF h' p _ _ _ m, of 140] h(2)
    by (simp add: sample_builder_env_def sample_bundle_def sample_attributes_fields)
  with h' show ?thesis by blast
qed

end
