(* ===== verification/Rpc.thy ===== *)
theory Rpc
  imports Bundle_Pool
begin

text \<open>
  The JSON-RPC endpoints of \<open>crates/rpc\<close>: \<open>eth_sendBundle\<close> (\<open>send_bundle.rs\<close>),
  \<open>eth_cancelBundle\<close> (\<open>cancel_bundle.rs\<close>), \<open>eth_sendPrivateTransaction\<close>
  (\<open>send_private_tx.rs\<close>), the recovery of raw transactions (\<open>utils.rs\<close>), the server type and its
  errors (\<open>lib.rs\<close>) and the conversion of pool errors (\<open>bundles/src/pool.rs\<close>).

  The record \<open>rpc_library\<close> collects what the endpoints call outside the repository: decoding and
  signer recovery of a pooled transaction, its hash, \<open>keccak256\<close>, the conversion into a
  transaction of the node's pool and the submission to that pool as private.  A request carries
  the outcome of its permit (which no handler looks at) and of the bundle pool's lock.
\<close>

section \<open>Errors\<close>

datatype bundles_api_error = EmptyBundleTransactions | BundleMissingBlockNumber

fun bundles_api_error_display :: "bundles_api_error \<Rightarrow> string" where
  "bundles_api_error_display EmptyBundleTransactions = ''bundle missing txs''"
| "bundles_api_error_display BundleMissingBlockNumber = ''bundle missing blockNumber''"

datatype 'perr eth_api_error =
    EmptyRawTransactionData
  | FailedToDecodeSignedTransaction
  | InvalidTransactionSignature
  | InvalidParams string
  | InternalEthError
  | TransactionPoolError 'perr

fun eth_api_error_from_pool :: "pool_error \<Rightarrow> 'perr eth_api_error" where
  "eth_api_error_from_pool BundleNotFound = InvalidParams ''bundle not found''"
| "eth_api_error_from_pool BundleReplacementFailed = InvalidParams ''bundle replacement failed''"

section \<open>Recovery of raw transactions\<close>

record ('pooled, 'recovered, 'ptx, 'txpool, 'perr) rpc_library =
  rl_decode_enveloped :: "bytes \<Rightarrow> 'pooled option"
  rl_try_into_ecrecovered :: "'pooled \<Rightarrow> 'recovered option"
  rl_hash :: "'recovered \<Rightarrow> b256"
  rl_keccak256 :: "bytes \<Rightarrow> b256"
  rl_from_recovered :: "'recovered \<Rightarrow> 'ptx"
  rl_add_private :: "'txpool \<Rightarrow> 'ptx \<Rightarrow> 'txpool \<times> (b256, 'perr) result"

definition recover_raw_transaction ::
  "('pooled, 'recovered, 'ptx, 'txpool, 'perr) rpc_library \<Rightarrow> bytes \<Rightarrow>
   ('recovered, 'perr eth_api_error) result"
where
  "recover_raw_transaction lib data =
     (if data = [] then Err EmptyRawTransactionData
      else case rl_decode_enveloped lib data of
        None \<Rightarrow> Err FailedToDecodeSignedTransaction
      | Some transaction \<Rightarrow>
          (case rl_try_into_ecrecovered lib transaction of
             None \<Rightarrow> Err InvalidTransactionSignature
           | Some recovered \<Rightarrow> Ok recovered))"

definition recover_transactions ::
  "('pooled, 'recovered, 'ptx, 'txpool, 'perr) rpc_library \<Rightarrow> bytes list \<Rightarrow> u64 \<Rightarrow>
   ('recovered list, 'perr eth_api_error) result"
where
  "recover_transactions lib txs block_number =
     (if txs = [] then Err (InvalidParams (bundles_api_error_display EmptyBundleTransactions))
      else if block_number = 0 then
        Err (InvalidParams (bundles_api_error_display BundleMissingBlockNumber))
      else sequence_res (map (recover_raw_transaction lib) txs))"

section \<open>Endpoints\<close>

definition EthSendBundle_send ::
  "('pooled, 'recovered, 'ptx, 'txpool, 'perr) rpc_library \<Rightarrow> bool \<Rightarrow> eth_send_bundle \<Rightarrow>
   bundle_pool \<Rightarrow> bundle_pool \<times> (b256, 'perr eth_api_error) result"
where
  "EthSendBundle_send lib locked req pool =
     (case recover_transactions lib (esb_txs req) (esb_block_number req) of
        Err e \<Rightarrow> (pool, Err e)
      | Panic \<Rightarrow> (pool, Panic)
      | Ok txs \<Rightarrow>
          let hash = create_hash (rl_keccak256 lib) (map (rl_hash lib) txs)
          in (case add_bundle locked pool (Bundle_from req hash) of
                (pool1, Some h) \<Rightarrow>
                  (pool1\<lparr> bp_metrics := inc_send_bundle_rpc_success (bp_metrics pool1) \<rparr>, Ok h)
              | (pool1, None) \<Rightarrow>
                  (pool1\<lparr> bp_metrics := inc_send_bundle_rpc_failure (bp_metrics pool1) \<rparr>,
                   Err InternalEthError)))"

definition B256_cancel ::
  "bool \<Rightarrow> b256 \<Rightarrow> bundle_pool \<Rightarrow> bundle_pool \<times> (unit, 'perr eth_api_error) result"
where
  "B256_cancel locked hash pool =
     (case cancel_bundle locked pool hash of
        (pool1, None) \<Rightarrow> (pool1, Err InternalEthError)
      | (pool1, Some r) \<Rightarrow> (pool1, map_err eth_api_error_from_pool r))"

definition Bytes_send ::
  "('pooled, 'recovered, 'ptx, 'txpool, 'perr) rpc_library \<Rightarrow> bytes \<Rightarrow> 'txpool \<Rightarrow>
   'txpool \<times> (b256, 'perr eth_api_error) result"
where
  "Bytes_send lib data pool =
     (case recover_raw_transaction lib data of
        Err e \<Rightarrow> (pool, Err e)
      | Panic \<Rightarrow> (pool, Panic)
      | Ok recovered \<Rightarrow>
          (case rl_add_private lib pool (rl_from_recovered lib recovered) of
             (pool1, r) \<Rightarrow> (pool1, map_err TransactionPoolError r)))"

section \<open>The server\<close>

record 'txpool bundles_api_ext =
  bae_pool :: 'txpool
  bae_bundles_pool :: bundle_pool

datatype rpc_request =
    SendBundle eth_send_bundle
  | CancelBundle b256
  | SendPrivateTransaction bytes

datatype 'perr rpc_reply =
    BundleHashReply "(b256, 'perr eth_api_error) result"
  | CancelReply "(unit, 'perr eth_api_error) result"
  | TxHashReply "(b256, 'perr eth_api_error) result"

record rpc_call =
  call_permit :: bool
  call_locked :: bool
  call_request :: rpc_request

definition rpc_handle ::
  "('pooled, 'recovered, 'ptx, 'txpool, 'perr) rpc_library \<Rightarrow> rpc_call \<Rightarrow>
   'txpool bundles_api_ext \<Rightarrow> 'txpool bundles_api_ext \<times> 'perr rpc_reply"
where
  "rpc_handle lib call api =
     (case call_request call of
        SendBundle req \<Rightarrow>
          (case EthSendBundle_send lib (call_locked call) req (bae_bundles_pool api) of
             (p, r) \<Rightarrow> (api\<lparr> bae_bundles_pool := p \<rparr>, BundleHashReply r))
      | CancelBundle hash \<Rightarrow>
          (case B256_cancel (call_locked call) hash (bae_bundles_pool api) of
             (p, r) \<Rightarrow> (api\<lparr> bae_bundles_pool := p \<rparr>, CancelReply r))
      | SendPrivateTransaction tx \<Rightarrow>
          (case Bytes_send lib tx (bae_pool api) of
             (p, r) \<Rightarrow> (api\<lparr> bae_pool := p \<rparr>, TxHashReply r)))"

section \<open>Lemmas\<close>

lemma recover_raw_transaction_Ok:
  "recover_raw_transaction lib data = Ok r \<longleftrightarrow>
     data \<noteq> [] \<and>
     Option.bind (rl_decode_enveloped lib data) (rl_try_into_ecrecovered lib) = Some r"
  by (auto simp: recover_raw_transaction_def split: option.splits)

lemma recover_raw_transaction_no_panic [simp]: "recover_raw_transaction lib data \<noteq> Panic"
  by (auto simp: recover_raw_transaction_def split: option.splits)

lemma sequence_res_no_panic:
  assumes "\<And>x. f x \<noteq> Panic"
  shows "sequence_res (map f xs) \<noteq> Panic"
proof (induction xs)
  case Nil
  then show ?case by simp
next
  case (Cons x xs)
  then show ?case
    using assms [of x] by (cases "f x"; cases "sequence_res (map f xs)") simp_all
qed

lemma recover_transactions_no_panic [simp]: "recover_transactions lib txs n \<noteq> Panic"
  by (simp add: recover_transactions_def sequence_res_no_panic)

lemma recover_transactions_Ok:
  "recover_transactions lib txs n = Ok rs \<longleftrightarrow>
     txs \<noteq> [] \<and> n \<noteq> 0 \<and> map (recover_raw_transaction lib) txs = map Ok rs"
  by (simp add: recover_transactions_def sequence_res_Ok)

text \<open>The operation on the bundle pool that a call amounts to.\<close>

definition rpc_op ::
  "('pooled, 'recovered, 'ptx, 'txpool, 'perr) rpc_library \<Rightarrow> rpc_call \<Rightarrow> pool_op list"
where
  "rpc_op lib call =
     (if \<not> call_locked call then []
      else case call_request call of
        SendBundle req \<Rightarrow>
          (case recover_transactions lib (esb_txs req) (esb_block_number req) of
             Ok txs \<Rightarrow>
               [OpAdd (Bundle_from req (create_hash (rl_keccak256 lib) (map (rl_hash lib) txs)))]
           | _ \<Rightarrow> [])
      | CancelBundle hash \<Rightarrow> [OpCancel hash]
      | SendPrivateTransaction _ \<Rightarrow> [])"

lemma add_bundle_inner:
  "bp_inner (fst (add_bundle locked p b)) =
     (if locked then fst (inner_add_bundle (bp_inner p) b) else bp_inner p)"
  "snd (add_bundle locked p b) = (if locked then Some (bundle_hash b) else None)"
  by (simp_all add: add_bundle_def case_prod_unfold Let_def)

lemma cancel_bundle_inner:
  "bp_inner (fst (cancel_bundle locked p h)) =
     (if locked then fst (inner_cancel_bundle (bp_inner p) h) else bp_inner p)"
  "snd (cancel_bundle locked p h) =
     (if locked then Some (snd (inner_cancel_bundle (bp_inner p) h)) else None)"
  by (simp_all add: cancel_bundle_def case_prod_unfold Let_def)

lemma bundle_hash_from [simp]: "bundle_hash (Bundle_from req h) = h"
  by (simp add: Bundle_from_def)

lemma EthSendBundle_send_eq:
  "bp_inner (fst (EthSendBundle_send lib locked req p)) =
     (case recover_transactions lib (esb_txs req) (esb_block_number req) of
        Ok txs \<Rightarrow>
          if locked then
            fst (inner_add_bundle (bp_inner p)
              (Bundle_from req (create_hash (rl_keccak256 lib) (map (rl_hash lib) txs))))
          else bp_inner p
      | _ \<Rightarrow> bp_inner p)"
  "snd (EthSendBundle_send lib locked req p) =
     (case recover_transactions lib (esb_txs req) (esb_block_number req) of
        Ok txs \<Rightarrow>
          if locked then Ok (create_hash (rl_keccak256 lib) (map (rl_hash lib) txs))
          else Err InternalEthError
      | Err e \<Rightarrow> Err e
      | Panic \<Rightarrow> Panic)"
  by (simp_all add: EthSendBundle_send_def Let_def add_bundle_inner case_prod_unfold
      split: result.split option.split)

lemma B256_cancel_eq:
  "bp_inner (fst (B256_cancel locked h p)) =
     (if locked then fst (inner_cancel_bundle (bp_inner p) h) else bp_inner p)"
  "snd (B256_cancel locked h p) =
     (if locked then map_err eth_api_error_from_pool (snd (inner_cancel_bundle (bp_inner p) h))
      else Err InternalEthError)"
  by (simp_all add: B256_cancel_def cancel_bundle_inner case_prod_unfold split: option.split)

lemma rpc_handle_refines:
  "bp_inner (bae_bundles_pool (fst (rpc_handle lib call api))) =
     fold (run_op (\<lambda>p b. fst (inner_add_bundle p b)) (\<lambda>p h. fst (inner_cancel_bundle p h))
             (\<lambda>p n t. fst (inner_prune p n t))) (rpc_op lib call) (bp_inner (bae_bundles_pool api))"
  by (auto simp: rpc_handle_def rpc_op_def case_prod_unfold EthSendBundle_send_eq B256_cancel_eq
      run_op_def split: rpc_request.split result.split)

section \<open>Properties\<close>

text \<open>The server after a sequence of calls, started on an empty bundle pool.\<close>

definition rpc_run ::
  "('pooled, 'recovered, 'ptx, 'txpool, 'perr) rpc_library \<Rightarrow> 'txpool \<Rightarrow> rpc_call list \<Rightarrow>
   'txpool bundles_api_ext"
where
  "rpc_run lib txpool calls =
     fold (\<lambda>call api. fst (rpc_handle lib call api)) calls
       \<lparr> bae_pool = txpool, bae_bundles_pool = BundlePool_new \<rparr>"

lemma rpc_run_snoc:
  "rpc_run lib txpool (calls @ [call]) = fst (rpc_handle lib call (rpc_run lib txpool calls))"
  by (simp add: rpc_run_def)

lemma pool_run_append:
  "pool_run (ops @ ops') =
     fold (run_op (\<lambda>p b. fst (inner_add_bundle p b)) (\<lambda>p h. fst (inner_cancel_bundle p h))
             (\<lambda>p n t. fst (inner_prune p n t))) ops' (pool_run ops)"
  by (simp add: pool_run_def)

lemma rpc_run_pool:
  "bp_inner (bae_bundles_pool (rpc_run lib txpool calls)) =
     pool_run (concat (map (rpc_op lib) calls))"
proof (induction calls rule: rev_induct)
  case Nil
  then show ?case by (simp add: rpc_run_def pool_run_def BundlePool_new_def)
next
  case (snoc call calls)
  then show ?case by (simp add: rpc_run_snoc rpc_handle_refines pool_run_append)
qed

text \<open>
  C24: Refinement of the RPC server. Whatever the calls, in whatever order and with whatever
  lock outcomes, the bundle pool behind the server satisfies the pool invariant and represents
  the abstract pool obtained from the accepted calls alone: an accepted \<open>eth_sendBundle\<close> adds the
  request's bundle under the hash of its transactions, an \<open>eth_cancelBundle\<close> removes one hash,
  and every refused call and every private transaction leaves the bundles as they are.
\<close>

theorem rpc_calls_refine_pool:
  "pool_inv (bp_inner (bae_bundles_pool (rpc_run lib txpool calls))) \<and>
   pool_abs (bp_inner (bae_bundles_pool (rpc_run lib txpool calls))) =
     fold abs_op (concat (map (rpc_op lib) calls)) abs_empty"
  unfolding rpc_run_pool by (simp add: pool_run_inv pool_run_abs)

definition recovered_of ::
  "('pooled, 'recovered, 'ptx, 'txpool, 'perr) rpc_library \<Rightarrow> bytes \<Rightarrow> 'recovered option"
where
  "recovered_of lib tx =
     (if tx = [] then None else Option.bind (rl_decode_enveloped lib tx) (rl_try_into_ecrecovered lib))"

definition raw_error ::
  "('pooled, 'recovered, 'ptx, 'txpool, 'perr) rpc_library \<Rightarrow> bytes \<Rightarrow> 'perr eth_api_error"
where
  "raw_error lib tx =
     (if tx = [] then EmptyRawTransactionData
      else if rl_decode_enveloped lib tx = None then FailedToDecodeSignedTransaction
      else InvalidTransactionSignature)"

lemma recover_raw_transaction_eq:
  "recover_raw_transaction lib tx =
     (case recovered_of lib tx of Some r \<Rightarrow> Ok r | None \<Rightarrow> Err (raw_error lib tx))"
  by (auto simp: recover_raw_transaction_def recovered_of_def raw_error_def split: option.split)

lemma recover_all_eq:
  "sequence_res (map (recover_raw_transaction lib) txs) =
     (case find (\<lambda>tx. recovered_of lib tx = None) txs of
        Some bad \<Rightarrow> Err (raw_error lib bad)
      | None \<Rightarrow> Ok (map (\<lambda>tx. the (recovered_of lib tx)) txs))"
proof (induction txs)
  case Nil
  then show ?case by simp
next
  case (Cons tx txs)
  then show ?case
    by (cases "recovered_of lib tx"; cases "find (\<lambda>tx. recovered_of lib tx = None) txs")
      (simp_all add: recover_raw_transaction_eq)
qed

text \<open>
  C25: The outcome of \<open>eth_sendBundle\<close> on every branch, in this order: no transactions, block
  number zero, the error of the first transaction that cannot be recovered (empty, undecodable,
  bad signature), the hash of the bundle when the pool's lock is obtained, the internal error
  when it is not. The bundles and indices change only when a hash is returned, by the addition
  of exactly that bundle.
\<close>

theorem send_bundle_outcome:
  "snd (EthSendBundle_send lib locked req p) =
     (if esb_txs req = [] then Err (InvalidParams ''bundle missing txs'')
      else if esb_block_number req = 0 then Err (InvalidParams ''bundle missing blockNumber'')
      else case find (\<lambda>tx. recovered_of lib tx = None) (esb_txs req) of
        Some bad \<Rightarrow> Err (raw_error lib bad)
      | None \<Rightarrow>
          if locked then
            Ok (create_hash (rl_keccak256 lib)
                  (map (\<lambda>tx. rl_hash lib (the (recovered_of lib tx))) (esb_txs req)))
          else Err InternalEthError) \<and>
   bp_inner (fst (EthSendBundle_send lib locked req p)) =
     (case snd (EthSendBundle_send lib locked req p) of
        Ok h \<Rightarrow> fst (inner_add_bundle (bp_inner p) (Bundle_from req h))
      | _ \<Rightarrow> bp_inner p)"
  by (simp add: EthSendBundle_send_eq recover_transactions_def recover_all_eq comp_def
      split: result.split option.split)

text \<open>
  C26: Round trip of a bundle through the endpoints. When \<open>eth_sendBundle\<close> answers with a hash,
  the hash is \<open>keccak256\<close> of the concatenated hashes of the recovered transactions, the pool holds
  exactly the request's bundle under it and returns it for its block and window; cancelling
  that hash then succeeds and removes it, and cancelling it once more reports
  \<open>bundle not found\<close>.
\<close>

theorem send_then_cancel:
  fixes lib :: "('pooled, 'recovered, 'ptx, 'txpool, 'perr) rpc_library"
    and p p1 :: bundle_pool
  assumes inv: "pool_inv (bp_inner p)"
    and sent: "EthSendBundle_send lib locked req p = (p1, Ok h)"
    and window: "is_within_timestamp (Bundle_from req h) t"
  shows "(\<exists>txs. map (recover_raw_transaction lib) (esb_txs req) = map Ok txs \<and>
            h = create_hash (rl_keccak256 lib) (map (rl_hash lib) txs)) \<and>
         Bundle_from req h \<in> set (inner_bundles (bp_inner p1) (esb_block_number req) t) \<and>
         (let (p2, r) = B256_cancel True h p1;
              (p3, r') = B256_cancel True h p2
          in r = (Ok () :: (unit, 'perr eth_api_error) result) \<and>
             map_of (pi_bundles (bp_inner p2)) = (map_of (pi_bundles (bp_inner p1)))(h := None) \<and>
             r' = (Err (InvalidParams ''bundle not found'') :: (unit, 'perr eth_api_error) result))"
proof -
  have snd_sent: "snd (EthSendBundle_send lib locked req p) = Ok h"
    and fst_sent: "fst (EthSendBundle_send lib locked req p) = p1"
    using sent by simp_all
  obtain txs where txs: "recover_transactions lib (esb_txs req) (esb_block_number req) = Ok txs"
    and locked
    and h: "h = create_hash (rl_keccak256 lib) (map (rl_hash lib) txs)"
    using snd_sent by (auto simp: EthSendBundle_send_eq split: result.splits if_splits)
  have p1: "bp_inner p1 = fst (inner_add_bundle (bp_inner p) (Bundle_from req h))"
    using EthSendBundle_send_eq(1) [of lib locked req p] txs \<open>locked\<close> fst_sent h by simp
  have inv1: "pool_inv (bp_inner p1)"
    unfolding p1 by (rule add_inv [OF inv])
  have stored: "map_of (pi_bundles (bp_inner p1)) h = Some (Bundle_from req h)"
    by (simp add: p1 add_bundles AList.update_conv')
  have "Bundle_from req h \<in> set (inner_bundles (bp_inner p1) (esb_block_number req) t)"
    using stored window
    by (simp add: inner_bundles_iff [OF inv1] is_within_block_number_def)
      (simp add: Bundle_from_def)
  moreover have "snd (inner_cancel_bundle (fst (inner_cancel_bundle (bp_inner p1) h)) h) =
      Err BundleNotFound"
    by (simp add: cancel_result cancel_bundles)
  moreover have "snd (inner_cancel_bundle (bp_inner p1) h) = Ok ()"
    by (simp add: cancel_result stored)
  ultimately show ?thesis
    using txs h
    by (auto simp: Let_def case_prod_unfold B256_cancel_eq recover_transactions_Ok cancel_bundles)
qed

definition sample_rpc_library :: "(bytes, bytes, bytes, unit, unit) rpc_library" where
  "sample_rpc_library =
     \<lparr> rl_decode_enveloped = Some, rl_try_into_ecrecovered = Some,
       rl_hash = (\<lambda>tx. word_of_nat (length tx)),
       rl_keccak256 = (\<lambda>bs. word_of_nat (length bs)), rl_from_recovered = (\<lambda>tx. tx),
       rl_add_private = (\<lambda>p tx. (p, Ok 0)) \<rparr>"

definition sample_request :: eth_send_bundle where
  "sample_request =
     \<lparr> esb_txs = [[1, 2], [3]], esb_block_number = 7, esb_min_timestamp = None,
       esb_max_timestamp = Some 200, esb_reverting_tx_hashes = [], esb_replacement_uuid = Some 4,
       esb_refund_percent = None, esb_refund_index = None, esb_refund_recipient = None \<rparr>"

lemma sample_request_sent:
  "\<exists>p1. EthSendBundle_send sample_rpc_library True sample_request BundlePool_new = (p1, Ok 64)"
proof -
  have "snd (EthSendBundle_send sample_rpc_library True sample_request BundlePool_new) = Ok 64"
    by (simp add: EthSendBundle_send_eq recover_transactions_def recover_raw_transaction_def
        sample_rpc_library_def sample_request_def create_hash_def)
  then show ?thesis
    by (metis prod.collapse)
qed

theorem send_then_cancel_witness:
  "\<exists>p1. EthSendBundle_send sample_rpc_library True sample_request BundlePool_new = (p1, Ok 64) \<and>
        snd (B256_cancel True 64 p1) = (Ok () :: (unit, unit eth_api_error) result)"
proof -
  obtain p1 where "EthSendBundle_send sample_rpc_library True sample_request BundlePool_new = (p1, Ok 64)"
    using sample_request_sent by blast
  with send_then_cancel [of BundlePool_new sample_rpc_library True sample_request p1 64 100]
  show ?thesis
    using pool.inv_empty
    by (auto simp: BundlePool_new_def case_prod_unfold Let_def is_within_timestamp_def
        is_none_or_def Bundle_from_def sample_request_def)
qed

end
