(* ===== verification/Ssz_Codec.thy ===== *)
theory Ssz_Codec
  imports Payload_Config
begin

text \<open>
  The hand-written SSZ codecs of \<open>crates/primitives/src/ssz.rs\<close> for the wrapper types of
  \<open>lib.rs\<close>, and the BLS keys and signatures of \<open>crates/primitives/src/blst\<close> with the codecs that
  \<open>macros.rs\<close> generates for them.

  A \<open>Bloom\<close> is its 2048 bits, most significant byte first, as \<open>B256\<close> and \<open>Address\<close> are.  The SSZ
  implementation of the library's own hash types, and the operations of the \<open>blst\<close> library on
  curve points (compression, validation, key generation, signing, verification) are parameters.
  The contract of a fixed-length codec is the locale \<open>fixed_codec\<close>, interpreted on each of them.
\<close>

section \<open>Byte strings and words\<close>

type_synonym bloom = "2048 word"

datatype decode_error = InvalidByteLength nat nat | BytesInvalid string

text \<open>Little-endian bytes, \<open>as_le_slice\<close>; the value of a big-endian byte string.\<close>

definition le_bytes :: "nat \<Rightarrow> 'a::len word \<Rightarrow> bytes" where
  "le_bytes n w = rev (be_bytes n w)"

definition be_nat :: "bytes \<Rightarrow> nat" where
  "be_nat bs = foldl (\<lambda>acc b. acc * 256 + unat b) 0 bs"

definition from_be_slice :: "bytes \<Rightarrow> 'a::len word" where
  "from_be_slice bs = word_of_nat (be_nat bs)"

text \<open>\<open>try_from_le_slice\<close> has no result when the value does not fit.\<close>

definition try_from_le_slice :: "bytes \<Rightarrow> 'a::len word option" where
  "try_from_le_slice bs =
     (if be_nat (rev bs) < 2 ^ LENGTH('a) then Some (word_of_nat (be_nat (rev bs))) else None)"

lemma be_nat_simps [simp]:
  "be_nat [] = 0"
  "be_nat (bs @ [b]) = be_nat bs * 256 + unat b"
  by (simp_all add: be_nat_def)

lemma be_nat_less: "be_nat bs < 256 ^ length bs"
proof (induction bs rule: rev_induct)
  case Nil
  then show ?case by simp
next
  case (snoc b bs)
  have "unat b < 256"
    using unsigned_less [of b, where ?'a = nat] by simp
  moreover have "be_nat bs * 256 + 256 \<le> 256 ^ length bs * 256"
    using snoc by (simp flip: Suc_le_eq)
  ultimately show ?case by simp
qed

lemma be_bytes_Suc: "be_bytes (Suc n) w = be_bytes n (drop_bit 8 w) @ [ucast w]"
proof -
  have "drop_bit (8 * (Suc n - 1 - i)) w = drop_bit (8 * (n - 1 - i)) (drop_bit 8 w)"
    if "i < n" for i
  proof -
    have "8 * (Suc n - 1 - i) = 8 * (n - 1 - i) + 8"
      using that by simp
    then show ?thesis by (simp only: drop_bit_drop_bit)
  qed
  then show ?thesis
    by (simp add: be_bytes_def)
qed

lemma unat_drop_bit_8: "unat (drop_bit 8 w) = unat w div 256" for w :: "'a::len word"
  unfolding unat_drop_bit_eq by (simp add: drop_bit_eq_div)

lemma unat_low_byte: "unat (ucast w :: u8) = unat w mod 256" for w :: "'a::len word"
  by (simp add: unsigned_ucast_eq take_bit_eq_mod)

lemma be_nat_be_bytes: "be_nat (be_bytes n w) = unat w mod 256 ^ n"
proof (induction n arbitrary: w)
  case 0
  then show ?case by (simp add: be_bytes_def)
next
  case (Suc n)
  have "be_nat (be_bytes (Suc n) w) = unat w div 256 mod 256 ^ n * 256 + unat w mod 256"
    by (simp add: be_bytes_Suc Suc.IH unat_drop_bit_8 unat_low_byte)
  also have "\<dots> = unat w mod (256 * 256 ^ n)"
    by (simp only: mod_mult2_eq)
  finally show ?case by simp
qed

lemma base_256_digits:
  fixes a b x y :: nat
  assumes "a * 256 + x = b * 256 + y" and "x < 256" and "y < 256"
  shows "a = b" and "x = y"
proof -
  have "(a * 256 + x) div 256 = (b * 256 + y) div 256"
    using assms(1) by (rule arg_cong)
  then show "a = b"
    using assms(2,3) by simp
  with assms(1) show "x = y" by simp
qed

lemma be_nat_inj:
  "length xs = length ys \<Longrightarrow> be_nat xs = be_nat ys \<Longrightarrow> xs = ys"
proof (induction xs arbitrary: ys rule: rev_induct)
  case Nil
  then show ?case by simp
next
  case (snoc x xs)
  then obtain zs z where ys: "ys = zs @ [z]" and len: "length xs = length zs"
    by (cases ys rule: rev_cases) auto
  have "unat x < 256" "unat z < 256"
    using unsigned_less [of x, where ?'a = nat] unsigned_less [of z, where ?'a = nat] by simp_all
  moreover have "be_nat xs * 256 + unat x = be_nat zs * 256 + unat z"
    using snoc.prems(2) by (simp add: ys)
  ultimately have "be_nat xs = be_nat zs" and "unat x = unat z"
    using base_256_digits by blast+
  with snoc.IH [OF len] ys show ?case
    by (simp add: word_unat_eq_iff)
qed

lemma from_be_slice_be_bytes:
  fixes w :: "'a::len word"
  assumes "LENGTH('a) = 8 * n"
  shows "from_be_slice (be_bytes n w) = w"
proof -
  have "unat w < 256 ^ n"
    using unsigned_less [of w, where ?'a = nat] by (simp add: assms power_mult)
  then show ?thesis
    by (simp add: from_be_slice_def be_nat_be_bytes)
qed

lemma unat_from_be_slice:
  assumes "LENGTH('a::len) = 8 * length bs"
  shows "unat (from_be_slice bs :: 'a word) = be_nat bs"
  using be_nat_less [of bs] assms
  by (simp add: from_be_slice_def unsigned_of_nat take_bit_nat_eq_self power_mult)

lemma be_bytes_from_be_slice:
  assumes "LENGTH('a::len) = 8 * length bs"
  shows "be_bytes (length bs) (from_be_slice bs :: 'a word) = bs"
  by (rule be_nat_inj)
    (simp_all add: be_nat_be_bytes unat_from_be_slice [OF assms] be_nat_less)

lemma try_from_le_slice_fits:
  assumes "LENGTH('a::len) = 8 * length bs"
  shows "try_from_le_slice bs = Some (from_be_slice (rev bs) :: 'a word)"
  using be_nat_less [of "rev bs"] assms
  by (simp add: try_from_le_slice_def from_be_slice_def power_mult)

section \<open>Codecs of the wrapper types\<close>

definition Bloom_as_ssz_bytes :: "bloom \<Rightarrow> bytes" where
  "Bloom_as_ssz_bytes x = be_bytes 256 x"

definition Bloom_from_ssz_bytes :: "bytes \<Rightarrow> (bloom, decode_error) result" where
  "Bloom_from_ssz_bytes bytes =
     (if length bytes \<noteq> 256 then Err (InvalidByteLength (length bytes) 256)
      else Ok (from_be_slice bytes))"

text \<open>\<open>B256\<close> encodes as the library's \<open>FixedBytes\<close> and decodes as the library's \<open>Hash256\<close>.\<close>

definition B256_ssz_append :: "(b256 \<Rightarrow> bytes) \<Rightarrow> b256 \<Rightarrow> bytes \<Rightarrow> bytes" where
  "B256_ssz_append fixed_bytes_ssz x buf = buf @ fixed_bytes_ssz x"

definition B256_from_ssz_bytes ::
  "(bytes \<Rightarrow> (b256, decode_error) result) \<Rightarrow> bytes \<Rightarrow> (b256, decode_error) result"
where
  "B256_from_ssz_bytes hash256_from_ssz_bytes bytes = hash256_from_ssz_bytes bytes"

definition U256_as_ssz_bytes :: "u256 \<Rightarrow> bytes" where
  "U256_as_ssz_bytes x = le_bytes 32 x"

definition U256_from_ssz_bytes :: "bytes \<Rightarrow> (u256, decode_error) result" where
  "U256_from_ssz_bytes bytes =
     (let len = length bytes; expected = 32
      in if len \<noteq> expected then Err (InvalidByteLength len expected)
         else expect (try_from_le_slice bytes))"

definition U64_as_ssz_bytes :: "u64 \<Rightarrow> bytes" where
  "U64_as_ssz_bytes x = le_bytes 8 x"

definition U64_from_ssz_bytes :: "bytes \<Rightarrow> (u64, decode_error) result" where
  "U64_from_ssz_bytes bytes =
     (let len = length bytes; expected = 8
      in if len \<noteq> expected then Err (InvalidByteLength len expected)
         else expect (try_from_le_slice bytes))"

definition Address_as_ssz_bytes :: "address \<Rightarrow> bytes" where
  "Address_as_ssz_bytes x = be_bytes 20 x"

definition Address_from_ssz_bytes :: "bytes \<Rightarrow> (address, decode_error) result" where
  "Address_from_ssz_bytes bytes =
     (let len = length bytes; expected = 20
      in if len \<noteq> expected then Err (InvalidByteLength len expected)
         else Ok (from_be_slice bytes))"

text \<open>Byte vectors have no fixed length; every byte string is one.\<close>

definition Bytes_as_ssz_bytes :: "bytes \<Rightarrow> bytes" where
  "Bytes_as_ssz_bytes x = x"

definition Bytes_from_ssz_bytes :: "bytes \<Rightarrow> (bytes, decode_error) result" where
  "Bytes_from_ssz_bytes bytes = Ok bytes"

section \<open>Contract of a fixed-length codec\<close>

locale fixed_codec =
  fixes len :: nat
    and encode :: "'a \<Rightarrow> bytes"
    and decode :: "bytes \<Rightarrow> ('a, decode_error) result"
  assumes encode_length: "length (encode x) = len"
    and decode_encode: "decode (encode x) = Ok x"
    and decode_length: "length bs \<noteq> len \<Longrightarrow> decode bs = Err (InvalidByteLength (length bs) len)"
    and decode_total: "length bs = len \<Longrightarrow> \<exists>x. decode bs = Ok x \<and> encode x = bs"
begin

lemma encode_inj: "encode x = encode y \<longleftrightarrow> x = y"
proof
  assume "encode x = encode y"
  then have "decode (encode x) = decode (encode y)" by simp
  then show "x = y" by (simp only: decode_encode result.inject)
qed simp

lemma decode_Ok_iff: "decode bs = Ok x \<longleftrightarrow> bs = encode x"
proof
  assume ok: "decode bs = Ok x"
  have "length bs = len"
    using decode_length [of bs] ok by (cases "length bs = len") simp_all
  then obtain y where "decode bs = Ok y" and "encode y = bs"
    using decode_total by blast
  with ok show "bs = encode x" by simp
qed (simp add: decode_encode)

lemma decode_cases:
  obtains x where "decode bs = Ok x" and "bs = encode x"
  | "length bs \<noteq> len" and "decode bs = Err (InvalidByteLength (length bs) len)"
  using decode_total [of bs] decode_length [of bs] by (cases "length bs = len") auto

lemma decode_Err_iff:
  "decode bs = Err e \<longleftrightarrow> length bs \<noteq> len \<and> e = InvalidByteLength (length bs) len"
  by (cases rule: decode_cases [of bs]) (auto simp: encode_length)

lemma decode_no_panic: "decode bs \<noteq> Panic"
  by (cases rule: decode_cases [of bs]) simp_all

text \<open>Consecutive fixed-length fields of a container can be told apart.\<close>

lemma fields_split:
  "encode x @ rest = encode y @ rest' \<longleftrightarrow> x = y \<and> rest = rest'"
  by (simp add: encode_length encode_inj)

lemma decode_first_field: "decode (take len (encode x @ rest)) = Ok x"
  using encode_length [of x] decode_encode [of x] by simp

text \<open>A sequence of values, one after the other.\<close>

lemma concat_inj:
  "length xs = length ys \<Longrightarrow> concat (map encode xs) = concat (map encode ys) \<Longrightarrow> xs = ys"
proof (induction xs arbitrary: ys)
  case Nil
  then show ?case by simp
next
  case (Cons x xs)
  then show ?case by (cases ys) (auto simp: fields_split)
qed

end

lemma be_codec:
  assumes "LENGTH('a::len) = 8 * n"
  shows "length (be_bytes n x) = n"
    and "from_be_slice (be_bytes n x) = (x :: 'a word)"
    and "length bs = n \<Longrightarrow> be_bytes n (from_be_slice bs :: 'a word) = bs"
  using be_bytes_from_be_slice [where ?'a = 'a, of bs] assms
  by (simp_all add: from_be_slice_be_bytes)

lemma le_codec:
  assumes "LENGTH('a::len) = 8 * n"
  shows "length (le_bytes n x) = n"
    and "try_from_le_slice (le_bytes n x) = Some (x :: 'a word)"
    and "length bs = n \<Longrightarrow>
           \<exists>y :: 'a word. try_from_le_slice bs = Some y \<and> le_bytes n y = bs"
proof -
  show len: "length (le_bytes n x) = n" by (simp add: le_bytes_def)
  show "try_from_le_slice (le_bytes n x) = Some x"
    using try_from_le_slice_fits [where ?'a = 'a, of "le_bytes n x"] assms len
    by (simp add: le_bytes_def from_be_slice_be_bytes)
  assume "length bs = n"
  then show "\<exists>y :: 'a word. try_from_le_slice bs = Some y \<and> le_bytes n y = bs"
    using try_from_le_slice_fits [where ?'a = 'a, of bs] assms
      be_bytes_from_be_slice [where ?'a = 'a, of "rev bs"]
    by (simp add: le_bytes_def)
qed

interpretation bloom_codec: fixed_codec 256 Bloom_as_ssz_bytes Bloom_from_ssz_bytes
  using be_codec [where ?'a = 2048, of 256]
  by unfold_locales (auto simp: Bloom_as_ssz_bytes_def Bloom_from_ssz_bytes_def)

interpretation address_codec: fixed_codec 20 Address_as_ssz_bytes Address_from_ssz_bytes
  using be_codec [where ?'a = 160, of 20]
  by unfold_locales (auto simp: Address_as_ssz_bytes_def Address_from_ssz_bytes_def)

interpretation u64_codec: fixed_codec 8 U64_as_ssz_bytes U64_from_ssz_bytes
  using le_codec [where ?'a = 64, of 8]
  by unfold_locales (auto simp: U64_as_ssz_bytes_def U64_from_ssz_bytes_def Let_def)

interpretation u256_codec: fixed_codec 32 U256_as_ssz_bytes U256_from_ssz_bytes
  using le_codec [where ?'a = 256, of 32]
  by unfold_locales (auto simp: U256_as_ssz_bytes_def U256_from_ssz_bytes_def Let_def)


section \<open>BLS keys and signatures\<close>

datatype 'be bls_error =
    BlstError 'be
  | BlsInvalidByteLength nat nat
  | InvalidSecretKeyLength nat nat
  | InvalidInfinityPublicKey
  | InvalidZeroSecretKey

definition PUBLIC_KEY_BYTES_LEN :: nat where "PUBLIC_KEY_BYTES_LEN = 48"
definition SECRET_KEY_BYTES_LEN :: nat where "SECRET_KEY_BYTES_LEN = 32"
definition SIGNATURE_BYTES_LEN :: nat where "SIGNATURE_BYTES_LEN = 96"

definition INFINITY_PUBLIC_KEY :: bytes where
  "INFINITY_PUBLIC_KEY = 0xc0 # replicate 47 0"

definition INFINITY_SIGNATURE :: bytes where
  "INFINITY_SIGNATURE = 0xc0 # replicate 95 0"

definition NONE_SIGNATURE :: bytes where
  "NONE_SIGNATURE = replicate SIGNATURE_BYTES_LEN 0"

text \<open>What the wrappers call of the \<open>blst\<close> and \<open>tree_hash\<close> libraries.\<close>

record ('pk, 'sk, 'sig, 'be) blst_library =
  bl_pk_compress :: "'pk \<Rightarrow> bytes"
  bl_key_validate :: "bytes \<Rightarrow> ('pk, 'be) result"
  bl_sk_to_bytes :: "'sk \<Rightarrow> bytes"
  bl_sk_from_bytes :: "bytes \<Rightarrow> ('sk, 'be) result"
  bl_sk_to_pk :: "'sk \<Rightarrow> 'pk"
  bl_sk_sign :: "'sk \<Rightarrow> b256 \<Rightarrow> 'sig"
  bl_sig_to_bytes :: "'sig \<Rightarrow> bytes"
  bl_sig_from_bytes :: "bytes \<Rightarrow> ('sig, 'be) result"
  bl_sig_verify :: "'sig \<Rightarrow> 'pk \<Rightarrow> b256 \<Rightarrow> bool"
  bl_merkle_root :: "bytes \<Rightarrow> nat \<Rightarrow> b256"

definition TPublicKey_deserialize ::
  "('pk, 'sk, 'sig, 'be) blst_library \<Rightarrow> bytes \<Rightarrow> ('pk, 'be bls_error) result"
where
  "TPublicKey_deserialize lib bytes =
     (if length bytes \<noteq> PUBLIC_KEY_BYTES_LEN
      then Err (BlsInvalidByteLength (length bytes) PUBLIC_KEY_BYTES_LEN)
      else map_err BlstError (bl_key_validate lib bytes))"

definition PublicKey_deserialize ::
  "('pk, 'sk, 'sig, 'be) blst_library \<Rightarrow> bytes \<Rightarrow> ('pk, 'be bls_error) result"
where
  "PublicKey_deserialize lib bytes =
     (if bytes = INFINITY_PUBLIC_KEY then Err InvalidInfinityPublicKey
      else TPublicKey_deserialize lib bytes)"

definition PublicKey_serialize :: "('pk, 'sk, 'sig, 'be) blst_library \<Rightarrow> 'pk \<Rightarrow> bytes" where
  "PublicKey_serialize lib pk = bl_pk_compress lib pk"

definition PublicKey_eq :: "('pk, 'sk, 'sig, 'be) blst_library \<Rightarrow> 'pk \<Rightarrow> 'pk \<Rightarrow> bool" where
  "PublicKey_eq lib a b = (PublicKey_serialize lib a = PublicKey_serialize lib b)"

definition SecretKey_deserialize ::
  "('pk, 'sk, 'sig, 'be) blst_library \<Rightarrow> bytes \<Rightarrow> ('sk, 'be bls_error) result"
where
  "SecretKey_deserialize lib bytes =
     (if length bytes \<noteq> SECRET_KEY_BYTES_LEN
      then Err (InvalidSecretKeyLength (length bytes) SECRET_KEY_BYTES_LEN)
      else if list_all (\<lambda>b. b = 0) bytes then Err InvalidZeroSecretKey
      else map_err BlstError (bl_sk_from_bytes lib bytes))"

definition SecretKey_serialize :: "('pk, 'sk, 'sig, 'be) blst_library \<Rightarrow> 'sk \<Rightarrow> bytes" where
  "SecretKey_serialize lib sk = bl_sk_to_bytes lib sk"

record 'sig signature =
  sig_point :: "'sig option"
  sig_is_infinity :: bool

definition Signature_empty :: "'sig signature" where
  "Signature_empty = \<lparr> sig_point = None, sig_is_infinity = False \<rparr>"

definition Signature_is_empty :: "'sig signature \<Rightarrow> bool" where
  "Signature_is_empty s = (sig_point s = None)"

definition Signature_from_point :: "'sig \<Rightarrow> bool \<Rightarrow> 'sig signature" where
  "Signature_from_point point is_infinity =
     \<lparr> sig_point = Some point, sig_is_infinity = is_infinity \<rparr>"

definition Signature_serialize :: "('pk, 'sk, 'sig, 'be) blst_library \<Rightarrow> 'sig signature \<Rightarrow> bytes" where
  "Signature_serialize lib s =
     (case sig_point s of Some point \<Rightarrow> bl_sig_to_bytes lib point | None \<Rightarrow> NONE_SIGNATURE)"

definition Signature_deserialize ::
  "('pk, 'sk, 'sig, 'be) blst_library \<Rightarrow> bytes \<Rightarrow> ('sig signature, 'be bls_error) result"
where
  "Signature_deserialize lib bytes =
     result_map (\<lambda>point. \<lparr> sig_point = point, sig_is_infinity = (bytes = INFINITY_SIGNATURE) \<rparr>)
       (if bytes = NONE_SIGNATURE then Ok None
        else result_map Some (map_err BlstError (bl_sig_from_bytes lib bytes)))"

definition Signature_verify ::
  "('pk, 'sk, 'sig, 'be) blst_library \<Rightarrow> 'sig signature \<Rightarrow> 'pk \<Rightarrow> b256 \<Rightarrow> bool"
where
  "Signature_verify lib s pubkey msg =
     (case sig_point s of Some point \<Rightarrow> bl_sig_verify lib point pubkey msg | None \<Rightarrow> False)"

definition SecretKey_sign :: "('pk, 'sk, 'sig, 'be) blst_library \<Rightarrow> 'sk \<Rightarrow> b256 \<Rightarrow> 'sig signature" where
  "SecretKey_sign lib sk msg =
     (let is_infinity = False in Signature_from_point (bl_sk_sign lib sk msg) is_infinity)"

definition SecretKey_public_key :: "('pk, 'sk, 'sig, 'be) blst_library \<Rightarrow> 'sk \<Rightarrow> 'pk" where
  "SecretKey_public_key lib sk = bl_sk_to_pk lib sk"

text \<open>The macros \<open>impl_ssz_decode\<close> and \<open>impl_tree_hash\<close>; \<open>fmt\<close> prints an error.\<close>

definition impl_ssz_decode ::
  "nat \<Rightarrow> (bytes \<Rightarrow> ('a, 'be bls_error) result) \<Rightarrow> ('be bls_error \<Rightarrow> string) \<Rightarrow> bytes \<Rightarrow>
   ('a, decode_error) result"
where
  "impl_ssz_decode byte_size deserialize fmt bytes =
     (let len = length bytes; expected = byte_size
      in if len \<noteq> expected then Err (InvalidByteLength len expected)
         else map_err (\<lambda>e. BytesInvalid (fmt e)) (deserialize bytes))"

definition impl_tree_hash ::
  "nat \<Rightarrow> ('a \<Rightarrow> bytes) \<Rightarrow> (bytes \<Rightarrow> nat \<Rightarrow> b256) \<Rightarrow> 'a \<Rightarrow> b256"
where
  "impl_tree_hash byte_size serialize merkle_root x =
     (let values_per_chunk = 32;
          minimum_chunk_count = (byte_size + values_per_chunk - 1) div values_per_chunk
      in merkle_root (serialize x) minimum_chunk_count)"

text \<open>What \<open>blst\<close> documents of its encodings.\<close>

definition encodes_points :: "('pk, 'sk, 'sig, 'be) blst_library \<Rightarrow> bool" where
  "encodes_points lib \<longleftrightarrow>
     (\<forall>pk. length (bl_pk_compress lib pk) = 48) \<and>
     (\<forall>bs pk. bl_key_validate lib bs = Ok pk \<longrightarrow> length bs = 48 \<longrightarrow> bl_pk_compress lib pk = bs) \<and>
     (\<forall>s. length (bl_sig_to_bytes lib s) = 96) \<and>
     (\<forall>s. bl_sig_from_bytes lib (bl_sig_to_bytes lib s) = Ok s) \<and>
     (\<forall>s. bl_sig_to_bytes lib s \<noteq> NONE_SIGNATURE)"

lemma encodes_pointsD:
  assumes "encodes_points lib"
  shows "bl_key_validate lib bs = Ok pk \<Longrightarrow> length bs = 48 \<Longrightarrow> bl_pk_compress lib pk = bs"
    and "length (bl_sig_to_bytes lib s) = 96"
    and "bl_sig_from_bytes lib (bl_sig_to_bytes lib s) = Ok s"
    and "bl_sig_to_bytes lib s \<noteq> NONE_SIGNATURE"
  using assms by (simp_all add: encodes_points_def)

lemma public_key_ssz_canonical:
  assumes "encodes_points lib"
    and "impl_ssz_decode PUBLIC_KEY_BYTES_LEN (PublicKey_deserialize lib) fmt bs = Ok pk"
  shows "bs = PublicKey_serialize lib pk" and "bs \<noteq> INFINITY_PUBLIC_KEY"
  using assms encodes_pointsD(1) [OF assms(1), of bs pk]
  by (auto simp: impl_ssz_decode_def PublicKey_deserialize_def TPublicKey_deserialize_def
      PublicKey_serialize_def PUBLIC_KEY_BYTES_LEN_def Let_def split: if_splits)

section \<open>Properties\<close>

text \<open>
  C32: Round trip and errors of the SSZ codecs. Each of the codecs for blooms, addresses, \<open>U64\<close>
  and \<open>U256\<close> accepts exactly the encodings, decodes each of them to the value it encodes, and
  answers every byte string of another length with the error that names both lengths; the
  integers are stored least significant byte first. None of them ever reaches its panic.
\<close>

theorem ssz_codecs_exact:
  "(Bloom_from_ssz_bytes bs = Ok bloom \<longleftrightarrow> bs = Bloom_as_ssz_bytes bloom) \<and>
   (Bloom_from_ssz_bytes bs = Err e \<longleftrightarrow>
      length bs \<noteq> 256 \<and> e = InvalidByteLength (length bs) 256) \<and>
   (Address_from_ssz_bytes bs = Ok addr \<longleftrightarrow> bs = Address_as_ssz_bytes addr) \<and>
   (Address_from_ssz_bytes bs = Err e \<longleftrightarrow>
      length bs \<noteq> 20 \<and> e = InvalidByteLength (length bs) 20) \<and>
   (U64_from_ssz_bytes bs = Ok x \<longleftrightarrow> bs = U64_as_ssz_bytes x) \<and>
   (U64_from_ssz_bytes bs = Err e \<longleftrightarrow>
      length bs \<noteq> 8 \<and> e = InvalidByteLength (length bs) 8) \<and>
   (U256_from_ssz_bytes bs = Ok y \<longleftrightarrow> bs = U256_as_ssz_bytes y) \<and>
   (U256_from_ssz_bytes bs = Err e \<longleftrightarrow>
      length bs \<noteq> 32 \<and> e = InvalidByteLength (length bs) 32) \<and>
   be_nat (rev (U64_as_ssz_bytes x)) = unat x \<and> be_nat (rev (U256_as_ssz_bytes y)) = unat y"
proof -
  have "unat x < 256 ^ 8" and "unat y < 256 ^ 32"
    using unsigned_less [of x, where ?'a = nat] unsigned_less [of y, where ?'a = nat] by simp_all
  then have "be_nat (rev (U64_as_ssz_bytes x)) = unat x"
    and "be_nat (rev (U256_as_ssz_bytes y)) = unat y"
    by (simp_all only: U64_as_ssz_bytes_def U256_as_ssz_bytes_def le_bytes_def rev_rev_ident
        be_nat_be_bytes mod_less)
  then show ?thesis
    by (simp only: bloom_codec.decode_Ok_iff address_codec.decode_Ok_iff u64_codec.decode_Ok_iff
        u256_codec.decode_Ok_iff bloom_codec.decode_Err_iff address_codec.decode_Err_iff
        u64_codec.decode_Err_iff u256_codec.decode_Err_iff)
qed

text \<open>
  Round trip of BLS signatures and keys. Every signature made by a secret key, and the empty
  signature, is read back from its SSZ encoding as it was; the empty signature verifies under no
  key and no message; and a byte string is read as a public key only if it is that key's own
  encoding and not the point at infinity.
\<close>

lemma bls_ssz_roundtrip:
  assumes lib: "encodes_points lib"
    and finite: "bl_sig_to_bytes lib (bl_sk_sign lib sk msg) \<noteq> INFINITY_SIGNATURE"
  shows "impl_ssz_decode SIGNATURE_BYTES_LEN (Signature_deserialize lib) fmt
           (Signature_serialize lib (SecretKey_sign lib sk msg)) = Ok (SecretKey_sign lib sk msg) \<and>
         impl_ssz_decode SIGNATURE_BYTES_LEN (Signature_deserialize lib) fmt
           (Signature_serialize lib Signature_empty) = Ok Signature_empty \<and>
         \<not> Signature_verify lib Signature_empty pk m \<and>
         (impl_ssz_decode PUBLIC_KEY_BYTES_LEN (PublicKey_deserialize lib) fmt bs = Ok pk \<longrightarrow>
            bs = PublicKey_serialize lib pk \<and> bs \<noteq> INFINITY_PUBLIC_KEY)"
proof -
  note sig = encodes_pointsD(2-4) [OF lib, of "bl_sk_sign lib sk msg"]
  have "hd NONE_SIGNATURE \<noteq> hd INFINITY_SIGNATURE" and "length NONE_SIGNATURE = 96"
    by (simp_all add: NONE_SIGNATURE_def INFINITY_SIGNATURE_def SIGNATURE_BYTES_LEN_def)
  then have "NONE_SIGNATURE \<noteq> INFINITY_SIGNATURE" and "length NONE_SIGNATURE = 96"
    by auto
  then show ?thesis
    using sig finite public_key_ssz_canonical [OF lib, of fmt bs pk]
    by (simp add: impl_ssz_decode_def Signature_deserialize_def Signature_serialize_def
        SecretKey_sign_def Signature_from_point_def Signature_empty_def Signature_verify_def
        SIGNATURE_BYTES_LEN_def)
qed

definition sample_blst :: "(384 word, unit, unit, unit) blst_library" where
  "sample_blst =
     \<lparr> bl_pk_compress = be_bytes 48, bl_key_validate = (\<lambda>bs. Ok (from_be_slice bs)),
       bl_sk_to_bytes = (\<lambda>_. replicate 32 1), bl_sk_from_bytes = (\<lambda>_. Ok ()),
       bl_sk_to_pk = (\<lambda>_. 1), bl_sk_sign = (\<lambda>_ _. ()),
       bl_sig_to_bytes = (\<lambda>_. replicate 96 1), bl_sig_from_bytes = (\<lambda>_. Ok ()),
       bl_sig_verify = (\<lambda>_ _ _. True), bl_merkle_root = (\<lambda>_ _. 0) \<rparr>"

lemma sample_blst_encodes: "encodes_points sample_blst"
  using be_codec(3) [where ?'a = 384, of 48]
  by (simp add: encodes_points_def sample_blst_def NONE_SIGNATURE_def SIGNATURE_BYTES_LEN_def)

end
