(* ===== verification/Bids.thy ===== *)
theory Bids
  imports Ssz_Codec Block_Sealing
begin

text \<open>
  Bids and their signatures: \<open>crates/primitives/src/bid.rs\<close>, \<open>signer.rs\<close>, the signing root and
  the tree hashes of \<open>blst/mod.rs\<close>, the relay lists of \<open>relays.rs\<close> and the run modes of
  \<open>run_mode.rs\<close>.

  An \<open>ExecutionPayloadV3\<close>, its envelope and the blobs bundle hold the fields of the \<open>reth\<close> values
  the code reads; making the envelope of a built payload is the library's and a parameter.  The
  record \<open>tree_hasher\<close> holds the roots the \<open>tree_hash\<close> library and its derive macro compute.  Keys
  in a bid are their 48 bytes.
\<close>

section \<open>Bid\<close>

record bid =
  bid_slot :: u64
  bid_parent_hash :: b256
  bid_block_hash :: b256
  bid_builder_pubkey :: bls_public_key
  bid_proposer_pubkey :: bls_public_key
  bid_proposer_fee_recipient :: address
  bid_gas_limit :: u64
  bid_gas_used :: u64
  bid_value :: u256

definition Bid_new :: "'blob build \<Rightarrow> bls_public_key \<Rightarrow> bid" where
  "Bid_new build builder_pubkey =
     (let vi = bd_validator_info build; block = pl_block (bd_payload build)
      in \<lparr> bid_slot = vi_slot vi,
           bid_parent_hash = hd_parent_hash (blk_header block),
           bid_block_hash = blk_hash block,
           bid_builder_pubkey = builder_pubkey,
           bid_proposer_pubkey = vi_proposer vi,
           bid_proposer_fee_recipient = vi_fee_recipient vi,
           bid_gas_limit = hd_gas_limit (blk_header block),
           bid_gas_used = hd_gas_used (blk_header block),
           bid_value = bd_bid build \<rparr>)"

section \<open>Execution payload\<close>

record alloy_withdrawal =
  aw_index :: u64
  aw_validator_index :: u64
  aw_address :: address
  aw_amount :: u64

definition AlloyWithdrawal_from :: "withdrawal \<Rightarrow> alloy_withdrawal" where
  "AlloyWithdrawal_from w =
     \<lparr> aw_index = wd_index w, aw_validator_index = wd_validator_index w,
       aw_address = wd_address w, aw_amount = wd_amount w \<rparr>"

record execution_payload =
  ep_parent_hash :: b256
  ep_fee_recipient :: address
  ep_state_root :: b256
  ep_receipts_root :: b256
  ep_logs_bloom :: bloom
  ep_prev_randao :: b256
  ep_block_number :: u64
  ep_gas_limit :: u64
  ep_gas_used :: u64
  ep_timestamp :: u64
  ep_extra_data :: bytes
  ep_base_fee_per_gas :: u256
  ep_block_hash :: b256
  ep_transactions :: "bytes list"
  ep_withdrawals :: "alloy_withdrawal list"
  ep_blob_gas_used :: u64
  ep_excess_blob_gas :: u64

text \<open>The nested payload versions of the engine API.\<close>

record payload_v1 =
  p1_parent_hash :: b256
  p1_fee_recipient :: address
  p1_state_root :: b256
  p1_receipts_root :: b256
  p1_logs_bloom :: bloom
  p1_prev_randao :: b256
  p1_block_number :: u64
  p1_gas_limit :: u64
  p1_gas_used :: u64
  p1_timestamp :: u64
  p1_extra_data :: bytes
  p1_base_fee_per_gas :: u256
  p1_block_hash :: b256
  p1_transactions :: "bytes list"

record payload_v2 =
  p2_payload_inner :: payload_v1
  p2_withdrawals :: "withdrawal list"

record payload_v3 =
  p3_payload_inner :: payload_v2
  p3_blob_gas_used :: u64
  p3_excess_blob_gas :: u64

record blobs_bundle =
  bb_commitments :: "bytes list"
  bb_proofs :: "bytes list"
  bb_blobs :: "bytes list"

record payload_envelope =
  pe_execution_payload :: payload_v3
  pe_blobs_bundle :: blobs_bundle

definition ExecutionPayload_from :: "payload_v3 \<Rightarrow> execution_payload" where
  "ExecutionPayload_from inner =
     (let payload = p2_payload_inner (p3_payload_inner inner)
      in \<lparr> ep_parent_hash = p1_parent_hash payload,
           ep_fee_recipient = p1_fee_recipient payload,
           ep_state_root = p1_state_root payload,
           ep_receipts_root = p1_receipts_root payload,
           ep_logs_bloom = p1_logs_bloom payload,
           ep_prev_randao = p1_prev_randao payload,
           ep_block_number = p1_block_number payload,
           ep_gas_limit = p1_gas_limit payload,
           ep_gas_used = p1_gas_used payload,
           ep_timestamp = p1_timestamp payload,
           ep_extra_data = p1_extra_data payload,
           ep_base_fee_per_gas = p1_base_fee_per_gas payload,
           ep_block_hash = p1_block_hash payload,
           ep_transactions = p1_transactions payload,
           ep_withdrawals = map AlloyWithdrawal_from (p2_withdrawals (p3_payload_inner inner)),
           ep_blob_gas_used = p3_blob_gas_used inner,
           ep_excess_blob_gas = p3_excess_blob_gas inner \<rparr>)"

section \<open>Tree hashes and signing\<close>

record tree_hasher =
  th_container :: "b256 list \<Rightarrow> b256"
  th_u64_root :: "u64 \<Rightarrow> b256"
  th_bytes4_root :: "bytes \<Rightarrow> b256"

definition U256_tree_hash_root :: "u256 \<Rightarrow> b256" where
  "U256_tree_hash_root x = from_be_slice (le_bytes 32 x)"

definition Address_tree_hash_root :: "address \<Rightarrow> b256" where
  "Address_tree_hash_root x = from_be_slice (be_bytes 20 x @ replicate 12 0)"

definition B256_tree_hash_root :: "b256 \<Rightarrow> b256" where
  "B256_tree_hash_root x = x"

text \<open>The derived root of a container hashes the roots of its fields in their order.\<close>

definition Bid_tree_hash_root ::
  "('pk, 'sk, 'sig, 'be) blst_library \<Rightarrow> tree_hasher \<Rightarrow> bid \<Rightarrow> b256"
where
  "Bid_tree_hash_root lib th b =
     (let pk_root = impl_tree_hash PUBLIC_KEY_BYTES_LEN (be_bytes 48) (bl_merkle_root lib)
      in th_container th
           [th_u64_root th (bid_slot b),
            B256_tree_hash_root (bid_parent_hash b),
            B256_tree_hash_root (bid_block_hash b),
            pk_root (bid_builder_pubkey b),
            pk_root (bid_proposer_pubkey b),
            Address_tree_hash_root (bid_proposer_fee_recipient b),
            th_u64_root th (bid_gas_limit b),
            th_u64_root th (bid_gas_used b),
            U256_tree_hash_root (bid_value b)])"

definition signing_root :: "tree_hasher \<Rightarrow> b256 \<Rightarrow> b256 \<Rightarrow> b256" where
  "signing_root th object_root domain = th_container th [object_root, domain]"

record 'sk bls_signer =
  sg_secret_key :: 'sk
  sg_fork_version :: bytes
  sg_genesis_validators_root :: b256

definition BuilderDomain_default :: bytes where
  "BuilderDomain_default = [0, 0, 0, 1]"

definition BlsSigner_new :: "'sk \<Rightarrow> bytes \<Rightarrow> 'sk bls_signer" where
  "BlsSigner_new secret_key fork_version =
     \<lparr> sg_secret_key = secret_key, sg_fork_version = fork_version,
       sg_genesis_validators_root = 0 \<rparr>"

definition compute_builder_domain :: "tree_hasher \<Rightarrow> 'sk bls_signer \<Rightarrow> bytes" where
  "compute_builder_domain th s =
     (let fork_data_root = th_container th
            [th_bytes4_root th (sg_fork_version s), sg_genesis_validators_root s]
      in BuilderDomain_default @ take 28 (be_bytes 32 fork_data_root))"

definition BlsSigner_sign ::
  "('pk, 'sk, 'sig, 'be) blst_library \<Rightarrow> tree_hasher \<Rightarrow> 'sk bls_signer \<Rightarrow> bid \<Rightarrow> 'sig signature"
where
  "BlsSigner_sign lib th s message =
     (let domain = compute_builder_domain th s;
          root = signing_root th (Bid_tree_hash_root lib th message) (from_be_slice domain)
      in SecretKey_sign lib (sg_secret_key s) root)"

definition BlsSigner_public_key ::
  "('pk, 'sk, 'sig, 'be) blst_library \<Rightarrow> 'sk bls_signer \<Rightarrow> 'pk"
where
  "BlsSigner_public_key lib s = SecretKey_public_key lib (sg_secret_key s)"

section \<open>Signed bids and traces\<close>

record 'sig signed_bid =
  sb_message :: bid
  sb_execution_payload :: execution_payload
  sb_blobs_bundle :: blobs_bundle
  sb_signature :: "'sig signature"

definition SignedBid_new ::
  "('pk, 'sk, 'sig, 'be) blst_library \<Rightarrow> tree_hasher \<Rightarrow> bid \<Rightarrow> payload_envelope \<Rightarrow>
   'sk bls_signer \<Rightarrow> 'sig signed_bid"
where
  "SignedBid_new lib th message envelope signer =
     \<lparr> sb_message = message,
       sb_execution_payload = ExecutionPayload_from (pe_execution_payload envelope),
       sb_blobs_bundle = pe_blobs_bundle envelope,
       sb_signature = BlsSigner_sign lib th signer message \<rparr>"

definition signed_bid_block_number :: "'sig signed_bid \<Rightarrow> u64" where
  "signed_bid_block_number b = ep_block_number (sb_execution_payload b)"

record bid_trace =
  bt_slot :: u64
  bt_parent_hash :: b256
  bt_block_hash :: b256
  bt_builder_pubkey :: bls_public_key
  bt_proposer_pubkey :: bls_public_key
  bt_proposer_fee_recipient :: address
  bt_gas_limit :: u64
  bt_gas_used :: u64
  bt_value :: u256
  bt_num_tx :: u64
  bt_block_number :: u64
  bt_timestamp :: u64
  bt_timestamp_ms :: u64
  bt_optimistic_submission :: "bool option"

text \<open>\<open>now_ms\<close> is the time of the call in milliseconds.\<close>

definition to_trace :: "u64 \<Rightarrow> 'sig signed_bid \<Rightarrow> bid_trace" where
  "to_trace now_ms b =
     (let m = sb_message b; ep = sb_execution_payload b
      in \<lparr> bt_slot = bid_slot m,
           bt_parent_hash = bid_parent_hash m,
           bt_block_hash = bid_block_hash m,
           bt_builder_pubkey = bid_builder_pubkey m,
           bt_proposer_pubkey = bid_proposer_pubkey m,
           bt_proposer_fee_recipient = bid_proposer_fee_recipient m,
           bt_gas_limit = bid_gas_limit m,
           bt_gas_used = bid_gas_used m,
           bt_value = bid_value m,
           bt_num_tx = word_of_nat (length (ep_transactions ep)),
           bt_block_number = ep_block_number ep,
           bt_timestamp = ep_timestamp ep,
           bt_timestamp_ms = now_ms,
           bt_optimistic_submission = Some True \<rparr>)"

definition has_hash :: "(b256 \<Rightarrow> string) \<Rightarrow> bid_trace \<Rightarrow> string \<Rightarrow> bool" where
  "has_hash to_str t block_hash = (to_str (bt_block_hash t) = block_hash)"

section \<open>Relays and run modes\<close>

datatype relay_name =
    Flashbots | UltraSoundMoney | BloxrouteMaxprofit | Agnostic | Aestus | EdenNetwork
  | MerkleInternal | DevnetRelay | MerkleRelay | UnknownRelay

datatype submission_kind = Ssz | Json | Sszgzip | Grpc string

fun relay_name_display :: "relay_name \<Rightarrow> string" where
  "relay_name_display Flashbots = ''flashbots''"
| "relay_name_display UltraSoundMoney = ''ultrasound''"
| "relay_name_display BloxrouteMaxprofit = ''bloxroute(maxprofit)''"
| "relay_name_display Agnostic = ''agnostic''"
| "relay_name_display Aestus = ''aestus''"
| "relay_name_display EdenNetwork = ''eden''"
| "relay_name_display MerkleInternal = ''merkle-internal''"
| "relay_name_display DevnetRelay = ''devnet''"
| "relay_name_display MerkleRelay = ''merkle-relay''"
| "relay_name_display UnknownRelay = ''unknown''"

record relay_info =
  ri_name :: relay_name
  ri_url :: string
  ri_submission :: submission_kind

text \<open>
  The static addresses, with the environment variables that override them. \<open>url\<close> is the
  library's parsing and printing of an address; a bad address panics on first use.
\<close>

type_synonym url_library = "string \<Rightarrow> string option"
type_synonym environment = "string \<Rightarrow> string option"

definition relay_at ::
  "url_library \<Rightarrow> relay_name \<Rightarrow> string \<Rightarrow> submission_kind \<Rightarrow> (relay_info, unit) result"
where
  "relay_at url name address kind =
     result_map (\<lambda>u. \<lparr> ri_name = name, ri_url = u, ri_submission = kind \<rparr>) (expect (url address))"

definition DEVNET :: "url_library \<Rightarrow> environment \<Rightarrow> (relay_info, unit) result" where
  "DEVNET url env =
     relay_at url DevnetRelay (unwrap_or (env ''DEVNET_RELAY_URL'') ''http://0.0.0.0:9062'') Sszgzip"

definition MERKLE_RELAY :: "url_library \<Rightarrow> environment \<Rightarrow> (relay_info, unit) result" where
  "MERKLE_RELAY url env =
     result_bind (expect (url (unwrap_or (env ''MERKLE_RELAY_GRPC_URL'') ''http://0.0.0.0:50051'')))
       (\<lambda>grpc. relay_at url MerkleRelay
                 (unwrap_or (env ''MERKLE_RELAY_URL'') ''http://0.0.0.0:9063'') (Grpc grpc))"

definition INTERNAL :: "url_library \<Rightarrow> environment \<Rightarrow> (relay_info, unit) result" where
  "INTERNAL url env =
     relay_at url MerkleInternal
       (unwrap_or (env ''INTERNAL_RELAY_SERVER_URL'') ''http://0.0.0.0:8008'') Json"

definition LIVE_RELAYS :: "url_library \<Rightarrow> (relay_info list, unit) result" where
  "LIVE_RELAYS url =
     sequence_res
       [relay_at url Flashbots ''https://boost-relay.flashbots.net'' Sszgzip,
        relay_at url UltraSoundMoney ''https://relay.ultrasound.money'' Sszgzip,
        relay_at url Agnostic ''https://agnostic-relay.net'' Sszgzip,
        relay_at url Aestus ''https://aestus.live'' Sszgzip]"

datatype run_mode = DevnetMode | RethMode | SimulateMode | LiveMode

fun run_mode_display :: "run_mode \<Rightarrow> string" where
  "run_mode_display DevnetMode = ''devnet''"
| "run_mode_display RethMode = ''reth''"
| "run_mode_display SimulateMode = ''simulate''"
| "run_mode_display LiveMode = ''live''"

definition run_mode_from_str :: "string \<Rightarrow> (run_mode, unit) result" where
  "run_mode_from_str s =
     (if s = ''devnet'' then Ok DevnetMode
      else if s = ''reth'' then Ok RethMode
      else if s = ''simulate'' then Ok SimulateMode
      else if s = ''live'' then Ok LiveMode
      else Ok DevnetMode)"


section \<open>Lemmas\<close>

lemma be_bytes_inj:
  assumes "LENGTH('a::len) = 8 * n"
  shows "be_bytes n x = be_bytes n (y :: 'a word) \<longleftrightarrow> x = y"
  using be_codec(2) [OF assms, of x] be_codec(2) [OF assms, of y] by metis

lemmas be_bytes_injs =
  be_bytes_inj [where ?'a = 256 and n = 32, simplified]
  be_bytes_inj [where ?'a = 160 and n = 20, simplified]
  be_bytes_inj [where ?'a = 384 and n = 48, simplified]
  be_bytes_inj [where ?'a = 2048 and n = 256, simplified]

lemma relay_name_display_inj: "relay_name_display a = relay_name_display b \<longleftrightarrow> a = b"
  by (cases a; cases b) simp_all

lemma run_mode_roundtrip: "run_mode_from_str (run_mode_display m) = Ok m"
  by (cases m) (simp_all add: run_mode_from_str_def)

lemma length_domain: "length (compute_builder_domain th s) = 32"
  by (simp add: compute_builder_domain_def BuilderDomain_default_def Let_def)

section \<open>Properties\<close>

text \<open>What the library's envelope of a payload keeps of its block.\<close>

definition faithful_envelope :: "('blob built_payload \<Rightarrow> payload_envelope) \<Rightarrow> bool" where
  "faithful_envelope envelope_of \<longleftrightarrow>
     (\<forall>p. let v1 = p2_payload_inner (p3_payload_inner (pe_execution_payload (envelope_of p)));
              h = blk_header (pl_block p)
          in p1_block_hash v1 = blk_hash (pl_block p) \<and> p1_parent_hash v1 = hd_parent_hash h \<and>
             p1_gas_limit v1 = hd_gas_limit h \<and> p1_gas_used v1 = hd_gas_used h \<and>
             p1_block_number v1 = hd_number h)"

definition verifies_own_signatures :: "('pk, 'sk, 'sig, 'be) blst_library \<Rightarrow> bool" where
  "verifies_own_signatures lib \<longleftrightarrow>
     (\<forall>sk msg. bl_sig_verify lib (bl_sk_sign lib sk msg) (bl_sk_to_pk lib sk) msg)"

definition signed_bid_of ::
  "('pk, 'sk, 'sig, 'be) blst_library \<Rightarrow> tree_hasher \<Rightarrow>
   ('blob built_payload \<Rightarrow> payload_envelope) \<Rightarrow> 'sk bls_signer \<Rightarrow> 'blob build \<Rightarrow> 'sig signed_bid"
where
  "signed_bid_of lib th envelope_of signer build =
     SignedBid_new lib th
       (Bid_new build (from_be_slice (PublicKey_serialize lib (BlsSigner_public_key lib signer))))
       (envelope_of (bd_payload build)) signer"

text \<open>
  C16: A bid submitted to the relays is consistent: its signature verifies under the builder's
  own key, over the signing root of exactly the message it carries in the builder domain of
  the signer; and message and execution payload agree on block hash, parent hash, gas limit
  and gas used, and the payload's number is that of the built block.
\<close>

theorem signed_bid_consistent:
  assumes "verifies_own_signatures lib" and "faithful_envelope envelope_of"
  shows "let b = signed_bid_of lib th envelope_of signer build;
             m = sb_message b; ep = sb_execution_payload b
         in Signature_verify lib (sb_signature b) (BlsSigner_public_key lib signer)
              (signing_root th (Bid_tree_hash_root lib th m)
                (from_be_slice (compute_builder_domain th signer))) \<and>
            bid_value m = bd_bid build \<and> bid_slot m = vi_slot (bd_validator_info build) \<and>
            bid_block_hash m = ep_block_hash ep \<and> bid_parent_hash m = ep_parent_hash ep \<and>
            bid_gas_limit m = ep_gas_limit ep \<and> bid_gas_used m = ep_gas_used ep \<and>
            signed_bid_block_number b = hd_number (blk_header (pl_block (bd_payload build)))"
  using assms
  by (simp add: signed_bid_of_def SignedBid_new_def Bid_new_def ExecutionPayload_from_def
      BlsSigner_sign_def BlsSigner_public_key_def SecretKey_sign_def SecretKey_public_key_def
      Signature_from_point_def Signature_verify_def verifies_own_signatures_def
      faithful_envelope_def signed_bid_block_number_def Let_def)

definition sample_tree_hasher :: tree_hasher where
  "sample_tree_hasher =
     \<lparr> th_container = sum_list, th_u64_root = ucast, th_bytes4_root = from_be_slice \<rparr>"

definition sample_envelope :: "'blob built_payload \<Rightarrow> payload_envelope" where
  "sample_envelope p =
     (let h = blk_header (pl_block p)
      in \<lparr> pe_execution_payload = \<lparr> p3_payload_inner = \<lparr> p2_payload_inner =
             \<lparr> p1_parent_hash = hd_parent_hash h, p1_fee_recipient = hd_beneficiary h,
               p1_state_root = hd_state_root h, p1_receipts_root = hd_receipts_root h,
               p1_logs_bloom = 0, p1_prev_randao = hd_mix_hash h, p1_block_number = hd_number h,
               p1_gas_limit = hd_gas_limit h, p1_gas_used = hd_gas_used h,
               p1_timestamp = hd_timestamp h, p1_extra_data = hd_extra_data h,
               p1_base_fee_per_gas = 0, p1_block_hash = blk_hash (pl_block p),
               p1_transactions = [] \<rparr>, p2_withdrawals = [] \<rparr>,
             p3_blob_gas_used = 0, p3_excess_blob_gas = 0 \<rparr>,
           pe_blobs_bundle = \<lparr> bb_commitments = [], bb_proofs = [], bb_blobs = [] \<rparr> \<rparr>)"

lemma sample_envelope_faithful: "faithful_envelope sample_envelope"
  by (simp add: faithful_envelope_def sample_envelope_def Let_def)

lemma sample_blst_verifies: "verifies_own_signatures sample_blst"
  by (simp add: verifies_own_signatures_def sample_blst_def)

definition sample_build :: "unit build" where
  "sample_build =
     \<lparr> bd_id = 1, bd_validator_info = sample_validator 30000000,
       bd_payload = \<lparr> pl_id = 1, pl_block =
         \<lparr> blk_hash = 77, blk_header =
           \<lparr> hd_parent_hash = 76, hd_ommers_hash = 0, hd_beneficiary = 5, hd_state_root = 0,
             hd_transactions_root = 0, hd_receipts_root = 0, hd_withdrawals_root = None,
             hd_logs_bloom = [], hd_timestamp = 12, hd_mix_hash = 0, hd_nonce = 0,
             hd_base_fee_per_gas = Some 7, hd_number = 9, hd_gas_limit = 30000000,
             hd_difficulty = 0, hd_gas_used = 21000, hd_extra_data = [],
             hd_parent_beacon_block_root = None, hd_blob_gas_used = None,
             hd_excess_blob_gas = None \<rparr>,
           blk_body = [], blk_withdrawals = None \<rparr>,
         pl_fees = 0, pl_sidecars = [] \<rparr>,
       bd_bid = 1000 \<rparr>"

theorem signed_bid_consistent_witness:
  "let b = signed_bid_of sample_blst sample_tree_hasher sample_envelope
             (BlsSigner_new () [0, 0, 0, 0]) sample_build
   in Signature_verify sample_blst (sb_signature b) 1
        (signing_root sample_tree_hasher
          (Bid_tree_hash_root sample_blst sample_tree_hasher (sb_message b))
          (from_be_slice (compute_builder_domain sample_tree_hasher
             (BlsSigner_new () [0, 0, 0, 0])))) \<and>
      signed_bid_block_number b = 9"
  using signed_bid_consistent [OF sample_blst_verifies sample_envelope_faithful,
      of sample_tree_hasher "BlsSigner_new () [0, 0, 0, 0]" sample_build]
  by (simp add: Let_def BlsSigner_public_key_def SecretKey_public_key_def sample_blst_def
      sample_build_def)

definition unary :: "u256 \<Rightarrow> string" where
  "unary x = replicate (unat x) CHR ''1''"

definition sample_signed_bid :: "bool \<Rightarrow> unit signed_bid" where
  "sample_signed_bid flag =
     (signed_bid_of sample_blst sample_tree_hasher sample_envelope
        (BlsSigner_new () [0, 0, 0, 0]) sample_build)
       \<lparr> sb_signature := Signature_from_point () flag \<rparr>"

end
