(* ===== verification/Bls_Text.thy ===== *)
theory Bls_Text
  imports Ssz_Codec
begin

text \<open>
  The text form of BLS keys and signatures: the macros \<open>impl_display\<close>, \<open>impl_debug\<close>, \<open>impl_from_str\<close>,
  \<open>impl_serde_serialize\<close> and \<open>impl_serde_deserialize\<close> of \<open>crates/primitives/src/blst/macros.rs\<close>, and
  their uses in \<open>public_key.rs\<close>, \<open>secret_key.rs\<close> and \<open>signature.rs\<close>.

  The record \<open>hex_library\<close> has \<open>encode\<close> and \<open>decode\<close> of \<open>serde_utils::hex\<close>, the printing of errors and the
  \<open>custom\<close> error of a deserializer.  A serializer is given a string, a deserializer gives one or fails.
\<close>

section \<open>The macros\<close>

record ('be, 'derr) hex_library =
  hx_encode :: "bytes \<Rightarrow> string"
  hx_decode :: "string \<Rightarrow> (bytes, string) result"
  hx_debug_error :: "'be bls_error \<Rightarrow> string"
  hx_custom :: "string \<Rightarrow> 'derr"

definition impl_display :: "('be, 'derr) hex_library \<Rightarrow> ('a \<Rightarrow> bytes) \<Rightarrow> 'a \<Rightarrow> string" where
  "impl_display hex serialize x = hx_encode hex (serialize x)"

definition impl_debug :: "('be, 'derr) hex_library \<Rightarrow> ('a \<Rightarrow> bytes) \<Rightarrow> 'a \<Rightarrow> string" where
  "impl_debug hex serialize x = hx_encode hex (serialize x)"

definition impl_from_str ::
  "('be, 'derr) hex_library \<Rightarrow> (bytes \<Rightarrow> ('a, 'be bls_error) result) \<Rightarrow> string \<Rightarrow> ('a, string) result"
where
  "impl_from_str hex deserialize s =
     result_bind (hx_decode hex s) (\<lambda>bytes. map_err (hx_debug_error hex) (deserialize bytes))"

definition impl_serde_serialize :: "(string \<Rightarrow> 'r) \<Rightarrow> ('a \<Rightarrow> string) \<Rightarrow> 'a \<Rightarrow> 'r" where
  "impl_serde_serialize serialize_str to_string x = serialize_str (to_string x)"

definition impl_serde_deserialize ::
  "('be, 'derr) hex_library \<Rightarrow> (string \<Rightarrow> ('a, string) result) \<Rightarrow> (string, 'derr) result \<Rightarrow> ('a, 'derr) result"
where
  "impl_serde_deserialize hex from_str deserialize_str =
     result_bind deserialize_str (\<lambda>string. map_err (hx_custom hex) (from_str string))"

section \<open>Keys and signatures\<close>

definition PublicKey_to_string ::
  "('be, 'derr) hex_library \<Rightarrow> ('pk, 'sk, 'sig, 'be) blst_library \<Rightarrow> 'pk \<Rightarrow> string"
where
  "PublicKey_to_string hex lib = impl_display hex (PublicKey_serialize lib)"

definition as_hex_string ::
  "('be, 'derr) hex_library \<Rightarrow> ('pk, 'sk, 'sig, 'be) blst_library \<Rightarrow> 'pk \<Rightarrow> string"
where
  "as_hex_string hex lib pk = impl_debug hex (PublicKey_serialize lib) pk"

definition PublicKey_from_str ::
  "('be, 'derr) hex_library \<Rightarrow> ('pk, 'sk, 'sig, 'be) blst_library \<Rightarrow> string \<Rightarrow> ('pk, string) result"
where
  "PublicKey_from_str hex lib = impl_from_str hex (PublicKey_deserialize lib)"

definition SecretKey_to_string ::
  "('be, 'derr) hex_library \<Rightarrow> ('pk, 'sk, 'sig, 'be) blst_library \<Rightarrow> 'sk \<Rightarrow> string"
where
  "SecretKey_to_string hex lib = impl_display hex (SecretKey_serialize lib)"

definition SecretKey_from_str ::
  "('be, 'derr) hex_library \<Rightarrow> ('pk, 'sk, 'sig, 'be) blst_library \<Rightarrow> string \<Rightarrow> ('sk, string) result"
where
  "SecretKey_from_str hex lib = impl_from_str hex (SecretKey_deserialize lib)"

definition Signature_to_string ::
  "('be, 'derr) hex_library \<Rightarrow> ('pk, 'sk, 'sig, 'be) blst_library \<Rightarrow> 'sig signature \<Rightarrow> string"
where
  "Signature_to_string hex lib = impl_display hex (Signature_serialize lib)"

definition Signature_from_str ::
  "('be, 'derr) hex_library \<Rightarrow> ('pk, 'sk, 'sig, 'be) blst_library \<Rightarrow> string \<Rightarrow> ('sig signature, string) result"
where
  "Signature_from_str hex lib = impl_from_str hex (Signature_deserialize lib)"

text \<open>Through serde, with a format that reads back the strings it writes.\<close>

definition PublicKey_json ::
  "('be, 'derr) hex_library \<Rightarrow> ('pk, 'sk, 'sig, 'be) blst_library \<Rightarrow> 'pk \<Rightarrow> ('pk, 'derr) result"
where
  "PublicKey_json hex lib pk =
     impl_serde_deserialize hex (PublicKey_from_str hex lib)
       (impl_serde_serialize Ok (PublicKey_to_string hex lib) pk)"

section \<open>Lemmas\<close>

lemma from_str_Ok_iff:
  "impl_from_str hex deserialize s = Ok x \<longleftrightarrow>
     (\<exists>bs. hx_decode hex s = Ok bs \<and> deserialize bs = Ok x)"
  by (auto simp: impl_from_str_def result_bind_Ok_iff)

lemma from_str_display:
  assumes "\<And>bs. hx_decode hex (hx_encode hex bs) = Ok bs" and "deserialize (serialize x) = Ok x"
  shows "impl_from_str hex deserialize (impl_display hex serialize x) = Ok x"
  using assms by (simp add: impl_from_str_def impl_display_def)

text \<open>What \<open>blst\<close> documents of the keys it makes.\<close>

definition encodes_keys :: "('pk, 'sk, 'sig, 'be) blst_library \<Rightarrow> bool" where
  "encodes_keys lib \<longleftrightarrow>
     (\<forall>sk. length (bl_sk_to_bytes lib sk) = 32 \<and> \<not> list_all (\<lambda>b. b = 0) (bl_sk_to_bytes lib sk) \<and>
        bl_sk_from_bytes lib (bl_sk_to_bytes lib sk) = Ok sk) \<and>
     (\<forall>sk. bl_key_validate lib (bl_pk_compress lib (bl_sk_to_pk lib sk)) = Ok (bl_sk_to_pk lib sk) \<and>
        bl_pk_compress lib (bl_sk_to_pk lib sk) \<noteq> INFINITY_PUBLIC_KEY)"

lemma secret_key_deserialize:
  assumes "encodes_keys lib"
  shows "SecretKey_deserialize lib (SecretKey_serialize lib sk) = Ok sk"
proof -
  have "length (bl_sk_to_bytes lib sk) = 32" "\<not> list_all (\<lambda>b. b = 0) (bl_sk_to_bytes lib sk)"
    "bl_sk_from_bytes lib (bl_sk_to_bytes lib sk) = Ok sk"
    using assms unfolding encodes_keys_def by blast+
  then show ?thesis
    by (simp add: SecretKey_deserialize_def SecretKey_serialize_def SECRET_KEY_BYTES_LEN_def)
qed

lemma public_key_deserialize:
  assumes "encodes_keys lib" and "encodes_points lib"
  shows "PublicKey_deserialize lib (PublicKey_serialize lib (SecretKey_public_key lib sk)) =
           Ok (SecretKey_public_key lib sk)"
proof -
  have "bl_key_validate lib (bl_pk_compress lib (bl_sk_to_pk lib sk)) = Ok (bl_sk_to_pk lib sk)"
    "bl_pk_compress lib (bl_sk_to_pk lib sk) \<noteq> INFINITY_PUBLIC_KEY"
    using assms(1) unfolding encodes_keys_def by blast+
  moreover have "length (bl_pk_compress lib (bl_sk_to_pk lib sk)) = 48"
    using assms(2) by (simp add: encodes_points_def)
  ultimately show ?thesis
    by (simp add: PublicKey_deserialize_def TPublicKey_deserialize_def PublicKey_serialize_def
        SecretKey_public_key_def PUBLIC_KEY_BYTES_LEN_def)
qed

lemma signature_deserialize:
  assumes "encodes_points lib" and "bl_sig_to_bytes lib s \<noteq> INFINITY_SIGNATURE"
  shows "Signature_deserialize lib (Signature_serialize lib (Signature_from_point s False)) =
           Ok (Signature_from_point s False)"
  using encodes_pointsD(2-4) [OF assms(1), of s] assms(2)
  by (simp add: Signature_deserialize_def Signature_serialize_def Signature_from_point_def)

text \<open>
  The keys and signatures that are read back.  Keys travel in bids as their 48 bytes; such bytes are a
  key unless \<open>deserialize\<close> refuses them.  A signature is plain when its flag tells whether its bytes are
  the point at infinity, as for the empty one and all that keys make.
\<close>

definition valid_public_key :: "('pk, 'sk, 'sig, 'be) blst_library \<Rightarrow> bls_public_key \<Rightarrow> bool" where
  "valid_public_key lib k \<longleftrightarrow>
     be_bytes 48 k \<noteq> INFINITY_PUBLIC_KEY \<and> (case bl_key_validate lib (be_bytes 48 k) of Ok _ \<Rightarrow> True | _ \<Rightarrow> False)"

definition flags_infinity :: "('pk, 'sk, 'sig, 'be) blst_library \<Rightarrow> 'sig signature \<Rightarrow> bool" where
  "flags_infinity lib s \<longleftrightarrow> sig_is_infinity s = (Signature_serialize lib s = INFINITY_SIGNATURE)"

lemma key_bytes_deserialize:
  assumes "encodes_points lib" and "valid_public_key lib k"
  obtains pk where "PublicKey_deserialize lib (be_bytes 48 k) = Ok pk" and "PublicKey_serialize lib pk = be_bytes 48 k"
proof -
  obtain pk where pk: "bl_key_validate lib (be_bytes 48 k) = Ok pk"
    using assms(2) by (auto simp: valid_public_key_def split: result.splits)
  then have "bl_pk_compress lib pk = be_bytes 48 k"
    using encodes_pointsD(1) [OF assms(1) pk] by simp
  with pk assms(2) show thesis
    by (intro that [of pk]) (simp_all add: PublicKey_deserialize_def TPublicKey_deserialize_def
        PublicKey_serialize_def PUBLIC_KEY_BYTES_LEN_def valid_public_key_def)
qed

lemma key_bytes_refused:
  assumes "\<not> valid_public_key lib k" and "bl_key_validate lib (be_bytes 48 k) \<noteq> Panic"
  shows "\<exists>e. PublicKey_deserialize lib (be_bytes 48 k) = Err e"
  using assms
  by (cases "bl_key_validate lib (be_bytes 48 k)")
    (simp_all add: valid_public_key_def PublicKey_deserialize_def TPublicKey_deserialize_def PUBLIC_KEY_BYTES_LEN_def)

lemma flagged_signature_deserialize:
  assumes "encodes_points lib" and "flags_infinity lib s"
  shows "Signature_deserialize lib (Signature_serialize lib s) = Ok s"
  using encodes_pointsD(2-4) [OF assms(1)] assms(2)
  by (cases s) (auto simp: Signature_deserialize_def flags_infinity_def Signature_serialize_def split: option.splits)

section \<open>Properties\<close>

text \<open>
  C34: Keys and signatures survive their text form. A secret key, the public key made from it and any
  signature made with it are read back from the text they are displayed as, and a public key also
  through serde; a text is only ever read as the public key whose own encoding it decodes to, never
  as the point at infinity; and a text that is not hexadecimal is answered with the decoder's error.
\<close>

theorem bls_text_roundtrip:
  assumes "encodes_points lib" and "encodes_keys lib"
    and "\<And>bs. hx_decode hex (hx_encode hex bs) = Ok bs"
    and "bl_sig_to_bytes lib (bl_sk_sign lib sk msg) \<noteq> INFINITY_SIGNATURE"
  shows "SecretKey_from_str hex lib (SecretKey_to_string hex lib sk) = Ok sk \<and>
         PublicKey_from_str hex lib (PublicKey_to_string hex lib (SecretKey_public_key lib sk)) =
           Ok (SecretKey_public_key lib sk) \<and>
         PublicKey_json hex lib (SecretKey_public_key lib sk) = Ok (SecretKey_public_key lib sk) \<and>
         Signature_from_str hex lib (Signature_to_string hex lib (SecretKey_sign lib sk msg)) =
           Ok (SecretKey_sign lib sk msg) \<and>
         (PublicKey_from_str hex lib s = Ok pk \<longrightarrow>
            hx_decode hex s = Ok (PublicKey_serialize lib pk) \<and> PublicKey_serialize lib pk \<noteq> INFINITY_PUBLIC_KEY) \<and>
         (hx_decode hex s = Err e \<longrightarrow> PublicKey_from_str hex lib s = Err e \<and> SecretKey_from_str hex lib s = Err e)"
proof -
  have pk: "PublicKey_from_str hex lib (PublicKey_to_string hex lib (SecretKey_public_key lib sk)) =
      Ok (SecretKey_public_key lib sk)"
    unfolding PublicKey_from_str_def PublicKey_to_string_def
    by (rule from_str_display, rule assms(3), rule public_key_deserialize [OF assms(2,1)])
  moreover have "SecretKey_from_str hex lib (SecretKey_to_string hex lib sk) = Ok sk"
    unfolding SecretKey_from_str_def SecretKey_to_string_def
    by (rule from_str_display, rule assms(3), rule secret_key_deserialize [OF assms(2)])
  moreover have "Signature_from_str hex lib (Signature_to_string hex lib (SecretKey_sign lib sk msg)) =
      Ok (SecretKey_sign lib sk msg)"
    unfolding Signature_from_str_def Signature_to_string_def SecretKey_sign_def Let_def
    by (rule from_str_display, rule assms(3), rule signature_deserialize [OF assms(1,4)])
  moreover have "PublicKey_json hex lib (SecretKey_public_key lib sk) = Ok (SecretKey_public_key lib sk)"
    by (simp add: PublicKey_json_def impl_serde_deserialize_def impl_serde_serialize_def pk)
  moreover have canonical: "bs = PublicKey_serialize lib pk \<and> bs \<noteq> INFINITY_PUBLIC_KEY"
    if "PublicKey_deserialize lib bs = Ok pk" for bs
    using that encodes_pointsD(1) [OF assms(1), of bs pk]
    by (auto simp: PublicKey_deserialize_def TPublicKey_deserialize_def PublicKey_serialize_def
        PUBLIC_KEY_BYTES_LEN_def split: if_splits)
  moreover from canonical have "PublicKey_from_str hex lib s = Ok pk \<longrightarrow>
      hx_decode hex s = Ok (PublicKey_serialize lib pk) \<and> PublicKey_serialize lib pk \<noteq> INFINITY_PUBLIC_KEY"
    unfolding PublicKey_from_str_def from_str_Ok_iff by metis
  moreover have "hx_decode hex s = Err e \<longrightarrow>
      PublicKey_from_str hex lib s = Err e \<and> SecretKey_from_str hex lib s = Err e"
    by (simp add: PublicKey_from_str_def SecretKey_from_str_def impl_from_str_def)
  ultimately show ?thesis using pk by blast
qed

text \<open>Hexadecimal text with a \<open>0x\<close> prefix, two digits for a byte.\<close>

definition hex_digit :: "nat \<Rightarrow> char" where
  "hex_digit d = char_of (if d < 10 then 48 + d else 87 + d)"

definition hex_value :: "char \<Rightarrow> nat option" where
  "hex_value c =
     (let k = of_char c :: nat
      in if 48 \<le> k \<and> k \<le> 57 then Some (k - 48)
         else if 65 \<le> k \<and> k \<le> 70 then Some (k - 55)
         else if 97 \<le> k \<and> k \<le> 102 then Some (k - 87) else None)"

fun hex_bytes :: "string \<Rightarrow> bytes option" where
  "hex_bytes [] = Some []"
| "hex_bytes (a # b # cs) =
     (case (hex_value a, hex_value b) of
        (Some x, Some y) \<Rightarrow> map_option (Cons (word_of_nat (16 * x + y))) (hex_bytes cs)
      | _ \<Rightarrow> None)"
| "hex_bytes [c] = None"

definition hex_text :: "bytes \<Rightarrow> string" where
  "hex_text bs = concat (map (\<lambda>b. [hex_digit (unat b div 16), hex_digit (unat b mod 16)]) bs)"

definition sample_hex :: "(unit, string) hex_library" where
  "sample_hex =
     \<lparr> hx_encode = (\<lambda>bs. ''0x'' @ hex_text bs),
       hx_decode = (\<lambda>s. if take 2 s = ''0x''
         then (case hex_bytes (drop 2 s) of Some bs \<Rightarrow> Ok bs | None \<Rightarrow> Err ''invalid hex'')
         else Err ''missing prefix''),
       hx_debug_error = (\<lambda>_. ''error''), hx_custom = (\<lambda>s. s) \<rparr>"

lemma hex_value_digit [simp]: "d < 16 \<Longrightarrow> hex_value (hex_digit d) = Some d"
  by (simp add: hex_value_def hex_digit_def of_char_of Let_def)

lemma hex_bytes_text [simp]: "hex_bytes (hex_text bs) = Some bs"
proof (induction bs)
  case Nil
  show ?case by (simp add: hex_text_def)
next
  case (Cons b bs)
  have "unat b < 256" using unsigned_less [of b, where ?'a = nat] by simp
  then have "unat b div 16 < 16" "unat b mod 16 < 16" by simp_all
  moreover have "word_of_nat (16 * (unat b div 16) + unat b mod 16) = b"
    by (simp only: mult_div_mod_eq) simp
  ultimately show ?case using Cons by (simp add: hex_text_def del: of_nat_add of_nat_mult)
qed

lemma sample_hex_decodes: "hx_decode sample_hex (hx_encode sample_hex bs) = Ok bs"
  by (simp add: sample_hex_def)

lemma sample_key_finite: "be_bytes 48 (1 :: 384 word) \<noteq> INFINITY_PUBLIC_KEY"
  by (simp add: INFINITY_PUBLIC_KEY_def be_bytes_def upt_rec)

lemma sample_keys_valid:
  "valid_public_key sample_blst 1" "\<not> valid_public_key lib (from_be_slice INFINITY_PUBLIC_KEY)"
proof -
  show "valid_public_key sample_blst 1"
    by (simp add: valid_public_key_def sample_key_finite) (simp add: sample_blst_def)
  have "length INFINITY_PUBLIC_KEY = 48" by (simp add: INFINITY_PUBLIC_KEY_def PUBLIC_KEY_BYTES_LEN_def)
  then show "\<not> valid_public_key lib (from_be_slice INFINITY_PUBLIC_KEY)"
    using be_codec(3) [where ?'a = 384, of 48 INFINITY_PUBLIC_KEY] by (simp add: valid_public_key_def)
qed

lemma sample_signature_flags: "flags_infinity sample_blst (Signature_from_point () False)"
proof -
  have "hd (replicate 96 (1 :: u8)) \<noteq> hd INFINITY_SIGNATURE" by (simp add: INFINITY_SIGNATURE_def)
  then have "replicate 96 (1 :: u8) \<noteq> INFINITY_SIGNATURE" by metis
  then show ?thesis
    by (simp add: flags_infinity_def Signature_serialize_def Signature_from_point_def sample_blst_def)
qed

lemma sample_blst_keys: "encodes_keys sample_blst"
proof -
  note sample_key_finite
  moreover have "\<not> list_all (\<lambda>b. b = 0) (replicate 32 (1 :: 8 word))" by (simp add: list_all_iff)
  ultimately show ?thesis
    using be_codec(2) [where ?'a = 384, of 48 1]
    by (simp add: encodes_keys_def sample_blst_def)
qed

theorem bls_text_roundtrip_witness:
  "PublicKey_from_str sample_hex sample_blst (PublicKey_to_string sample_hex sample_blst 1) = Ok 1 \<and>
   SecretKey_from_str sample_hex sample_blst (SecretKey_to_string sample_hex sample_blst ()) = Ok ()"
proof -
  have "hd (bl_sig_to_bytes sample_blst (bl_sk_sign sample_blst () 0)) \<noteq> hd INFINITY_SIGNATURE"
    by (simp add: INFINITY_SIGNATURE_def sample_blst_def)
  then have "bl_sig_to_bytes sample_blst (bl_sk_sign sample_blst () 0) \<noteq> INFINITY_SIGNATURE"
    by metis
  from bls_text_roundtrip [OF sample_blst_encodes sample_blst_keys sample_hex_decodes this, of "[]" 1]
  have "PublicKey_from_str sample_hex sample_blst
      (PublicKey_to_string sample_hex sample_blst (SecretKey_public_key sample_blst ())) =
      Ok (SecretKey_public_key sample_blst ())"
    "SecretKey_from_str sample_hex sample_blst (SecretKey_to_string sample_hex sample_blst ()) = Ok ()"
    by blast+
  then show ?thesis by (simp add: SecretKey_public_key_def sample_blst_def)
qed

end
