(* ===== verification/Bid_Json.thy ===== *)
theory Bid_Json
  imports Bids Bls_Text
begin

text \<open>
  The JSON form of bids and traces, \<open>crates/primitives/src/bid.rs\<close>: the integers that are written as
  decimal text (\<open>from_u64_to_str\<close>, \<open>from_u256_to_str\<close>, \<open>from_str_to_u64\<close> and serde_with's
  \<open>DisplayFromStr\<close>) and the structs whose field attributes name them.  Bids travel in this form to
  the HTTP relays and to the internal relay, traces and the internal best bid back.

  A JSON document is its syntax tree.  \<open>derive(Serialize)\<close> writes a struct as the object of its
  fields in order; \<open>derive(Deserialize)\<close> reads it from an object in which every field occurs once,
  whatever other fields there are, or from the array of its values.  Which error a failed
  deserialization reports is not represented.  The forms of the types of other crates are the codecs
  of \<open>json_library\<close>, and \<open>lends\<close> says which strings the deserializer hands out as a \<open>&str\<close>.
\<close>

section \<open>Documents\<close>

datatype json =
  JNull | JBool bool | JNumber nat | JString string | JArray "json list" | JObject "(string \<times> json) list"

record 'a codec =
  to_json :: "'a \<Rightarrow> json"
  from_json :: "json \<Rightarrow> 'a option"

definition lossless :: "'a codec \<Rightarrow> bool" where
  "lossless c \<longleftrightarrow> (\<forall>x. from_json c (to_json c x) = Some x)"

record ('pk, 'sk, 'sig, 'be) json_library =
  lends :: "string \<Rightarrow> bool"
  jl_b256 :: "b256 codec"
  jl_address :: "address codec"
  jl_bloom :: "bloom codec"
  jl_bytes :: "bytes codec"
  jl_u256 :: "u256 codec"
  jl_blobs :: "blobs_bundle codec"
  jl_hex :: "('be, string) hex_library"
  jl_blst :: "('pk, 'sk, 'sig, 'be) blst_library"

section \<open>Integers as text\<close>

text \<open>\<open>Display\<close> of an unsigned integer.\<close>

definition digit :: "nat \<Rightarrow> char" where
  "digit d = char_of (48 + d)"

fun show_nat :: "nat \<Rightarrow> string" where
  "show_nat n = (if n < 10 then [digit n] else show_nat (n div 10) @ [digit (n mod 10)])"

declare show_nat.simps [simp del]

text \<open>
  \<open>from_str\<close> of an unsigned integer below the bound: an optional \<open>+\<close>, then at least one digit, with
  checked arithmetic.
\<close>

definition digit_value :: "char \<Rightarrow> nat option" where
  "digit_value c = (let k = of_char c :: nat in if 48 \<le> k \<and> k \<le> 57 then Some (k - 48) else None)"

fun read_digits :: "nat \<Rightarrow> nat \<Rightarrow> string \<Rightarrow> nat option" where
  "read_digits bound acc [] = Some acc"
| "read_digits bound acc (c # cs) =
     (case digit_value c of
        None \<Rightarrow> None
      | Some d \<Rightarrow> if acc * 10 + d < bound then read_digits bound (acc * 10 + d) cs else None)"

fun nat_from_str :: "nat \<Rightarrow> string \<Rightarrow> nat option" where
  "nat_from_str bound [] = None"
| "nat_from_str bound (c # cs) =
     (if c = CHR ''+'' then (if cs = [] then None else read_digits bound 0 cs)
      else read_digits bound 0 (c # cs))"

definition u64_from_str :: "string \<Rightarrow> u64 option" where
  "u64_from_str s = map_option word_of_nat (nat_from_str (2 ^ 64) s)"

definition from_u64_to_str :: "u64 \<Rightarrow> json" where
  "from_u64_to_str value = JString (show_nat (unat value))"

definition from_u256_to_str :: "u256 \<Rightarrow> json" where
  "from_u256_to_str value = JString (show_nat (unat value))"

definition from_str_to_u64 :: "('pk, 'sk, 'sig, 'be) json_library \<Rightarrow> json \<Rightarrow> u64 option" where
  "from_str_to_u64 lib j =
     (case j of JString s \<Rightarrow> if lends lib s then u64_from_str s else None | _ \<Rightarrow> None)"

text \<open>\<open>serde_as(as = "DisplayFromStr")\<close>, which also reads strings it cannot borrow.\<close>

definition display_from_str :: "u64 codec" where
  "display_from_str =
     \<lparr> to_json = (\<lambda>v. JString (show_nat (unat v))),
       from_json = (\<lambda>j. case j of JString s \<Rightarrow> u64_from_str s | _ \<Rightarrow> None) \<rparr>"

section \<open>Keys and signatures\<close>

text \<open>
  The \<open>Serialize\<close> and \<open>Deserialize\<close> of \<open>blst/macros.rs\<close>: a string in hexadecimal, which must decode to a
  key that \<open>deserialize\<close> accepts, or to a signature.
\<close>

definition deserialize_str :: "json \<Rightarrow> (string, string) result" where
  "deserialize_str j = (case j of JString s \<Rightarrow> Ok s | _ \<Rightarrow> Err ''a hex string with 0x prefix'')"

definition result_ok :: "('a, 'e) result \<Rightarrow> 'a option" where
  "result_ok r = (case r of Ok x \<Rightarrow> Some x | _ \<Rightarrow> None)"

definition BlsPublicKey_to_json :: "('pk, 'sk, 'sig, 'be) json_library \<Rightarrow> bls_public_key \<Rightarrow> json" where
  "BlsPublicKey_to_json lib k = impl_serde_serialize JString (impl_display (jl_hex lib) (be_bytes 48)) k"

definition BlsPublicKey_from_json :: "('pk, 'sk, 'sig, 'be) json_library \<Rightarrow> json \<Rightarrow> bls_public_key option" where
  "BlsPublicKey_from_json lib j =
     map_option (\<lambda>pk. from_be_slice (PublicKey_serialize (jl_blst lib) pk))
       (result_ok (impl_serde_deserialize (jl_hex lib) (PublicKey_from_str (jl_hex lib) (jl_blst lib)) (deserialize_str j)))"

definition BlsSignature_to_json :: "('pk, 'sk, 'sig, 'be) json_library \<Rightarrow> 'sig signature \<Rightarrow> json" where
  "BlsSignature_to_json lib s = impl_serde_serialize JString (Signature_to_string (jl_hex lib) (jl_blst lib)) s"

definition BlsSignature_from_json :: "('pk, 'sk, 'sig, 'be) json_library \<Rightarrow> json \<Rightarrow> 'sig signature option" where
  "BlsSignature_from_json lib j =
     result_ok (impl_serde_deserialize (jl_hex lib) (Signature_from_str (jl_hex lib) (jl_blst lib)) (deserialize_str j))"

section \<open>Structs\<close>

definition struct_fields :: "string list \<Rightarrow> json \<Rightarrow> (string \<times> json) list option" where
  "struct_fields names j =
     (case j of
        JObject fs \<Rightarrow> Some fs
      | JArray xs \<Rightarrow> if length xs = length names then Some (zip names xs) else None
      | _ \<Rightarrow> None)"

definition field :: "(string \<times> json) list \<Rightarrow> string \<Rightarrow> (json \<Rightarrow> 'a option) \<Rightarrow> 'a option" where
  "field fs name read =
     (case filter (\<lambda>(k, _). k = name) fs of [(_, j)] \<Rightarrow> read j | _ \<Rightarrow> None)"

text \<open>A field of an \<open>Option\<close> type may be missing or null.\<close>

definition option_field :: "(string \<times> json) list \<Rightarrow> string \<Rightarrow> (json \<Rightarrow> 'a option) \<Rightarrow> 'a option option" where
  "option_field fs name read =
     (case filter (\<lambda>(k, _). k = name) fs of
        [] \<Rightarrow> Some None
      | [(_, j)] \<Rightarrow> if j = JNull then Some None else map_option Some (read j)
      | _ \<Rightarrow> None)"

fun read_list :: "(json \<Rightarrow> 'a option) \<Rightarrow> json list \<Rightarrow> 'a list option" where
  "read_list read [] = Some []"
| "read_list read (j # js) =
     (case read j of None \<Rightarrow> None | Some x \<Rightarrow> map_option (Cons x) (read_list read js))"

definition vec_from_json :: "(json \<Rightarrow> 'a option) \<Rightarrow> json \<Rightarrow> 'a list option" where
  "vec_from_json read j = (case j of JArray js \<Rightarrow> read_list read js | _ \<Rightarrow> None)"

definition bool_from_json :: "json \<Rightarrow> bool option" where
  "bool_from_json j = (case j of JBool b \<Rightarrow> Some b | _ \<Rightarrow> None)"

section \<open>Bid\<close>

definition Bid_to_json :: "('pk, 'sk, 'sig, 'be) json_library \<Rightarrow> bid \<Rightarrow> json" where
  "Bid_to_json lib b = JObject
     [(''slot'', from_u64_to_str (bid_slot b)),
      (''parent_hash'', to_json (jl_b256 lib) (bid_parent_hash b)),
      (''block_hash'', to_json (jl_b256 lib) (bid_block_hash b)),
      (''builder_pubkey'', BlsPublicKey_to_json lib (bid_builder_pubkey b)),
      (''proposer_pubkey'', BlsPublicKey_to_json lib (bid_proposer_pubkey b)),
      (''proposer_fee_recipient'', to_json (jl_address lib) (bid_proposer_fee_recipient b)),
      (''gas_limit'', from_u64_to_str (bid_gas_limit b)),
      (''gas_used'', from_u64_to_str (bid_gas_used b)),
      (''value'', from_u256_to_str (bid_value b))]"

definition bid_fields :: "string list" where
  "bid_fields = [''slot'', ''parent_hash'', ''block_hash'', ''builder_pubkey'', ''proposer_pubkey'',
     ''proposer_fee_recipient'', ''gas_limit'', ''gas_used'', ''value'']"

definition Bid_from_json :: "('pk, 'sk, 'sig, 'be) json_library \<Rightarrow> json \<Rightarrow> bid option" where
  "Bid_from_json lib j =
     Option.bind (struct_fields bid_fields j) (\<lambda>fs.
     Option.bind (field fs ''slot'' (from_str_to_u64 lib)) (\<lambda>slot.
     Option.bind (field fs ''parent_hash'' (from_json (jl_b256 lib))) (\<lambda>parent_hash.
     Option.bind (field fs ''block_hash'' (from_json (jl_b256 lib))) (\<lambda>block_hash.
     Option.bind (field fs ''builder_pubkey'' (BlsPublicKey_from_json lib)) (\<lambda>builder_pubkey.
     Option.bind (field fs ''proposer_pubkey'' (BlsPublicKey_from_json lib)) (\<lambda>proposer_pubkey.
     Option.bind (field fs ''proposer_fee_recipient'' (from_json (jl_address lib))) (\<lambda>fee_recipient.
     Option.bind (field fs ''gas_limit'' (from_str_to_u64 lib)) (\<lambda>gas_limit.
     Option.bind (field fs ''gas_used'' (from_str_to_u64 lib)) (\<lambda>gas_used.
     Option.bind (field fs ''value'' (from_json (jl_u256 lib))) (\<lambda>bid_val.
       Some \<lparr> bid_slot = slot, bid_parent_hash = parent_hash, bid_block_hash = block_hash,
              bid_builder_pubkey = builder_pubkey, bid_proposer_pubkey = proposer_pubkey,
              bid_proposer_fee_recipient = fee_recipient, bid_gas_limit = gas_limit,
              bid_gas_used = gas_used, bid_value = bid_val \<rparr>))))))))))"

section \<open>Execution payload\<close>

definition AlloyWithdrawal_to_json :: "('pk, 'sk, 'sig, 'be) json_library \<Rightarrow> alloy_withdrawal \<Rightarrow> json" where
  "AlloyWithdrawal_to_json lib w = JObject
     [(''index'', from_u64_to_str (aw_index w)),
      (''validator_index'', from_u64_to_str (aw_validator_index w)),
      (''address'', to_json (jl_address lib) (aw_address w)),
      (''amount'', from_u64_to_str (aw_amount w))]"

definition AlloyWithdrawal_from_json :: "('pk, 'sk, 'sig, 'be) json_library \<Rightarrow> json \<Rightarrow> alloy_withdrawal option" where
  "AlloyWithdrawal_from_json lib j =
     Option.bind (struct_fields [''index'', ''validator_index'', ''address'', ''amount''] j) (\<lambda>fs.
     Option.bind (field fs ''index'' (from_str_to_u64 lib)) (\<lambda>index.
     Option.bind (field fs ''validator_index'' (from_str_to_u64 lib)) (\<lambda>validator_index.
     Option.bind (field fs ''address'' (from_json (jl_address lib))) (\<lambda>addr.
     Option.bind (field fs ''amount'' (from_str_to_u64 lib)) (\<lambda>amount.
       Some \<lparr> aw_index = index, aw_validator_index = validator_index, aw_address = addr,
              aw_amount = amount \<rparr>)))))"

definition ExecutionPayload_to_json :: "('pk, 'sk, 'sig, 'be) json_library \<Rightarrow> execution_payload \<Rightarrow> json" where
  "ExecutionPayload_to_json lib p = JObject
     [(''parent_hash'', to_json (jl_b256 lib) (ep_parent_hash p)),
      (''fee_recipient'', to_json (jl_address lib) (ep_fee_recipient p)),
      (''state_root'', to_json (jl_b256 lib) (ep_state_root p)),
      (''receipts_root'', to_json (jl_b256 lib) (ep_receipts_root p)),
      (''logs_bloom'', to_json (jl_bloom lib) (ep_logs_bloom p)),
      (''prev_randao'', to_json (jl_b256 lib) (ep_prev_randao p)),
      (''block_number'', from_u64_to_str (ep_block_number p)),
      (''gas_limit'', from_u64_to_str (ep_gas_limit p)),
      (''gas_used'', from_u64_to_str (ep_gas_used p)),
      (''timestamp'', from_u64_to_str (ep_timestamp p)),
      (''extra_data'', to_json (jl_bytes lib) (ep_extra_data p)),
      (''base_fee_per_gas'', from_u256_to_str (ep_base_fee_per_gas p)),
      (''block_hash'', to_json (jl_b256 lib) (ep_block_hash p)),
      (''transactions'', JArray (map (to_json (jl_bytes lib)) (ep_transactions p))),
      (''withdrawals'', JArray (map (AlloyWithdrawal_to_json lib) (ep_withdrawals p))),
      (''blob_gas_used'', from_u64_to_str (ep_blob_gas_used p)),
      (''excess_blob_gas'', from_u64_to_str (ep_excess_blob_gas p))]"

definition execution_payload_fields :: "string list" where
  "execution_payload_fields = [''parent_hash'', ''fee_recipient'', ''state_root'', ''receipts_root'',
     ''logs_bloom'', ''prev_randao'', ''block_number'', ''gas_limit'', ''gas_used'', ''timestamp'',
     ''extra_data'', ''base_fee_per_gas'', ''block_hash'', ''transactions'', ''withdrawals'',
     ''blob_gas_used'', ''excess_blob_gas'']"

definition ExecutionPayload_from_json :: "('pk, 'sk, 'sig, 'be) json_library \<Rightarrow> json \<Rightarrow> execution_payload option" where
  "ExecutionPayload_from_json lib j =
     Option.bind (struct_fields execution_payload_fields j) (\<lambda>fs.
     Option.bind (field fs ''parent_hash'' (from_json (jl_b256 lib))) (\<lambda>parent_hash.
     Option.bind (field fs ''fee_recipient'' (from_json (jl_address lib))) (\<lambda>fee_recipient.
     Option.bind (field fs ''state_root'' (from_json (jl_b256 lib))) (\<lambda>state_root.
     Option.bind (field fs ''receipts_root'' (from_json (jl_b256 lib))) (\<lambda>receipts_root.
     Option.bind (field fs ''logs_bloom'' (from_json (jl_bloom lib))) (\<lambda>logs_bloom.
     Option.bind (field fs ''prev_randao'' (from_json (jl_b256 lib))) (\<lambda>prev_randao.
     Option.bind (field fs ''block_number'' (from_str_to_u64 lib)) (\<lambda>block_number.
     Option.bind (field fs ''gas_limit'' (from_str_to_u64 lib)) (\<lambda>gas_limit.
     Option.bind (field fs ''gas_used'' (from_str_to_u64 lib)) (\<lambda>gas_used.
     Option.bind (field fs ''timestamp'' (from_str_to_u64 lib)) (\<lambda>timestamp.
     Option.bind (field fs ''extra_data'' (from_json (jl_bytes lib))) (\<lambda>extra_data.
     Option.bind (field fs ''base_fee_per_gas'' (from_json (jl_u256 lib))) (\<lambda>base_fee_per_gas.
     Option.bind (field fs ''block_hash'' (from_json (jl_b256 lib))) (\<lambda>block_hash.
     Option.bind (field fs ''transactions'' (vec_from_json (from_json (jl_bytes lib)))) (\<lambda>transactions.
     Option.bind (field fs ''withdrawals'' (vec_from_json (AlloyWithdrawal_from_json lib))) (\<lambda>withdrawals.
     Option.bind (field fs ''blob_gas_used'' (from_str_to_u64 lib)) (\<lambda>blob_gas_used.
     Option.bind (field fs ''excess_blob_gas'' (from_str_to_u64 lib)) (\<lambda>excess_blob_gas.
       Some \<lparr> ep_parent_hash = parent_hash, ep_fee_recipient = fee_recipient, ep_state_root = state_root,
              ep_receipts_root = receipts_root, ep_logs_bloom = logs_bloom, ep_prev_randao = prev_randao,
              ep_block_number = block_number, ep_gas_limit = gas_limit, ep_gas_used = gas_used,
              ep_timestamp = timestamp, ep_extra_data = extra_data,
              ep_base_fee_per_gas = base_fee_per_gas, ep_block_hash = block_hash,
              ep_transactions = transactions, ep_withdrawals = withdrawals,
              ep_blob_gas_used = blob_gas_used, ep_excess_blob_gas = excess_blob_gas \<rparr>))))))))))))))))))"

section \<open>Signed bid and trace\<close>

definition SignedBid_to_json :: "('pk, 'sk, 'sig, 'be) json_library \<Rightarrow> 'sig signed_bid \<Rightarrow> json" where
  "SignedBid_to_json lib b = JObject
     [(''message'', Bid_to_json lib (sb_message b)),
      (''execution_payload'', ExecutionPayload_to_json lib (sb_execution_payload b)),
      (''blobs_bundle'', to_json (jl_blobs lib) (sb_blobs_bundle b)),
      (''signature'', BlsSignature_to_json lib (sb_signature b))]"

definition SignedBid_from_json :: "('pk, 'sk, 'sig, 'be) json_library \<Rightarrow> json \<Rightarrow> 'sig signed_bid option" where
  "SignedBid_from_json lib j =
     Option.bind (struct_fields [''message'', ''execution_payload'', ''blobs_bundle'', ''signature''] j) (\<lambda>fs.
     Option.bind (field fs ''message'' (Bid_from_json lib)) (\<lambda>message.
     Option.bind (field fs ''execution_payload'' (ExecutionPayload_from_json lib)) (\<lambda>payload.
     Option.bind (field fs ''blobs_bundle'' (from_json (jl_blobs lib))) (\<lambda>blobs.
     Option.bind (field fs ''signature'' (BlsSignature_from_json lib)) (\<lambda>sig.
       Some \<lparr> sb_message = message, sb_execution_payload = payload, sb_blobs_bundle = blobs,
              sb_signature = sig \<rparr>)))))"

definition BidTrace_to_json :: "('pk, 'sk, 'sig, 'be) json_library \<Rightarrow> bid_trace \<Rightarrow> json" where
  "BidTrace_to_json lib t = JObject
     [(''slot'', to_json display_from_str (bt_slot t)),
      (''parent_hash'', to_json (jl_b256 lib) (bt_parent_hash t)),
      (''block_hash'', to_json (jl_b256 lib) (bt_block_hash t)),
      (''builder_pubkey'', BlsPublicKey_to_json lib (bt_builder_pubkey t)),
      (''proposer_pubkey'', BlsPublicKey_to_json lib (bt_proposer_pubkey t)),
      (''proposer_fee_recipient'', to_json (jl_address lib) (bt_proposer_fee_recipient t)),
      (''gas_limit'', to_json display_from_str (bt_gas_limit t)),
      (''gas_used'', to_json display_from_str (bt_gas_used t)),
      (''value'', to_json (jl_u256 lib) (bt_value t)),
      (''num_tx'', to_json display_from_str (bt_num_tx t)),
      (''block_number'', to_json display_from_str (bt_block_number t)),
      (''timestamp'', to_json display_from_str (bt_timestamp t)),
      (''timestamp_ms'', to_json display_from_str (bt_timestamp_ms t)),
      (''optimistic_submission'',
         (case bt_optimistic_submission t of None \<Rightarrow> JNull | Some b \<Rightarrow> JBool b))]"

definition bid_trace_fields :: "string list" where
  "bid_trace_fields = [''slot'', ''parent_hash'', ''block_hash'', ''builder_pubkey'', ''proposer_pubkey'',
     ''proposer_fee_recipient'', ''gas_limit'', ''gas_used'', ''value'', ''num_tx'', ''block_number'',
     ''timestamp'', ''timestamp_ms'', ''optimistic_submission'']"

definition BidTrace_from_json :: "('pk, 'sk, 'sig, 'be) json_library \<Rightarrow> json \<Rightarrow> bid_trace option" where
  "BidTrace_from_json lib j =
     Option.bind (struct_fields bid_trace_fields j) (\<lambda>fs.
     Option.bind (field fs ''slot'' (from_json display_from_str)) (\<lambda>slot.
     Option.bind (field fs ''parent_hash'' (from_json (jl_b256 lib))) (\<lambda>parent_hash.
     Option.bind (field fs ''block_hash'' (from_json (jl_b256 lib))) (\<lambda>block_hash.
     Option.bind (field fs ''builder_pubkey'' (BlsPublicKey_from_json lib)) (\<lambda>builder_pubkey.
     Option.bind (field fs ''proposer_pubkey'' (BlsPublicKey_from_json lib)) (\<lambda>proposer_pubkey.
     Option.bind (field fs ''proposer_fee_recipient'' (from_json (jl_address lib))) (\<lambda>fee_recipient.
     Option.bind (field fs ''gas_limit'' (from_json display_from_str)) (\<lambda>gas_limit.
     Option.bind (field fs ''gas_used'' (from_json display_from_str)) (\<lambda>gas_used.
     Option.bind (field fs ''value'' (from_json (jl_u256 lib))) (\<lambda>bid_val.
     Option.bind (field fs ''num_tx'' (from_json display_from_str)) (\<lambda>num_tx.
     Option.bind (field fs ''block_number'' (from_json display_from_str)) (\<lambda>block_number.
     Option.bind (field fs ''timestamp'' (from_json display_from_str)) (\<lambda>timestamp.
     Option.bind (field fs ''timestamp_ms'' (from_json display_from_str)) (\<lambda>timestamp_ms.
     Option.bind (option_field fs ''optimistic_submission'' bool_from_json) (\<lambda>optimistic.
       Some \<lparr> bt_slot = slot, bt_parent_hash = parent_hash, bt_block_hash = block_hash,
              bt_builder_pubkey = builder_pubkey, bt_proposer_pubkey = proposer_pubkey,
              bt_proposer_fee_recipient = fee_recipient, bt_gas_limit = gas_limit,
              bt_gas_used = gas_used, bt_value = bid_val, bt_num_tx = num_tx,
              bt_block_number = block_number, bt_timestamp = timestamp,
              bt_timestamp_ms = timestamp_ms, bt_optimistic_submission = optimistic \<rparr>)))))))))))))))"

section \<open>Lemmas\<close>

lemma digit_value_digit [simp]: "d < 10 \<Longrightarrow> digit_value (digit d) = Some d"
  by (simp add: digit_value_def digit_def of_char_of Let_def)

lemma digit_not_plus: "d < 10 \<Longrightarrow> digit d \<noteq> CHR ''+''"
  using digit_value_digit [of d] by (auto simp: digit_value_def)

lemma read_digits_append:
  "read_digits bound acc (xs @ ys) = Option.bind (read_digits bound acc xs) (\<lambda>a. read_digits bound a ys)"
  by (induction bound acc xs rule: read_digits.induct) (auto split: option.splits)

lemma read_show_nat:
  "0 < bound \<Longrightarrow> read_digits bound 0 (show_nat n) = (if n < bound then Some n else None)"
proof (induction n rule: show_nat.induct)
  case (1 n)
  show ?case
  proof (cases "n < 10")
    case True
    then show ?thesis by (simp add: show_nat.simps)
  next
    case False
    have n: "n div 10 * 10 + n mod 10 = n" by simp
    then have "n div 10 < bound" if "n < bound" using that by linarith
    with False 1 n show ?thesis by (simp add: show_nat.simps [of n] read_digits_append)
  qed
qed

lemma show_nat_Cons: "\<exists>d cs. show_nat n = digit d # cs \<and> d < 10"
proof (induction n rule: show_nat.induct)
  case (1 n)
  then show ?case by (cases "n < 10") (auto simp: show_nat.simps [of n])
qed

lemma nat_from_str_show [simp]:
  "0 < bound \<Longrightarrow> nat_from_str bound (show_nat n) = (if n < bound then Some n else None)"
proof -
  assume b: "0 < bound"
  obtain d cs where s: "show_nat n = digit d # cs" "d < 10" using show_nat_Cons by blast
  then have "nat_from_str bound (show_nat n) = read_digits bound 0 (show_nat n)"
    using digit_not_plus by simp
  with read_show_nat [OF b] show ?thesis by simp
qed

lemma u64_from_str_show:
  "u64_from_str (show_nat n) = (if n < 2 ^ 64 then Some (word_of_nat n) else None)"
  by (simp add: u64_from_str_def)

lemma u64_from_str_word [simp]: "u64_from_str (show_nat (unat (v :: u64))) = Some v"
  using unsigned_less [of v, where ?'a = nat] by (simp add: u64_from_str_show)

lemma display_from_str_lossless: "lossless display_from_str"
  by (simp add: lossless_def display_from_str_def)

lemma show_nat_digits: "list_all (\<lambda>c. digit_value c \<noteq> None) (show_nat n)"
proof (induction n rule: show_nat.induct)
  case (1 n)
  then show ?case by (cases "n < 10") (auto simp: show_nat.simps [of n])
qed

text \<open>What the libraries document of the forms of their types.\<close>

definition faithful_json :: "('pk, 'sk, 'sig, 'be) json_library \<Rightarrow> bool" where
  "faithful_json lib \<longleftrightarrow>
     (\<forall>s. list_all (\<lambda>c. digit_value c \<noteq> None) s \<longrightarrow> lends lib s) \<and>
     lossless (jl_b256 lib) \<and> lossless (jl_address lib) \<and> lossless (jl_bloom lib) \<and>
     lossless (jl_bytes lib) \<and> lossless (jl_u256 lib) \<and>
     (\<forall>v. from_json (jl_u256 lib) (JString (show_nat (unat v))) = Some v) \<and>
     (\<forall>bs. hx_decode (jl_hex lib) (hx_encode (jl_hex lib) bs) = Ok bs) \<and>
     encodes_points (jl_blst lib) \<and> (\<forall>bs. bl_key_validate (jl_blst lib) bs \<noteq> Panic)"

text \<open>The bids whose signature and blobs are read back, and those whose keys are read back too.\<close>

definition readable_bid :: "('pk, 'sk, 'sig, 'be) json_library \<Rightarrow> 'sig signed_bid \<Rightarrow> bool" where
  "readable_bid lib b \<longleftrightarrow>
     flags_infinity (jl_blst lib) (sb_signature b) \<and>
     from_json (jl_blobs lib) (to_json (jl_blobs lib) (sb_blobs_bundle b)) = Some (sb_blobs_bundle b)"

definition valid_keys :: "('pk, 'sk, 'sig, 'be) json_library \<Rightarrow> bid \<Rightarrow> bool" where
  "valid_keys lib b \<longleftrightarrow>
     valid_public_key (jl_blst lib) (bid_builder_pubkey b) \<and> valid_public_key (jl_blst lib) (bid_proposer_pubkey b)"

definition valid_trace_keys :: "('pk, 'sk, 'sig, 'be) json_library \<Rightarrow> bid_trace \<Rightarrow> bool" where
  "valid_trace_keys lib t \<longleftrightarrow>
     valid_public_key (jl_blst lib) (bt_builder_pubkey t) \<and> valid_public_key (jl_blst lib) (bt_proposer_pubkey t)"

lemma read_number:
  assumes "faithful_json lib"
  shows "from_str_to_u64 lib (JString (show_nat n)) = (if n < 2 ^ 64 then Some (word_of_nat n) else None)"
    and "from_json display_from_str (JString (show_nat n)) = (if n < 2 ^ 64 then Some (word_of_nat n) else None)"
  using assms show_nat_digits [of n]
  by (simp_all add: from_str_to_u64_def display_from_str_def faithful_json_def u64_from_str_show)

lemma from_str_to_u64_show:
  "faithful_json lib \<Longrightarrow> from_str_to_u64 lib (from_u64_to_str v) = Some v"
  using read_number(1) [of lib "unat v"] unsigned_less [of v, where ?'a = nat] by (simp add: from_u64_to_str_def)

lemma read_list_map:
  "(\<And>x. x \<in> set xs \<Longrightarrow> read (write x) = Some x) \<Longrightarrow> read_list read (map write xs) = Some xs"
  by (induction xs) simp_all

lemma BlsPublicKey_codec:
  assumes "faithful_json lib"
  shows "BlsPublicKey_from_json lib (BlsPublicKey_to_json lib k) =
           (if valid_public_key (jl_blst lib) k then Some k else None)"
proof -
  have lib: "encodes_points (jl_blst lib)" and ok: "bl_key_validate (jl_blst lib) (be_bytes 48 k) \<noteq> Panic"
    and hex: "hx_decode (jl_hex lib) (hx_encode (jl_hex lib) bs) = Ok bs" for bs
    using assms by (simp_all add: faithful_json_def)
  note defs = BlsPublicKey_from_json_def BlsPublicKey_to_json_def impl_serde_serialize_def
    impl_serde_deserialize_def impl_display_def PublicKey_from_str_def impl_from_str_def deserialize_str_def
    result_ok_def hex
  show ?thesis
  proof (cases "valid_public_key (jl_blst lib) k")
    case True
    then obtain pk where "PublicKey_deserialize (jl_blst lib) (be_bytes 48 k) = Ok pk"
        "PublicKey_serialize (jl_blst lib) pk = be_bytes 48 k"
      using key_bytes_deserialize [OF lib] by metis
    with True show ?thesis by (simp add: defs from_be_slice_be_bytes)
  next
    case False
    then obtain e where "PublicKey_deserialize (jl_blst lib) (be_bytes 48 k) = Err e"
      using key_bytes_refused ok by metis
    with False show ?thesis by (simp add: defs)
  qed
qed

lemma BlsSignature_codec:
  assumes "faithful_json lib" and "flags_infinity (jl_blst lib) s"
  shows "BlsSignature_from_json lib (BlsSignature_to_json lib s) = Some s"
  using assms flagged_signature_deserialize [of "jl_blst lib" s]
  by (simp add: faithful_json_def BlsSignature_from_json_def BlsSignature_to_json_def impl_serde_serialize_def
      impl_serde_deserialize_def impl_display_def Signature_to_string_def Signature_from_str_def impl_from_str_def
      deserialize_str_def result_ok_def)

lemma faithful_jsonD:
  assumes "faithful_json lib"
  shows "from_json (jl_b256 lib) (to_json (jl_b256 lib) h) = Some h"
    "from_json (jl_address lib) (to_json (jl_address lib) a) = Some a"
    "from_json (jl_bloom lib) (to_json (jl_bloom lib) bl) = Some bl"
    "from_json (jl_bytes lib) (to_json (jl_bytes lib) bs) = Some bs"
    "from_json (jl_u256 lib) (to_json (jl_u256 lib) v) = Some v"
    "from_json (jl_u256 lib) (from_u256_to_str v) = Some v"
    "from_json display_from_str (to_json display_from_str n) = Some n"
  using assms display_from_str_lossless
  by (simp_all add: faithful_json_def lossless_def from_u256_to_str_def)

lemma only_entry_perm:
  assumes "mset fs = mset gs"
  shows "(case fs of [(_, j)] \<Rightarrow> f j | _ \<Rightarrow> None) = (case gs of [(_, j)] \<Rightarrow> f j | _ \<Rightarrow> None)"
    and "(case fs of [] \<Rightarrow> x | [(_, j)] \<Rightarrow> g j | _ \<Rightarrow> None) = (case gs of [] \<Rightarrow> x | [(_, j)] \<Rightarrow> g j | _ \<Rightarrow> None)"
proof -
  have "length fs = length gs" using assms by (metis size_mset)
  then show "(case fs of [(_, j)] \<Rightarrow> f j | _ \<Rightarrow> None) = (case gs of [(_, j)] \<Rightarrow> f j | _ \<Rightarrow> None)"
    and "(case fs of [] \<Rightarrow> x | [(_, j)] \<Rightarrow> g j | _ \<Rightarrow> None) = (case gs of [] \<Rightarrow> x | [(_, j)] \<Rightarrow> g j | _ \<Rightarrow> None)"
    using assms by (auto split: list.splits)
qed

text \<open>The order of the fields does not matter.\<close>

lemma field_perm:
  assumes "mset fs = mset gs"
  shows "field fs name read = field gs name read" and "option_field fs name read' = option_field gs name read'"
proof -
  have "mset (filter (\<lambda>(k, _). k = name) fs) = mset (filter (\<lambda>(k, _). k = name) gs)"
    using assms by (metis mset_filter)
  note perm = only_entry_perm [OF this]
  show "field fs name read = field gs name read" unfolding field_def by (rule perm(1))
  show "option_field fs name read' = option_field gs name read'" unfolding option_field_def by (rule perm(2))
qed

lemma struct_perm:
  assumes "mset fs = mset gs"
  shows "Bid_from_json lib (JObject fs) = Bid_from_json lib (JObject gs)"
    and "AlloyWithdrawal_from_json lib (JObject fs) = AlloyWithdrawal_from_json lib (JObject gs)"
    and "ExecutionPayload_from_json lib (JObject fs) = ExecutionPayload_from_json lib (JObject gs)"
    and "SignedBid_from_json lib (JObject fs) = SignedBid_from_json lib (JObject gs)"
    and "BidTrace_from_json lib (JObject fs) = BidTrace_from_json lib (JObject gs)"
  by (simp_all add: Bid_from_json_def AlloyWithdrawal_from_json_def ExecutionPayload_from_json_def SignedBid_from_json_def
      BidTrace_from_json_def struct_fields_def field_perm [OF assms])

text \<open>Looking a field up among given ones.\<close>

definition absent :: "string \<Rightarrow> (string \<times> json) list \<Rightarrow> bool" where
  "absent name fs = list_all (\<lambda>(k, _). k \<noteq> name) fs"

lemma absent_simps:
  "absent name []" "absent name ((k, v) # fs) \<longleftrightarrow> k \<noteq> name \<and> absent name fs"
  by (simp_all add: absent_def)

lemma absent_filter: "absent name fs \<Longrightarrow> filter (\<lambda>(k, _). k = name) fs = []"
  by (auto simp: absent_def list_all_iff filter_empty_conv)

lemma field_simps:
  "k \<noteq> name \<Longrightarrow> field ((k, v) # fs) name read = field fs name read"
  "absent name fs \<Longrightarrow> field ((name, v) # fs) name read = read v"
  by (simp_all add: field_def absent_filter)

lemma option_field_simps:
  "k \<noteq> name \<Longrightarrow> option_field ((k, v) # fs) name read' = option_field fs name read'"
  "absent name fs \<Longrightarrow>
   option_field ((name, v) # fs) name read' = (if v = JNull then Some None else map_option Some (read' v))"
  by (simp_all add: option_field_def absent_filter)

lemma bind_if_Some: "Option.bind (if c then Some x else None) f = (if c then f x else None)"
  by simp

lemmas json_read = Option.bind.bind_lunit bind_if_Some struct_fields_def field_simps option_field_simps absent_simps

lemma Bid_roundtrip:
  "faithful_json lib \<Longrightarrow> Bid_from_json lib (Bid_to_json lib b) = (if valid_keys lib b then Some b else None)"
  by (simp add: Bid_from_json_def Bid_to_json_def json_read from_str_to_u64_show faithful_jsonD BlsPublicKey_codec
      valid_keys_def)

lemma AlloyWithdrawal_roundtrip:
  "faithful_json lib \<Longrightarrow> AlloyWithdrawal_from_json lib (AlloyWithdrawal_to_json lib w) = Some w"
  by (simp add: AlloyWithdrawal_from_json_def AlloyWithdrawal_to_json_def json_read from_str_to_u64_show faithful_jsonD)

lemma ExecutionPayload_roundtrip:
  "faithful_json lib \<Longrightarrow> ExecutionPayload_from_json lib (ExecutionPayload_to_json lib p) = Some p"
  by (simp add: ExecutionPayload_from_json_def ExecutionPayload_to_json_def json_read from_str_to_u64_show
      faithful_jsonD vec_from_json_def read_list_map AlloyWithdrawal_roundtrip)

lemma BidTrace_roundtrip:
  "faithful_json lib \<Longrightarrow>
   BidTrace_from_json lib (BidTrace_to_json lib t) = (if valid_trace_keys lib t then Some t else None)"
  by (cases "bt_optimistic_submission t")
    (simp_all add: BidTrace_from_json_def BidTrace_to_json_def json_read faithful_jsonD bool_from_json_def
      BlsPublicKey_codec valid_trace_keys_def)

lemma SignedBid_roundtrip:
  "faithful_json lib \<Longrightarrow> readable_bid lib b \<Longrightarrow>
   SignedBid_from_json lib (SignedBid_to_json lib b) = (if valid_keys lib (sb_message b) then Some b else None)"
  by (simp add: SignedBid_from_json_def SignedBid_to_json_def json_read BlsSignature_codec
      Bid_roundtrip ExecutionPayload_roundtrip readable_bid_def)

text \<open>A document in which one field of the object has another value.\<close>

definition set_entry :: "string \<Rightarrow> json \<Rightarrow> (string \<times> json) list \<Rightarrow> (string \<times> json) list" where
  "set_entry name j fs = map (\<lambda>(k, v). (k, if k = name then j else v)) fs"

definition set_field :: "string \<Rightarrow> json \<Rightarrow> json \<Rightarrow> json" where
  "set_field name j doc = (case doc of JObject fs \<Rightarrow> JObject (set_entry name j fs) | _ \<Rightarrow> doc)"

lemma filter_set_entry:
  "filter (\<lambda>(k, _). k = nm) (set_entry name j fs) =
     (if nm = name then map (\<lambda>(k, _). (k, j)) (filter (\<lambda>(k, _). k = nm) fs) else filter (\<lambda>(k, _). k = nm) fs)"
  by (induction fs) (auto simp: set_entry_def)

lemma field_set_entry:
  "field (set_entry name j fs) name read = field fs name (\<lambda>_. read j)"
  "nm \<noteq> name \<Longrightarrow> field (set_entry name j fs) nm read = field fs nm read"
  "nm \<noteq> name \<Longrightarrow> option_field (set_entry name j fs) nm read' = option_field fs nm read'"
  by (simp_all add: field_def option_field_def filter_set_entry split: list.split)

text \<open>The 64-bit integers of the structs.\<close>

definition bid_numbers :: "(string \<times> (u64 \<Rightarrow> bid \<Rightarrow> bid)) list" where
  "bid_numbers =
     [(''slot'', \<lambda>n b. b\<lparr> bid_slot := n \<rparr>), (''gas_limit'', \<lambda>n b. b\<lparr> bid_gas_limit := n \<rparr>),
      (''gas_used'', \<lambda>n b. b\<lparr> bid_gas_used := n \<rparr>)]"

definition withdrawal_numbers :: "(string \<times> (u64 \<Rightarrow> alloy_withdrawal \<Rightarrow> alloy_withdrawal)) list" where
  "withdrawal_numbers =
     [(''index'', \<lambda>n w. w\<lparr> aw_index := n \<rparr>), (''validator_index'', \<lambda>n w. w\<lparr> aw_validator_index := n \<rparr>),
      (''amount'', \<lambda>n w. w\<lparr> aw_amount := n \<rparr>)]"

definition payload_numbers :: "(string \<times> (u64 \<Rightarrow> execution_payload \<Rightarrow> execution_payload)) list" where
  "payload_numbers =
     [(''block_number'', \<lambda>n p. p\<lparr> ep_block_number := n \<rparr>), (''gas_limit'', \<lambda>n p. p\<lparr> ep_gas_limit := n \<rparr>),
      (''gas_used'', \<lambda>n p. p\<lparr> ep_gas_used := n \<rparr>), (''timestamp'', \<lambda>n p. p\<lparr> ep_timestamp := n \<rparr>),
      (''blob_gas_used'', \<lambda>n p. p\<lparr> ep_blob_gas_used := n \<rparr>),
      (''excess_blob_gas'', \<lambda>n p. p\<lparr> ep_excess_blob_gas := n \<rparr>)]"

definition trace_numbers :: "(string \<times> (u64 \<Rightarrow> bid_trace \<Rightarrow> bid_trace)) list" where
  "trace_numbers =
     [(''slot'', \<lambda>n t. t\<lparr> bt_slot := n \<rparr>), (''gas_limit'', \<lambda>n t. t\<lparr> bt_gas_limit := n \<rparr>),
      (''gas_used'', \<lambda>n t. t\<lparr> bt_gas_used := n \<rparr>), (''num_tx'', \<lambda>n t. t\<lparr> bt_num_tx := n \<rparr>),
      (''block_number'', \<lambda>n t. t\<lparr> bt_block_number := n \<rparr>), (''timestamp'', \<lambda>n t. t\<lparr> bt_timestamp := n \<rparr>),
      (''timestamp_ms'', \<lambda>n t. t\<lparr> bt_timestamp_ms := n \<rparr>)]"

text \<open>
  Written in decimal at any of the positions, a number is read as itself when it has 64 bits, and
  makes the document unreadable when it has more.
\<close>

definition reads_numbers ::
  "(json \<Rightarrow> 'a option) \<Rightarrow> ('a \<Rightarrow> json) \<Rightarrow> (string \<times> (u64 \<Rightarrow> 'a \<Rightarrow> 'a)) list \<Rightarrow> 'a \<Rightarrow> bool"
where
  "reads_numbers read write positions x \<longleftrightarrow>
     (\<forall>(name, set_number) \<in> set positions. \<forall>n.
        read (set_field name (JString (show_nat n)) (write x)) =
          (if n < 2 ^ 64 then map_option (set_number (word_of_nat n)) (read (write x)) else None))"

lemmas set_read = set_field_def field_set_entry json_read from_str_to_u64_show faithful_jsonD

lemma Bid_numbers:
  "faithful_json lib \<Longrightarrow> reads_numbers (Bid_from_json lib) (Bid_to_json lib) bid_numbers b"
  by (simp add: reads_numbers_def bid_numbers_def Bid_roundtrip)
     (simp add: Bid_from_json_def Bid_to_json_def set_read read_number BlsPublicKey_codec valid_keys_def)

lemma AlloyWithdrawal_numbers:
  "faithful_json lib \<Longrightarrow>
   reads_numbers (AlloyWithdrawal_from_json lib) (AlloyWithdrawal_to_json lib) withdrawal_numbers w"
  by (simp add: reads_numbers_def withdrawal_numbers_def AlloyWithdrawal_roundtrip)
     (simp add: AlloyWithdrawal_from_json_def AlloyWithdrawal_to_json_def set_read read_number)

text \<open>The entries of the larger structs, looked up once.\<close>

definition entries :: "json \<Rightarrow> (string \<times> json) list" where
  "entries doc = (case doc of JObject fs \<Rightarrow> fs | _ \<Rightarrow> [])"

lemma ExecutionPayload_entries:
  fixes lib :: "('pk, 'sk, 'sig, 'be) json_library" and p :: execution_payload
  defines "doc \<equiv> ExecutionPayload_to_json lib p"
  shows "struct_fields names (set_field name j doc) = Some (set_entry name j (entries doc))"
    "field (entries doc) ''parent_hash'' read = read (to_json (jl_b256 lib) (ep_parent_hash p))"
    "field (entries doc) ''fee_recipient'' read1 = read1 (to_json (jl_address lib) (ep_fee_recipient p))"
    "field (entries doc) ''state_root'' read = read (to_json (jl_b256 lib) (ep_state_root p))"
    "field (entries doc) ''receipts_root'' read = read (to_json (jl_b256 lib) (ep_receipts_root p))"
    "field (entries doc) ''logs_bloom'' read2 = read2 (to_json (jl_bloom lib) (ep_logs_bloom p))"
    "field (entries doc) ''prev_randao'' read = read (to_json (jl_b256 lib) (ep_prev_randao p))"
    "field (entries doc) ''block_number'' read3 = read3 (from_u64_to_str (ep_block_number p))"
    "field (entries doc) ''gas_limit'' read3 = read3 (from_u64_to_str (ep_gas_limit p))"
    "field (entries doc) ''gas_used'' read3 = read3 (from_u64_to_str (ep_gas_used p))"
    "field (entries doc) ''timestamp'' read3 = read3 (from_u64_to_str (ep_timestamp p))"
    "field (entries doc) ''extra_data'' read4 = read4 (to_json (jl_bytes lib) (ep_extra_data p))"
    "field (entries doc) ''base_fee_per_gas'' read5 = read5 (from_u256_to_str (ep_base_fee_per_gas p))"
    "field (entries doc) ''block_hash'' read = read (to_json (jl_b256 lib) (ep_block_hash p))"
    "field (entries doc) ''transactions'' read6 = read6 (JArray (map (to_json (jl_bytes lib)) (ep_transactions p)))"
    "field (entries doc) ''withdrawals'' read7 = read7 (JArray (map (AlloyWithdrawal_to_json lib) (ep_withdrawals p)))"
    "field (entries doc) ''blob_gas_used'' read3 = read3 (from_u64_to_str (ep_blob_gas_used p))"
    "field (entries doc) ''excess_blob_gas'' read3 = read3 (from_u64_to_str (ep_excess_blob_gas p))"
  by (simp_all add: doc_def ExecutionPayload_to_json_def entries_def struct_fields_def set_field_def field_simps
      absent_simps)

lemma ExecutionPayload_numbers:
  "faithful_json lib \<Longrightarrow>
   reads_numbers (ExecutionPayload_from_json lib) (ExecutionPayload_to_json lib) payload_numbers p"
  by (simp add: reads_numbers_def payload_numbers_def ExecutionPayload_roundtrip)
     (simp add: ExecutionPayload_from_json_def ExecutionPayload_entries field_set_entry read_number
      from_str_to_u64_show faithful_jsonD vec_from_json_def read_list_map AlloyWithdrawal_roundtrip)

lemma BidTrace_entries:
  fixes lib :: "('pk, 'sk, 'sig, 'be) json_library" and t :: bid_trace
  defines "doc \<equiv> BidTrace_to_json lib t"
  shows "struct_fields names (set_field name j doc) = Some (set_entry name j (entries doc))"
    "field (entries doc) ''slot'' read = read (to_json display_from_str (bt_slot t))"
    "field (entries doc) ''parent_hash'' read1 = read1 (to_json (jl_b256 lib) (bt_parent_hash t))"
    "field (entries doc) ''block_hash'' read1 = read1 (to_json (jl_b256 lib) (bt_block_hash t))"
    "field (entries doc) ''builder_pubkey'' read2 = read2 (BlsPublicKey_to_json lib (bt_builder_pubkey t))"
    "field (entries doc) ''proposer_pubkey'' read2 = read2 (BlsPublicKey_to_json lib (bt_proposer_pubkey t))"
    "field (entries doc) ''proposer_fee_recipient'' read3 =
       read3 (to_json (jl_address lib) (bt_proposer_fee_recipient t))"
    "field (entries doc) ''gas_limit'' read = read (to_json display_from_str (bt_gas_limit t))"
    "field (entries doc) ''gas_used'' read = read (to_json display_from_str (bt_gas_used t))"
    "field (entries doc) ''value'' read4 = read4 (to_json (jl_u256 lib) (bt_value t))"
    "field (entries doc) ''num_tx'' read = read (to_json display_from_str (bt_num_tx t))"
    "field (entries doc) ''block_number'' read = read (to_json display_from_str (bt_block_number t))"
    "field (entries doc) ''timestamp'' read = read (to_json display_from_str (bt_timestamp t))"
    "field (entries doc) ''timestamp_ms'' read = read (to_json display_from_str (bt_timestamp_ms t))"
    "option_field (entries doc) ''optimistic_submission'' bool_from_json = Some (bt_optimistic_submission t)"
  by (simp_all add: doc_def BidTrace_to_json_def entries_def struct_fields_def set_field_def field_simps
      option_field_simps absent_simps bool_from_json_def split: option.split)

lemma BidTrace_numbers:
  "faithful_json lib \<Longrightarrow> reads_numbers (BidTrace_from_json lib) (BidTrace_to_json lib) trace_numbers t"
  by (simp add: reads_numbers_def trace_numbers_def BidTrace_roundtrip)
     (simp add: BidTrace_from_json_def BidTrace_entries field_set_entry bind_if_Some read_number faithful_jsonD
      BlsPublicKey_codec valid_trace_keys_def)

text \<open>A struct within a struct is read wherever it stands as it is read alone.\<close>

lemma SignedBid_parts_read:
  assumes "faithful_json lib" "readable_bid lib b"
  shows "SignedBid_from_json lib (set_field ''execution_payload'' j (SignedBid_to_json lib b)) =
           (if valid_keys lib (sb_message b)
            then map_option (\<lambda>p. b\<lparr> sb_execution_payload := p \<rparr>) (ExecutionPayload_from_json lib j) else None)"
    and "SignedBid_from_json lib (set_field ''message'' j (SignedBid_to_json lib b)) =
           map_option (\<lambda>m. b\<lparr> sb_message := m \<rparr>) (Bid_from_json lib j)"
  using assms
  by (cases "ExecutionPayload_from_json lib j"; cases "Bid_from_json lib j";
      simp add: SignedBid_from_json_def SignedBid_to_json_def set_read BlsSignature_codec
        Bid_roundtrip ExecutionPayload_roundtrip readable_bid_def)+

lemma ExecutionPayload_withdrawals_read:
  assumes "faithful_json lib"
  shows "ExecutionPayload_from_json lib (set_field ''withdrawals'' j (ExecutionPayload_to_json lib p)) =
           map_option (\<lambda>ws. p\<lparr> ep_withdrawals := ws \<rparr>) (vec_from_json (AlloyWithdrawal_from_json lib) j)"
  using assms
  by (cases "vec_from_json (AlloyWithdrawal_from_json lib) j";
      simp add: ExecutionPayload_from_json_def ExecutionPayload_entries field_set_entry from_str_to_u64_show
        faithful_jsonD vec_from_json_def [of "from_json _"] read_list_map)

section \<open>Properties\<close>


text \<open>A library that writes words and byte strings in hexadecimal.\<close>

definition hex_codec :: "(bytes \<Rightarrow> 'a option) \<Rightarrow> ('a \<Rightarrow> bytes) \<Rightarrow> 'a codec" where
  "hex_codec read write =
     \<lparr> to_json = (\<lambda>x. JString (hx_encode sample_hex (write x))),
       from_json = (\<lambda>j. Option.bind (result_ok (deserialize_str j)) (\<lambda>s.
         Option.bind (result_ok (hx_decode sample_hex s)) read)) \<rparr>"

definition word_codec :: "nat \<Rightarrow> 'a::len word codec" where
  "word_codec n = hex_codec (\<lambda>bs. if length bs = n then Some (from_be_slice bs) else None) (be_bytes n)"

definition bytes_codec :: "bytes codec" where
  "bytes_codec = hex_codec Some (\<lambda>bs. bs)"

definition decimal_codec :: "u256 codec" where
  "decimal_codec = \<lparr> to_json = from_u256_to_str,
     from_json = (\<lambda>j. case j of JString s \<Rightarrow> map_option word_of_nat (nat_from_str (2 ^ 256) s) | _ \<Rightarrow> None) \<rparr>"

definition blobs_codec :: "blobs_bundle codec" where
  "blobs_codec =
     (let write = (\<lambda>xs. JArray (map (to_json bytes_codec) xs)); read = vec_from_json (from_json bytes_codec)
      in \<lparr> to_json = (\<lambda>b. JObject [(''commitments'', write (bb_commitments b)), (''proofs'', write (bb_proofs b)),
                         (''blobs'', write (bb_blobs b))]),
           from_json = (\<lambda>j.
             Option.bind (struct_fields [''commitments'', ''proofs'', ''blobs''] j) (\<lambda>fs.
             Option.bind (field fs ''commitments'' read) (\<lambda>c.
             Option.bind (field fs ''proofs'' read) (\<lambda>p.
             Option.bind (field fs ''blobs'' read) (\<lambda>b.
               Some \<lparr> bb_commitments = c, bb_proofs = p, bb_blobs = b \<rparr>))))) \<rparr>)"

definition sample_json :: "(384 word, unit, unit, unit) json_library" where
  "sample_json =
     \<lparr> lends = (\<lambda>s. CHR 92 \<notin> set s), jl_b256 = word_codec 32, jl_address = word_codec 20,
       jl_bloom = word_codec 256, jl_bytes = bytes_codec, jl_u256 = decimal_codec, jl_blobs = blobs_codec,
       jl_hex = sample_hex, jl_blst = sample_blst \<rparr>"

lemma hex_codec_lossless: "(\<And>x. read (write x) = Some x) \<Longrightarrow> lossless (hex_codec read write)"
  by (simp add: lossless_def hex_codec_def deserialize_str_def result_ok_def sample_hex_decodes)

lemma word_codec_lossless: "8 * n = LENGTH('a::len) \<Longrightarrow> lossless (word_codec n :: 'a word codec)"
  unfolding word_codec_def by (rule hex_codec_lossless) (simp add: be_codec)

lemma bytes_codec_lossless: "lossless bytes_codec"
  unfolding bytes_codec_def by (rule hex_codec_lossless) simp

lemma decimal_codec_reads: "from_json decimal_codec (JString (show_nat (unat v))) = Some v"
  using unsigned_less [of v, where ?'a = nat] by (simp add: decimal_codec_def)

lemma blobs_codec_lossless: "lossless blobs_codec"
  using bytes_codec_lossless
  by (simp add: lossless_def blobs_codec_def Let_def json_read vec_from_json_def read_list_map)

lemma sample_json_faithful: "faithful_json sample_json"
proof -
  have "lends sample_json s" if "list_all (\<lambda>c. digit_value c \<noteq> None) s" for s
    using that by (auto simp: sample_json_def list_all_iff digit_value_def)
  moreover have "lossless decimal_codec"
    using decimal_codec_reads by (simp add: lossless_def decimal_codec_def from_u256_to_str_def)
  moreover have "bl_key_validate sample_blst bs \<noteq> Panic" for bs by (simp add: sample_blst_def)
  ultimately show ?thesis
    by (simp add: faithful_json_def sample_json_def word_codec_lossless bytes_codec_lossless
        decimal_codec_reads sample_hex_decodes sample_blst_encodes)
qed

lemma sample_bid_readable: "sb_signature b = Signature_from_point () False \<Longrightarrow> readable_bid sample_json b"
  using blobs_codec_lossless sample_signature_flags
  by (simp add: readable_bid_def sample_json_def lossless_def)

lemma sample_bid_keys:
  "valid_keys sample_json (sb_message (sample_signed_bid flag))"
  "\<not> valid_keys sample_json (m\<lparr> bid_proposer_pubkey := from_be_slice INFINITY_PUBLIC_KEY \<rparr>)"
  using sample_keys_valid(1) sample_keys_valid(2) [of sample_blst] from_be_slice_be_bytes [of 48 "1 :: bls_public_key"]
  by (simp_all add: valid_keys_def sample_json_def sample_signed_bid_def signed_bid_of_def SignedBid_new_def
      Bid_new_def sample_build_def sample_validator_def BlsSigner_public_key_def SecretKey_public_key_def
      PublicKey_serialize_def sample_blst_def Let_def)


end
