(* ===== verification/Proto_Wire.thy ===== *)
theory Proto_Wire
  imports Builder_Prelude
begin

text \<open>
  The wire format of protocol buffers, as the \<open>prost\<close> attributes of
  \<open>crates/grpc/src/gen/mevrelay.rs\<close> select it: variable-length integers, keys and the list of fields
  of a message, with their round trip.
\<close>

section \<open>Variable-length integers\<close>

fun varint :: "nat \<Rightarrow> bytes" where
  "varint n = (if n < 128 then [word_of_nat n] else word_of_nat (n mod 128 + 128) # varint (n div 128))"

declare varint.simps [simp del]

text \<open>The group of seven bits at position \<open>k\<close>; the tenth byte holds only the last bit of 64.\<close>

fun read_varint :: "nat \<Rightarrow> nat \<Rightarrow> bytes \<Rightarrow> (nat \<times> bytes) option" where
  "read_varint k acc [] = None"
| "read_varint k acc (b # bs) =
     (if k = 9 \<and> 2 \<le> b then None
      else if b < 128 then Some (acc + unat b * 2 ^ (7 * k), bs)
      else read_varint (Suc k) (acc + (unat b - 128) * 2 ^ (7 * k)) bs)"

lemma read_varint_shorter: "read_varint k acc bs = Some (n, rest) \<Longrightarrow> length rest < length bs"
  by (induction k acc bs rule: read_varint.induct) (auto split: if_splits)

lemma read_varint_append:
  "n < 2 ^ (64 - 7 * k) \<Longrightarrow> k \<le> 9 \<Longrightarrow> read_varint k acc (varint n @ rest) = Some (acc + n * 2 ^ (7 * k), rest)"
proof (induction n arbitrary: k acc rule: varint.induct)
  case (1 n)
  have nine: "n < 2" if "k = 9" using 1(2) that by simp
  show ?case
  proof (cases "n < 128")
    case True
    then have "unat (word_of_nat n :: u8) = n" by (simp add: unat_of_nat)
    moreover have "(word_of_nat n :: u8) < 128" using True by (simp add: word_less_nat_alt unat_of_nat)
    moreover have "\<not> (2 :: u8) \<le> word_of_nat n" if "k = 9"
      using nine [OF that] by (simp add: word_le_nat_alt unat_of_nat)
    ultimately show ?thesis using True by (simp add: varint.simps [of n])
  next
    case False
    then have k: "k \<noteq> 9" using nine by auto
    have "n mod 128 + 128 < 2 ^ LENGTH(8)" by simp
    then have b: "unat (word_of_nat (n mod 128 + 128) :: u8) = n mod 128 + 128"
      by (simp only: unat_of_nat mod_less)
    then have nb: "\<not> (word_of_nat (n mod 128 + 128) :: u8) < 128"
      by (simp add: word_less_nat_alt del: of_nat_add)
    have "64 - 7 * k = (64 - 7 * Suc k) + 7" using k 1(3) by simp
    then have "(2 :: nat) ^ (64 - 7 * k) = 2 ^ (64 - 7 * Suc k) * 2 ^ 7" by (metis power_add)
    with 1(2) have "n < 2 ^ (64 - 7 * Suc k) * 128" by simp
    then have less: "n div 128 < 2 ^ (64 - 7 * Suc k)" by (simp add: less_mult_imp_div_less)
    have "acc + (n mod 128) * p + (n div 128) * (p * 128) = acc + (n div 128 * 128 + n mod 128) * p" for p
      by (simp only: add_mult_distrib add_mult_distrib2 mult_ac add_ac)
    then have sum: "acc + (n mod 128) * p + (n div 128) * (p * 128) = acc + n * p" for p
      by (simp only: div_mult_mod_eq)
    have "(2 :: nat) ^ (7 * Suc k) = 2 ^ (7 * k) * 128" by (simp add: power_add)
    then have "acc + (n mod 128) * 2 ^ (7 * k) + (n div 128) * 2 ^ (7 * Suc k) = acc + n * 2 ^ (7 * k)"
      by (simp only: sum)
    with 1(1) [OF False less, of "acc + (n mod 128) * 2 ^ (7 * k)"] k 1(3) False show ?thesis
      by (simp add: varint.simps [of n] b nb del: of_nat_add)
  qed
qed

lemma read_varint_varint: "n < 2 ^ 64 \<Longrightarrow> read_varint 0 0 (varint n @ rest) = Some (n, rest)"
  using read_varint_append [of n 0 0 rest] by simp

lemma varint_nonempty [simp]: "varint n \<noteq> []"
  by (simp add: varint.simps [of n])

section \<open>Fields\<close>

datatype wire = WVarint u64 | WFixed64 bytes | WDelimited bytes | WGroup | WFixed32 bytes

record wire_library =
  wl_utf8 :: "bytes \<Rightarrow> bool"
  wl_skip_group :: "nat \<Rightarrow> bytes \<Rightarrow> bytes option"

text \<open>A key: the field number, at least one, and three bits for the form of what follows.\<close>

definition field_key :: "nat \<Rightarrow> nat \<Rightarrow> bytes" where
  "field_key tag wire_type = varint (tag * 8 + wire_type)"

definition read_key :: "bytes \<Rightarrow> ((nat \<times> nat) \<times> bytes) option" where
  "read_key bs =
     (case read_varint 0 0 bs of
        None \<Rightarrow> None
      | Some (k, rest) \<Rightarrow>
          if 2 ^ 32 \<le> k \<or> k div 8 = 0 then None else Some ((k div 8, k mod 8), rest))"

definition take_exactly :: "nat \<Rightarrow> bytes \<Rightarrow> (bytes \<times> bytes) option" where
  "take_exactly n bs = (if length bs < n then None else Some (take n bs, drop n bs))"

definition read_body :: "wire_library \<Rightarrow> nat \<Rightarrow> nat \<Rightarrow> bytes \<Rightarrow> (wire \<times> bytes) option" where
  "read_body lib tag wire_type bs =
     (if wire_type = 0 then map_option (\<lambda>(n, rest). (WVarint (word_of_nat n), rest)) (read_varint 0 0 bs)
      else if wire_type = 1 then map_option (\<lambda>(xs, rest). (WFixed64 xs, rest)) (take_exactly 8 bs)
      else if wire_type = 2 then
        Option.bind (read_varint 0 0 bs) (\<lambda>(n, rest).
          map_option (\<lambda>(xs, rest'). (WDelimited xs, rest')) (take_exactly n rest))
      else if wire_type = 3 then map_option (\<lambda>rest. (WGroup, rest)) (wl_skip_group lib tag bs)
      else if wire_type = 5 then map_option (\<lambda>(xs, rest). (WFixed32 xs, rest)) (take_exactly 4 bs)
      else None)"

text \<open>One field; what is left is shorter.\<close>

definition read_field :: "wire_library \<Rightarrow> bytes \<Rightarrow> ((nat \<times> wire) \<times> bytes) option" where
  "read_field lib bs =
     (case read_key bs of
        None \<Rightarrow> None
      | Some ((tag, wire_type), rest) \<Rightarrow>
          (case read_body lib tag wire_type rest of
             None \<Rightarrow> None
           | Some (w, rest') \<Rightarrow> if length rest' < length bs then Some ((tag, w), rest') else None))"

function read_fields :: "wire_library \<Rightarrow> bytes \<Rightarrow> (nat \<times> wire) list option" where
  "read_fields lib bs =
     (if bs = [] then Some []
      else case read_field lib bs of
             None \<Rightarrow> None
           | Some (f, rest) \<Rightarrow> map_option (Cons f) (read_fields lib rest))"
  by pat_completeness auto
termination
  by (relation "measure (\<lambda>(lib, bs). length bs)") (auto simp: read_field_def split: option.splits if_splits)

declare read_fields.simps [simp del]

text \<open>The two forms that the messages here write.\<close>

fun field_bytes :: "nat \<times> wire \<Rightarrow> bytes" where
  "field_bytes (tag, WVarint n) = field_key tag 0 @ varint (unat n)"
| "field_bytes (tag, WDelimited xs) = field_key tag 2 @ varint (length xs) @ xs"
| "field_bytes (tag, _) = []"

definition fields_bytes :: "(nat \<times> wire) list \<Rightarrow> bytes" where
  "fields_bytes fs = concat (map field_bytes fs)"

definition uint64_field :: "nat \<Rightarrow> u64 \<Rightarrow> (nat \<times> wire) list" where
  "uint64_field tag v = (if v = 0 then [] else [(tag, WVarint v)])"

definition bytes_field :: "nat \<Rightarrow> bytes \<Rightarrow> (nat \<times> wire) list" where
  "bytes_field tag xs = (if xs = [] then [] else [(tag, WDelimited xs)])"

definition repeated_field :: "nat \<Rightarrow> bytes list \<Rightarrow> (nat \<times> wire) list" where
  "repeated_field tag xss = map (\<lambda>xs. (tag, WDelimited xs)) xss"

definition message_field :: "nat \<Rightarrow> bytes option \<Rightarrow> (nat \<times> wire) list" where
  "message_field tag m = (case m of None \<Rightarrow> [] | Some xs \<Rightarrow> [(tag, WDelimited xs)])"

text \<open>What a field of each type accepts.\<close>

definition as_uint64 :: "wire \<Rightarrow> u64 option" where
  "as_uint64 w = (case w of WVarint n \<Rightarrow> Some n | _ \<Rightarrow> None)"

definition as_bytes :: "wire \<Rightarrow> bytes option" where
  "as_bytes w = (case w of WDelimited xs \<Rightarrow> Some xs | _ \<Rightarrow> None)"

definition string_bytes :: "string \<Rightarrow> bytes" where
  "string_bytes s = map (\<lambda>c. word_of_nat (of_char c)) s"

definition as_string :: "wire_library \<Rightarrow> wire \<Rightarrow> string option" where
  "as_string lib w =
     (case w of
        WDelimited xs \<Rightarrow> if wl_utf8 lib xs then Some (map (\<lambda>b. char_of (unat b)) xs) else None
      | _ \<Rightarrow> None)"

fun merge_fields :: "(nat \<times> wire \<Rightarrow> 'm \<Rightarrow> 'm option) \<Rightarrow> (nat \<times> wire) list \<Rightarrow> 'm \<Rightarrow> 'm option" where
  "merge_fields merge [] m = Some m"
| "merge_fields merge (f # fs) m =
     (case merge f m of None \<Rightarrow> None | Some m' \<Rightarrow> merge_fields merge fs m')"

definition merge_bytes :: "wire_library \<Rightarrow> (nat \<times> wire \<Rightarrow> 'm \<Rightarrow> 'm option) \<Rightarrow> bytes \<Rightarrow> 'm \<Rightarrow> 'm option" where
  "merge_bytes lib merge bs m =
     (case read_fields lib bs of None \<Rightarrow> None | Some fs \<Rightarrow> merge_fields merge fs m)"

section \<open>Round trip\<close>

definition writable :: "nat \<times> wire \<Rightarrow> bool" where
  "writable f \<longleftrightarrow> 0 < fst f \<and> fst f < 2 ^ 29 \<and>
     (case snd f of WVarint _ \<Rightarrow> True | WDelimited xs \<Rightarrow> length xs < 2 ^ 64 | _ \<Rightarrow> False)"

lemma read_field_key:
  assumes "0 < tag" "tag < 2 ^ 29" "wt < 8"
  shows "read_key (field_key tag wt @ rest) = Some ((tag, wt), rest)"
proof -
  have "tag * 8 + wt < 2 ^ 32" using assms by simp
  then have "read_varint 0 0 (varint (tag * 8 + wt) @ rest) = Some (tag * 8 + wt, rest)"
    by (intro read_varint_varint) simp
  moreover have "(tag * 8 + wt) div 8 = tag" "(tag * 8 + wt) mod 8 = wt" using assms by simp_all
  ultimately show ?thesis using assms \<open>tag * 8 + wt < 2 ^ 32\<close> by (simp add: read_key_def field_key_def)
qed

lemma read_field_bytes:
  assumes "writable f"
  shows "read_field lib (field_bytes f @ rest) = Some (f, rest)"
proof -
  obtain tag w where f: "f = (tag, w)" by (cases f)
  have tag: "0 < tag" "tag < 2 ^ 29" using assms by (simp_all add: writable_def f)
  show ?thesis
  proof (cases w)
    case (WVarint n)
    have "read_varint 0 0 (varint (unat n) @ rest) = Some (unat n, rest)"
      using unsigned_less [of n, where ?'a = nat] by (intro read_varint_varint) simp
    then show ?thesis using read_field_key [OF tag, of 0 "varint (unat n) @ rest"]
      by (simp add: f WVarint read_field_def read_body_def)
  next
    case (WDelimited xs)
    then have "length xs < 2 ^ 64" using assms by (simp add: writable_def f)
    then have "read_varint 0 0 (varint (length xs) @ xs @ rest) = Some (length xs, xs @ rest)"
      by (rule read_varint_varint)
    then show ?thesis using read_field_key [OF tag, of 2 "varint (length xs) @ xs @ rest"]
      by (simp add: f WDelimited read_field_def read_body_def take_exactly_def)
  qed (use assms in \<open>simp_all add: writable_def f\<close>)
qed

lemma field_bytes_nonempty: "writable f \<Longrightarrow> field_bytes f \<noteq> []"
  by (cases f; cases "snd f") (auto simp: writable_def field_key_def)

lemma read_fields_bytes:
  "list_all writable fs \<Longrightarrow> read_fields lib (fields_bytes fs) = Some fs"
proof (induction fs)
  case Nil
  then show ?case by (simp add: fields_bytes_def read_fields.simps)
next
  case (Cons f fs)
  then show ?case using read_field_bytes [of f lib "fields_bytes fs"] field_bytes_nonempty [of f]
    by (simp add: fields_bytes_def read_fields.simps [of lib "field_bytes f @ _"])
qed

lemma merge_fields_append:
  "merge_fields merge (fs @ gs) m = Option.bind (merge_fields merge fs m) (merge_fields merge gs)"
  by (induction fs arbitrary: m) (auto split: option.split)

lemma string_of_bytes: "map (\<lambda>b. char_of (unat b)) (string_bytes s) = s"
proof (induction s)
  case (Cons c s)
  have "(of_char c :: nat) < 2 ^ LENGTH(8)" using nat_of_char_less_256 [of c] by simp
  then have "unat (word_of_nat (of_char c) :: u8) = of_char c" by (simp only: unat_of_nat mod_less)
  with Cons show ?case by (simp add: string_bytes_def)
qed (simp add: string_bytes_def)

text \<open>A message that was written is read back when the merge of its fields gives it.\<close>

definition plain :: "nat \<times> wire \<Rightarrow> bool" where
  "plain f \<longleftrightarrow> 0 < fst f \<and> fst f < 2 ^ 29 \<and>
     (case snd f of WVarint _ \<Rightarrow> True | WDelimited _ \<Rightarrow> True | _ \<Rightarrow> False)"

lemma fields_bytes_append [simp]: "fields_bytes (fs @ gs) = fields_bytes fs @ fields_bytes gs"
  by (simp add: fields_bytes_def)

lemma length_delimited: "(tag, WDelimited xs) \<in> set fs \<Longrightarrow> length xs \<le> length (fields_bytes fs)"
  by (induction fs) (auto simp: fields_bytes_def)

lemma writable_plain:
  assumes "list_all plain fs" "length (fields_bytes fs) < 2 ^ 64"
  shows "list_all writable fs"
proof -
  have "writable (tag, w)" if "(tag, w) \<in> set fs" for tag w
  proof -
    have "plain (tag, w)" using assms(1) that by (simp add: list_all_iff)
    then show ?thesis
      using that assms(2) length_delimited [of tag _ fs]
      by (cases w) (fastforce simp: plain_def writable_def)+
  qed
  then show ?thesis by (auto simp: list_all_iff)
qed

lemma plain_fields [simp]:
  "0 < tag \<Longrightarrow> tag < 2 ^ 29 \<Longrightarrow> list_all plain (uint64_field tag v)"
  "0 < tag \<Longrightarrow> tag < 2 ^ 29 \<Longrightarrow> list_all plain (bytes_field tag xs)"
  "0 < tag \<Longrightarrow> tag < 2 ^ 29 \<Longrightarrow> list_all plain (repeated_field tag xss)"
  "0 < tag \<Longrightarrow> tag < 2 ^ 29 \<Longrightarrow> list_all plain (message_field tag m)"
  by (auto simp: uint64_field_def bytes_field_def repeated_field_def message_field_def plain_def
      list_all_iff split: option.split)

lemma merge_written:
  assumes "list_all plain fs" "length (fields_bytes fs) < 2 ^ 64"
  shows "merge_bytes lib merge (fields_bytes fs) m = merge_fields merge fs m"
  using read_fields_bytes [OF writable_plain [OF assms], of lib] by (simp add: merge_bytes_def)

text \<open>The merge of one written field; a field left out stands for the default value.\<close>

lemma merge_written_field:
  "merge_fields merge (uint64_field tag v @ fs) m =
     Option.bind (if v = 0 then Some m else merge (tag, WVarint v) m) (merge_fields merge fs)"
  "merge_fields merge (bytes_field tag xs @ fs) m =
     Option.bind (if xs = [] then Some m else merge (tag, WDelimited xs) m) (merge_fields merge fs)"
  by (auto simp: uint64_field_def bytes_field_def split: option.split)

lemma default_or_same:
  "(if v = 0 then 0 else v) = (v :: u64)" "(if xs = [] then [] else xs) = (xs :: 'a list)"
  by simp_all

lemma repeated_step:
  assumes "\<And>x m. x \<in> set xs \<Longrightarrow> merge (tag, WDelimited (enc x)) m = Some (add x m)"
  shows "merge_fields merge (repeated_field tag (map enc xs) @ fs) m = merge_fields merge fs (fold add xs m)"
  using assms by (induction xs arbitrary: m) (simp_all add: repeated_field_def)

lemma merge_message_field:
  "merge_fields merge (message_field tag v @ fs) m =
     Option.bind (case v of None \<Rightarrow> Some m | Some xs \<Rightarrow> merge (tag, WDelimited xs) m) (merge_fields merge fs)"
  by (auto simp: message_field_def split: option.split)

lemma merge_unknown:
  assumes "\<And>f m. f \<in> set fs \<Longrightarrow> merge f m = Some m"
  shows "merge_fields merge fs m = Some m"
  using assms by (induction fs) simp_all

text \<open>How much the framing of a field adds.\<close>

lemma length_varint_le: "length (varint n) \<le> Suc n"
proof (induction n rule: varint.induct)
  case (1 n)
  then show ?case by (cases "n < 128") (auto simp: varint.simps [of n])
qed

lemma length_varint: "n < 128 ^ Suc k \<Longrightarrow> length (varint n) \<le> Suc k"
proof (induction k arbitrary: n)
  case 0
  then show ?case by (simp add: varint.simps)
next
  case (Suc k)
  then have "n div 128 < 128 ^ Suc k" by (simp add: less_mult_imp_div_less mult.commute)
  from Suc.IH [OF this] show ?case by (simp add: varint.simps [of n])
qed

lemma length_field_key: "tag < 2 ^ 29 \<Longrightarrow> wt < 8 \<Longrightarrow> length (field_key tag wt) \<le> 5"
  unfolding field_key_def by (rule order_trans [OF length_varint [where k = 4]]) simp_all

lemma length_uint64_field:
  assumes "tag < 2 ^ 29"
  shows "length (fields_bytes (uint64_field tag v)) \<le> 15"
proof -
  have "unat v < 128 ^ Suc 9" using unsigned_less [of v, where ?'a = nat] by simp
  from length_varint [OF this] length_field_key [OF assms, of 0] show ?thesis
    by (simp add: uint64_field_def fields_bytes_def)
qed

lemma length_bytes_field:
  "tag < 2 ^ 29 \<Longrightarrow> length (fields_bytes (bytes_field tag xs)) \<le> 6 + 2 * length xs"
  using length_field_key [of tag 2] length_varint_le [of "length xs"]
  by (simp add: bytes_field_def fields_bytes_def)

lemma length_message_field:
  "tag < 2 ^ 29 \<Longrightarrow> length (fields_bytes (message_field tag (Some xs))) \<le> 6 + 2 * length xs"
  using length_field_key [of tag 2] length_varint_le [of "length xs"]
  by (simp add: message_field_def fields_bytes_def)

lemma length_repeated_field:
  assumes "tag < 2 ^ 29"
  shows "length (fields_bytes (repeated_field tag xss)) \<le> sum_list (map (\<lambda>xs. 6 + 2 * length xs) xss)"
proof (induction xss)
  case (Cons xs xss)
  then show ?case using length_field_key [OF assms, of 2] length_varint_le [of "length xs"]
    by (simp add: repeated_field_def fields_bytes_def)
qed (simp add: repeated_field_def fields_bytes_def)

lemmas field_lengths = length_uint64_field length_bytes_field length_message_field length_repeated_field

end
