(* ===== verification/Grpc_Messages.thy ===== *)
theory Grpc_Messages
  imports Bids Proto_Wire
begin

text \<open>
  The messages of the gRPC relay, \<open>crates/grpc/src/gen/mevrelay.rs\<close>, with their bytes on the wire,
  and the conversion of a signed bid into a request, \<open>crates/grpc/src/gen/mod.rs\<close>.

  The attributes of a message's fields (\<open>prost(uint64, tag = "1")\<close> and so on) choose its protocol
  buffer encoding.  A message is written as the list of its fields, each with its number; a
  number that is zero and a byte string that is empty are left out, and a repeated field is
  written once per element.  It is read field by field: an unknown number is skipped, a later
  occurrence of a field replaces the earlier one, adds to it (repeated fields) or is merged into
  it (messages).  A \<open>String\<close> is its UTF-8 bytes; the test for UTF-8 and the skipping of a group
  (a deprecated form that no message here has) are the library's.  The writing and merging of fields
  follows the protocol buffer encoding, which is what the library is documented to implement; the
  source chooses the numbers, the types and the optional and repeated fields.
\<close>

section \<open>Messages\<close>

record grpc_bid_trace =
  gt_slot :: u64
  gt_parent_hash :: bytes
  gt_block_hash :: bytes
  gt_builder_pubkey :: bytes
  gt_proposer_pubkey :: bytes
  gt_proposer_fee_recipient :: bytes
  gt_gas_limit :: u64
  gt_gas_used :: u64
  gt_value :: string

record grpc_withdrawal =
  gw_index :: u64
  gw_validator_index :: u64
  gw_address :: bytes
  gw_amount :: u64

record grpc_blobs_bundle =
  gb_commitments :: "bytes list"
  gb_proofs :: "bytes list"
  gb_blobs :: "bytes list"

record compress_tx =
  ct_raw_data :: bytes

record grpc_execution_payload =
  gp_parent_hash :: bytes
  gp_state_root :: bytes
  gp_receipts_root :: bytes
  gp_logs_bloom :: bytes
  gp_prev_randao :: bytes
  gp_extra_data :: bytes
  gp_base_fee_per_gas :: bytes
  gp_fee_recipient :: bytes
  gp_block_hash :: bytes
  gp_transactions :: "compress_tx list"
  gp_withdrawals :: "grpc_withdrawal list"
  gp_block_number :: u64
  gp_gas_limit :: u64
  gp_timestamp :: u64
  gp_gas_used :: u64
  gp_blob_gas_used :: u64
  gp_excess_blob_gas :: u64

record submit_block_request =
  sr_bid_trace :: "grpc_bid_trace option"
  sr_execution_payload :: "grpc_execution_payload option"
  sr_signature :: bytes
  sr_blobs_bundle :: "grpc_blobs_bundle option"

text \<open>The code is signed; it is only compared with 200.\<close>

record submit_block_response =
  sp_code :: u64
  sp_message :: string

section \<open>From a signed bid\<close>

definition grpc_trace_of :: "(u256 \<Rightarrow> string) \<Rightarrow> bid \<Rightarrow> grpc_bid_trace" where
  "grpc_trace_of to_str m =
     \<lparr> gt_slot = bid_slot m,
       gt_parent_hash = be_bytes 32 (bid_parent_hash m),
       gt_block_hash = be_bytes 32 (bid_block_hash m),
       gt_builder_pubkey = be_bytes 48 (bid_builder_pubkey m),
       gt_proposer_pubkey = be_bytes 48 (bid_proposer_pubkey m),
       gt_proposer_fee_recipient = be_bytes 20 (bid_proposer_fee_recipient m),
       gt_gas_limit = bid_gas_limit m,
       gt_gas_used = bid_gas_used m,
       gt_value = to_str (bid_value m) \<rparr>"

definition grpc_withdrawal_of :: "alloy_withdrawal \<Rightarrow> grpc_withdrawal" where
  "grpc_withdrawal_of w =
     \<lparr> gw_index = aw_index w, gw_validator_index = aw_validator_index w,
       gw_address = be_bytes 20 (aw_address w), gw_amount = aw_amount w \<rparr>"

definition grpc_payload_of :: "execution_payload \<Rightarrow> grpc_execution_payload" where
  "grpc_payload_of ep =
     \<lparr> gp_parent_hash = be_bytes 32 (ep_parent_hash ep),
       gp_state_root = be_bytes 32 (ep_state_root ep),
       gp_receipts_root = be_bytes 32 (ep_receipts_root ep),
       gp_logs_bloom = be_bytes 256 (ep_logs_bloom ep),
       gp_prev_randao = be_bytes 32 (ep_prev_randao ep),
       gp_extra_data = ep_extra_data ep,
       gp_base_fee_per_gas = be_bytes 32 (ep_base_fee_per_gas ep),
       gp_fee_recipient = be_bytes 20 (ep_fee_recipient ep),
       gp_block_hash = be_bytes 32 (ep_block_hash ep),
       gp_transactions = map (\<lambda>t. \<lparr> ct_raw_data = t \<rparr>) (ep_transactions ep),
       gp_withdrawals = map grpc_withdrawal_of (ep_withdrawals ep),
       gp_block_number = ep_block_number ep,
       gp_gas_limit = ep_gas_limit ep,
       gp_timestamp = ep_timestamp ep,
       gp_gas_used = ep_gas_used ep,
       gp_blob_gas_used = ep_blob_gas_used ep,
       gp_excess_blob_gas = ep_excess_blob_gas ep \<rparr>"

definition grpc_blobs_of :: "blobs_bundle \<Rightarrow> grpc_blobs_bundle" where
  "grpc_blobs_of bundle =
     \<lparr> gb_commitments = bb_commitments bundle, gb_proofs = bb_proofs bundle, gb_blobs = bb_blobs bundle \<rparr>"

definition SubmitBlockRequest_from ::
  "('pk, 'sk, 'sig, 'be) blst_library \<Rightarrow> (u256 \<Rightarrow> string) \<Rightarrow> 'sig signed_bid \<Rightarrow> submit_block_request"
where
  "SubmitBlockRequest_from lib to_str b =
     \<lparr> sr_bid_trace = Some (grpc_trace_of to_str (sb_message b)),
       sr_execution_payload = Some (grpc_payload_of (sb_execution_payload b)),
       sr_signature = Signature_serialize lib (sb_signature b),
       sr_blobs_bundle = Some (grpc_blobs_of (sb_blobs_bundle b)) \<rparr>"

lemma grpc_trace_of_inj:
  assumes "inj to_str" and "grpc_trace_of to_str a = grpc_trace_of to_str b"
  shows "a = b"
  using assms
  by (cases a; cases b) (simp add: grpc_trace_of_def be_bytes_injs inj_eq)

lemma grpc_withdrawal_of_inj: "inj grpc_withdrawal_of"
proof (rule injI)
  fix a b assume "grpc_withdrawal_of a = grpc_withdrawal_of b"
  then show "a = b"
    by (cases a; cases b) (simp add: grpc_withdrawal_of_def be_bytes_injs)
qed

lemma compress_tx_inj: "inj (\<lambda>t. \<lparr> ct_raw_data = t \<rparr>)"
  by (simp add: inj_def)

lemma grpc_payload_of_inj:
  assumes "grpc_payload_of a = grpc_payload_of b"
  shows "a = b"
  using assms inj_map_eq_map [OF grpc_withdrawal_of_inj] inj_map_eq_map [OF compress_tx_inj]
  by (cases a; cases b) (simp add: grpc_payload_of_def be_bytes_injs)

lemma grpc_blobs_of_inj: "grpc_blobs_of a = grpc_blobs_of b \<Longrightarrow> a = b"
  by (cases a; cases b) (simp add: grpc_blobs_of_def)

text \<open>
  The request loses nothing of a signed bid: two bids that are turned into the same request have
  the same message, the same execution payload with all transactions and withdrawals, the same
  blobs bundle and signatures with the same encoding.
\<close>

lemma grpc_request_lossless:
  assumes "inj to_str" and "SubmitBlockRequest_from lib to_str a = SubmitBlockRequest_from lib to_str b"
  shows "sb_message a = sb_message b \<and> sb_execution_payload a = sb_execution_payload b \<and>
         sb_blobs_bundle a = sb_blobs_bundle b \<and>
         Signature_serialize lib (sb_signature a) = Signature_serialize lib (sb_signature b)"
  using assms(2) grpc_trace_of_inj [OF assms(1), of "sb_message a" "sb_message b"]
    grpc_payload_of_inj [of "sb_execution_payload a" "sb_execution_payload b"]
    grpc_blobs_of_inj [of "sb_blobs_bundle a" "sb_blobs_bundle b"]
  by (simp add: SubmitBlockRequest_from_def)

section \<open>Fields of the messages\<close>

definition BidTrace_default :: grpc_bid_trace where
  "BidTrace_default =
     \<lparr> gt_slot = 0, gt_parent_hash = [], gt_block_hash = [], gt_builder_pubkey = [],
       gt_proposer_pubkey = [], gt_proposer_fee_recipient = [], gt_gas_limit = 0, gt_gas_used = 0,
       gt_value = [] \<rparr>"

definition BidTrace_fields :: "grpc_bid_trace \<Rightarrow> (nat \<times> wire) list" where
  "BidTrace_fields m =
     uint64_field 1 (gt_slot m) @ bytes_field 2 (gt_parent_hash m) @
     bytes_field 3 (gt_block_hash m) @ bytes_field 4 (gt_builder_pubkey m) @
     bytes_field 5 (gt_proposer_pubkey m) @ bytes_field 6 (gt_proposer_fee_recipient m) @
     uint64_field 7 (gt_gas_limit m) @ uint64_field 8 (gt_gas_used m) @
     bytes_field 9 (string_bytes (gt_value m))"

fun merge_BidTrace :: "wire_library \<Rightarrow> nat \<times> wire \<Rightarrow> grpc_bid_trace \<Rightarrow> grpc_bid_trace option" where
  "merge_BidTrace lib (tag, w) m =
     (if tag = 1 then map_option (\<lambda>v. m\<lparr> gt_slot := v \<rparr>) (as_uint64 w)
      else if tag = 2 then map_option (\<lambda>v. m\<lparr> gt_parent_hash := v \<rparr>) (as_bytes w)
      else if tag = 3 then map_option (\<lambda>v. m\<lparr> gt_block_hash := v \<rparr>) (as_bytes w)
      else if tag = 4 then map_option (\<lambda>v. m\<lparr> gt_builder_pubkey := v \<rparr>) (as_bytes w)
      else if tag = 5 then map_option (\<lambda>v. m\<lparr> gt_proposer_pubkey := v \<rparr>) (as_bytes w)
      else if tag = 6 then map_option (\<lambda>v. m\<lparr> gt_proposer_fee_recipient := v \<rparr>) (as_bytes w)
      else if tag = 7 then map_option (\<lambda>v. m\<lparr> gt_gas_limit := v \<rparr>) (as_uint64 w)
      else if tag = 8 then map_option (\<lambda>v. m\<lparr> gt_gas_used := v \<rparr>) (as_uint64 w)
      else if tag = 9 then map_option (\<lambda>v. m\<lparr> gt_value := v \<rparr>) (as_string lib w)
      else Some m)"

definition Withdrawal_default :: grpc_withdrawal where
  "Withdrawal_default =
     \<lparr> gw_index = 0, gw_validator_index = 0, gw_address = [], gw_amount = 0 \<rparr>"

definition Withdrawal_fields :: "grpc_withdrawal \<Rightarrow> (nat \<times> wire) list" where
  "Withdrawal_fields m =
     uint64_field 1 (gw_index m) @ uint64_field 2 (gw_validator_index m) @
     bytes_field 3 (gw_address m) @ uint64_field 4 (gw_amount m)"

fun merge_Withdrawal :: "wire_library \<Rightarrow> nat \<times> wire \<Rightarrow> grpc_withdrawal \<Rightarrow> grpc_withdrawal option" where
  "merge_Withdrawal lib (tag, w) m =
     (if tag = 1 then map_option (\<lambda>v. m\<lparr> gw_index := v \<rparr>) (as_uint64 w)
      else if tag = 2 then map_option (\<lambda>v. m\<lparr> gw_validator_index := v \<rparr>) (as_uint64 w)
      else if tag = 3 then map_option (\<lambda>v. m\<lparr> gw_address := v \<rparr>) (as_bytes w)
      else if tag = 4 then map_option (\<lambda>v. m\<lparr> gw_amount := v \<rparr>) (as_uint64 w)
      else Some m)"

definition BlobsBundle_default :: grpc_blobs_bundle where
  "BlobsBundle_default =
     \<lparr> gb_commitments = [], gb_proofs = [], gb_blobs = [] \<rparr>"

definition BlobsBundle_fields :: "grpc_blobs_bundle \<Rightarrow> (nat \<times> wire) list" where
  "BlobsBundle_fields m =
     repeated_field 1 (gb_commitments m) @ repeated_field 2 (gb_proofs m) @
     repeated_field 3 (gb_blobs m)"

fun merge_BlobsBundle :: "wire_library \<Rightarrow> nat \<times> wire \<Rightarrow> grpc_blobs_bundle \<Rightarrow> grpc_blobs_bundle option" where
  "merge_BlobsBundle lib (tag, w) m =
     (if tag = 1 then map_option (\<lambda>v. m\<lparr> gb_commitments := gb_commitments m @ [v] \<rparr>) (as_bytes w)
      else if tag = 2 then map_option (\<lambda>v. m\<lparr> gb_proofs := gb_proofs m @ [v] \<rparr>) (as_bytes w)
      else if tag = 3 then map_option (\<lambda>v. m\<lparr> gb_blobs := gb_blobs m @ [v] \<rparr>) (as_bytes w)
      else Some m)"

definition CompressTx_default :: compress_tx where
  "CompressTx_default =
     \<lparr> ct_raw_data = [] \<rparr>"

definition CompressTx_fields :: "compress_tx \<Rightarrow> (nat \<times> wire) list" where
  "CompressTx_fields m =
     bytes_field 1 (ct_raw_data m)"

fun merge_CompressTx :: "wire_library \<Rightarrow> nat \<times> wire \<Rightarrow> compress_tx \<Rightarrow> compress_tx option" where
  "merge_CompressTx lib (tag, w) m =
     (if tag = 1 then map_option (\<lambda>v. m\<lparr> ct_raw_data := v \<rparr>) (as_bytes w)
      else Some m)"

definition ExecutionPayload_default :: grpc_execution_payload where
  "ExecutionPayload_default =
     \<lparr> gp_parent_hash = [], gp_state_root = [], gp_receipts_root = [], gp_logs_bloom = [],
       gp_prev_randao = [], gp_extra_data = [], gp_base_fee_per_gas = [], gp_fee_recipient = [],
       gp_block_hash = [], gp_transactions = [], gp_withdrawals = [], gp_block_number = 0,
       gp_gas_limit = 0, gp_timestamp = 0, gp_gas_used = 0, gp_blob_gas_used = 0,
       gp_excess_blob_gas = 0 \<rparr>"

definition ExecutionPayload_fields :: "grpc_execution_payload \<Rightarrow> (nat \<times> wire) list" where
  "ExecutionPayload_fields m =
     bytes_field 1 (gp_parent_hash m) @ bytes_field 2 (gp_state_root m) @
     bytes_field 3 (gp_receipts_root m) @ bytes_field 4 (gp_logs_bloom m) @
     bytes_field 5 (gp_prev_randao m) @ bytes_field 6 (gp_extra_data m) @
     bytes_field 7 (gp_base_fee_per_gas m) @ bytes_field 8 (gp_fee_recipient m) @
     bytes_field 9 (gp_block_hash m) @
     repeated_field 10 (map (\<lambda>x. fields_bytes (CompressTx_fields x)) (gp_transactions m)) @
     repeated_field 11 (map (\<lambda>x. fields_bytes (Withdrawal_fields x)) (gp_withdrawals m)) @
     uint64_field 12 (gp_block_number m) @ uint64_field 13 (gp_gas_limit m) @
     uint64_field 14 (gp_timestamp m) @ uint64_field 15 (gp_gas_used m) @
     uint64_field 16 (gp_blob_gas_used m) @ uint64_field 17 (gp_excess_blob_gas m)"

fun merge_ExecutionPayload :: "wire_library \<Rightarrow> nat \<times> wire \<Rightarrow> grpc_execution_payload \<Rightarrow> grpc_execution_payload option" where
  "merge_ExecutionPayload lib (tag, w) m =
     (if tag = 1 then map_option (\<lambda>v. m\<lparr> gp_parent_hash := v \<rparr>) (as_bytes w)
      else if tag = 2 then map_option (\<lambda>v. m\<lparr> gp_state_root := v \<rparr>) (as_bytes w)
      else if tag = 3 then map_option (\<lambda>v. m\<lparr> gp_receipts_root := v \<rparr>) (as_bytes w)
      else if tag = 4 then map_option (\<lambda>v. m\<lparr> gp_logs_bloom := v \<rparr>) (as_bytes w)
      else if tag = 5 then map_option (\<lambda>v. m\<lparr> gp_prev_randao := v \<rparr>) (as_bytes w)
      else if tag = 6 then map_option (\<lambda>v. m\<lparr> gp_extra_data := v \<rparr>) (as_bytes w)
      else if tag = 7 then map_option (\<lambda>v. m\<lparr> gp_base_fee_per_gas := v \<rparr>) (as_bytes w)
      else if tag = 8 then map_option (\<lambda>v. m\<lparr> gp_fee_recipient := v \<rparr>) (as_bytes w)
      else if tag = 9 then map_option (\<lambda>v. m\<lparr> gp_block_hash := v \<rparr>) (as_bytes w)
      else if tag = 10 then map_option (\<lambda>v. m\<lparr> gp_transactions := gp_transactions m @ [v] \<rparr>)
        (Option.bind (as_bytes w) (\<lambda>bs. merge_bytes lib (merge_CompressTx lib) bs CompressTx_default))
      else if tag = 11 then map_option (\<lambda>v. m\<lparr> gp_withdrawals := gp_withdrawals m @ [v] \<rparr>)
        (Option.bind (as_bytes w) (\<lambda>bs. merge_bytes lib (merge_Withdrawal lib) bs Withdrawal_default))
      else if tag = 12 then map_option (\<lambda>v. m\<lparr> gp_block_number := v \<rparr>) (as_uint64 w)
      else if tag = 13 then map_option (\<lambda>v. m\<lparr> gp_gas_limit := v \<rparr>) (as_uint64 w)
      else if tag = 14 then map_option (\<lambda>v. m\<lparr> gp_timestamp := v \<rparr>) (as_uint64 w)
      else if tag = 15 then map_option (\<lambda>v. m\<lparr> gp_gas_used := v \<rparr>) (as_uint64 w)
      else if tag = 16 then map_option (\<lambda>v. m\<lparr> gp_blob_gas_used := v \<rparr>) (as_uint64 w)
      else if tag = 17 then map_option (\<lambda>v. m\<lparr> gp_excess_blob_gas := v \<rparr>) (as_uint64 w)
      else Some m)"

definition SubmitBlockRequest_default :: submit_block_request where
  "SubmitBlockRequest_default =
     \<lparr> sr_bid_trace = None, sr_execution_payload = None, sr_signature = [], sr_blobs_bundle = None \<rparr>"

definition SubmitBlockRequest_fields :: "submit_block_request \<Rightarrow> (nat \<times> wire) list" where
  "SubmitBlockRequest_fields m =
     message_field 1 (map_option (\<lambda>x. fields_bytes (BidTrace_fields x)) (sr_bid_trace m)) @
     message_field 2 (map_option (\<lambda>x. fields_bytes (ExecutionPayload_fields x)) (sr_execution_payload m)) @
     bytes_field 3 (sr_signature m) @
     message_field 4 (map_option (\<lambda>x. fields_bytes (BlobsBundle_fields x)) (sr_blobs_bundle m))"

fun merge_SubmitBlockRequest :: "wire_library \<Rightarrow> nat \<times> wire \<Rightarrow> submit_block_request \<Rightarrow> submit_block_request option" where
  "merge_SubmitBlockRequest lib (tag, w) m =
     (if tag = 1 then map_option (\<lambda>v. m\<lparr> sr_bid_trace := Some v \<rparr>)
        (Option.bind (as_bytes w) (\<lambda>bs.
           merge_bytes lib (merge_BidTrace lib) bs (unwrap_or (sr_bid_trace m) BidTrace_default)))
      else if tag = 2 then map_option (\<lambda>v. m\<lparr> sr_execution_payload := Some v \<rparr>)
        (Option.bind (as_bytes w) (\<lambda>bs.
           merge_bytes lib (merge_ExecutionPayload lib) bs (unwrap_or (sr_execution_payload m) ExecutionPayload_default)))
      else if tag = 3 then map_option (\<lambda>v. m\<lparr> sr_signature := v \<rparr>) (as_bytes w)
      else if tag = 4 then map_option (\<lambda>v. m\<lparr> sr_blobs_bundle := Some v \<rparr>)
        (Option.bind (as_bytes w) (\<lambda>bs.
           merge_bytes lib (merge_BlobsBundle lib) bs (unwrap_or (sr_blobs_bundle m) BlobsBundle_default)))
      else Some m)"

definition SubmitBlockResponse_default :: submit_block_response where
  "SubmitBlockResponse_default =
     \<lparr> sp_code = 0, sp_message = [] \<rparr>"

definition SubmitBlockResponse_fields :: "submit_block_response \<Rightarrow> (nat \<times> wire) list" where
  "SubmitBlockResponse_fields m =
     uint64_field 1 (sp_code m) @ bytes_field 2 (string_bytes (sp_message m))"

fun merge_SubmitBlockResponse :: "wire_library \<Rightarrow> nat \<times> wire \<Rightarrow> submit_block_response \<Rightarrow> submit_block_response option" where
  "merge_SubmitBlockResponse lib (tag, w) m =
     (if tag = 1 then map_option (\<lambda>v. m\<lparr> sp_code := v \<rparr>) (as_uint64 w)
      else if tag = 2 then map_option (\<lambda>v. m\<lparr> sp_message := v \<rparr>) (as_string lib w)
      else Some m)"

text \<open>A whole message is read into the default one.\<close>

definition SubmitBlockRequest_encode :: "submit_block_request \<Rightarrow> bytes" where
  "SubmitBlockRequest_encode m = fields_bytes (SubmitBlockRequest_fields m)"

definition SubmitBlockRequest_decode :: "wire_library \<Rightarrow> bytes \<Rightarrow> submit_block_request option" where
  "SubmitBlockRequest_decode lib bs = merge_bytes lib (merge_SubmitBlockRequest lib) bs SubmitBlockRequest_default"

definition SubmitBlockResponse_encode :: "submit_block_response \<Rightarrow> bytes" where
  "SubmitBlockResponse_encode m = fields_bytes (SubmitBlockResponse_fields m)"

definition SubmitBlockResponse_decode :: "wire_library \<Rightarrow> bytes \<Rightarrow> submit_block_response option" where
  "SubmitBlockResponse_decode lib bs = merge_bytes lib (merge_SubmitBlockResponse lib) bs SubmitBlockResponse_default"

section \<open>Round trip\<close>

lemmas merge_defs = as_uint64_def as_bytes_def as_string_def

declare merge_BidTrace.simps [simp del] merge_Withdrawal.simps [simp del] merge_BlobsBundle.simps [simp del]
  merge_CompressTx.simps [simp del] merge_ExecutionPayload.simps [simp del]
  merge_SubmitBlockRequest.simps [simp del] merge_SubmitBlockResponse.simps [simp del]

lemma fold_appends:
  "fold (\<lambda>x m. m\<lparr> gb_commitments := gb_commitments m @ [x] \<rparr>) xs b = b\<lparr> gb_commitments := gb_commitments b @ xs \<rparr>"
  "fold (\<lambda>x m. m\<lparr> gb_proofs := gb_proofs m @ [x] \<rparr>) xs b = b\<lparr> gb_proofs := gb_proofs b @ xs \<rparr>"
  "fold (\<lambda>x m. m\<lparr> gb_blobs := gb_blobs m @ [x] \<rparr>) xs b = b\<lparr> gb_blobs := gb_blobs b @ xs \<rparr>"
  "fold (\<lambda>x m. m\<lparr> gp_transactions := gp_transactions m @ [x] \<rparr>) ts p = p\<lparr> gp_transactions := gp_transactions p @ ts \<rparr>"
  "fold (\<lambda>x m. m\<lparr> gp_withdrawals := gp_withdrawals m @ [x] \<rparr>) ws p = p\<lparr> gp_withdrawals := gp_withdrawals p @ ws \<rparr>"
  by (induction xs arbitrary: b, simp_all) (induction ts arbitrary: p, simp_all, induction ws arbitrary: p, simp_all)

text \<open>A choice between two messages is made field by field.\<close>

lemma if_BidTrace:
  "(if c then
     Some \<lparr> gt_slot = a1, gt_parent_hash = a2, gt_block_hash = a3, gt_builder_pubkey
       = a4, gt_proposer_pubkey = a5, gt_proposer_fee_recipient = a6, gt_gas_limit = a7,
       gt_gas_used = a8, gt_value = a9 \<rparr>
   else
     Some \<lparr> gt_slot = b1, gt_parent_hash = b2, gt_block_hash = b3, gt_builder_pubkey
       = b4, gt_proposer_pubkey = b5, gt_proposer_fee_recipient = b6, gt_gas_limit = b7,
       gt_gas_used = b8, gt_value = b9 \<rparr>) =
     Some \<lparr> gt_slot = (if c then a1 else b1), gt_parent_hash = (if c then a2 else
       b2), gt_block_hash = (if c then a3 else b3), gt_builder_pubkey = (if c then a4 else
       b4), gt_proposer_pubkey = (if c then a5 else b5), gt_proposer_fee_recipient = (if c
       then a6 else b6), gt_gas_limit = (if c then a7 else b7), gt_gas_used = (if c then a8
       else b8), gt_value = (if c then a9 else b9) \<rparr>"
  by simp

lemma if_Withdrawal:
  "(if c then
     Some \<lparr> gw_index = a1, gw_validator_index = a2, gw_address = a3, gw_amount = a4
       \<rparr>
   else
     Some \<lparr> gw_index = b1, gw_validator_index = b2, gw_address = b3, gw_amount = b4
       \<rparr>) =
     Some \<lparr> gw_index = (if c then a1 else b1), gw_validator_index = (if c then a2
       else b2), gw_address = (if c then a3 else b3), gw_amount = (if c then a4 else b4)
       \<rparr>"
  by simp

lemma if_CompressTx:
  "(if c then
     Some \<lparr> ct_raw_data = a1 \<rparr>
   else
     Some \<lparr> ct_raw_data = b1 \<rparr>) =
     Some \<lparr> ct_raw_data = (if c then a1 else b1) \<rparr>"
  by simp

lemma if_ExecutionPayload:
  "(if c then
     Some \<lparr> gp_parent_hash = a1, gp_state_root = a2, gp_receipts_root = a3,
       gp_logs_bloom = a4, gp_prev_randao = a5, gp_extra_data = a6, gp_base_fee_per_gas =
       a7, gp_fee_recipient = a8, gp_block_hash = a9, gp_transactions = a10, gp_withdrawals
       = a11, gp_block_number = a12, gp_gas_limit = a13, gp_timestamp = a14, gp_gas_used =
       a15, gp_blob_gas_used = a16, gp_excess_blob_gas = a17 \<rparr>
   else
     Some \<lparr> gp_parent_hash = b1, gp_state_root = b2, gp_receipts_root = b3,
       gp_logs_bloom = b4, gp_prev_randao = b5, gp_extra_data = b6, gp_base_fee_per_gas =
       b7, gp_fee_recipient = b8, gp_block_hash = b9, gp_transactions = b10, gp_withdrawals
       = b11, gp_block_number = b12, gp_gas_limit = b13, gp_timestamp = b14, gp_gas_used =
       b15, gp_blob_gas_used = b16, gp_excess_blob_gas = b17 \<rparr>) =
     Some \<lparr> gp_parent_hash = (if c then a1 else b1), gp_state_root = (if c then a2
       else b2), gp_receipts_root = (if c then a3 else b3), gp_logs_bloom = (if c then a4
       else b4), gp_prev_randao = (if c then a5 else b5), gp_extra_data = (if c then a6 else
       b6), gp_base_fee_per_gas = (if c then a7 else b7), gp_fee_recipient = (if c then a8
       else b8), gp_block_hash = (if c then a9 else b9), gp_transactions = (if c then a10
       else b10), gp_withdrawals = (if c then a11 else b11), gp_block_number = (if c then
       a12 else b12), gp_gas_limit = (if c then a13 else b13), gp_timestamp = (if c then a14
       else b14), gp_gas_used = (if c then a15 else b15), gp_blob_gas_used = (if c then a16
       else b16), gp_excess_blob_gas = (if c then a17 else b17) \<rparr>"
  by simp

lemma if_SubmitBlockResponse:
  "(if c then
     Some \<lparr> sp_code = a1, sp_message = a2 \<rparr>
   else
     Some \<lparr> sp_code = b1, sp_message = b2 \<rparr>) =
     Some \<lparr> sp_code = (if c then a1 else b1), sp_message = (if c then a2 else b2)
       \<rparr>"
  by simp

lemmas merge_written_simps = merge_written_field default_or_same merge_defs if_cancel Option.bind.bind_lunit

lemma string_bytes_empty [simp]: "string_bytes s = [] \<longleftrightarrow> s = []"
  by (simp add: string_bytes_def)

lemma merge_BidTrace_fields:
  "wl_utf8 lib (string_bytes (gt_value t)) \<Longrightarrow>
   merge_fields (merge_BidTrace lib) (BidTrace_fields t @ fs) BidTrace_default =
     merge_fields (merge_BidTrace lib) fs t"
  by (cases t) (simp add: BidTrace_fields_def BidTrace_default_def merge_BidTrace.simps
      merge_written_simps if_BidTrace string_of_bytes cong: if_cong)

lemma merge_Withdrawal_fields:
  "merge_fields (merge_Withdrawal lib) (Withdrawal_fields w @ fs) Withdrawal_default =
     merge_fields (merge_Withdrawal lib) fs w"
  by (cases w) (simp add: Withdrawal_fields_def Withdrawal_default_def merge_Withdrawal.simps
      merge_written_simps if_Withdrawal cong: if_cong)

lemma merge_CompressTx_fields:
  "merge_fields (merge_CompressTx lib) (CompressTx_fields t @ fs) CompressTx_default =
     merge_fields (merge_CompressTx lib) fs t"
  by (cases t) (simp add: CompressTx_fields_def CompressTx_default_def merge_CompressTx.simps
      merge_written_simps if_CompressTx cong: if_cong)

lemma merge_SubmitBlockResponse_fields:
  "wl_utf8 lib (string_bytes (sp_message r)) \<Longrightarrow>
   merge_fields (merge_SubmitBlockResponse lib) (SubmitBlockResponse_fields r @ fs) SubmitBlockResponse_default =
     merge_fields (merge_SubmitBlockResponse lib) fs r"
  by (cases r) (simp add: SubmitBlockResponse_fields_def SubmitBlockResponse_default_def
      merge_SubmitBlockResponse.simps merge_written_simps if_SubmitBlockResponse string_of_bytes
      cong: if_cong)

lemmas repeated_plain = repeated_step [where enc = "\<lambda>x. x", unfolded map_ident]

lemma merge_BlobsBundle_fields:
  "merge_fields (merge_BlobsBundle lib) (BlobsBundle_fields b @ fs) BlobsBundle_default =
     merge_fields (merge_BlobsBundle lib) fs b"
proof -
  have 1: "merge_fields (merge_BlobsBundle lib) (repeated_field 1 xs @ fs) m =
      merge_fields (merge_BlobsBundle lib) fs (m\<lparr> gb_commitments := gb_commitments m @ xs \<rparr>)" for xs fs m
    using repeated_plain [of xs "merge_BlobsBundle lib" 1 "\<lambda>x m. m\<lparr> gb_commitments := gb_commitments m @ [x] \<rparr>"]
    by (simp add: merge_BlobsBundle.simps merge_defs fold_appends)
  have 2: "merge_fields (merge_BlobsBundle lib) (repeated_field 2 xs @ fs) m =
      merge_fields (merge_BlobsBundle lib) fs (m\<lparr> gb_proofs := gb_proofs m @ xs \<rparr>)" for xs fs m
    using repeated_plain [of xs "merge_BlobsBundle lib" 2 "\<lambda>x m. m\<lparr> gb_proofs := gb_proofs m @ [x] \<rparr>"]
    by (simp add: merge_BlobsBundle.simps merge_defs fold_appends)
  have 3: "merge_fields (merge_BlobsBundle lib) (repeated_field 3 xs @ fs) m =
      merge_fields (merge_BlobsBundle lib) fs (m\<lparr> gb_blobs := gb_blobs m @ xs \<rparr>)" for xs fs m
    using repeated_plain [of xs "merge_BlobsBundle lib" 3 "\<lambda>x m. m\<lparr> gb_blobs := gb_blobs m @ [x] \<rparr>"]
    by (simp add: merge_BlobsBundle.simps merge_defs fold_appends)
  show ?thesis
    by (cases b) (simp add: BlobsBundle_fields_def BlobsBundle_default_def 1 [simplified] 2 3)
qed

text \<open>The numbers of the fields are in range, so each message is read as its list of fields.\<close>

lemma plain_messages [simp]:
  "list_all plain (BidTrace_fields t)" "list_all plain (Withdrawal_fields w)"
  "list_all plain (BlobsBundle_fields b)" "list_all plain (CompressTx_fields c)"
  "list_all plain (ExecutionPayload_fields p)" "list_all plain (SubmitBlockRequest_fields r)"
  "list_all plain (SubmitBlockResponse_fields a)"
  by (simp_all add: BidTrace_fields_def Withdrawal_fields_def BlobsBundle_fields_def
      CompressTx_fields_def ExecutionPayload_fields_def SubmitBlockRequest_fields_def
      SubmitBlockResponse_fields_def)

lemma read_nested:
  "length (fields_bytes (CompressTx_fields c)) < 2 ^ 64 \<Longrightarrow>
     merge_bytes lib (merge_CompressTx lib) (fields_bytes (CompressTx_fields c)) CompressTx_default = Some c"
  "length (fields_bytes (Withdrawal_fields w)) < 2 ^ 64 \<Longrightarrow>
     merge_bytes lib (merge_Withdrawal lib) (fields_bytes (Withdrawal_fields w)) Withdrawal_default = Some w"
  "length (fields_bytes (BlobsBundle_fields b)) < 2 ^ 64 \<Longrightarrow>
     merge_bytes lib (merge_BlobsBundle lib) (fields_bytes (BlobsBundle_fields b)) BlobsBundle_default = Some b"
  "length (fields_bytes (BidTrace_fields t)) < 2 ^ 64 \<Longrightarrow> wl_utf8 lib (string_bytes (gt_value t)) \<Longrightarrow>
     merge_bytes lib (merge_BidTrace lib) (fields_bytes (BidTrace_fields t)) BidTrace_default = Some t"
  using merge_CompressTx_fields [of lib c "[]"] merge_Withdrawal_fields [of lib w "[]"]
    merge_BlobsBundle_fields [of lib b "[]"] merge_BidTrace_fields [of lib t "[]"]
  by (simp_all add: merge_written)

lemma nested_lengths:
  "c \<in> set (gp_transactions p) \<Longrightarrow>
     length (fields_bytes (CompressTx_fields c)) \<le> length (fields_bytes (ExecutionPayload_fields p))"
  "w \<in> set (gp_withdrawals p) \<Longrightarrow>
     length (fields_bytes (Withdrawal_fields w)) \<le> length (fields_bytes (ExecutionPayload_fields p))"
  "sr_bid_trace r = Some t \<Longrightarrow>
     length (fields_bytes (BidTrace_fields t)) \<le> length (fields_bytes (SubmitBlockRequest_fields r))"
  "sr_execution_payload r = Some q \<Longrightarrow>
     length (fields_bytes (ExecutionPayload_fields q)) \<le> length (fields_bytes (SubmitBlockRequest_fields r))"
  "sr_blobs_bundle r = Some b \<Longrightarrow>
     length (fields_bytes (BlobsBundle_fields b)) \<le> length (fields_bytes (SubmitBlockRequest_fields r))"
  by (rule length_delimited [where tag = 10], force simp: ExecutionPayload_fields_def repeated_field_def)
    (rule length_delimited [where tag = 11], force simp: ExecutionPayload_fields_def repeated_field_def,
     rule length_delimited [where tag = 1], force simp: SubmitBlockRequest_fields_def message_field_def,
     rule length_delimited [where tag = 2], force simp: SubmitBlockRequest_fields_def message_field_def,
     rule length_delimited [where tag = 4], force simp: SubmitBlockRequest_fields_def message_field_def)

lemma merge_ExecutionPayload_fields:
  assumes "length (fields_bytes (ExecutionPayload_fields p)) < 2 ^ 64"
  shows "merge_fields (merge_ExecutionPayload lib) (ExecutionPayload_fields p @ fs) ExecutionPayload_default =
         merge_fields (merge_ExecutionPayload lib) fs p"
proof -
  have txs: "merge_fields (merge_ExecutionPayload lib)
        (repeated_field 10 (map (\<lambda>x. fields_bytes (CompressTx_fields x)) (gp_transactions p)) @ gs) m =
      merge_fields (merge_ExecutionPayload lib) gs (m\<lparr> gp_transactions := gp_transactions m @ gp_transactions p \<rparr>)"
    for gs m
    using repeated_step [of "gp_transactions p" "merge_ExecutionPayload lib" 10 "\<lambda>x. fields_bytes (CompressTx_fields x)"
        "\<lambda>x m. m\<lparr> gp_transactions := gp_transactions m @ [x] \<rparr>" gs m] le_less_trans [OF nested_lengths(1) assms]
    by (simp add: merge_ExecutionPayload.simps merge_defs read_nested fold_appends)
  have ws: "merge_fields (merge_ExecutionPayload lib)
        (repeated_field 11 (map (\<lambda>x. fields_bytes (Withdrawal_fields x)) (gp_withdrawals p)) @ gs) m =
      merge_fields (merge_ExecutionPayload lib) gs (m\<lparr> gp_withdrawals := gp_withdrawals m @ gp_withdrawals p \<rparr>)"
    for gs m
    using repeated_step [of "gp_withdrawals p" "merge_ExecutionPayload lib" 11 "\<lambda>x. fields_bytes (Withdrawal_fields x)"
        "\<lambda>x m. m\<lparr> gp_withdrawals := gp_withdrawals m @ [x] \<rparr>" gs m] le_less_trans [OF nested_lengths(2) assms]
    by (simp add: merge_ExecutionPayload.simps merge_defs read_nested fold_appends)
  show ?thesis
    using txs ws
    by (cases p) (simp add: ExecutionPayload_fields_def ExecutionPayload_default_def
        merge_ExecutionPayload.simps merge_written_simps if_ExecutionPayload cong: if_cong)
qed

lemma read_payload:
  "length (fields_bytes (ExecutionPayload_fields p)) < 2 ^ 64 \<Longrightarrow>
     merge_bytes lib (merge_ExecutionPayload lib) (fields_bytes (ExecutionPayload_fields p))
       ExecutionPayload_default = Some p"
  using merge_ExecutionPayload_fields [of p lib "[]"] by (simp add: merge_written)

lemma merge_SubmitBlockRequest_fields:
  assumes "length (fields_bytes (SubmitBlockRequest_fields r)) < 2 ^ 64"
    and "\<And>t. sr_bid_trace r = Some t \<Longrightarrow> wl_utf8 lib (string_bytes (gt_value t))"
  shows "merge_fields (merge_SubmitBlockRequest lib) (SubmitBlockRequest_fields r @ fs) SubmitBlockRequest_default =
         merge_fields (merge_SubmitBlockRequest lib) fs r"
proof -
  note sizes = le_less_trans [OF nested_lengths(3) assms(1)] le_less_trans [OF nested_lengths(4) assms(1)]
    le_less_trans [OF nested_lengths(5) assms(1)]
  show ?thesis
    using assms(2) sizes
    by (cases r; cases "sr_bid_trace r"; cases "sr_execution_payload r"; cases "sr_blobs_bundle r";
        cases "sr_signature r = []")
      (simp_all add: SubmitBlockRequest_fields_def SubmitBlockRequest_default_def merge_message_field
        merge_SubmitBlockRequest.simps merge_written_field merge_defs read_nested read_payload)
qed

text \<open>Fields that follow a request on the wire are merged into it.\<close>

lemma read_request_then:
  assumes "length (SubmitBlockRequest_encode r @ fields_bytes gs) < 2 ^ 64" "list_all plain gs"
    and "\<And>t. sr_bid_trace r = Some t \<Longrightarrow> wl_utf8 lib (string_bytes (gt_value t))"
  shows "SubmitBlockRequest_decode lib (SubmitBlockRequest_encode r @ fields_bytes gs) =
         merge_fields (merge_SubmitBlockRequest lib) gs r"
proof -
  have "length (fields_bytes (SubmitBlockRequest_fields r)) < 2 ^ 64"
    using assms(1) by (simp add: SubmitBlockRequest_encode_def)
  moreover have "merge_bytes lib (merge_SubmitBlockRequest lib)
      (fields_bytes (SubmitBlockRequest_fields r @ gs)) SubmitBlockRequest_default =
      merge_fields (merge_SubmitBlockRequest lib) (SubmitBlockRequest_fields r @ gs) SubmitBlockRequest_default"
    by (rule merge_written) (use assms(1,2) in \<open>simp_all add: SubmitBlockRequest_encode_def\<close>)
  ultimately show ?thesis
    using merge_SubmitBlockRequest_fields [of r lib gs, OF _ assms(3)]
    by (simp add: SubmitBlockRequest_decode_def SubmitBlockRequest_encode_def)
qed

lemma read_response_then:
  assumes "length (SubmitBlockResponse_encode a @ fields_bytes hs) < 2 ^ 64" "list_all plain hs"
    and "wl_utf8 lib (string_bytes (sp_message a))"
  shows "SubmitBlockResponse_decode lib (SubmitBlockResponse_encode a @ fields_bytes hs) =
         merge_fields (merge_SubmitBlockResponse lib) hs a"
proof -
  have "merge_bytes lib (merge_SubmitBlockResponse lib)
      (fields_bytes (SubmitBlockResponse_fields a @ hs)) SubmitBlockResponse_default =
      merge_fields (merge_SubmitBlockResponse lib) (SubmitBlockResponse_fields a @ hs) SubmitBlockResponse_default"
    by (rule merge_written) (use assms(1,2) in \<open>simp_all add: SubmitBlockResponse_encode_def\<close>)
  then show ?thesis
    using merge_SubmitBlockResponse_fields [of lib a hs] assms(3)
    by (simp add: SubmitBlockResponse_decode_def SubmitBlockResponse_encode_def)
qed

text \<open>A request is not much larger than what it carries.\<close>

lemma trace_size:
  "length (fields_bytes (BidTrace_fields (grpc_trace_of to_str m))) \<le> 441 + 2 * length (to_str (bid_value m))"
proof -
  define k where "k = 6 + 2 * length (to_str (bid_value m))"
  have "length (fields_bytes (BidTrace_fields (grpc_trace_of to_str m))) \<le>
      15 + 70 + 70 + 102 + 102 + 46 + 15 + 15 + k"
    unfolding BidTrace_fields_def fields_bytes_append length_append add.assoc
    by (intro add_mono order_trans [OF field_lengths(1)] order_trans [OF field_lengths(2)])
      (simp_all add: grpc_trace_of_def string_bytes_def k_def)
  then show ?thesis by (simp add: k_def)
qed

lemma tx_size: "length (fields_bytes (CompressTx_fields \<lparr> ct_raw_data = t \<rparr>)) \<le> 6 + 2 * length t"
  by (simp add: CompressTx_fields_def field_lengths)

lemma withdrawal_size: "length (fields_bytes (Withdrawal_fields (grpc_withdrawal_of w))) \<le> 91"
proof -
  have "length (fields_bytes (Withdrawal_fields (grpc_withdrawal_of w))) \<le> 15 + 15 + 46 + 15"
    unfolding Withdrawal_fields_def fields_bytes_append length_append add.assoc
    by (intro add_mono order_trans [OF field_lengths(1)] order_trans [OF field_lengths(2)])
      (simp_all add: grpc_withdrawal_of_def)
  then show ?thesis by simp
qed

lemma payload_size:
  "length (fields_bytes (ExecutionPayload_fields (grpc_payload_of p))) \<le>
     1080 + 2 * length (ep_extra_data p) + sum_list (map (\<lambda>t. 18 + 4 * length t) (ep_transactions p)) +
     188 * length (ep_withdrawals p)"
proof -
  let ?p = "grpc_payload_of p"
  define e ts ws where "e = 6 + 2 * length (ep_extra_data p)"
    and "ts = sum_list (map (\<lambda>t. 18 + 4 * length t) (ep_transactions p))"
    and "ws = 188 * length (ep_withdrawals p)"
  let ?txs = "map (\<lambda>x. fields_bytes (CompressTx_fields x)) (gp_transactions ?p)"
  have "sum_list (map (\<lambda>xs. 6 + 2 * length xs) ?txs) \<le> ts"
    unfolding ts_def grpc_payload_of_def
    by (simp add: comp_def) (intro sum_list_mono order_trans [OF add_left_mono [OF mult_left_mono [OF tx_size]]]; simp)
  then have ts: "length (fields_bytes (repeated_field 10 ?txs)) \<le> ts"
    using length_repeated_field [of 10 ?txs] by simp
  let ?ws = "map (\<lambda>x. fields_bytes (Withdrawal_fields x)) (gp_withdrawals ?p)"
  have "sum_list (map (\<lambda>xs. 6 + 2 * length xs) ?ws) \<le> sum_list (map (\<lambda>_. 188) (ep_withdrawals p))"
    unfolding grpc_payload_of_def
    by (simp add: comp_def)
      (intro sum_list_mono order_trans [OF add_left_mono [OF mult_left_mono [OF withdrawal_size]]]; simp)
  then have ws: "length (fields_bytes (repeated_field 11 ?ws)) \<le> ws"
    using length_repeated_field [of 11 ?ws] by (simp add: ws_def sum_list_triv)
  have "length (fields_bytes (ExecutionPayload_fields ?p)) \<le>
      70 + 70 + 70 + 518 + 70 + e + 70 + 46 + 70 + ts + ws + 15 + 15 + 15 + 15 + 15 + 15"
    unfolding ExecutionPayload_fields_def fields_bytes_append length_append add.assoc
    by (intro add_mono ts ws order_trans [OF field_lengths(1)] order_trans [OF field_lengths(2)])
      (simp_all add: grpc_payload_of_def e_def)
  then show ?thesis by (simp add: e_def ts_def ws_def)
qed

lemma request_size:
  "length (SubmitBlockRequest_encode (SubmitBlockRequest_from lib to_str b)) \<le>
     24 + 2 * (441 + 2 * length (to_str (bid_value (sb_message b)))) +
     2 * length (fields_bytes (ExecutionPayload_fields (grpc_payload_of (sb_execution_payload b)))) +
     2 * length (Signature_serialize lib (sb_signature b)) +
     2 * length (fields_bytes (BlobsBundle_fields (grpc_blobs_of (sb_blobs_bundle b))))"
  using length_message_field [of 1 "fields_bytes (BidTrace_fields (grpc_trace_of to_str (sb_message b)))"]
    length_message_field [of 2 "fields_bytes (ExecutionPayload_fields (grpc_payload_of (sb_execution_payload b)))"]
    length_bytes_field [of 3 "Signature_serialize lib (sb_signature b)"]
    length_message_field [of 4 "fields_bytes (BlobsBundle_fields (grpc_blobs_of (sb_blobs_bundle b)))"]
    trace_size [of to_str "sb_message b"]
  by (simp add: SubmitBlockRequest_encode_def SubmitBlockRequest_fields_def SubmitBlockRequest_from_def)

section \<open>Properties\<close>

text \<open>
  C33: Submissions survive the wire. Every request of less than 2^64 bytes is decoded to itself, with
  its trace, payload, transactions, withdrawals and blobs, whichever of its fields are empty or
  missing, and so is every response, provided their texts are UTF-8. Further fields that follow in
  the request or in the response, with numbers after those the builder knows, change nothing; and a
  signature that occurs a second time replaces the first and leaves all else as it was. (The numbers
  and types of the fields are the repository's; how they are written and merged is the documented
  protocol buffer format, which the library implements.)
\<close>

theorem grpc_wire_roundtrip:
  assumes "length (SubmitBlockRequest_encode r @ fields_bytes gs) < 2 ^ 64"
    and "\<And>t. sr_bid_trace r = Some t \<Longrightarrow> wl_utf8 lib (string_bytes (gt_value t))"
    and "list_all (\<lambda>f. plain f \<and> 4 < fst f) gs"
    and "length (SubmitBlockResponse_encode a @ fields_bytes hs) < 2 ^ 64"
    and "wl_utf8 lib (string_bytes (sp_message a))"
    and "list_all (\<lambda>f. plain f \<and> 2 < fst f) hs"
  shows "SubmitBlockRequest_decode lib (SubmitBlockRequest_encode r @ fields_bytes gs) = Some r \<and>
         SubmitBlockResponse_decode lib (SubmitBlockResponse_encode a @ fields_bytes hs) = Some a \<and>
         (length (SubmitBlockRequest_encode r @ fields_bytes [(3, WDelimited sig)]) < 2 ^ 64 \<longrightarrow>
            SubmitBlockRequest_decode lib (SubmitBlockRequest_encode r @ fields_bytes [(3, WDelimited sig)]) =
              Some (r\<lparr> sr_signature := sig \<rparr>))"
proof -
  have "merge_fields (merge_SubmitBlockRequest lib) gs r = Some r"
  proof (rule merge_unknown)
    fix f m assume "f \<in> set gs"
    then have "4 < fst f" using assms(3) by (simp add: list_all_iff)
    then show "merge_SubmitBlockRequest lib f m = Some m"
      by (cases f) (simp add: merge_SubmitBlockRequest.simps)
  qed
  moreover have "merge_fields (merge_SubmitBlockResponse lib) hs a = Some a"
  proof (rule merge_unknown)
    fix f m assume "f \<in> set hs"
    then have "2 < fst f" using assms(6) by (simp add: list_all_iff)
    then show "merge_SubmitBlockResponse lib f m = Some m"
      by (cases f) (simp add: merge_SubmitBlockResponse.simps)
  qed
  moreover have "list_all plain gs" "list_all plain hs" using assms(3,6) by (simp_all add: list_all_iff)
  moreover have "merge_fields (merge_SubmitBlockRequest lib) [(3, WDelimited sig)] r =
      Some (r\<lparr> sr_signature := sig \<rparr>)"
    by (simp add: merge_SubmitBlockRequest.simps merge_defs)
  moreover have "list_all plain [(3, WDelimited sig)]" by (simp add: plain_def)
  ultimately show ?thesis
    using read_request_then [of r gs lib, OF assms(1) _ assms(2)]
      read_request_then [of r "[(3, WDelimited sig)]" lib, OF _ _ assms(2)]
      read_response_then [OF assms(4) _ assms(5)] by metis
qed

definition sample_wire :: wire_library where
  "sample_wire = \<lparr> wl_utf8 = list_all (\<lambda>b. b < 128), wl_skip_group = (\<lambda>_ _. None) \<rparr>"

definition sample_submission :: submit_block_request where
  "sample_submission =
     \<lparr> sr_bid_trace = Some (BidTrace_default\<lparr> gt_slot := 300, gt_value := ''17'' \<rparr>),
       sr_execution_payload = Some (ExecutionPayload_default
         \<lparr> gp_transactions := [\<lparr> ct_raw_data = [1, 2] \<rparr>, \<lparr> ct_raw_data = [] \<rparr>], gp_block_number := 9 \<rparr>),
       sr_signature = [7], sr_blobs_bundle = None \<rparr>"

lemma sample_submission_encode:
  "SubmitBlockRequest_encode sample_submission =
     [10, 7, 8, 172, 2, 74, 2, 49, 55, 18, 10, 82, 4, 10, 2, 1, 2, 82, 0, 96, 9, 26, 1, 7]"
  by (simp add: sample_submission_def SubmitBlockRequest_encode_def SubmitBlockRequest_fields_def
      BidTrace_default_def BidTrace_fields_def ExecutionPayload_default_def ExecutionPayload_fields_def
      CompressTx_fields_def uint64_field_def bytes_field_def repeated_field_def message_field_def
      fields_bytes_def field_key_def varint.simps string_bytes_def)

theorem grpc_wire_roundtrip_witness:
  "SubmitBlockRequest_decode sample_wire (SubmitBlockRequest_encode sample_submission @ [40, 3]) =
     Some sample_submission \<and>
   SubmitBlockResponse_decode sample_wire [26, 1, 9] = Some \<lparr> sp_code = 0, sp_message = [] \<rparr>"
proof -
  have gs: "fields_bytes [(5, WVarint 3)] = [40, 3]" "fields_bytes [(3, WDelimited [9])] = [26, 1, 9]"
    by (simp_all add: fields_bytes_def field_key_def varint.simps)
  have "wl_utf8 sample_wire (string_bytes (gt_value t))" if "sr_bid_trace sample_submission = Some t" for t
    using that by (auto simp: sample_submission_def sample_wire_def string_bytes_def)
  moreover have "SubmitBlockResponse_encode \<lparr> sp_code = 0, sp_message = [] \<rparr> = []"
    by (simp add: SubmitBlockResponse_encode_def SubmitBlockResponse_fields_def uint64_field_def
        bytes_field_def string_bytes_def fields_bytes_def)
  moreover have "wl_utf8 sample_wire (string_bytes [])" by (simp add: sample_wire_def string_bytes_def)
  ultimately show ?thesis
    using grpc_wire_roundtrip [of sample_submission "[(5, WVarint 3)]" sample_wire
        "\<lparr> sp_code = 0, sp_message = [] \<rparr>" "[(3, WDelimited [9])]"]
    by (simp add: gs sample_submission_encode plain_def)
qed

end
