(* ===== verification/Grpc_Stub.thy ===== *)
theory Grpc_Stub
  imports Grpc_Messages
begin

text \<open>
  The client and the server of the gRPC relay, \<open>crates/grpc/src/gen/mevrelay.rs\<close>, over \<open>tonic\<close>.

  The channel of a client is a value of type \<open>'g\<close> and \<open>tonic_client\<close> holds what the library does with
  it: it threads the channel, and with it the far end, through every call.  A server owns an
  implementation of \<open>submit_block\<close>, which threads its own state; \<open>tonic_server\<close> holds the library's
  part in answering a call, which reads the request, runs the method and writes its outcome.  The set
  of enabled compression encodings is a set.
\<close>

section \<open>Calls\<close>

record grpc_method =
  gm_service :: string
  gm_method :: string

record status =
  st_code :: nat
  st_message :: string

definition Code_Unknown :: nat where "Code_Unknown = 2"

text \<open>A request with the extension that names the called method.\<close>

record tonic_request =
  tr_message :: submit_block_request
  tr_method :: "grpc_method option"

definition Request_new :: "submit_block_request \<Rightarrow> tonic_request" where
  "Request_new m = \<lparr> tr_message = m, tr_method = None \<rparr>"

section \<open>Client\<close>

record ('g, 't, 'e, 'enc) tonic_client =
  tc_endpoint :: "string \<Rightarrow> ('e, string) result"
  tc_connect :: "'e \<Rightarrow> ('t, string) result"
  tc_new :: "'t \<Rightarrow> 'g"
  tc_with_origin :: "'t \<Rightarrow> string \<Rightarrow> 'g"
  tc_send_compressed :: "'enc \<Rightarrow> 'g \<Rightarrow> 'g"
  tc_accept_compressed :: "'enc \<Rightarrow> 'g \<Rightarrow> 'g"
  tc_max_decoding_message_size :: "u64 \<Rightarrow> 'g \<Rightarrow> 'g"
  tc_max_encoding_message_size :: "u64 \<Rightarrow> 'g \<Rightarrow> 'g"
  tc_ready :: "'g \<Rightarrow> 'g \<times> (unit, string) result"
  tc_unary :: "'g \<Rightarrow> tonic_request \<Rightarrow> string \<Rightarrow> 'g \<times> (submit_block_response, status) result"

record 'g mev_relay_client =
  mrc_inner :: 'g

definition MevRelayClient_new :: "('g, 't, 'e, 'enc) tonic_client \<Rightarrow> 't \<Rightarrow> 'g mev_relay_client" where
  "MevRelayClient_new tonic inner = \<lparr> mrc_inner = tc_new tonic inner \<rparr>"

definition MevRelayClient_connect ::
  "('g, 't, 'e, 'enc) tonic_client \<Rightarrow> string \<Rightarrow> ('g mev_relay_client, string) result"
where
  "MevRelayClient_connect tonic dst =
     result_bind (tc_endpoint tonic dst) (\<lambda>endpoint.
     result_bind (tc_connect tonic endpoint) (\<lambda>conn.
       Ok (MevRelayClient_new tonic conn)))"

definition MevRelayClient_with_origin ::
  "('g, 't, 'e, 'enc) tonic_client \<Rightarrow> 't \<Rightarrow> string \<Rightarrow> 'g mev_relay_client"
where
  "MevRelayClient_with_origin tonic inner origin = \<lparr> mrc_inner = tc_with_origin tonic inner origin \<rparr>"

text \<open>The library wraps the transport with the interceptor into another transport.\<close>

definition MevRelayClient_with_interceptor ::
  "('g, 't, 'e, 'enc) tonic_client \<Rightarrow> ('s \<Rightarrow> 'f \<Rightarrow> 't) \<Rightarrow> 's \<Rightarrow> 'f \<Rightarrow> 'g mev_relay_client"
where
  "MevRelayClient_with_interceptor tonic intercepted inner interceptor =
     MevRelayClient_new tonic (intercepted inner interceptor)"

definition client_send_compressed ::
  "('g, 't, 'e, 'enc) tonic_client \<Rightarrow> 'enc \<Rightarrow> 'g mev_relay_client \<Rightarrow> 'g mev_relay_client"
where
  "client_send_compressed tonic encoding c = c\<lparr> mrc_inner := tc_send_compressed tonic encoding (mrc_inner c) \<rparr>"

definition client_accept_compressed ::
  "('g, 't, 'e, 'enc) tonic_client \<Rightarrow> 'enc \<Rightarrow> 'g mev_relay_client \<Rightarrow> 'g mev_relay_client"
where
  "client_accept_compressed tonic encoding c = c\<lparr> mrc_inner := tc_accept_compressed tonic encoding (mrc_inner c) \<rparr>"

definition client_max_decoding_message_size ::
  "('g, 't, 'e, 'enc) tonic_client \<Rightarrow> u64 \<Rightarrow> 'g mev_relay_client \<Rightarrow> 'g mev_relay_client"
where
  "client_max_decoding_message_size tonic limit c =
     c\<lparr> mrc_inner := tc_max_decoding_message_size tonic limit (mrc_inner c) \<rparr>"

definition client_max_encoding_message_size ::
  "('g, 't, 'e, 'enc) tonic_client \<Rightarrow> u64 \<Rightarrow> 'g mev_relay_client \<Rightarrow> 'g mev_relay_client"
where
  "client_max_encoding_message_size tonic limit c =
     c\<lparr> mrc_inner := tc_max_encoding_message_size tonic limit (mrc_inner c) \<rparr>"

definition submit_block_path :: string where
  "submit_block_path = ''/mevrelay.MevRelay/SubmitBlock''"

definition client_submit_block ::
  "('g, 't, 'e, 'enc) tonic_client \<Rightarrow> tonic_request \<Rightarrow> 'g mev_relay_client \<Rightarrow>
   'g mev_relay_client \<times> (submit_block_response, status) result"
where
  "client_submit_block tonic request c =
     (case tc_ready tonic (mrc_inner c) of
        (g, Err e) \<Rightarrow>
          (c\<lparr> mrc_inner := g \<rparr>,
           Err \<lparr> st_code = Code_Unknown, st_message = ''Service was not ready: '' @ e \<rparr>)
      | (g, Panic) \<Rightarrow> (c\<lparr> mrc_inner := g \<rparr>, Panic)
      | (g, Ok ready) \<Rightarrow>
          (let req = request\<lparr> tr_method := Some \<lparr> gm_service = ''mevrelay.MevRelay'', gm_method = ''SubmitBlock'' \<rparr> \<rparr>;
               (g', outcome) = tc_unary tonic g req submit_block_path
           in (c\<lparr> mrc_inner := g' \<rparr>, outcome)))"

section \<open>Server\<close>

text \<open>An HTTP request as far as the server looks at it: the path and the encoded message.\<close>

record http_call =
  hc_path :: string
  hc_message :: bytes

record http_reply =
  hr_status :: nat
  hr_headers :: "(string \<times> string) list"
  hr_message :: "bytes option"

type_synonym 's submit_method =
  "'s \<Rightarrow> tonic_request \<Rightarrow> 's \<times> (submit_block_response, status) result"

record 'enc grpc_config =
  gc_accept :: "'enc set"
  gc_send :: "'enc set"
  gc_max_decoding :: "u64 option"
  gc_max_encoding :: "u64 option"

record ('s, 'enc) tonic_server =
  ts_unary :: "'enc grpc_config \<Rightarrow> 's submit_method \<Rightarrow> http_call \<Rightarrow> 's \<Rightarrow> 's \<times> http_reply"

record ('s, 'enc) mev_relay_server =
  mrs_inner :: "'s submit_method"
  mrs_accept_compression_encodings :: "'enc set"
  mrs_send_compression_encodings :: "'enc set"
  mrs_max_decoding_message_size :: "u64 option"
  mrs_max_encoding_message_size :: "u64 option"

definition MevRelayServer_from_arc :: "'s submit_method \<Rightarrow> ('s, 'enc) mev_relay_server" where
  "MevRelayServer_from_arc inner =
     \<lparr> mrs_inner = inner, mrs_accept_compression_encodings = {}, mrs_send_compression_encodings = {},
       mrs_max_decoding_message_size = None, mrs_max_encoding_message_size = None \<rparr>"

definition MevRelayServer_new :: "'s submit_method \<Rightarrow> ('s, 'enc) mev_relay_server" where
  "MevRelayServer_new inner = MevRelayServer_from_arc inner"

definition MevRelayServer_with_interceptor ::
  "(('s, 'enc) mev_relay_server \<Rightarrow> 'f \<Rightarrow> 'i) \<Rightarrow> 's submit_method \<Rightarrow> 'f \<Rightarrow> 'i"
where
  "MevRelayServer_with_interceptor intercepted inner interceptor =
     intercepted (MevRelayServer_new inner) interceptor"

definition server_accept_compressed :: "'enc \<Rightarrow> ('s, 'enc) mev_relay_server \<Rightarrow> ('s, 'enc) mev_relay_server" where
  "server_accept_compressed encoding s =
     s\<lparr> mrs_accept_compression_encodings := insert encoding (mrs_accept_compression_encodings s) \<rparr>"

definition server_send_compressed :: "'enc \<Rightarrow> ('s, 'enc) mev_relay_server \<Rightarrow> ('s, 'enc) mev_relay_server" where
  "server_send_compressed encoding s =
     s\<lparr> mrs_send_compression_encodings := insert encoding (mrs_send_compression_encodings s) \<rparr>"

definition server_max_decoding_message_size ::
  "u64 \<Rightarrow> ('s, 'enc) mev_relay_server \<Rightarrow> ('s, 'enc) mev_relay_server"
where
  "server_max_decoding_message_size limit s = s\<lparr> mrs_max_decoding_message_size := Some limit \<rparr>"

definition server_max_encoding_message_size ::
  "u64 \<Rightarrow> ('s, 'enc) mev_relay_server \<Rightarrow> ('s, 'enc) mev_relay_server"
where
  "server_max_encoding_message_size limit s = s\<lparr> mrs_max_encoding_message_size := Some limit \<rparr>"

text \<open>The server is always ready.\<close>

definition server_poll_ready :: "('s, 'enc) mev_relay_server \<Rightarrow> (unit, unit) result option" where
  "server_poll_ready s = Some (Ok ())"

text \<open>The service of the one method: it calls the implementation.\<close>

definition SubmitBlockSvc_call :: "'s submit_method \<Rightarrow> 's submit_method" where
  "SubmitBlockSvc_call inner st request = inner st request"

definition server_call ::
  "('s, 'enc) tonic_server \<Rightarrow> ('s, 'enc) mev_relay_server \<Rightarrow> http_call \<Rightarrow> 's \<Rightarrow> 's \<times> http_reply"
where
  "server_call tonic s req st =
     (if hc_path req = ''/mevrelay.MevRelay/SubmitBlock'' then
        ts_unary tonic
          \<lparr> gc_accept = mrs_accept_compression_encodings s, gc_send = mrs_send_compression_encodings s,
            gc_max_decoding = mrs_max_decoding_message_size s,
            gc_max_encoding = mrs_max_encoding_message_size s \<rparr>
          (SubmitBlockSvc_call (mrs_inner s)) req st
      else
        (st, \<lparr> hr_status = 200,
               hr_headers = [(''grpc-status'', ''12''), (''content-type'', ''application/grpc'')],
               hr_message = None \<rparr>))"

definition server_clone :: "('s, 'enc) mev_relay_server \<Rightarrow> ('s, 'enc) mev_relay_server" where
  "server_clone s =
     (let inner = mrs_inner s
      in \<lparr> mrs_inner = inner,
           mrs_accept_compression_encodings = mrs_accept_compression_encodings s,
           mrs_send_compression_encodings = mrs_send_compression_encodings s,
           mrs_max_decoding_message_size = mrs_max_decoding_message_size s,
           mrs_max_encoding_message_size = mrs_max_encoding_message_size s \<rparr>)"

definition MevRelayServer_NAME :: string where
  "MevRelayServer_NAME = ''mevrelay.MevRelay''"

section \<open>What the library promises\<close>

text \<open>
  A message of at most 4 MB, or the limit that was set, is decoded and given to the method once; the
  outcome of the method is the reply.  \<open>replies\<close> and \<open>outcomes\<close> are the library's writing and
  reading of replies: they are inverse, a method that panicked is some error for its caller, and the
  status in the header of a reply is its outcome.
\<close>

definition decoding_limit :: "'enc grpc_config \<Rightarrow> nat" where
  "decoding_limit cfg = (case gc_max_decoding cfg of None \<Rightarrow> 4 * 1024 * 1024 | Some limit \<Rightarrow> unat limit)"

definition runs_method ::
  "wire_library \<Rightarrow> ((submit_block_response, status) result \<Rightarrow> http_reply) \<Rightarrow> ('s, 'enc) tonic_server \<Rightarrow> bool"
where
  "runs_method lib replies tonic \<longleftrightarrow>
     (\<forall>cfg method path bs m st.
        length bs \<le> decoding_limit cfg \<longrightarrow> SubmitBlockRequest_decode lib bs = Some m \<longrightarrow>
        ts_unary tonic cfg method \<lparr> hc_path = path, hc_message = bs \<rparr> st =
          (let (st', out) = method st (Request_new m) in (st', replies out)))"

definition reads_replies ::
  "((submit_block_response, status) result \<Rightarrow> http_reply) \<Rightarrow>
   (http_reply \<Rightarrow> (submit_block_response, status) result) \<Rightarrow> bool"
where
  "reads_replies replies outcomes \<longleftrightarrow>
     (\<forall>out. out \<noteq> Panic \<longrightarrow> outcomes (replies out) = out) \<and> (\<exists>e. outcomes (replies Panic) = Err e) \<and>
     (\<forall>r. ((''grpc-status'', ''12'') \<in> set (hr_headers r)) \<longrightarrow> (\<exists>msg. outcomes r = Err \<lparr> st_code = 12, st_message = msg \<rparr>))"

text \<open>
  A channel whose far end, \<open>remote\<close>, is served by the function \<open>serve\<close>.  A call either gets through
  and back, or it fails with a status of the transport; then the far end may have served it, whose
  reply is lost, or not.  The channel does not repeat a call.
\<close>

definition channel_to ::
  "(http_call \<Rightarrow> 's \<Rightarrow> 's \<times> http_reply) \<Rightarrow> (http_reply \<Rightarrow> (submit_block_response, status) result) \<Rightarrow>
   ('g \<Rightarrow> 's) \<Rightarrow> ('g, 't, 'e, 'enc) tonic_client \<Rightarrow> bool"
where
  "channel_to serve outcomes remote tonic \<longleftrightarrow>
     (\<forall>g. remote (fst (tc_ready tonic g)) = remote g) \<and>
     (\<forall>g req path.
        let (st, reply) = serve \<lparr> hc_path = path, hc_message = SubmitBlockRequest_encode (tr_message req) \<rparr> (remote g);
            (g', outcome) = tc_unary tonic g req path
        in (remote g' = st \<and> outcome = outcomes reply) \<or>
           (remote g' \<in> {remote g, st} \<and> (\<exists>e. outcome = Err e)))"

lemma channel_toD:
  assumes "channel_to serve outcomes remote tonic"
  shows "remote (fst (tc_ready tonic g)) = remote g"
    and "serve \<lparr> hc_path = path, hc_message = SubmitBlockRequest_encode (tr_message req) \<rparr> (remote g) = (st, reply) \<Longrightarrow>
         tc_unary tonic g req path = (g', outcome) \<Longrightarrow>
         (remote g' = st \<and> outcome = outcomes reply) \<or> (remote g' \<in> {remote g, st} \<and> (\<exists>e. outcome = Err e))"
proof -
  show "remote (fst (tc_ready tonic g)) = remote g" using assms by (simp add: channel_to_def)
  have "let (st, reply) = serve \<lparr> hc_path = path, hc_message = SubmitBlockRequest_encode (tr_message req) \<rparr> (remote g);
          (g', outcome) = tc_unary tonic g req path
        in (remote g' = st \<and> outcome = outcomes reply) \<or> (remote g' \<in> {remote g, st} \<and> (\<exists>e. outcome = Err e))"
    using assms unfolding channel_to_def by blast
  then show "(remote g' = st \<and> outcome = outcomes reply) \<or> (remote g' \<in> {remote g, st} \<and> (\<exists>e. outcome = Err e))"
    if "serve \<lparr> hc_path = path, hc_message = SubmitBlockRequest_encode (tr_message req) \<rparr> (remote g) = (st, reply)"
      "tc_unary tonic g req path = (g', outcome)"
    using that by simp
qed

definition deliverable :: "wire_library \<Rightarrow> submit_block_request \<Rightarrow> ('s, 'enc) mev_relay_server \<Rightarrow> bool" where
  "deliverable lib m s \<longleftrightarrow>
     length (SubmitBlockRequest_encode m) < 2 ^ 64 \<and>
     length (SubmitBlockRequest_encode m) \<le>
       (case mrs_max_decoding_message_size s of None \<Rightarrow> 4 * 1024 * 1024 | Some limit \<Rightarrow> unat limit) \<and>
     (case sr_bid_trace m of None \<Rightarrow> True | Some t \<Rightarrow> wl_utf8 lib (string_bytes (gt_value t)))"

lemma server_clone_same: "server_clone s = s"
  by (simp add: server_clone_def Let_def)

lemma server_call_method:
  assumes runs: "runs_method lib replies tonic" and m: "deliverable lib m s"
  shows "server_call tonic s \<lparr> hc_path = submit_block_path, hc_message = SubmitBlockRequest_encode m \<rparr> st =
         (let (st', out) = mrs_inner s st (Request_new m) in (st', replies out))"
proof -
  have "\<And>t. sr_bid_trace m = Some t \<Longrightarrow> wl_utf8 lib (string_bytes (gt_value t))"
    using m by (simp add: deliverable_def)
  then have "SubmitBlockRequest_decode lib (SubmitBlockRequest_encode m) = Some m"
    using read_request_then [of m "[]" lib] m by (simp add: deliverable_def fields_bytes_def)
  moreover have "SubmitBlockSvc_call (mrs_inner s) = mrs_inner s" by (simp add: SubmitBlockSvc_call_def fun_eq_iff)
  ultimately show ?thesis
    using runs m by (simp add: server_call_def submit_block_path_def runs_method_def deliverable_def decoding_limit_def)
qed

text \<open>A call of the client is a call of the method behind the server, or fails on its way.\<close>

lemma client_submit_block_served:
  assumes chan: "channel_to (server_call server s) outcomes remote tonic"
    and runs: "runs_method lib replies server" and reads: "reads_replies replies outcomes"
    and m: "deliverable lib m s" and ready: "tc_ready tonic (mrc_inner c) = (g, Ok ())"
    and called: "mrs_inner s (remote (mrc_inner c)) (Request_new m) = (st', out)"
  shows "let (c', r) = client_submit_block tonic (Request_new m) c
         in (out \<noteq> Panic \<and> r = out \<and> remote (mrc_inner c') = st') \<or>
            ((\<exists>e. r = Err e) \<and> remote (mrc_inner c') \<in> {remote (mrc_inner c), st'})"
proof -
  let ?req = "Request_new m\<lparr> tr_method := Some \<lparr> gm_service = ''mevrelay.MevRelay'', gm_method = ''SubmitBlock'' \<rparr> \<rparr>"
  have same: "remote g = remote (mrc_inner c)" using channel_toD(1) [OF chan, of "mrc_inner c"] ready by simp
  with called have serve: "server_call server s
      \<lparr> hc_path = submit_block_path, hc_message = SubmitBlockRequest_encode (tr_message ?req) \<rparr> (remote g) =
      (st', replies out)"
    using server_call_method [OF runs m, of "remote g"] by (simp add: Request_new_def)
  obtain g' r where unary: "tc_unary tonic g ?req submit_block_path = (g', r)" by fastforce
  have c: "client_submit_block tonic (Request_new m) c = (c\<lparr> mrc_inner := g' \<rparr>, r)"
    using unary by (simp add: client_submit_block_def ready Let_def)
  from channel_toD(2) [OF chan serve unary] show ?thesis
    using reads by (cases out) (auto simp: c same reads_replies_def)
qed

lemma server_call_elsewhere:
  assumes "reads_replies replies outcomes" "path \<noteq> submit_block_path"
  shows "fst (server_call tonic s \<lparr> hc_path = path, hc_message = bs \<rparr> st) = st \<and>
         (\<exists>msg. outcomes (snd (server_call tonic s \<lparr> hc_path = path, hc_message = bs \<rparr> st)) =
            Err \<lparr> st_code = 12, st_message = msg \<rparr>)"
  using assms by (simp add: server_call_def submit_block_path_def reads_replies_def)

end
