(* ===== verification/Internal_Relay.thy ===== *)
theory Internal_Relay
  imports Bids
begin

text \<open>
  The builder's own relay server, \<open>crates/relay/src/internal_relay.rs\<close>: the in-memory cache of the
  bids of the last blocks and the three routes over it.

  The cache's \<open>HashMap\<close> is a map; the millisecond time at which a bid is traced is an argument.
  A request is what the web framework extracted from it: the content length and the parsed body
  of a submission (\<open>None\<close> when it does not parse), or the parsed query (\<open>None\<close> when it does not).
\<close>

section \<open>Cache\<close>

definition MAX_CACHE_BLOCK_SIZE :: u64 where "MAX_CACHE_BLOCK_SIZE = 4"

record 'sig relay_bid_cache =
  rc_last_block :: u64
  rc_cache :: "u64 \<rightharpoonup> ('sig signed_bid \<times> bid_trace) list"

definition RelayBidCache_default :: "'sig relay_bid_cache" where
  "RelayBidCache_default = \<lparr> rc_last_block = 0, rc_cache = Map.empty \<rparr>"

definition cache_resize :: "'sig relay_bid_cache \<Rightarrow> 'sig relay_bid_cache" where
  "cache_resize c =
     (if rc_last_block c < MAX_CACHE_BLOCK_SIZE then c
      else
        let expired = (\<lambda>block. block \<le> rc_last_block c - MAX_CACHE_BLOCK_SIZE)
        in c\<lparr> rc_cache := (\<lambda>block. if expired block then None else rc_cache c block) \<rparr>)"

definition cache_insert :: "u64 \<Rightarrow> 'sig signed_bid \<Rightarrow> 'sig relay_bid_cache \<Rightarrow> 'sig relay_bid_cache" where
  "cache_insert now_ms bid c =
     (let block_number = signed_bid_block_number bid;
          trace = to_trace now_ms bid;
          cache = (case rc_cache c block_number of
                     None \<Rightarrow> (rc_cache c)(block_number \<mapsto> [(bid, trace)])
                   | Some bids \<Rightarrow> (rc_cache c)(block_number \<mapsto> bids @ [(bid, trace)]))
      in cache_resize \<lparr> rc_last_block = max (rc_last_block c) block_number, rc_cache = cache \<rparr>)"

definition get_all_bids ::
  "'sig relay_bid_cache \<Rightarrow> u64 \<Rightarrow> ('sig signed_bid \<times> bid_trace) list option"
where
  "get_all_bids c block_number = rc_cache c block_number"

definition get_best_bid :: "'sig relay_bid_cache \<Rightarrow> u64 \<Rightarrow> u64 \<Rightarrow> 'sig signed_bid option" where
  "get_best_bid c block_number timestamp =
     (case get_all_bids c block_number of
        Some bids \<Rightarrow>
          map_option fst
            (max_by_key (\<lambda>(bid, trace). bid_value (sb_message bid))
              (filter (\<lambda>(bid, trace). bt_timestamp_ms trace < timestamp) bids))
      | None \<Rightarrow> None)"

section \<open>Server\<close>

datatype 'sig internal_request =
    PostBlock nat "'sig signed_bid option"
  | GetBidTraces "u64 option"
  | GetBestBid "(u64 \<times> u64) option"
  | OtherRoute

datatype rejection = NotFound | BadBody | BadQuery | NoRoute

datatype 'sig internal_reply =
    ReplyOk
  | ReplyTraces "bid_trace list"
  | ReplyBid "'sig signed_bid"
  | ReplyInternalServerError

text \<open>The body filter: at most 4 MB, and JSON.\<close>

definition with_json_body :: "nat \<Rightarrow> 'a option \<Rightarrow> ('a, rejection) result" where
  "with_json_body content_length parsed =
     (if 1024 * 1000 * 4 < content_length then Err BadBody
      else case parsed of Some body \<Rightarrow> Ok body | None \<Rightarrow> Err BadBody)"

definition submit_block_bid_handler ::
  "u64 \<Rightarrow> 'sig signed_bid \<Rightarrow> 'sig relay_bid_cache \<Rightarrow>
   'sig relay_bid_cache \<times> ('sig internal_reply, rejection) result"
where
  "submit_block_bid_handler now_ms bid c = (cache_insert now_ms bid c, Ok ReplyOk)"

definition get_bid_traces_handler ::
  "u64 \<Rightarrow> 'sig relay_bid_cache \<Rightarrow> ('sig internal_reply, rejection) result"
where
  "get_bid_traces_handler block_number c =
     (case get_all_bids c block_number of
        Some bids \<Rightarrow> Ok (ReplyTraces (map snd bids))
      | None \<Rightarrow> Err NotFound)"

definition get_best_bid_handler ::
  "u64 \<Rightarrow> u64 \<Rightarrow> 'sig relay_bid_cache \<Rightarrow> ('sig internal_reply, rejection) result"
where
  "get_best_bid_handler block_number timestamp c =
     (case get_best_bid c block_number timestamp of
        Some bid \<Rightarrow> Ok (ReplyBid bid)
      | None \<Rightarrow> Err NotFound)"

text \<open>Every rejection, a missing block too, becomes the same internal error.\<close>

definition rejection_handler :: "rejection \<Rightarrow> 'sig internal_reply" where
  "rejection_handler err = ReplyInternalServerError"

definition internal_routes ::
  "u64 \<Rightarrow> 'sig internal_request \<Rightarrow> 'sig relay_bid_cache \<Rightarrow>
   'sig relay_bid_cache \<times> 'sig internal_reply"
where
  "internal_routes now_ms request c =
     (let (c1, outcome) =
        (case request of
           PostBlock len body \<Rightarrow>
             (case with_json_body len body of
                Ok bid \<Rightarrow> submit_block_bid_handler now_ms bid c
              | Err e \<Rightarrow> (c, Err e)
              | Panic \<Rightarrow> (c, Panic))
         | GetBidTraces (Some n) \<Rightarrow> (c, get_bid_traces_handler n c)
         | GetBidTraces None \<Rightarrow> (c, Err BadQuery)
         | GetBestBid (Some (n, t)) \<Rightarrow> (c, get_best_bid_handler n t c)
         | GetBestBid None \<Rightarrow> (c, Err BadQuery)
         | OtherRoute \<Rightarrow> (c, Err NoRoute))
      in (c1, case outcome of Ok r \<Rightarrow> r | Err e \<Rightarrow> rejection_handler e
                            | Panic \<Rightarrow> ReplyInternalServerError))"

section \<open>Reference description of the cache\<close>

text \<open>The cache after the bids of a list arrived, each at its time.\<close>

definition cache_after :: "(u64 \<times> 'sig signed_bid) list \<Rightarrow> 'sig relay_bid_cache" where
  "cache_after arrivals = fold (\<lambda>(t, b). cache_insert t b) arrivals RelayBidCache_default"

definition newest_block :: "(u64 \<times> 'sig signed_bid) list \<Rightarrow> u64" where
  "newest_block arrivals = fold (\<lambda>(t, b). max (signed_bid_block_number b)) arrivals 0"

definition expired_at :: "u64 \<Rightarrow> u64 \<Rightarrow> bool" where
  "expired_at newest n \<longleftrightarrow> unat n + 4 \<le> unat newest"

definition arrivals_of :: "u64 \<Rightarrow> (u64 \<times> 'sig signed_bid) list \<Rightarrow> (u64 \<times> 'sig signed_bid) list" where
  "arrivals_of n = filter (\<lambda>(t, b). signed_bid_block_number b = n)"

definition traced :: "u64 \<times> 'sig signed_bid \<Rightarrow> 'sig signed_bid \<times> bid_trace" where
  "traced = (\<lambda>(t, b). (b, to_trace t b))"

lemma fst_traced: "fst (traced x) = snd x"
  by (simp add: traced_def case_prod_unfold)

lemma cache_after_snoc:
  "cache_after (arrivals @ [(t, b)]) = cache_insert t b (cache_after arrivals)"
  by (simp add: cache_after_def)

lemma newest_block_snoc:
  "newest_block (arrivals @ [(t, b)]) = max (signed_bid_block_number b) (newest_block arrivals)"
  by (simp add: newest_block_def)

lemma resize_last [simp]: "rc_last_block (cache_resize c) = rc_last_block c"
  by (simp add: cache_resize_def Let_def)

lemma expired_at_iff:
  "expired_at newest n \<longleftrightarrow> \<not> newest < MAX_CACHE_BLOCK_SIZE \<and> n \<le> newest - MAX_CACHE_BLOCK_SIZE"
  by (auto simp: expired_at_def MAX_CACHE_BLOCK_SIZE_def word_less_nat_alt word_le_nat_alt
      unat_sub)

lemma resize_cache:
  "rc_cache (cache_resize c) n = (if expired_at (rc_last_block c) n then None else rc_cache c n)"
  by (simp add: cache_resize_def expired_at_iff Let_def)

lemma insert_last: "rc_last_block (cache_insert t b c) = max (rc_last_block c) (signed_bid_block_number b)"
  by (simp add: cache_insert_def Let_def)

lemma insert_cache:
  "rc_cache (cache_insert t b c) n =
     (if expired_at (max (rc_last_block c) (signed_bid_block_number b)) n then None
      else if n = signed_bid_block_number b then
        Some (unwrap_or (rc_cache c n) [] @ [(b, to_trace t b)])
      else rc_cache c n)"
  by (simp add: cache_insert_def resize_cache Let_def split: option.split)

lemma expired_at_mono: "expired_at newest n \<Longrightarrow> newest \<le> newest' \<Longrightarrow> expired_at newest' n"
  by (simp add: expired_at_def word_le_nat_alt)

lemma cache_after_last: "rc_last_block (cache_after arrivals) = newest_block arrivals"
proof (induction arrivals rule: rev_induct)
  case Nil
  then show ?case by (simp add: cache_after_def newest_block_def RelayBidCache_default_def)
next
  case (snoc x xs)
  then show ?case
    by (cases x) (simp add: cache_after_snoc newest_block_snoc insert_last max.commute)
qed

lemma cache_after_eq:
  "rc_cache (cache_after arrivals) n =
     (if expired_at (newest_block arrivals) n \<or> arrivals_of n arrivals = [] then None
      else Some (map traced (arrivals_of n arrivals)))"
proof (induction arrivals rule: rev_induct)
  case Nil
  then show ?case by (simp add: cache_after_def RelayBidCache_default_def arrivals_of_def)
next
  case (snoc x xs)
  obtain t b where x: "x = (t, b)" by fastforce
  let ?last = "newest_block xs" and ?newest' = "max (newest_block xs) (signed_bid_block_number b)"
  have mono: "expired_at ?last n \<Longrightarrow> expired_at ?newest' n"
    by (erule expired_at_mono) (rule max.cobounded1)
  have "arrivals_of n (xs @ [x]) =
      arrivals_of n xs @ (if signed_bid_block_number b = n then [(t, b)] else [])"
    by (simp add: arrivals_of_def x)
  with snoc.IH mono show ?case
    by (cases "signed_bid_block_number b = n")
      (auto simp: x cache_after_snoc newest_block_snoc insert_cache cache_after_last max.commute
        traced_def)
qed

lemma newest_block_max: "(t, b) \<in> set arrivals \<Longrightarrow> signed_bid_block_number b \<le> newest_block arrivals"
proof (induction arrivals rule: rev_induct)
  case Nil
  then show ?case by simp
next
  case (snoc x xs)
  then show ?case by (cases x) (auto simp: newest_block_snoc le_max_iff_disj)
qed

lemma cached_blocks:
  "dom (rc_cache (cache_after arrivals)) \<subseteq>
     {n. unat n \<le> unat (newest_block arrivals) \<and> unat (newest_block arrivals) < unat n + 4}"
proof
  fix n assume "n \<in> dom (rc_cache (cache_after arrivals))"
  then have "\<not> expired_at (newest_block arrivals) n" and "arrivals_of n arrivals \<noteq> []"
    by (auto simp: cache_after_eq split: if_splits)
  moreover from this(2) obtain t b where "(t, b) \<in> set arrivals" "signed_bid_block_number b = n"
    by (auto simp: arrivals_of_def filter_empty_conv)
  ultimately show "n \<in> {n. unat n \<le> unat (newest_block arrivals) \<and>
      unat (newest_block arrivals) < unat n + 4}"
    using newest_block_max [of t b arrivals] by (auto simp: expired_at_def word_le_nat_alt)
qed

lemma window_card:
  "finite {n :: u64. unat n \<le> m \<and> m < unat n + 4} \<and>
   card {n :: u64. unat n \<le> m \<and> m < unat n + 4} \<le> 4"
proof -
  have sub: "unat ` {n :: u64. unat n \<le> m \<and> m < unat n + 4} \<subseteq> {m - 3..m}"
    by auto
  have inj: "inj_on unat {n :: u64. unat n \<le> m \<and> m < unat n + 4}"
    by (simp add: inj_on_def word_unat_eq_iff)
  have fin: "finite {n :: u64. unat n \<le> m \<and> m < unat n + 4}"
    by (rule finite_imageD [OF finite_subset [OF sub] inj]) simp
  have "card {n :: u64. unat n \<le> m \<and> m < unat n + 4} \<le> card {m - 3..m}"
    unfolding card_image [OF inj, symmetric] by (rule card_mono [OF _ sub]) simp
  with fin show ?thesis by simp
qed

section \<open>Properties\<close>

text \<open>
  C30: The bid cache is exactly a window over what arrived. Whatever the bids and their order, a
  block more than three below the newest block ever seen has no entry, and every other block
  has precisely its bids, in the order of arrival, each with the trace made when it arrived. So
  at most four blocks are held; and a bid for a block far ahead evicts all others for good.
\<close>

theorem bid_cache_window:
  "get_all_bids (cache_after arrivals) n =
     (if expired_at (newest_block arrivals) n \<or> arrivals_of n arrivals = [] then None
      else Some (map traced (arrivals_of n arrivals))) \<and>
   finite (dom (rc_cache (cache_after arrivals))) \<and>
   card (dom (rc_cache (cache_after arrivals))) \<le> 4"
proof -
  have "finite (dom (rc_cache (cache_after arrivals)))"
    by (rule finite_subset [OF cached_blocks]) (simp add: window_card)
  moreover have "card (dom (rc_cache (cache_after arrivals))) \<le> 4"
    using card_mono [OF conjunct1 [OF window_card] cached_blocks [of arrivals]]
      conjunct2 [OF window_card, of "unat (newest_block arrivals)"] by (rule order_trans)
  ultimately show ?thesis
    by (simp add: get_all_bids_def cache_after_eq)
qed

text \<open>
  C31: The best bid of a block is one of the bids that arrived for it strictly before the given
  time and none of those has a larger value; the relay answers that there is none only if no
  bid of that block arrived before that time or the block has left the window. The route of the
  server answers accordingly, with the internal error when there is none.
\<close>

theorem best_bid_spec:
  assumes "\<not> expired_at (newest_block arrivals) n"
  shows "let early = map snd (filter (\<lambda>(t, b). t < timestamp) (arrivals_of n arrivals))
         in (case get_best_bid (cache_after arrivals) n timestamp of
               None \<Rightarrow> early = []
             | Some b \<Rightarrow> b \<in> set early \<and>
                         (\<forall>b' \<in> set early. bid_value (sb_message b') \<le> bid_value (sb_message b))) \<and>
            internal_routes now_ms (GetBestBid (Some (n, timestamp))) (cache_after arrivals) =
              (cache_after arrivals,
               case get_best_bid (cache_after arrivals) n timestamp of
                 Some b \<Rightarrow> ReplyBid b | None \<Rightarrow> ReplyInternalServerError)"
proof -
  let ?xs = "arrivals_of n arrivals" and ?key = "\<lambda>(b, trace). bid_value (sb_message b)"
  let ?early = "filter (\<lambda>(t, b). t < timestamp) ?xs"
  have traced: "filter (\<lambda>(b, trace). bt_timestamp_ms trace < timestamp) (map traced xs) =
      map traced (filter (\<lambda>(t, b). t < timestamp) xs)" for xs :: "(u64 \<times> 'a signed_bid) list"
    by (simp add: filter_map comp_def traced_def case_prod_unfold to_trace_def Let_def)
  have best: "get_best_bid (cache_after arrivals) n timestamp =
      map_option fst (max_by_key ?key (map traced ?early))"
    using assms by (simp add: get_best_bid_def get_all_bids_def cache_after_eq traced)
  have "case get_best_bid (cache_after arrivals) n timestamp of
      None \<Rightarrow> map snd ?early = []
    | Some b \<Rightarrow> b \<in> set (map snd ?early) \<and>
                (\<forall>b' \<in> set (map snd ?early). bid_value (sb_message b') \<le> bid_value (sb_message b))"
  proof (cases "max_by_key ?key (map traced ?early)")
    case None
    then show ?thesis by (simp add: best)
  next
    case (Some y)
    obtain t b where tb: "(t, b) \<in> set ?early" and y: "y = traced (t, b)"
      using max_by_key_mem [OF Some] by auto
    have "bid_value (sb_message b') \<le> bid_value (sb_message b)" if b': "b' \<in> set (map snd ?early)" for b'
    proof -
      obtain t' where "(t', b') \<in> set ?early" using b' by force
      then have "traced (t', b') \<in> set (map traced ?early)" by auto
      from max_by_key_max [OF Some this] show ?thesis by (simp add: y traced_def)
    qed
    moreover have "b \<in> set (map snd ?early)"
      using imageI [OF tb, of snd] by simp
    moreover have "get_best_bid (cache_after arrivals) n timestamp = Some b"
      by (simp only: best Some y option.map fst_traced snd_conv)
    ultimately show ?thesis by simp
  qed
  then show ?thesis
    by (simp add: internal_routes_def get_best_bid_handler_def rejection_handler_def Let_def
        split: option.split)
qed

definition sample_arrival :: "u64 \<Rightarrow> u256 \<Rightarrow> unit signed_bid" where
  "sample_arrival n v =
     (sample_signed_bid False)
       \<lparr> sb_message := (sb_message (sample_signed_bid False))\<lparr> bid_value := v \<rparr>,
         sb_execution_payload :=
           (sb_execution_payload (sample_signed_bid False))\<lparr> ep_block_number := n \<rparr> \<rparr>"

lemma sample_arrival_fields [simp]:
  "signed_bid_block_number (sample_arrival n v) = n" "bid_value (sb_message (sample_arrival n v)) = v"
  by (simp_all add: sample_arrival_def signed_bid_block_number_def)

theorem best_bid_spec_witness:
  "let arrivals = [(10, sample_arrival 7 5), (20, sample_arrival 9 4), (30, sample_arrival 7 6),
                   (50, sample_arrival 7 9)]
   in \<exists>b. get_best_bid (cache_after arrivals) 7 40 = Some b \<and> 5 \<le> bid_value (sb_message b)"
proof -
  let ?xs = "[(10, sample_arrival 7 5), (20, sample_arrival 9 4), (30, sample_arrival 7 6),
              (50 :: u64, sample_arrival 7 9)]"
  have "\<not> expired_at (newest_block ?xs) 7"
    by (simp add: newest_block_def expired_at_def max_def)
  from best_bid_spec [OF this, of 40 0] show ?thesis
    by (auto simp: Let_def arrivals_of_def split: option.splits)
qed

end
