(* ===== verification/Relay.thy ===== *)
theory Relay
  imports Internal_Relay Bidder Grpc_Messages
begin

text \<open>
  Relays: the HTTP and gRPC clients (\<open>crates/relay/src/client/mod.rs\<close>, \<open>client/simulate.rs\<close>), the
  pool of relay instances (\<open>relay.rs\<close>), the aggregator over them (\<open>aggregator.rs\<close>), the relay
  service with its handle (\<open>services/relay.rs\<close>) and the validator schedule service
  (\<open>services/validator.rs\<close>).

  The record \<open>http_library\<close> is what the network and the serialization libraries answer at the
  time of a call.  The aggregator waits for all relays; the order in which they answer is an
  argument, the list of their positions.  A future the service hands out is the call it will run.
\<close>

section \<open>Clients\<close>

datatype relay_client_err =
    TopBidErr
  | ValidatorNotFound u64
  | EmptyValidatorRegistrations
  | SubmitErr string
  | BroadcastErr
  | GzipErr

datatype post_body = SszBody bytes | JsonBody bytes | GzipBody bytes

record ('sig, 'resp, 'grpc) http_library =
  hl_get :: "string \<Rightarrow> (string \<times> u64) list \<Rightarrow> 'resp option"
  hl_post :: "string \<Rightarrow> post_body \<Rightarrow> 'resp option"
  hl_status :: "'resp \<Rightarrow> nat"
  hl_text :: "'resp \<Rightarrow> string option"
  hl_json_validators :: "'resp \<Rightarrow> validator_registration_response list option"
  hl_json_traces :: "'resp \<Rightarrow> bid_trace list option"
  hl_json_best_bid :: "'resp \<Rightarrow> 'sig signed_bid option option"
  hl_ssz_bid :: "'sig signed_bid \<Rightarrow> bytes"
  hl_json_bid :: "'sig signed_bid \<Rightarrow> bytes"
  hl_gzip :: "bytes \<Rightarrow> bytes option"
  hl_grpc_connect :: "string \<Rightarrow> nat \<Rightarrow> 'grpc option"
  hl_grpc_request :: "'sig signed_bid \<Rightarrow> submit_block_request"
  hl_grpc_submit :: "'grpc \<Rightarrow> submit_block_request \<Rightarrow> (submit_block_response, string) result"

definition VALIDATOR_REGISTRATIONS_PATH :: string where
  "VALIDATOR_REGISTRATIONS_PATH = ''relay/v1/builder/validators''"

definition SUBMIT_BID_PATH :: string where
  "SUBMIT_BID_PATH = ''relay/v1/builder/blocks''"

definition BID_TRACES_PATH :: string where
  "BID_TRACES_PATH = ''relay/v1/data/bidtraces/builder_blocks_received''"

definition INTERNAL_BEST_BID_PATH :: string where
  "INTERNAL_BEST_BID_PATH = ''best_bid''"

record 'grpc relay_client =
  rcl_info :: relay_info
  rcl_grpc_client :: "'grpc option"

definition MAX_RETRIES :: nat where "MAX_RETRIES = 1000"

text \<open>The attempts \<open>i, i + 1, ...\<close>, at most \<open>n\<close> of them; a sleep of two seconds after each failure.\<close>

fun connect_attempts :: "(nat \<Rightarrow> 'grpc option) \<Rightarrow> nat \<Rightarrow> nat \<Rightarrow> 'grpc option" where
  "connect_attempts connect i 0 = None"
| "connect_attempts connect i (Suc n) =
     (case connect i of
        Some client \<Rightarrow> Some client
      | None \<Rightarrow> connect_attempts connect (Suc i) n)"

definition try_connect_grpc ::
  "('sig, 'resp, 'grpc) http_library \<Rightarrow> string option \<Rightarrow> 'grpc option"
where
  "try_connect_grpc http grpc_url =
     (case grpc_url of
        Some url \<Rightarrow> connect_attempts (hl_grpc_connect http url) 0 MAX_RETRIES
      | None \<Rightarrow> None)"

definition RelayClient_new :: "('sig, 'resp, 'grpc) http_library \<Rightarrow> relay_info \<Rightarrow> 'grpc relay_client" where
  "RelayClient_new http relay =
     \<lparr> rcl_info = relay,
       rcl_grpc_client =
         (case ri_submission relay of
            Grpc grpc_url \<Rightarrow> try_connect_grpc http (Some grpc_url)
          | _ \<Rightarrow> None) \<rparr>"

definition client_get_validators ::
  "('sig, 'resp, 'grpc) http_library \<Rightarrow> relay_info \<Rightarrow> validator_registration_response list"
where
  "client_get_validators http info =
     (case hl_get http (ri_url info @ VALIDATOR_REGISTRATIONS_PATH) [] of
        Some resp \<Rightarrow> (case hl_json_validators http resp of Some data \<Rightarrow> data | None \<Rightarrow> [])
      | None \<Rightarrow> [])"

record submit_bid_resp =
  sbr_status :: nat
  sbr_message :: string

definition STATUS_OK :: nat where "STATUS_OK = 200"
definition STATUS_INTERNAL_SERVER_ERROR :: nat where "STATUS_INTERNAL_SERVER_ERROR = 500"

definition SubmitBidResp_default :: submit_bid_resp where
  "SubmitBidResp_default = \<lparr> sbr_status = STATUS_OK, sbr_message = [] \<rparr>"

definition http_submit ::
  "('sig, 'resp, 'grpc) http_library \<Rightarrow> string \<Rightarrow> post_body \<Rightarrow> (submit_bid_resp, relay_client_err) result"
where
  "http_submit http url body =
     (case hl_post http url body of
        None \<Rightarrow> Err TopBidErr
      | Some resp \<Rightarrow>
          (case hl_text http resp of
             None \<Rightarrow> Err TopBidErr
           | Some message \<Rightarrow> Ok \<lparr> sbr_status = hl_status http resp, sbr_message = message \<rparr>))"

definition client_submit_bid ::
  "('sig, 'resp, 'grpc) http_library \<Rightarrow> 'grpc relay_client \<Rightarrow> 'sig signed_bid \<Rightarrow>
   (submit_bid_resp, relay_client_err) result"
where
  "client_submit_bid http c bid =
     (let url = ri_url (rcl_info c) @ SUBMIT_BID_PATH
      in case ri_submission (rcl_info c) of
           Ssz \<Rightarrow> http_submit http url (SszBody (hl_ssz_bid http bid))
         | Json \<Rightarrow> http_submit http url (JsonBody (hl_json_bid http bid))
         | Sszgzip \<Rightarrow>
             (case hl_gzip http (hl_ssz_bid http bid) of
                None \<Rightarrow> Err GzipErr
              | Some compressed \<Rightarrow> http_submit http url (GzipBody compressed))
         | Grpc _ \<Rightarrow>
             (case rcl_grpc_client c of
                None \<Rightarrow> Panic
              | Some client \<Rightarrow>
                  (case hl_grpc_submit http client (hl_grpc_request http bid) of
                     Ok resp \<Rightarrow>
                       Ok \<lparr> sbr_status = (if sp_code resp = 200 then STATUS_OK
                                          else STATUS_INTERNAL_SERVER_ERROR),
                            sbr_message = sp_message resp \<rparr>
                   | Err e \<Rightarrow> Err (SubmitErr e)
                   | Panic \<Rightarrow> Panic)))"

definition client_get_bid_traces ::
  "('sig, 'resp, 'grpc) http_library \<Rightarrow> relay_info \<Rightarrow> u64 \<Rightarrow> (relay_name \<times> bid_trace list) option"
where
  "client_get_bid_traces http info block_number =
     (case hl_get http (ri_url info @ BID_TRACES_PATH) [(''block_number'', block_number)] of
        Some resp \<Rightarrow> map_option (\<lambda>traces. (ri_name info, traces)) (hl_json_traces http resp)
      | None \<Rightarrow> None)"

definition client_get_internal_best_bid ::
  "('sig, 'resp, 'grpc) http_library \<Rightarrow> relay_info \<Rightarrow> u64 \<Rightarrow> u64 \<Rightarrow> 'sig signed_bid option"
where
  "client_get_internal_best_bid http info block_number timestamp =
     (case hl_get http (ri_url info @ INTERNAL_BEST_BID_PATH)
             [(''block_number'', block_number), (''timestamp'', timestamp)] of
        Some resp \<Rightarrow>
          (case hl_json_best_bid http resp of
             Some (Some bid) \<Rightarrow> Some bid
           | Some None \<Rightarrow> None
           | None \<Rightarrow> None)
      | None \<Rightarrow> None)"

text \<open>The simulated client (\<open>simulate.rs\<close>): its own copies of the requests, and no submission.\<close>

definition simulate_get_validators ::
  "('sig, 'resp, 'grpc) http_library \<Rightarrow> relay_info \<Rightarrow> validator_registration_response list"
where
  "simulate_get_validators http info =
     (case hl_get http (ri_url info @ VALIDATOR_REGISTRATIONS_PATH) [] of
        Some resp \<Rightarrow> unwrap_or (hl_json_validators http resp) []
      | None \<Rightarrow> [])"

definition simulate_submit_bid :: "'sig signed_bid \<Rightarrow> (submit_bid_resp, relay_client_err) result" where
  "simulate_submit_bid bid = Ok SubmitBidResp_default"

definition simulate_get_bid_traces ::
  "('sig, 'resp, 'grpc) http_library \<Rightarrow> relay_info \<Rightarrow> u64 \<Rightarrow> (relay_name \<times> bid_trace list) option"
where
  "simulate_get_bid_traces http info block_number =
     (case hl_get http (ri_url info @ BID_TRACES_PATH) [(''block_number'', block_number)] of
        Some resp \<Rightarrow>
          (case hl_json_traces http resp of
             Some traces \<Rightarrow> Some (ri_name info, traces)
           | None \<Rightarrow> None)
      | None \<Rightarrow> None)"

definition simulate_get_internal_best_bid ::
  "('sig, 'resp, 'grpc) http_library \<Rightarrow> relay_info \<Rightarrow> u64 \<Rightarrow> u64 \<Rightarrow> 'sig signed_bid option"
where
  "simulate_get_internal_best_bid http info block_number timestamp =
     (case hl_get http (ri_url info @ INTERNAL_BEST_BID_PATH)
             [(''block_number'', block_number), (''timestamp'', timestamp)] of
        Some resp \<Rightarrow>
          (case hl_json_best_bid http resp of
             Some (Some bid) \<Rightarrow> Some bid
           | Some None \<Rightarrow> None
           | None \<Rightarrow> None)
      | None \<Rightarrow> None)"

section \<open>Relay instances\<close>

datatype 'grpc relay_instance = LiveClient "'grpc relay_client" | SimulateClient relay_info

definition RelayInstance_new ::
  "('sig, 'resp, 'grpc) http_library \<Rightarrow> relay_info \<Rightarrow> run_mode \<Rightarrow> 'grpc relay_instance"
where
  "RelayInstance_new http info mode =
     (case mode of
        SimulateMode \<Rightarrow> SimulateClient info
      | _ \<Rightarrow> LiveClient (RelayClient_new http info))"

definition instance_info :: "'grpc relay_instance \<Rightarrow> relay_info" where
  "instance_info r = (case r of LiveClient c \<Rightarrow> rcl_info c | SimulateClient info \<Rightarrow> info)"

text \<open>The methods of \<open>dyn Relay\<close>.\<close>

definition instance_get_validators ::
  "('sig, 'resp, 'grpc) http_library \<Rightarrow> 'grpc relay_instance \<Rightarrow> validator_registration_response list"
where
  "instance_get_validators http r =
     (case r of
        LiveClient c \<Rightarrow> client_get_validators http (rcl_info c)
      | SimulateClient info \<Rightarrow> simulate_get_validators http info)"

definition instance_submit_bid ::
  "('sig, 'resp, 'grpc) http_library \<Rightarrow> 'grpc relay_instance \<Rightarrow> 'sig signed_bid \<Rightarrow>
   (submit_bid_resp, relay_client_err) result"
where
  "instance_submit_bid http r bid =
     (case r of
        LiveClient c \<Rightarrow> client_submit_bid http c bid
      | SimulateClient info \<Rightarrow> simulate_submit_bid bid)"

definition instance_get_bid_traces ::
  "('sig, 'resp, 'grpc) http_library \<Rightarrow> 'grpc relay_instance \<Rightarrow> u64 \<Rightarrow> (relay_name \<times> bid_trace list) option"
where
  "instance_get_bid_traces http r block_number =
     (case r of
        LiveClient c \<Rightarrow> client_get_bid_traces http (rcl_info c) block_number
      | SimulateClient info \<Rightarrow> simulate_get_bid_traces http info block_number)"

definition instance_get_internal_best_bid ::
  "('sig, 'resp, 'grpc) http_library \<Rightarrow> 'grpc relay_instance \<Rightarrow> u64 \<Rightarrow> u64 \<Rightarrow> 'sig signed_bid option"
where
  "instance_get_internal_best_bid http r block_number timestamp =
     (case r of
        LiveClient c \<Rightarrow> client_get_internal_best_bid http (rcl_info c) block_number timestamp
      | SimulateClient info \<Rightarrow> simulate_get_internal_best_bid http info block_number timestamp)"

text \<open>Both clients read the same way.\<close>

lemma instance_reads [simp]:
  "instance_get_validators http r = client_get_validators http (instance_info r)"
  "instance_get_bid_traces http r n = client_get_bid_traces http (instance_info r) n"
  "instance_get_internal_best_bid http r n t = client_get_internal_best_bid http (instance_info r) n t"
  by (cases r; simp add: instance_get_validators_def client_get_validators_def simulate_get_validators_def
      instance_get_bid_traces_def client_get_bid_traces_def simulate_get_bid_traces_def
      instance_get_internal_best_bid_def client_get_internal_best_bid_def
      simulate_get_internal_best_bid_def instance_info_def split: option.split)+

type_synonym 'grpc relay_pool = "'grpc relay_instance list"

definition merkle_relay ::
  "('sig, 'resp, 'grpc) http_library \<Rightarrow> url_library \<Rightarrow> environment \<Rightarrow> ('grpc relay_instance, unit) result"
where
  "merkle_relay http url env =
     result_map (\<lambda>info. RelayInstance_new http info LiveMode) (MERKLE_RELAY url env)"

definition internal_relay ::
  "('sig, 'resp, 'grpc) http_library \<Rightarrow> url_library \<Rightarrow> environment \<Rightarrow> ('grpc relay_instance, unit) result"
where
  "internal_relay http url env =
     result_map (\<lambda>info. RelayInstance_new http info LiveMode) (INTERNAL url env)"

definition devnet_relay ::
  "('sig, 'resp, 'grpc) http_library \<Rightarrow> url_library \<Rightarrow> environment \<Rightarrow> ('grpc relay_instance, unit) result"
where
  "devnet_relay http url env =
     result_map (\<lambda>info. RelayInstance_new http info LiveMode) (DEVNET url env)"

text \<open>The run mode is not used.\<close>

definition RelayPool_new ::
  "('sig, 'resp, 'grpc) http_library \<Rightarrow> url_library \<Rightarrow> environment \<Rightarrow> run_mode \<Rightarrow> bool \<Rightarrow>
   ('grpc relay_pool, unit) result"
where
  "RelayPool_new http url env run_mode internal_relay_enabled =
     result_bind (merkle_relay http url env) (\<lambda>merkle.
       if internal_relay_enabled then
         result_map (\<lambda>internal. [merkle, internal]) (internal_relay http url env)
       else Ok [merkle])"

section \<open>Aggregator\<close>

text \<open>All relays are asked; \<open>order\<close> lists their positions in the order of their answers.\<close>

definition aggregate :: "nat list \<Rightarrow> ('grpc relay_instance \<Rightarrow> 'r) \<Rightarrow> 'grpc relay_pool \<Rightarrow> 'r list" where
  "aggregate order f relays = map (\<lambda>i. f (relays ! i)) order"

definition completion_order :: "nat list \<Rightarrow> 'grpc relay_pool \<Rightarrow> bool" where
  "completion_order order relays \<longleftrightarrow> distinct order \<and> set order = {..<length relays}"

definition load_validator_schedule ::
  "('sig, 'resp, 'grpc) http_library \<Rightarrow> nat list \<Rightarrow> 'grpc relay_pool \<Rightarrow>
   (validator_schedule, relay_client_err) result"
where
  "load_validator_schedule http order relays =
     (let results = aggregate order (\<lambda>r. instance_get_validators http r) relays;
          v_info = map ValidatorScheduleSlotInfo_from (concat results)
      in if v_info = [] then Err EmptyValidatorRegistrations else Ok (ValidatorSchedule_new v_info))"

definition broadcast_one ::
  "('sig, 'resp, 'grpc) http_library \<Rightarrow> 'sig signed_bid \<Rightarrow> 'grpc relay_instance \<Rightarrow>
   (unit, relay_client_err) result"
where
  "broadcast_one http bid r =
     result_bind (instance_submit_bid http r bid) (\<lambda>resp.
       if sbr_status resp \<noteq> STATUS_OK then Err (SubmitErr (sbr_message resp)) else Ok ())"

text \<open>A panic of one submission unwinds the task that waits for all of them.\<close>

definition broadcast_submit_bid ::
  "('sig, 'resp, 'grpc) http_library \<Rightarrow> nat list \<Rightarrow> 'grpc relay_pool \<Rightarrow> 'sig signed_bid \<Rightarrow>
   (unit, relay_client_err) result"
where
  "broadcast_submit_bid http order relays bid =
     (let results = aggregate order (broadcast_one http bid) relays
      in if Panic \<in> set results then Panic
         else let successful_submissions = length (filter (\<lambda>r. r = Ok ()) results)
              in if successful_submissions = 0 then Err BroadcastErr else Ok ())"

definition bid_traces ::
  "('sig, 'resp, 'grpc) http_library \<Rightarrow> nat list \<Rightarrow> 'grpc relay_pool \<Rightarrow> u64 \<Rightarrow>
   (relay_name \<times> bid_trace list) list"
where
  "bid_traces http order relays block_number =
     List.map_filter (\<lambda>x. x)
       (aggregate order (\<lambda>r. instance_get_bid_traces http r block_number) relays)"

text \<open>A new client of the internal relay is made for each request.\<close>

definition internal_best_bid ::
  "('sig, 'resp, 'grpc) http_library \<Rightarrow> url_library \<Rightarrow> environment \<Rightarrow> u64 \<Rightarrow> u64 \<Rightarrow>
   ('sig signed_bid option, unit) result"
where
  "internal_best_bid http url env block_number timestamp =
     result_map (\<lambda>r. instance_get_internal_best_bid http r block_number timestamp)
       (internal_relay http url env)"

section \<open>Relay service and handle\<close>

datatype 'sig relay_command =
    SubmitBid "'sig signed_bid"
  | RequestBidTraces u64
  | RequestInternalBestBid u64 u64
  | LoadValidatorSchedule

text \<open>The future a command is answered with: the aggregator call it makes when awaited.\<close>

datatype 'sig relay_future =
    SubmitBidFuture "'sig signed_bid"
  | GetBidTracesFuture u64
  | GetInternalBestBidFuture u64 u64
  | LoadValidatorScheduleFuture

record 'grpc relay_service =
  rs_relay_aggregator :: "'grpc relay_pool"

definition RelayService_new ::
  "('sig, 'resp, 'grpc) http_library \<Rightarrow> url_library \<Rightarrow> environment \<Rightarrow> run_mode \<Rightarrow> bool \<Rightarrow>
   bls_public_key \<Rightarrow> ('grpc relay_service \<times> bls_public_key, unit) result"
where
  "RelayService_new http url env run_mode internal_relay_enabled public_key =
     result_map (\<lambda>relays. (\<lparr> rs_relay_aggregator = relays \<rparr>, public_key))
       (RelayPool_new http url env run_mode internal_relay_enabled)"

definition relay_future_of :: "'sig relay_command \<Rightarrow> 'sig relay_future" where
  "relay_future_of cmd =
     (case cmd of
        SubmitBid bid \<Rightarrow> SubmitBidFuture bid
      | RequestBidTraces n \<Rightarrow> GetBidTracesFuture n
      | RequestInternalBestBid n t \<Rightarrow> GetInternalBestBidFuture n t
      | LoadValidatorSchedule \<Rightarrow> LoadValidatorScheduleFuture)"

text \<open>
  One poll answers all waiting commands, each on its own channel; a channel whose receiver is
  gone is ignored.  The service itself never ends, whether or not the channel was closed.
\<close>

definition RelayService_poll ::
  "(nat \<times> 'sig relay_command) list \<Rightarrow> bool \<Rightarrow> 'grpc relay_service \<Rightarrow>
   'grpc relay_service \<times> (nat \<times> 'sig relay_future) list \<times> bool"
where
  "RelayService_poll commands closed s =
     (s, map (\<lambda>(tx, cmd). (tx, relay_future_of cmd)) commands, False)"

datatype relay_service_err = RecvErr | SendErr | ClientErr relay_client_err

text \<open>
  What a call through the handle meets: whether the service still receives, whether it answers
  before dropping the channel, and the libraries and the order of answers when the future runs.
\<close>

record ('sig, 'resp, 'grpc) handle_env =
  he_sent :: bool
  he_answered :: bool
  he_http :: "('sig, 'resp, 'grpc) http_library"
  he_url :: url_library
  he_environment :: environment
  he_order :: "nat list"

definition handle_request ::
  "('sig, 'resp, 'grpc) handle_env \<Rightarrow> ('a, relay_client_err) result \<Rightarrow> ('a, relay_service_err) result"
where
  "handle_request he answer =
     (if \<not> he_sent he then Err SendErr
      else if \<not> he_answered he then Err RecvErr
      else map_err ClientErr answer)"

definition handle_submit_bid ::
  "('sig, 'resp, 'grpc) handle_env \<Rightarrow> 'grpc relay_service \<Rightarrow> 'sig signed_bid \<Rightarrow>
   (unit, relay_service_err) result"
where
  "handle_submit_bid he s bid =
     handle_request he (broadcast_submit_bid (he_http he) (he_order he) (rs_relay_aggregator s) bid)"

definition handle_get_bid_traces ::
  "('sig, 'resp, 'grpc) handle_env \<Rightarrow> 'grpc relay_service \<Rightarrow> u64 \<Rightarrow>
   ((relay_name \<times> bid_trace list) list, relay_service_err) result"
where
  "handle_get_bid_traces he s n =
     handle_request he (Ok (bid_traces (he_http he) (he_order he) (rs_relay_aggregator s) n))"

definition handle_get_top_bid ::
  "('sig, 'resp, 'grpc) handle_env \<Rightarrow> 'grpc relay_service \<Rightarrow> bls_public_key \<Rightarrow> u64 \<Rightarrow>
   (bid_trace option, relay_service_err) result"
where
  "handle_get_top_bid he s public_key n =
     result_map
       (\<lambda>relays. max_by_key bt_value
          (filter (\<lambda>t. bt_builder_pubkey t \<noteq> public_key) (concat (map snd relays))))
       (handle_request he (Ok (bid_traces (he_http he) (he_order he) (rs_relay_aggregator s) n)))"

definition handle_get_internal_best_bid ::
  "('sig, 'resp, 'grpc) handle_env \<Rightarrow> 'grpc relay_service \<Rightarrow> u64 \<Rightarrow> u64 \<Rightarrow>
   ('sig signed_bid option, relay_service_err) result"
where
  "handle_get_internal_best_bid he s n t =
     handle_request he
       (case internal_best_bid (he_http he) (he_url he) (he_environment he) n t of
          Ok b \<Rightarrow> Ok b | _ \<Rightarrow> Panic)"

definition handle_load_validator_schedule ::
  "('sig, 'resp, 'grpc) handle_env \<Rightarrow> 'grpc relay_service \<Rightarrow>
   (validator_schedule, relay_service_err) result"
where
  "handle_load_validator_schedule he s =
     handle_request he (load_validator_schedule (he_http he) (he_order he) (rs_relay_aggregator s))"

section \<open>Validator schedule service\<close>

definition EPOCH_TIME_SECONDS :: u64 where "EPOCH_TIME_SECONDS = 32 * 12"

text \<open>
  Load tasks are numbered in the order they are spawned; only the receiver of the last one is
  kept.  The schedule is shared with the handle.
\<close>

record validator_schedule_service =
  vs_state_receiver :: "nat option"
  vs_state :: validator_schedule
  vs_spawned :: nat

definition ValidatorScheduleService_new :: validator_schedule_service where
  "ValidatorScheduleService_new = \<lparr> vs_state_receiver = None, vs_state = Map.empty, vs_spawned = 0 \<rparr>"

definition handle_validator_info :: "validator_schedule_service \<Rightarrow> u64 \<Rightarrow> validator_info option" where
  "handle_validator_info s slot = get_by_slot (vs_state s) slot"

definition reset_state :: "validator_schedule \<Rightarrow> validator_schedule_service \<Rightarrow> validator_schedule_service" where
  "reset_state schedule s = s\<lparr> vs_state := schedule \<rparr>"

datatype load_answer =
    LoadPending
  | LoadDone "(validator_schedule, relay_service_err) result"
  | LoadLost

text \<open>One tick of the interval: a new load task, whose receiver replaces the pending one.\<close>

definition on_tick :: "validator_schedule_service \<Rightarrow> validator_schedule_service" where
  "on_tick s = s\<lparr> vs_state_receiver := Some (vs_spawned s), vs_spawned := Suc (vs_spawned s) \<rparr>"

text \<open>
  The poll, given how many ticks are ready and what each load task has answered; the last result
  is whether the interval is reset to fire in five seconds.
\<close>

definition validator_poll ::
  "nat \<Rightarrow> (nat \<Rightarrow> load_answer) \<Rightarrow> validator_schedule_service \<Rightarrow> validator_schedule_service \<times> bool"
where
  "validator_poll ticks answer s =
     (let s1 = (on_tick ^^ ticks) s
      in case vs_state_receiver s1 of
           None \<Rightarrow> (s1, False)
         | Some rx \<Rightarrow>
             let s2 = s1\<lparr> vs_state_receiver := None \<rparr>
             in (case answer rx of
                   LoadDone (Ok schedule) \<Rightarrow> (reset_state schedule s2, False)
                 | LoadDone _ \<Rightarrow> (s2, True)
                 | LoadLost \<Rightarrow> (s2, True)
                 | LoadPending \<Rightarrow> (s2\<lparr> vs_state_receiver := Some rx \<rparr>, False)))"


section \<open>Use by the bidder\<close>

text \<open>What the bidder makes of an answer to its request, and of a submission.\<close>

definition top_bid_answer_of :: "(bid_trace option, relay_service_err) result \<Rightarrow> top_bid_answer" where
  "top_bid_answer_of r =
     (case r of
        Ok (Some t) \<Rightarrow> TopBid (bt_value t)
      | Ok None \<Rightarrow> TopBidNotFound
      | _ \<Rightarrow> TopBidFailed)"

definition submit_to_relays ::
  "('pk, 'sk, 'sig, 'be) blst_library \<Rightarrow> tree_hasher \<Rightarrow> ('blob built_payload \<Rightarrow> payload_envelope) \<Rightarrow>
   'sk bls_signer \<Rightarrow> ('sig, 'resp, 'grpc) handle_env \<Rightarrow> 'grpc relay_service \<Rightarrow> 'blob build \<Rightarrow>
   (unit, relay_service_err) result"
where
  "submit_to_relays lib th envelope_of signer he s build =
     handle_submit_bid he s (signed_bid_of lib th envelope_of signer build)"

section \<open>Lemmas\<close>

lemma set_aggregate:
  assumes "completion_order order relays"
  shows "set (aggregate order f relays) = f ` set relays"
proof -
  have "set (aggregate order f relays) = f ` (!) relays ` {..<length relays}"
    using assms by (simp add: aggregate_def completion_order_def image_image)
  also have "(!) relays ` {..<length relays} = set relays"
    using nth_image [of "length relays" relays] by (simp add: lessThan_atLeast0)
  finally show ?thesis .
qed

lemma broadcast_submit_bid_eq:
  assumes "completion_order order relays"
  shows "broadcast_submit_bid http order relays b =
     (if \<exists>r \<in> set relays. broadcast_one http b r = Panic then Panic
      else if \<exists>r \<in> set relays. broadcast_one http b r = Ok () then Ok ()
      else Err BroadcastErr)"
proof -
  have "Panic \<in> set (aggregate order (broadcast_one http b) relays) \<longleftrightarrow>
      (\<exists>r \<in> set relays. broadcast_one http b r = Panic)"
    by (force simp: set_aggregate [OF assms])
  moreover have "length (filter (\<lambda>r. r = Ok ()) (aggregate order (broadcast_one http b) relays)) = 0 \<longleftrightarrow>
      \<not> (\<exists>r \<in> set relays. broadcast_one http b r = Ok ())"
    by (force simp: filter_empty_conv set_aggregate [OF assms])
  ultimately show ?thesis
    by (simp add: broadcast_submit_bid_def Let_def)
qed

lemma aggregate_simulated:
  assumes "set order \<subseteq> {..<length relays}"
  shows "aggregate order (\<lambda>r. f (instance_info r)) (map (\<lambda>r. SimulateClient (instance_info r)) relays) =
         aggregate order (\<lambda>r. f (instance_info r)) relays"
  using assms by (auto simp: aggregate_def instance_info_def)

lemma broadcast_one_Ok:
  "broadcast_one http b r = Ok () \<longleftrightarrow>
     (\<exists>resp. instance_submit_bid http r b = Ok resp \<and> sbr_status resp = 200)"
  by (auto simp: broadcast_one_def result_bind_Ok_iff STATUS_OK_def split: if_splits)

lemma handle_request_Ok:
  "handle_request he answer = Ok x \<longleftrightarrow> he_sent he \<and> he_answered he \<and> answer = Ok x"
  by (simp add: handle_request_def)

lemma connect_attempts_None:
  "connect_attempts connect i n = None \<longleftrightarrow> (\<forall>j < n. connect (i + j) = None)"
proof (induction n arbitrary: i)
  case 0
  then show ?case by simp
next
  case (Suc n)
  show ?case
    by (cases "connect i") (auto simp: Suc.IH less_Suc_eq_0_disj)
qed

lemma set_map_filter_id: "set (List.map_filter (\<lambda>x. x) xs) = {y. Some y \<in> set xs}"
  by (force simp: List.map_filter_def)

lemma Some_in_image: "Some y \<in> f ` A \<longleftrightarrow> (\<exists>r \<in> A. f r = Some y)"
  by (metis imageE imageI)

lemma client_get_bid_traces_iff:
  "(\<exists>p. client_get_bid_traces http info n = Some p \<and> t \<in> set (snd p)) \<longleftrightarrow>
     (\<exists>ts. client_get_bid_traces http info n = Some (ri_name info, ts) \<and> t \<in> set ts)"
  by (auto simp: client_get_bid_traces_def split: option.split)

lemma set_bid_traces:
  assumes "completion_order order relays"
  shows "t \<in> set (concat (map snd (bid_traces http order relays n))) \<longleftrightarrow>
     (\<exists>r \<in> set relays. \<exists>ts. client_get_bid_traces http (instance_info r) n =
        Some (ri_name (instance_info r), ts) \<and> t \<in> set ts)"
proof -
  have "set (bid_traces http order relays n) =
      {y. \<exists>r \<in> set relays. client_get_bid_traces http (instance_info r) n = Some y}"
    by (simp add: bid_traces_def set_map_filter_id set_aggregate [OF assms] Some_in_image)
  then have "t \<in> set (concat (map snd (bid_traces http order relays n))) \<longleftrightarrow>
      (\<exists>r \<in> set relays. \<exists>p. client_get_bid_traces http (instance_info r) n = Some p \<and>
         t \<in> set (snd p))"
    by auto
  then show ?thesis by (simp only: client_get_bid_traces_iff)
qed

text \<open>The validator schedule: some relay registered each entry, and no registered slot is lost.\<close>

lemma load_validator_schedule_Ok:
  assumes "completion_order order relays"
    and "load_validator_schedule http order relays = Ok sched"
  shows "get_by_slot sched slot = Some v \<Longrightarrow>
           \<exists>r \<in> set relays. \<exists>reg \<in> set (client_get_validators http (instance_info r)).
             v = ValidatorScheduleSlotInfo_from reg \<and> vrr_slot reg = slot"
    and "get_by_slot sched slot = None \<longleftrightarrow>
           \<not> (\<exists>r \<in> set relays. \<exists>reg \<in> set (client_get_validators http (instance_info r)).
                vrr_slot reg = slot)"
proof -
  let ?infos = "map ValidatorScheduleSlotInfo_from
      (concat (aggregate order (\<lambda>r. client_get_validators http (instance_info r)) relays))"
  have sched: "sched = ValidatorSchedule_new ?infos"
    using assms(2) by (simp add: load_validator_schedule_def Let_def split: if_splits)
  have look: "get_by_slot sched slot = find (\<lambda>v. vi_slot v = slot) ?infos"
    using schedule_fold [of ?infos Map.empty slot]
    by (simp add: sched ValidatorSchedule_new_def get_by_slot_def)
  have mem: "v \<in> set ?infos \<longleftrightarrow>
      (\<exists>r \<in> set relays. \<exists>reg \<in> set (client_get_validators http (instance_info r)).
         v = ValidatorScheduleSlotInfo_from reg)" for v
    by (auto simp: set_aggregate [OF assms(1)])
  have slot: "vi_slot (ValidatorScheduleSlotInfo_from reg) = vrr_slot reg" for reg
    by (simp add: ValidatorScheduleSlotInfo_from_def)
  show "\<exists>r \<in> set relays. \<exists>reg \<in> set (client_get_validators http (instance_info r)).
             v = ValidatorScheduleSlotInfo_from reg \<and> vrr_slot reg = slot"
    if "get_by_slot sched slot = Some v"
    using that mem [of v] slot unfolding look find_Some_iff by (metis nth_mem)
  show "get_by_slot sched slot = None \<longleftrightarrow>
           \<not> (\<exists>r \<in> set relays. \<exists>reg \<in> set (client_get_validators http (instance_info r)).
                vrr_slot reg = slot)"
    unfolding look find_None_iff using mem slot by metis
qed

text \<open>The schedule changes only by a successful load of the last task.\<close>

lemma on_tick_iter:
  "vs_state ((on_tick ^^ k) s) = vs_state s"
  "vs_spawned ((on_tick ^^ k) s) = vs_spawned s + k"
  "vs_state_receiver ((on_tick ^^ k) s) =
     (if k = 0 then vs_state_receiver s else Some (vs_spawned s + k - 1))"
  by (induction k) (simp_all add: on_tick_def)

lemma validator_poll_state:
  "vs_state (fst (validator_poll ticks answer s)) =
     (case vs_state_receiver ((on_tick ^^ ticks) s) of
        None \<Rightarrow> vs_state s
      | Some rx \<Rightarrow> (case answer rx of LoadDone (Ok schedule) \<Rightarrow> schedule | _ \<Rightarrow> vs_state s))"
  by (simp add: validator_poll_def reset_state_def on_tick_iter(1) Let_def
      split: option.split load_answer.split result.split)


lemma handle_get_top_bid_Ok:
  assumes "handle_get_top_bid he s pk n = Ok x"
  shows "x = max_by_key bt_value (filter (\<lambda>t. bt_builder_pubkey t \<noteq> pk)
           (concat (map snd (bid_traces (he_http he) (he_order he) (rs_relay_aggregator s) n))))"
  using assms by (auto simp: handle_get_top_bid_def result_map_Ok_iff handle_request_Ok)

section \<open>Properties\<close>

text \<open>
  A pool of simulated clients reads like the live pool it stands for. Whatever the network answers
  and in whatever order, the validator schedule, the bid traces and the best bid are the same, and
  only the submission differs: it never reaches the network and is accepted by every relay.
\<close>

lemma simulated_pool_reads_live:
  assumes "completion_order order relays" and "relays \<noteq> []"
    and "simulated = map (\<lambda>r. SimulateClient (instance_info r)) relays"
  shows "load_validator_schedule http order simulated = load_validator_schedule http order relays \<and>
         bid_traces http order simulated n = bid_traces http order relays n \<and>
         broadcast_submit_bid http' order simulated bid = Ok ()"
proof -
  have i: "i \<in> set order \<Longrightarrow> i < length relays" for i
    using assms(1) by (auto simp: completion_order_def)
  then have "set order \<subseteq> {..<length relays}" by blast
  note read = aggregate_simulated [OF this]
  have same: "aggregate order (\<lambda>r. client_get_validators http (instance_info r)) simulated =
        aggregate order (\<lambda>r. client_get_validators http (instance_info r)) relays"
      "aggregate order (\<lambda>r. client_get_bid_traces http (instance_info r) n) simulated =
        aggregate order (\<lambda>r. client_get_bid_traces http (instance_info r) n) relays"
    unfolding assms(3)
    by (rule read [of "client_get_validators http"], rule read [of "\<lambda>info. client_get_bid_traces http info n"])
  have "broadcast_submit_bid http' order simulated bid = Ok ()"
  proof -
    have "broadcast_one http' bid (SimulateClient info) = Ok ()" for info
      by (simp add: broadcast_one_def instance_submit_bid_def simulate_submit_bid_def SubmitBidResp_default_def)
    then have results: "aggregate order (broadcast_one http' bid) simulated = map (\<lambda>_. Ok ()) order"
      using i by (simp add: aggregate_def assms(3))
    have "set order \<noteq> {}" using assms(1,2) by (simp add: completion_order_def lessThan_empty_iff)
    then have "order \<noteq> []" by blast
    moreover have "filter (\<lambda>r. r = Ok ()) (map (\<lambda>_. Ok ()) order :: (unit, relay_client_err) result list) = map (\<lambda>_. Ok ()) order"
      by (rule filter_True) simp
    moreover have "Panic \<notin> set (map (\<lambda>_. Ok ()) order :: (unit, relay_client_err) result list)" by auto
    ultimately show ?thesis unfolding broadcast_submit_bid_def results Let_def by simp
  qed
  then show ?thesis
    unfolding load_validator_schedule_def bid_traces_def instance_reads same by simp
qed

text \<open>
  C17: Broadcasting a bid. Whatever the order in which the relays answer, the broadcast succeeds
  exactly when at least one relay accepted the bid with status 200 and no submission panicked;
  otherwise, when none panicked, it is the broadcast error, whatever the relays reported.
\<close>

theorem broadcast_outcome:
  assumes "completion_order order relays"
  shows "(broadcast_submit_bid http order relays b = Ok () \<longleftrightarrow>
            (\<exists>r \<in> set relays. \<exists>resp. instance_submit_bid http r b = Ok resp \<and> sbr_status resp = 200) \<and>
            \<not> (\<exists>r \<in> set relays. instance_submit_bid http r b = Panic)) \<and>
         (broadcast_submit_bid http order relays b = Panic \<longleftrightarrow>
            (\<exists>r \<in> set relays. instance_submit_bid http r b = Panic)) \<and>
         (broadcast_submit_bid http order relays b = Err e \<longleftrightarrow>
            e = BroadcastErr \<and>
            \<not> (\<exists>r \<in> set relays. instance_submit_bid http r b = Panic \<or>
                 (\<exists>resp. instance_submit_bid http r b = Ok resp \<and> sbr_status resp = 200)))"
proof -
  have "broadcast_one http b r = Panic \<longleftrightarrow> instance_submit_bid http r b = Panic" for r
    by (cases "instance_submit_bid http r b") (simp_all add: broadcast_one_def)
  then show ?thesis
    unfolding broadcast_submit_bid_eq [OF assms] broadcast_one_Ok by auto
qed

definition sample_http :: "(unit, nat, unit) http_library" where
  "sample_http =
     \<lparr> hl_get = (\<lambda>_ _. Some 200), hl_post = (\<lambda>_ _. Some 200), hl_status = (\<lambda>r. r),
       hl_text = (\<lambda>_. Some []),
       hl_json_validators = (\<lambda>_. Some []),
       hl_json_traces = (\<lambda>_. Some [to_trace 5 (sample_arrival 7 3), to_trace 6 (sample_arrival 7 8)]),
       hl_json_best_bid = (\<lambda>_. Some None), hl_ssz_bid = (\<lambda>_. []), hl_json_bid = (\<lambda>_. []),
       hl_gzip = Some, hl_grpc_connect = (\<lambda>_ _. None),
       hl_grpc_request = SubmitBlockRequest_from sample_blst unary,
       hl_grpc_submit = (\<lambda>_ _. Ok \<lparr> sp_code = 200, sp_message = [] \<rparr>) \<rparr>"

definition sample_relay :: "submission_kind \<Rightarrow> relay_info" where
  "sample_relay kind = \<lparr> ri_name = MerkleRelay, ri_url = ''u'', ri_submission = kind \<rparr>"

definition sample_pool :: "unit relay_pool" where
  "sample_pool =
     [SimulateClient (sample_relay Ssz), RelayInstance_new sample_http (sample_relay Json) LiveMode]"

lemma sample_order: "completion_order [1, 0] sample_pool"
  by (auto simp: completion_order_def sample_pool_def)

theorem broadcast_outcome_witness:
  "broadcast_submit_bid sample_http [1, 0] sample_pool (sample_arrival 7 3) = Ok ()"
proof -
  have "instance_submit_bid sample_http (SimulateClient (sample_relay Ssz)) (sample_arrival 7 3) =
      Ok SubmitBidResp_default"
    by (simp add: instance_submit_bid_def simulate_submit_bid_def)
  moreover have "instance_submit_bid sample_http
      (RelayInstance_new sample_http (sample_relay Json) LiveMode) (sample_arrival 7 3) \<noteq> Panic"
    by (simp add: RelayInstance_new_def RelayClient_new_def instance_submit_bid_def
        client_submit_bid_def http_submit_def sample_relay_def sample_http_def)
  ultimately show ?thesis
    using broadcast_outcome [OF sample_order, of sample_http "sample_arrival 7 3"]
    by (simp add: sample_pool_def SubmitBidResp_default_def STATUS_OK_def)
qed

text \<open>The traces the relays of the pool report for a block under a key other than \<open>public_key\<close>.\<close>

definition foreign_traces ::
  "('sig, 'resp, 'grpc) handle_env \<Rightarrow> 'grpc relay_service \<Rightarrow> bls_public_key \<Rightarrow> u64 \<Rightarrow> bid_trace set"
where
  "foreign_traces he s public_key n =
     {t. bt_builder_pubkey t \<noteq> public_key \<and>
         (\<exists>r \<in> set (rs_relay_aggregator s). \<exists>ts.
            client_get_bid_traces (he_http he) (instance_info r) n =
              Some (ri_name (instance_info r), ts) \<and> t \<in> set ts)}"

text \<open>
  C21: The top bid the bidder competes with is never one of its own: it was reported by a relay
  of the pool for that block under another builder key, and no trace under another key that any
  relay reported has a larger value. There is none only if no such trace was reported.
\<close>

theorem top_bid_is_foreign:
  assumes "completion_order (he_order he) (rs_relay_aggregator s)"
    and "handle_get_top_bid he s public_key n = Ok best"
  shows "case best of
           None \<Rightarrow> foreign_traces he s public_key n = {} \<and>
                   top_bid_answer_of (Ok best) = TopBidNotFound
         | Some t \<Rightarrow> t \<in> foreign_traces he s public_key n \<and>
                     (\<forall>t' \<in> foreign_traces he s public_key n. bt_value t' \<le> bt_value t) \<and>
                     top_bid_answer_of (Ok best) = TopBid (bt_value t)"
proof -
  let ?traces = "filter (\<lambda>t. bt_builder_pubkey t \<noteq> public_key)
      (concat (map snd (bid_traces (he_http he) (he_order he) (rs_relay_aggregator s) n)))"
  have foreign: "set ?traces = foreign_traces he s public_key n"
    by (simp only: set_filter set_bid_traces [OF assms(1)] foreign_traces_def) blast
  have best: "best = max_by_key bt_value ?traces"
    by (rule handle_get_top_bid_Ok [OF assms(2)])
  show ?thesis
  proof (cases best)
    case None
    with best have "?traces = []" by (metis max_by_key_None)
    then have "foreign_traces he s public_key n = {}" by (simp only: foreign [symmetric] list.set)
    with None show ?thesis by (simp add: top_bid_answer_of_def)
  next
    case (Some t)
    with best have max: "max_by_key bt_value ?traces = Some t" by simp
    have "t \<in> foreign_traces he s public_key n"
      and "\<forall>t' \<in> foreign_traces he s public_key n. bt_value t' \<le> bt_value t"
      using max_by_key_mem [OF max] max_by_key_max [OF max] unfolding foreign by blast+
    with Some show ?thesis by (simp add: top_bid_answer_of_def)
  qed
qed

definition sample_handle_env :: "(unit, nat, unit) handle_env" where
  "sample_handle_env =
     \<lparr> he_sent = True, he_answered = True, he_http = sample_http, he_url = Some,
       he_environment = (\<lambda>_. None), he_order = [1, 0] \<rparr>"

definition sample_service :: "unit relay_service" where
  "sample_service = \<lparr> rs_relay_aggregator = sample_pool \<rparr>"

lemma sample_service_order:
  "completion_order (he_order sample_handle_env) (rs_relay_aggregator sample_service)"
  using sample_order by (simp add: sample_handle_env_def sample_service_def)

lemma sample_foreign:
  "to_trace 6 (sample_arrival 7 8) \<in> foreign_traces sample_handle_env sample_service 99 7"
proof -
  have "bt_builder_pubkey (to_trace 6 (sample_arrival 7 8)) = 1"
    by (simp add: to_trace_def sample_arrival_def sample_signed_bid_def signed_bid_of_def
        SignedBid_new_def Bid_new_def BlsSigner_public_key_def SecretKey_public_key_def
        PublicKey_serialize_def sample_blst_def from_be_slice_be_bytes Let_def)
  moreover have "client_get_bid_traces sample_http (sample_relay Ssz) 7 =
      Some (MerkleRelay, [to_trace 5 (sample_arrival 7 3), to_trace 6 (sample_arrival 7 8)])"
    by (simp add: client_get_bid_traces_def sample_http_def sample_relay_def)
  ultimately show ?thesis
    by (simp add: foreign_traces_def sample_handle_env_def sample_service_def sample_pool_def
        instance_info_def sample_relay_def)
qed

lemma foreign_traces_key: "t \<in> foreign_traces he s pk n \<Longrightarrow> bt_builder_pubkey t \<noteq> pk"
  by (simp add: foreign_traces_def)

theorem top_bid_is_foreign_witness:
  "\<exists>t. handle_get_top_bid sample_handle_env sample_service 99 7 = Ok (Some t) \<and>
       bt_builder_pubkey t \<noteq> 99 \<and> 8 \<le> bt_value t"
proof -
  obtain best where best: "handle_get_top_bid sample_handle_env sample_service 99 7 = Ok best"
    by (simp add: handle_get_top_bid_def handle_request_def sample_handle_env_def)
  have "bt_value (to_trace 6 (sample_arrival 7 8)) = 8"
    by (simp add: to_trace_def Let_def)
  then show ?thesis
    using top_bid_is_foreign [OF sample_service_order best] sample_foreign best
    by (cases best) (auto dest: bspec foreign_traces_key)
qed


text \<open>The bid reached a relay: the service answered and some relay took it with status 200.\<close>

definition delivered ::
  "('sig, 'resp, 'grpc) handle_env \<Rightarrow> 'grpc relay_service \<Rightarrow> 'sig signed_bid \<Rightarrow> bool"
where
  "delivered he s b \<longleftrightarrow>
     he_sent he \<and> he_answered he \<and>
     (\<exists>r \<in> set (rs_relay_aggregator s). \<exists>resp.
        instance_submit_bid (he_http he) r b = Ok resp \<and> sbr_status resp = 200)"

text \<open>The submission of the bid to some relay panics while the future of the service runs.\<close>

definition submission_panics ::
  "('sig, 'resp, 'grpc) handle_env \<Rightarrow> 'grpc relay_service \<Rightarrow> 'sig signed_bid \<Rightarrow> bool"
where
  "submission_panics he s b \<longleftrightarrow>
     he_sent he \<and> he_answered he \<and>
     (\<exists>r \<in> set (rs_relay_aggregator s). instance_submit_bid (he_http he) r b = Panic)"

lemma broadcast_one_Panic: "broadcast_one http b r = Panic \<longleftrightarrow> instance_submit_bid http r b = Panic"
  by (cases "instance_submit_bid http r b") (auto simp: broadcast_one_def)

lemma handle_submit_bid_cases:
  assumes "completion_order (he_order he) (rs_relay_aggregator s)"
  shows "handle_submit_bid he s b = Panic \<longleftrightarrow> submission_panics he s b"
    and "handle_submit_bid he s b = Ok () \<longleftrightarrow> delivered he s b \<and> \<not> submission_panics he s b"
  by (auto simp: handle_submit_bid_def handle_request_def broadcast_submit_bid_eq [OF assms]
      broadcast_one_Ok broadcast_one_Panic delivered_def submission_panics_def)



text \<open>
  In every run mode, the simulation mode included, the relay pool is the same: the live client of
  the gRPC relay and, if enabled, of the internal relay. When that gRPC relay has not accepted a
  connection within the 1000 attempts at start-up, every broadcast panics, even when the
  internal relay would have taken the bid.
\<close>

lemma unconnected_relay_panics:
  assumes "\<And>url i. i < 1000 \<Longrightarrow> hl_grpc_connect http url i = None"
    and "RelayPool_new http url env mode flag = Ok relays"
    and "completion_order order relays"
  shows "list_all (\<lambda>r. \<not> (\<exists>info. r = SimulateClient info)) relays \<and>
         RelayPool_new http url env mode' flag = Ok relays \<and>
         broadcast_submit_bid http order relays b = Panic"
proof -
  obtain grpc info where info: "MERKLE_RELAY url env = Ok info" "ri_submission info = Grpc grpc"
    and head: "relays \<noteq> []" "hd relays = LiveClient (RelayClient_new http info)"
    and live: "list_all (\<lambda>r. \<not> (\<exists>info. r = SimulateClient info)) relays"
    using assms(2)
    by (auto simp: RelayPool_new_def merkle_relay_def internal_relay_def result_bind_Ok_iff
        result_map_Ok_iff RelayInstance_new_def MERKLE_RELAY_def relay_at_def split: if_splits)
  have "rcl_grpc_client (RelayClient_new http info) = None"
    using assms(1) by (simp add: RelayClient_new_def info try_connect_grpc_def connect_attempts_None
        MAX_RETRIES_def)
  then have "instance_submit_bid http (hd relays) b = Panic"
    by (simp add: head instance_submit_bid_def client_submit_bid_def RelayClient_new_def info Let_def)
  then have "broadcast_one http b (hd relays) = Panic"
    by (simp add: broadcast_one_def)
  then have "broadcast_submit_bid http order relays b = Panic"
    using hd_in_set [OF head(1)] by (auto simp: broadcast_submit_bid_eq [OF assms(3)])
  with live assms(2) show ?thesis by (simp add: RelayPool_new_def)
qed

end
