(* ===== verification/Relay_Loop.thy ===== *)
theory Relay_Loop
  imports Relay Bid_Json
begin

text \<open>
  The builder's relay client against the builder's own relay server, over HTTP and JSON:
  \<open>crates/relay/src/client/mod.rs\<close> on \<open>crates/relay/src/internal_relay.rs\<close>.

  The server's routes are matched on the method, path and query of a request, bodies and replies
  are JSON texts.  Printing and parsing of JSON text is the library's (\<open>json_text\<close>); documents are
  those of \<open>Bid_Json\<close>.  A request body carries its content type, and the server reads only JSON.
\<close>

section \<open>The server's side\<close>

datatype http_method = GET | POST

record json_text =
  jt_print :: "json \<Rightarrow> bytes"
  jt_parse :: "bytes \<Rightarrow> json option"

text \<open>\<open>serde_as(as = "DisplayFromStr")\<close> on a field of the query.\<close>

definition query_u64 :: "(string \<times> string) list \<Rightarrow> string \<Rightarrow> u64 option" where
  "query_u64 q name = (case filter (\<lambda>(k, _). k = name) q of [(_, v)] \<Rightarrow> u64_from_str v | _ \<Rightarrow> None)"

definition GetBidTracesRequest_from :: "(string \<times> string) list \<Rightarrow> u64 option" where
  "GetBidTracesRequest_from q = query_u64 q ''block_number''"

definition GetBidRequest_from :: "(string \<times> string) list \<Rightarrow> (u64 \<times> u64) option" where
  "GetBidRequest_from q =
     Option.bind (query_u64 q ''block_number'') (\<lambda>n.
     Option.bind (query_u64 q ''timestamp'') (\<lambda>t. Some (n, t)))"

definition body_bytes :: "post_body \<Rightarrow> bytes" where
  "body_bytes body = (case body of SszBody bs \<Rightarrow> bs | JsonBody bs \<Rightarrow> bs | GzipBody bs \<Rightarrow> bs)"

definition body_bid :: "('pk, 'sk, 'sig, 'be) json_library \<Rightarrow> json_text \<Rightarrow> post_body \<Rightarrow> 'sig signed_bid option" where
  "body_bid lib txt body =
     (case body of
        JsonBody bs \<Rightarrow> Option.bind (jt_parse txt bs) (SignedBid_from_json lib)
      | _ \<Rightarrow> None)"

definition internal_request_of ::
  "('pk, 'sk, 'sig, 'be) json_library \<Rightarrow> json_text \<Rightarrow> http_method \<Rightarrow> string \<Rightarrow> (string \<times> string) list \<Rightarrow> post_body \<Rightarrow>
   'sig internal_request"
where
  "internal_request_of lib txt meth path q body =
     (if path = ''relay/v1/builder/blocks'' \<and> meth = POST then
        PostBlock (length (body_bytes body)) (body_bid lib txt body)
      else if path = ''relay/v1/data/bidtraces/builder_blocks_received'' \<and> meth = GET then
        GetBidTraces (GetBidTracesRequest_from q)
      else if path = ''best_bid'' \<and> meth = GET then GetBestBid (GetBidRequest_from q)
      else OtherRoute)"

record http_response =
  rp_status :: nat
  rp_body :: bytes

definition text_bytes :: "string \<Rightarrow> bytes" where
  "text_bytes s = map (\<lambda>c. word_of_nat (of_char c)) s"

definition reply_http :: "('pk, 'sk, 'sig, 'be) json_library \<Rightarrow> json_text \<Rightarrow> 'sig internal_reply \<Rightarrow> http_response" where
  "reply_http lib txt reply =
     (case reply of
        ReplyOk \<Rightarrow> \<lparr> rp_status = 200, rp_body = text_bytes ''Ok'' \<rparr>
      | ReplyTraces traces \<Rightarrow>
          \<lparr> rp_status = 200, rp_body = jt_print txt (JArray (map (BidTrace_to_json lib) traces)) \<rparr>
      | ReplyBid bid \<Rightarrow> \<lparr> rp_status = 200, rp_body = jt_print txt (SignedBid_to_json lib bid) \<rparr>
      | ReplyInternalServerError \<Rightarrow>
          \<lparr> rp_status = 500, rp_body = jt_print txt (JString ''internal server error'') \<rparr>)"

definition serve_http ::
  "('pk, 'sk, 'sig, 'be) json_library \<Rightarrow> json_text \<Rightarrow> u64 \<Rightarrow> http_method \<Rightarrow> string \<Rightarrow> (string \<times> string) list \<Rightarrow> post_body \<Rightarrow>
   'sig relay_bid_cache \<Rightarrow> 'sig relay_bid_cache \<times> http_response"
where
  "serve_http lib txt now_ms meth path q body c =
     (let (c', reply) = internal_routes now_ms (internal_request_of lib txt meth path q body) c
      in (c', reply_http lib txt reply))"

section \<open>The client's side\<close>

text \<open>
  The client's libraries when the server at \<open>base\<close> has the cache \<open>c\<close>: query values are written in
  decimal, a path is what follows the base, and a host that is not the server's does not answer.
  \<open>validators\<close> reads the registrations, which this server does not have.
\<close>

definition query_text :: "(string \<times> u64) list \<Rightarrow> (string \<times> string) list" where
  "query_text q = map (\<lambda>(k, v). (k, show_nat (unat v))) q"

definition best_bid_from_json :: "('pk, 'sk, 'sig, 'be) json_library \<Rightarrow> json \<Rightarrow> 'sig signed_bid option option" where
  "best_bid_from_json lib j = (if j = JNull then Some None else map_option Some (SignedBid_from_json lib j))"

definition internal_http ::
  "('pk, 'sk, 'sig, 'be) json_library \<Rightarrow> json_text \<Rightarrow> (json \<Rightarrow> validator_registration_response list option) \<Rightarrow> string \<Rightarrow> u64 \<Rightarrow>
   'sig relay_bid_cache \<Rightarrow> ('sig, http_response, 'grpc) http_library \<Rightarrow>
   ('sig, http_response, 'grpc) http_library"
where
  "internal_http lib txt validators base now_ms c http =
     (let path = (\<lambda>url. if take (length base) url = base then Some (drop (length base) url) else None)
      in http
        \<lparr> hl_get := (\<lambda>url q. map_option
            (\<lambda>p. snd (serve_http lib txt now_ms GET p (query_text q) (JsonBody []) c)) (path url)),
          hl_post := (\<lambda>url body. map_option
            (\<lambda>p. snd (serve_http lib txt now_ms POST p [] body c)) (path url)),
          hl_status := rp_status,
          hl_text := (\<lambda>r. Some (map (\<lambda>b. char_of (unat b)) (rp_body r))),
          hl_json_validators := (\<lambda>r. Option.bind (jt_parse txt (rp_body r)) validators),
          hl_json_traces := (\<lambda>r. Option.bind (jt_parse txt (rp_body r)) (vec_from_json (BidTrace_from_json lib))),
          hl_json_best_bid := (\<lambda>r. Option.bind (jt_parse txt (rp_body r)) (best_bid_from_json lib)),
          hl_json_bid := (\<lambda>b. jt_print txt (SignedBid_to_json lib b)) \<rparr>)"

text \<open>The cache after the client posted a bid.\<close>

definition cache_posted ::
  "('pk, 'sk, 'sig, 'be) json_library \<Rightarrow> json_text \<Rightarrow> u64 \<Rightarrow> 'sig signed_bid \<Rightarrow> 'sig relay_bid_cache \<Rightarrow> 'sig relay_bid_cache"
where
  "cache_posted lib txt now_ms bid c =
     fst (serve_http lib txt now_ms POST SUBMIT_BID_PATH [] (JsonBody (jt_print txt (SignedBid_to_json lib bid))) c)"

definition fits :: "('pk, 'sk, 'sig, 'be) json_library \<Rightarrow> json_text \<Rightarrow> 'sig signed_bid \<Rightarrow> bool" where
  "fits lib txt bid \<longleftrightarrow> length (jt_print txt (SignedBid_to_json lib bid)) \<le> 1024 * 1000 * 4"

definition taken :: "('pk, 'sk, 'sig, 'be) json_library \<Rightarrow> json_text \<Rightarrow> 'sig signed_bid \<Rightarrow> bool" where
  "taken lib txt bid \<longleftrightarrow> fits lib txt bid \<and> valid_keys lib (sb_message bid)"

definition parses_printed :: "json_text \<Rightarrow> bool" where
  "parses_printed txt \<longleftrightarrow> (\<forall>j. jt_parse txt (jt_print txt j) = Some j)"

section \<open>Lemmas\<close>

lemma query_roundtrip:
  "GetBidTracesRequest_from (query_text [(''block_number'', n)]) = Some n"
  "GetBidRequest_from (query_text [(''block_number'', n), (''timestamp'', t)]) = Some (n, t)"
  by (simp_all add: GetBidTracesRequest_from_def GetBidRequest_from_def query_u64_def query_text_def)

lemma serve_post:
  assumes "faithful_json lib" "parses_printed txt" "readable_bid lib bid"
  shows "serve_http lib txt now_ms POST SUBMIT_BID_PATH [] (JsonBody (jt_print txt (SignedBid_to_json lib bid))) c =
         (if taken lib txt bid then (cache_insert now_ms bid c, \<lparr> rp_status = 200, rp_body = text_bytes ''Ok'' \<rparr>)
          else (c, \<lparr> rp_status = 500, rp_body = jt_print txt (JString ''internal server error'') \<rparr>))"
  using assms(2) SignedBid_roundtrip [OF assms(1,3)]
  by (simp add: serve_http_def internal_request_of_def SUBMIT_BID_PATH_def internal_routes_def body_bytes_def
      body_bid_def with_json_body_def fits_def taken_def submit_block_bid_handler_def reply_http_def
      rejection_handler_def parses_printed_def)

lemma cache_posted_taken:
  assumes "faithful_json lib" "parses_printed txt" "readable_bid lib bid"
  shows "cache_posted lib txt now_ms bid c = (if taken lib txt bid then cache_insert now_ms bid c else c)"
  using serve_post [OF assms] by (simp add: cache_posted_def)

text \<open>What a cache holds can be read back.\<close>

definition readable_cache :: "('pk, 'sk, 'sig, 'be) json_library \<Rightarrow> 'sig relay_bid_cache \<Rightarrow> bool" where
  "readable_cache lib c \<longleftrightarrow>
     (\<forall>n bids. rc_cache c n = Some bids \<longrightarrow>
        (\<forall>(b, t) \<in> set bids. readable_bid lib b \<and> valid_keys lib (sb_message b) \<and> valid_trace_keys lib t))"

lemma readable_cache_after:
  assumes "\<forall>(t, b) \<in> set arrivals. readable_bid lib b \<and> valid_keys lib (sb_message b)"
  shows "readable_cache lib (cache_after arrivals)"
  using assms
  by (auto simp: readable_cache_def cache_after_eq arrivals_of_def traced_def to_trace_def valid_keys_def
      valid_trace_keys_def Let_def split: if_splits)

lemma readable_cache_best:
  assumes "readable_cache lib c" "get_best_bid c n t = Some b"
  shows "readable_bid lib b \<and> valid_keys lib (sb_message b)"
proof -
  obtain bids where bids: "rc_cache c n = Some bids"
    using assms(2) by (auto simp: get_best_bid_def get_all_bids_def split: option.splits)
  with assms(2) obtain y where y: "max_by_key (\<lambda>(bid, trace). bid_value (sb_message bid))
      (filter (\<lambda>(bid, trace). bt_timestamp_ms trace < t) bids) = Some y" "b = fst y"
    by (auto simp: get_best_bid_def get_all_bids_def)
  have "y \<in> set bids" using max_by_key_mem [OF y(1)] by simp
  with assms(1) bids y(2) show ?thesis by (fastforce simp: readable_cache_def)
qed

lemma traces_roundtrip:
  assumes "faithful_json lib" "readable_cache lib c" "rc_cache c n = Some bids"
  shows "vec_from_json (BidTrace_from_json lib) (JArray (map (BidTrace_to_json lib \<circ> snd) bids)) = Some (map snd bids)"
proof -
  have "BidTrace_from_json lib (BidTrace_to_json lib t) = Some t" if "t \<in> set (map snd bids)" for t
    using assms that by (fastforce simp: readable_cache_def BidTrace_roundtrip)
  then show ?thesis
    using read_list_map [of "map snd bids" "BidTrace_from_json lib" "BidTrace_to_json lib"]
    by (simp add: vec_from_json_def)
qed

lemma error_is_no_answer:
  "vec_from_json (BidTrace_from_json lib) (JString s) = None" "best_bid_from_json lib (JString s) = None"
  "SignedBid_from_json lib (JString s) = None"
  by (simp_all add: vec_from_json_def best_bid_from_json_def SignedBid_from_json_def struct_fields_def)

lemma bid_is_not_null: "SignedBid_to_json lib b \<noteq> JNull"
  by (simp add: SignedBid_to_json_def)

text \<open>The three requests of the client.\<close>

lemma internal_submit:
  assumes "faithful_json lib" "parses_printed txt" "ri_submission info = Json" "ri_url info = base"
  shows "client_submit_bid (internal_http lib txt validators base now_ms c http) (RelayClient_new h info) bid =
         (let r = snd (serve_http lib txt now_ms POST SUBMIT_BID_PATH []
                    (JsonBody (jt_print txt (SignedBid_to_json lib bid))) c)
          in Ok \<lparr> sbr_status = rp_status r, sbr_message = map (\<lambda>b. char_of (unat b)) (rp_body r) \<rparr>)"
  using assms(3,4)
  by (simp add: client_submit_bid_def RelayClient_new_def http_submit_def internal_http_def Let_def)

lemma internal_get_traces:
  assumes "faithful_json lib" "parses_printed txt" "ri_url info = base" "readable_cache lib c"
  shows "client_get_bid_traces (internal_http lib txt validators base now_ms c http) info n =
         map_option (\<lambda>bids. (ri_name info, map snd bids)) (get_all_bids c n)"
  using assms query_roundtrip(1) [of n] traces_roundtrip [OF assms(1,4), of n]
  by (cases "get_all_bids c n")
    (simp_all add: get_all_bids_def client_get_bid_traces_def internal_http_def Let_def serve_http_def internal_request_of_def
      BID_TRACES_PATH_def internal_routes_def get_bid_traces_handler_def rejection_handler_def reply_http_def
      parses_printed_def error_is_no_answer)

lemma internal_get_best:
  assumes "faithful_json lib" "parses_printed txt" "ri_url info = base" "readable_cache lib c"
  shows "client_get_internal_best_bid (internal_http lib txt validators base now_ms c http) info n t =
         get_best_bid c n t"
  using assms query_roundtrip(2) [of n t] SignedBid_roundtrip [OF assms(1)] readable_cache_best [OF assms(4), of n t]
  by (cases "get_best_bid c n t")
    (simp_all add: client_get_internal_best_bid_def internal_http_def Let_def serve_http_def internal_request_of_def
      INTERNAL_BEST_BID_PATH_def internal_routes_def get_best_bid_handler_def rejection_handler_def reply_http_def
      parses_printed_def error_is_no_answer best_bid_from_json_def bid_is_not_null)

lemma internal_get_validators:
  assumes "parses_printed txt" "validators (JString ''internal server error'') = None" "ri_url info = base"
  shows "client_get_validators (internal_http lib txt validators base now_ms c http) info = []"
  using assms
  by (simp add: client_get_validators_def internal_http_def Let_def serve_http_def internal_request_of_def
      VALIDATOR_REGISTRATIONS_PATH_def internal_routes_def rejection_handler_def reply_http_def parses_printed_def)

lemma posted_arrivals:
  assumes "faithful_json lib" "parses_printed txt" "\<forall>(t, b) \<in> set arrivals. readable_bid lib b"
  shows "fold (\<lambda>(t, b). cache_posted lib txt t b) arrivals c =
         fold (\<lambda>(t, b). cache_insert t b) (filter (\<lambda>(t, b). taken lib txt b) arrivals) c"
  using assms(3) by (induction arrivals arbitrary: c) (auto simp: cache_posted_taken [OF assms(1,2)])

section \<open>Properties\<close>


text \<open>A text form of documents: a tag, then numbers in groups of seven bits and lengths before contents.\<close>

fun put_nat :: "nat \<Rightarrow> bytes" where
  "put_nat n = (if n < 128 then [word_of_nat n] else word_of_nat (n mod 128 + 128) # put_nat (n div 128))"

fun get_nat :: "bytes \<Rightarrow> (nat \<times> bytes) option" where
  "get_nat [] = None"
| "get_nat (b # bs) =
     (if b < 128 then Some (unat b, bs)
      else map_option (\<lambda>(n, rest). (unat b - 128 + 128 * n, rest)) (get_nat bs))"

definition put_text :: "string \<Rightarrow> bytes" where
  "put_text s = put_nat (length s) @ text_bytes s"

definition get_text :: "bytes \<Rightarrow> (string \<times> bytes) option" where
  "get_text bs = map_option (\<lambda>(n, rest). (map (\<lambda>b. char_of (unat b)) (take n rest), drop n rest)) (get_nat bs)"

fun put_json :: "json \<Rightarrow> bytes" where
  "put_json JNull = [0]"
| "put_json (JBool b) = [1, if b then 1 else 0]"
| "put_json (JNumber n) = 2 # put_nat n"
| "put_json (JString s) = 3 # put_text s"
| "put_json (JArray js) = 4 # put_nat (length js) @ concat (map put_json js)"
| "put_json (JObject fs) = 5 # put_nat (length fs) @ concat (map (\<lambda>(k, j). put_text k @ put_json j) fs)"

primrec get_many :: "(bytes \<Rightarrow> ('a \<times> bytes) option) \<Rightarrow> nat \<Rightarrow> bytes \<Rightarrow> ('a list \<times> bytes) option" where
  "get_many get 0 bs = Some ([], bs)"
| "get_many get (Suc n) bs =
     Option.bind (get bs) (\<lambda>(x, rest). map_option (\<lambda>(xs, rest'). (x # xs, rest')) (get_many get n rest))"

primrec get_json :: "nat \<Rightarrow> bytes \<Rightarrow> (json \<times> bytes) option" where
  "get_json 0 bs = None"
| "get_json (Suc fuel) bs =
     (case bs of
        [] \<Rightarrow> None
      | t # rest \<Rightarrow>
          if t = 0 then Some (JNull, rest)
          else if t = 1 then (case rest of [] \<Rightarrow> None | b # rest' \<Rightarrow> Some (JBool (b = 1), rest'))
          else if t = 2 then map_option (\<lambda>(n, r). (JNumber n, r)) (get_nat rest)
          else if t = 3 then map_option (\<lambda>(s, r). (JString s, r)) (get_text rest)
          else if t = 4 then
            Option.bind (get_nat rest) (\<lambda>(n, r).
              map_option (\<lambda>(js, r'). (JArray js, r')) (get_many (get_json fuel) n r))
          else
            Option.bind (get_nat rest) (\<lambda>(n, r).
              map_option (\<lambda>(fs, r'). (JObject fs, r'))
                (get_many (\<lambda>bs. Option.bind (get_text bs) (\<lambda>(k, r).
                   map_option (\<lambda>(j, r'). ((k, j), r')) (get_json fuel r))) n r)))"

definition sample_text :: json_text where
  "sample_text = \<lparr> jt_print = put_json, jt_parse = (\<lambda>bs. map_option fst (get_json (length bs) bs)) \<rparr>"

declare put_nat.simps [simp del]

lemma get_put_nat [simp]: "get_nat (put_nat n @ rest) = Some (n, rest)"
proof (induction n arbitrary: rest rule: put_nat.induct)
  case (1 n)
  have "n mod 128 + 128 < 2 ^ LENGTH(8)" by simp
  then have b: "unat (word_of_nat (n mod 128 + 128) :: u8) = n mod 128 + 128"
    by (simp only: unat_of_nat mod_less)
  then have nb: "\<not> (word_of_nat (n mod 128 + 128) :: u8) < 128"
    by (simp add: word_less_nat_alt del: of_nat_add)
  show ?case
  proof (cases "n < 128")
    case True
    then show ?thesis by (simp add: put_nat.simps [of n] unat_of_nat word_less_nat_alt)
  next
    case False
    then show ?thesis using 1 by (simp add: put_nat.simps [of n] b nb del: of_nat_add)
  qed
qed

lemma get_put_text [simp]: "get_text (put_text s @ rest) = Some (s, rest)"
proof -
  have "unat (word_of_nat (of_char c) :: u8) = of_char c" for c
    using nat_of_char_less_256 [of c] by (simp only: unat_of_nat mod_less) simp
  then have "map (\<lambda>b. char_of (unat b)) (text_bytes s) = s" by (simp add: text_bytes_def comp_def)
  moreover have "length (text_bytes s) = length s" by (simp add: text_bytes_def)
  ultimately show ?thesis by (simp add: get_text_def put_text_def)
qed

lemma get_many_concat:
  assumes "\<And>x rest. x \<in> set xs \<Longrightarrow> get (put x @ rest) = Some (x, rest)"
  shows "get_many get (length xs) (concat (map put xs) @ rest) = Some (xs, rest)"
  using assms by (induction xs arbitrary: rest) simp_all

fun depth :: "json \<Rightarrow> nat" where
  "depth (JArray js) = Suc (sum_list (map depth js))"
| "depth (JObject fs) = Suc (sum_list (map (\<lambda>(k, j). depth j) fs))"
| "depth _ = 1"

lemma depth_le: "depth j \<le> length (put_json j)"
proof (induction j)
  case (JArray js)
  then have "sum_list (map depth js) \<le> sum_list (map (length \<circ> put_json) js)"
    by (intro sum_list_mono) simp
  then show ?case by (simp add: length_concat comp_def)
next
  case (JObject fs)
  then have "sum_list (map (\<lambda>(k, j). depth j) fs) \<le>
      sum_list (map (\<lambda>(k, j). length (put_text k @ put_json j)) fs)"
    by (intro sum_list_mono) (fastforce intro: trans_le_add2)
  then show ?case by (simp add: length_concat comp_def case_prod_unfold)
qed simp_all

lemma get_put_json: "depth j \<le> fuel \<Longrightarrow> get_json fuel (put_json j @ rest) = Some (j, rest)"
proof (induction j arbitrary: fuel rest)
  case (JArray js)
  then obtain f where f: "fuel = Suc f" by (cases fuel) auto
  have "get_json f (put_json j @ rest) = Some (j, rest)" if "j \<in> set js" for j rest
    using JArray that member_le_sum_list [of "depth j" "map depth js"] by (simp add: f)
  from get_many_concat [OF this] show ?case by (simp add: f)
next
  case (JObject fs)
  then obtain f where f: "fuel = Suc f" by (cases fuel) auto
  let ?get = "\<lambda>bs. Option.bind (get_text bs) (\<lambda>(k, r). map_option (\<lambda>(j, r'). ((k, j), r')) (get_json f r))"
  have "?get ((case x of (k, j) \<Rightarrow> put_text k @ put_json j) @ rest) = Some (x, rest)" if x: "x \<in> set fs" for x rest
  proof -
    obtain k j where kj: "x = (k, j)" by (cases x)
    have "depth j \<in> set (map (\<lambda>(k, j). depth j) fs)" using x kj by force
    then have "depth j \<le> f" using JObject.prems member_le_sum_list by (fastforce simp: f)
    then show ?thesis using JObject.IH [of x j f] x by (simp add: kj)
  qed
  from get_many_concat [of fs ?get, OF this] show ?case by (simp add: f)
qed (auto simp: neq_Nil_conv Suc_le_eq gr0_conv_Suc)

lemma sample_text_parses: "parses_printed sample_text"
  using get_put_json [of _ _ "[]"] depth_le by (simp add: parses_printed_def sample_text_def)

lemma length_put_nat: "n < 128 ^ Suc k \<Longrightarrow> length (put_nat n) \<le> Suc k"
proof (induction k arbitrary: n)
  case 0
  then show ?case by (simp add: put_nat.simps)
next
  case (Suc k)
  then have "n div 128 < 128 ^ Suc k" by (simp add: less_mult_imp_div_less mult.commute)
  from Suc.IH [OF this] show ?case by (simp add: put_nat.simps [of n])
qed

lemma length_put_small [simp]: "n < 128 \<Longrightarrow> length (put_nat n) = 1"
  by (simp add: put_nat.simps [of n])

lemma length_show_nat: "n < 10 ^ Suc k \<Longrightarrow> length (show_nat n) \<le> Suc k"
proof (induction k arbitrary: n)
  case 0
  then show ?case by (simp add: show_nat.simps)
next
  case (Suc k)
  then have "n div 10 < 10 ^ Suc k" by (simp add: less_mult_imp_div_less mult.commute)
  from Suc.IH [OF this] show ?case by (simp add: show_nat.simps [of n])
qed

lemma length_hex_text [simp]: "length (hx_encode sample_hex bs) = 2 + 2 * length bs"
  by (induction bs) (simp_all add: sample_hex_def hex_text_def)

lemma length_word_json:
  "length (put_json (to_json (word_codec n) (w :: 'a::len word))) = length (put_nat (2 + 2 * n)) + 2 * n + 3"
  by (simp add: word_codec_def hex_codec_def put_text_def text_bytes_def be_bytes_def)

lemma sample_arrival_fits: "fits sample_json sample_text (sample_arrival n v)"
proof -
  have dec: "length (show_nat k) \<le> 80 \<and> length (put_nat (length (show_nat k))) = 1" if "k < 2 ^ 256" for k
  proof -
    have "k < 10 ^ Suc 79" using that by simp
    from length_show_nat [OF this] show ?thesis by simp
  qed
  have less: "unat (w :: u64) < 2 ^ 256" "unat (x :: u256) < 2 ^ 256" for w x
    using unsigned_less [of w, where ?'a = nat] unsigned_less [of x, where ?'a = nat] by simp_all
  have key: "length (be_bytes 48 (k :: bls_public_key)) = 48" for k by (simp add: be_bytes_def)
  note bounds = dec [OF less(1) [of n]] dec [OF less(2) [of v]] dec [of 30000000] dec [of 21000] dec [of 12] dec [of 0]
    dec [OF less(1) [of "vi_slot (sample_validator 30000000)"]]
  have "length (put_json (SignedBid_to_json sample_json (sample_arrival n v))) \<le> 10000"
    using bounds
    by (simp add: SignedBid_to_json_def Bid_to_json_def ExecutionPayload_to_json_def sample_json_def
      length_word_json put_nat.simps [of 514] put_nat.simps [of 194]
      bytes_codec_def hex_codec_def from_u64_to_str_def from_u256_to_str_def
      BlsPublicKey_to_json_def BlsSignature_to_json_def impl_serde_serialize_def impl_display_def Signature_to_string_def key
      Signature_serialize_def Signature_from_point_def sample_blst_def
      blobs_codec_def sample_arrival_def sample_signed_bid_def signed_bid_of_def SignedBid_new_def Bid_new_def
      ExecutionPayload_from_def sample_envelope_def sample_build_def Let_def put_text_def text_bytes_def length_concat)
  then show ?thesis by (simp add: fits_def sample_text_def)
qed

lemma sample_arrival_readable: "readable_bid sample_json (sample_arrival n v)"
  by (rule sample_bid_readable) (simp add: sample_arrival_def sample_signed_bid_def)

lemma sample_arrival_taken: "taken sample_json sample_text (sample_arrival n v)"
  using sample_bid_keys(1) [of False]
  by (simp add: taken_def sample_arrival_fits) (simp add: valid_keys_def sample_arrival_def)

text \<open>A bid for a proposer whose key is the point at infinity.\<close>

definition keyless_arrival :: "u64 \<Rightarrow> u256 \<Rightarrow> unit signed_bid" where
  "keyless_arrival n v =
     (let b = sample_arrival n v
      in b\<lparr> sb_message := (sb_message b)\<lparr> bid_proposer_pubkey := from_be_slice INFINITY_PUBLIC_KEY \<rparr> \<rparr>)"

lemma keyless_arrival_not_taken:
  "\<not> taken sample_json sample_text (keyless_arrival n v)" "readable_bid sample_json (keyless_arrival n v)"
  using sample_arrival_readable [of n v]
  by (simp_all add: taken_def keyless_arrival_def sample_bid_keys(2) readable_bid_def Let_def)

definition offline_http :: "(unit, http_response, unit) http_library" where
  "offline_http =
     \<lparr> hl_get = (\<lambda>_ _. None), hl_post = (\<lambda>_ _. None), hl_status = rp_status, hl_text = (\<lambda>_. None),
       hl_json_validators = (\<lambda>_. None), hl_json_traces = (\<lambda>_. None), hl_json_best_bid = (\<lambda>_. None),
       hl_ssz_bid = (\<lambda>_. []), hl_json_bid = (\<lambda>_. []), hl_gzip = Some, hl_grpc_connect = (\<lambda>_ _. None),
       hl_grpc_request = SubmitBlockRequest_from sample_blst unary,
       hl_grpc_submit = (\<lambda>_ _. Ok \<lparr> sp_code = 200, sp_message = [] \<rparr>) \<rparr>"


end
