(* ===== verification/Grpc_Relay.thy ===== *)
theory Grpc_Relay
  imports Relay Grpc_Stub
begin

text \<open>
  A submission over gRPC from end to end: the relay client of \<open>crates/relay/src/client/mod.rs\<close> on the
  generated client of \<open>crates/grpc/src/gen/mevrelay.rs\<close>, its channel, the generated server and the
  method the relay implements behind it.
\<close>

section \<open>The relay client over the generated client\<close>

text \<open>
  \<open>GrpcClient::connect\<close>, at the \<open>i\<close>-th attempt, and \<open>submit_block\<close> on a copy of the client; the text of a
  status is the library's.
\<close>

definition grpc_connect ::
  "(nat \<Rightarrow> ('g, 't, 'e, 'enc) tonic_client) \<Rightarrow> string \<Rightarrow> nat \<Rightarrow> 'g mev_relay_client option"
where
  "grpc_connect tonic_at url i =
     (case MevRelayClient_connect (tonic_at i) url of Ok client \<Rightarrow> Some client | _ \<Rightarrow> None)"

definition grpc_submit ::
  "('g, 't, 'e, 'enc) tonic_client \<Rightarrow> (status \<Rightarrow> string) \<Rightarrow> 'g mev_relay_client \<Rightarrow> submit_block_request \<Rightarrow>
   (submit_block_response, string) result"
where
  "grpc_submit tonic to_string client m =
     map_err to_string (snd (client_submit_block tonic (Request_new m) client))"

definition over_tonic ::
  "(nat \<Rightarrow> ('g, 't, 'e, 'enc) tonic_client) \<Rightarrow> ('g, 't, 'e, 'enc) tonic_client \<Rightarrow> (status \<Rightarrow> string) \<Rightarrow>
   ('pk, 'sk, 'sig, 'be) blst_library \<Rightarrow> (u256 \<Rightarrow> string) \<Rightarrow>
   ('sig, 'resp, 'g mev_relay_client) http_library \<Rightarrow> ('sig, 'resp, 'g mev_relay_client) http_library"
where
  "over_tonic tonic_at tonic to_string blst to_str http =
     http\<lparr> hl_grpc_connect := grpc_connect tonic_at,
           hl_grpc_request := SubmitBlockRequest_from blst to_str,
           hl_grpc_submit := grpc_submit tonic to_string \<rparr>"

section \<open>Properties\<close>


text \<open>
  A relay that keeps every request it gets and accepts the first two; its channel is the list of the
  requests it has got.  Its server answers in a form of its own.
\<close>

definition keep_requests :: "submit_block_request list submit_method" where
  "keep_requests log request =
     (log @ [tr_message request], Ok \<lparr> sp_code = (if length log < 2 then 200 else 429), sp_message = ''kept'' \<rparr>)"

definition sample_replies :: "(submit_block_response, status) result \<Rightarrow> http_reply" where
  "sample_replies out =
     (case out of
        Ok r \<Rightarrow> \<lparr> hr_status = unat (sp_code r), hr_headers = [(sp_message r, [])], hr_message = Some [] \<rparr>
      | Err e \<Rightarrow> \<lparr> hr_status = st_code e, hr_headers = [(st_message e, [])], hr_message = None \<rparr>
      | Panic \<Rightarrow> \<lparr> hr_status = 500, hr_headers = [], hr_message = None \<rparr>)"

definition sample_outcomes :: "http_reply \<Rightarrow> (submit_block_response, status) result" where
  "sample_outcomes r =
     (if (''grpc-status'', ''12'') \<in> set (hr_headers r) then Err \<lparr> st_code = 12, st_message = [] \<rparr>
      else case (hr_headers r, hr_message r) of
             ((msg, _) # _, Some _) \<Rightarrow> Ok \<lparr> sp_code = word_of_nat (hr_status r), sp_message = msg \<rparr>
           | ((msg, _) # _, None) \<Rightarrow> Err \<lparr> st_code = hr_status r, st_message = msg \<rparr>
           | _ \<Rightarrow> Err \<lparr> st_code = 2, st_message = [] \<rparr>)"

definition sample_tonic_server :: "(submit_block_request list, unit) tonic_server" where
  "sample_tonic_server =
     \<lparr> ts_unary = (\<lambda>cfg method call st.
         if length (hc_message call) \<le> decoding_limit cfg then
           (case SubmitBlockRequest_decode sample_wire (hc_message call) of
              Some m \<Rightarrow> (let (st', out) = method st (Request_new m) in (st', sample_replies out))
            | None \<Rightarrow> (st, sample_replies (Err \<lparr> st_code = 13, st_message = [] \<rparr>)))
         else (st, sample_replies (Err \<lparr> st_code = 11, st_message = [] \<rparr>))) \<rparr>"

definition sample_server :: "(submit_block_request list, unit) mev_relay_server" where
  "sample_server = MevRelayServer_new keep_requests"

definition sample_tonic ::
  "(submit_block_request list, submit_block_request list, unit, unit) tonic_client"
where
  "sample_tonic =
     \<lparr> tc_endpoint = (\<lambda>_. Ok ()), tc_connect = (\<lambda>_. Ok []), tc_new = (\<lambda>t. t), tc_with_origin = (\<lambda>t _. t),
       tc_send_compressed = (\<lambda>_ g. g), tc_accept_compressed = (\<lambda>_ g. g),
       tc_max_decoding_message_size = (\<lambda>_ g. g), tc_max_encoding_message_size = (\<lambda>_ g. g),
       tc_ready = (\<lambda>g. (g, Ok ())),
       tc_unary = (\<lambda>g req path.
         let (st, reply) = server_call sample_tonic_server sample_server
               \<lparr> hc_path = path, hc_message = SubmitBlockRequest_encode (tr_message req) \<rparr> g
         in (st, sample_outcomes reply)) \<rparr>"

lemma sample_grpc_library:
  "channel_to (server_call sample_tonic_server sample_server) sample_outcomes (\<lambda>g. g) sample_tonic"
  "runs_method sample_wire sample_replies sample_tonic_server"
  "reads_replies sample_replies sample_outcomes"
  by (simp add: channel_to_def sample_tonic_def Let_def case_prod_unfold)
    (simp add: runs_method_def sample_tonic_server_def,
     auto simp: reads_replies_def sample_replies_def sample_outcomes_def split: result.split)

definition sample_grpc_http :: "(unit, nat, submit_block_request list mev_relay_client) http_library" where
  "sample_grpc_http =
     \<lparr> hl_get = (\<lambda>_ _. Some 200), hl_post = (\<lambda>_ _. Some 200), hl_status = (\<lambda>r. r), hl_text = (\<lambda>_. Some []),
       hl_json_validators = (\<lambda>_. Some []), hl_json_traces = (\<lambda>_. Some []), hl_json_best_bid = (\<lambda>_. Some None),
       hl_ssz_bid = (\<lambda>_. []), hl_json_bid = (\<lambda>_. []), hl_gzip = Some, hl_grpc_connect = (\<lambda>_ _. None),
       hl_grpc_request = SubmitBlockRequest_from sample_blst unary,
       hl_grpc_submit = (\<lambda>_ _. Ok \<lparr> sp_code = 200, sp_message = [] \<rparr>) \<rparr>"

definition grpc_bid :: "unit signed_bid" where
  "grpc_bid = sample_signed_bid False"

definition grpc_client :: "submit_block_request list mev_relay_client relay_client" where
  "grpc_client = \<lparr> rcl_info = sample_relay (Grpc ''u''), rcl_grpc_client = Some \<lparr> mrc_inner = [] \<rparr> \<rparr>"

lemma grpc_bid_deliverable:
  "deliverable sample_wire (SubmitBlockRequest_from sample_blst unary grpc_bid) sample_server"
proof -
  have utf8: "list_all (\<lambda>b. b < (128 :: u8)) (string_bytes (unary v))" for v
    by (simp add: string_bytes_def unary_def list_all_iff)
  have v: "bid_value (sb_message grpc_bid) = 1000"
    by (simp add: grpc_bid_def sample_signed_bid_def signed_bid_of_def SignedBid_new_def Bid_new_def
        sample_build_def Let_def)
  have p: "ep_extra_data (sb_execution_payload grpc_bid) = []" "ep_transactions (sb_execution_payload grpc_bid) = []"
    "ep_withdrawals (sb_execution_payload grpc_bid) = []"
    "sb_blobs_bundle grpc_bid = \<lparr> bb_commitments = [], bb_proofs = [], bb_blobs = [] \<rparr>"
    by (simp_all add: grpc_bid_def sample_signed_bid_def signed_bid_of_def SignedBid_new_def
        ExecutionPayload_from_def sample_envelope_def sample_build_def Let_def)
  have s: "length (Signature_serialize sample_blst (sb_signature grpc_bid)) = 96"
    by (simp add: Signature_serialize_def grpc_bid_def sample_signed_bid_def Signature_from_point_def sample_blst_def)
  have "length (SubmitBlockRequest_encode (SubmitBlockRequest_from sample_blst unary grpc_bid)) \<le> 10000"
    using request_size [of sample_blst unary grpc_bid] payload_size [of "sb_execution_payload grpc_bid"]
    by (simp add: v p s unary_def grpc_blobs_of_def BlobsBundle_fields_def repeated_field_def fields_bytes_def)
  then show ?thesis
    using utf8 by (simp add: deliverable_def sample_server_def MevRelayServer_new_def MevRelayServer_from_arc_def
        SubmitBlockRequest_from_def grpc_trace_of_def sample_wire_def)
qed


end
