(* ===== verification/Ssz_Containers.thy ===== *)
theory Ssz_Containers
  imports Ssz_Codec
begin

text \<open>
  Containers and lists in SSZ, the library behind \<open>derive(Encode, Decode)\<close>.  The model of the code's
  structs takes the library's four functions as a parameter, the record \<open>container_library\<close>, and
  what the library documents of them as the predicate \<open>container_laws\<close>.

  The rest of the theory shows that the laws can hold: the format of the SSZ specification keeps
  them.  A container is written as its fields in order, a field of variable length as a four-byte
  offset at its place and its bytes behind all others; it is read back by slicing between the offsets,
  of which the first has to point behind the fixed part, none may be smaller than the one before, and
  the last has to lie within the bytes.  A list of elements of variable length is a container of them.
  Which error a failed decoding reports is not represented.
\<close>

section \<open>What is called of the library\<close>

datatype part = Fixed bytes | Variable bytes

datatype kind = FixedLen nat | VarLen

fun part_bytes :: "part \<Rightarrow> bytes" where
  "part_bytes (Fixed bs) = bs"
| "part_bytes (Variable bs) = bs"

fun part_kind :: "part \<Rightarrow> kind" where
  "part_kind (Fixed bs) = FixedLen (length bs)"
| "part_kind (Variable bs) = VarLen"

fun of_kind :: "kind \<Rightarrow> bytes \<Rightarrow> bool" where
  "of_kind (FixedLen n) bs \<longleftrightarrow> 0 < n \<and> length bs = n"
| "of_kind VarLen bs \<longleftrightarrow> True"

record container_library =
  cl_container :: "part list \<Rightarrow> bytes"
  cl_read_container :: "kind list \<Rightarrow> bytes \<Rightarrow> (bytes list, unit) result"
  cl_list :: "kind \<Rightarrow> bytes list \<Rightarrow> bytes"
  cl_read_list :: "kind \<Rightarrow> bytes \<Rightarrow> (bytes list, unit) result"

text \<open>
  A written container that four-byte offsets can address is read back, and so is a list; a container
  of fixed parts is as long as they are together, and no container is shorter than one of its parts.
\<close>

definition container_laws :: "container_library \<Rightarrow> bool" where
  "container_laws cl \<longleftrightarrow>
     (\<forall>ps. length (cl_container cl ps) < 2 ^ 32 \<longrightarrow>
        cl_read_container cl (map part_kind ps) (cl_container cl ps) = Ok (map part_bytes ps)) \<and>
     (\<forall>bss. length (cl_container cl (map Fixed bss)) = sum_list (map length bss)) \<and>
     (\<forall>ps. \<forall>p \<in> set ps. length (part_bytes p) \<le> length (cl_container cl ps)) \<and>
     (\<forall>k bss. list_all (of_kind k) bss \<longrightarrow> length (cl_list cl k bss) < 2 ^ 32 \<longrightarrow>
        cl_read_list cl k (cl_list cl k bss) = Ok bss)"

lemma container_lawsD:
  assumes "container_laws cl"
  shows "length (cl_container cl ps) < 2 ^ 32 \<Longrightarrow>
      cl_read_container cl (map part_kind ps) (cl_container cl ps) = Ok (map part_bytes ps)"
    and "length (cl_container cl (map Fixed bss)) = sum_list (map length bss)"
    and "p \<in> set ps \<Longrightarrow> length (part_bytes p) \<le> length (cl_container cl ps)"
    and "list_all (of_kind k) bss \<Longrightarrow> length (cl_list cl k bss) < 2 ^ 32 \<Longrightarrow>
      cl_read_list cl k (cl_list cl k bss) = Ok bss"
  using assms by (simp_all add: container_laws_def)

section \<open>The format of the specification\<close>

datatype head = Slice bytes | Offset nat

fun kind_size :: "kind \<Rightarrow> nat" where
  "kind_size (FixedLen n) = n"
| "kind_size VarLen = 4"

definition fixed_size :: "kind list \<Rightarrow> nat" where
  "fixed_size ks = sum_list (map kind_size ks)"

fun heads :: "nat \<Rightarrow> part list \<Rightarrow> head list" where
  "heads offset [] = []"
| "heads offset (Fixed bs # ps) = Slice bs # heads offset ps"
| "heads offset (Variable bs # ps) = Offset offset # heads (offset + length bs) ps"

fun head_bytes :: "head \<Rightarrow> bytes" where
  "head_bytes (Slice bs) = bs"
| "head_bytes (Offset n) = le_bytes 4 (word_of_nat n :: 32 word)"

fun tails :: "part list \<Rightarrow> bytes" where
  "tails [] = []"
| "tails (Fixed bs # ps) = tails ps"
| "tails (Variable bs # ps) = bs @ tails ps"

definition container_bytes :: "part list \<Rightarrow> bytes" where
  "container_bytes ps = concat (map head_bytes (heads (fixed_size (map part_kind ps)) ps)) @ tails ps"

fun read_heads :: "kind list \<Rightarrow> bytes \<Rightarrow> head list option" where
  "read_heads [] bs = Some []"
| "read_heads (FixedLen n # ks) bs =
     (if length bs < n then None else map_option (Cons (Slice (take n bs))) (read_heads ks (drop n bs)))"
| "read_heads (VarLen # ks) bs =
     (if length bs < 4 then None
      else map_option (Cons (Offset (be_nat (rev (take 4 bs))))) (read_heads ks (drop 4 bs)))"

fun offsets :: "head list \<Rightarrow> nat list" where
  "offsets [] = []"
| "offsets (Slice bs # hs) = offsets hs"
| "offsets (Offset n # hs) = n # offsets hs"

definition next_offset :: "bytes \<Rightarrow> head list \<Rightarrow> nat" where
  "next_offset bs hs = (case offsets hs of [] \<Rightarrow> length bs | n # _ \<Rightarrow> n)"

fun items :: "bytes \<Rightarrow> head list \<Rightarrow> bytes list" where
  "items bs [] = []"
| "items bs (Slice xs # hs) = xs # items bs hs"
| "items bs (Offset n # hs) = take (next_offset bs hs - n) (drop n bs) # items bs hs"

definition valid_offsets :: "kind list \<Rightarrow> bytes \<Rightarrow> nat list \<Rightarrow> bool" where
  "valid_offsets ks bs os \<longleftrightarrow>
     (case os of
        [] \<Rightarrow> length bs = fixed_size ks
      | n # _ \<Rightarrow> n = fixed_size ks \<and> sorted os \<and> last os \<le> length bs)"

definition decode_container :: "kind list \<Rightarrow> bytes \<Rightarrow> (bytes list, unit) result" where
  "decode_container ks bs =
     (case read_heads ks bs of
        None \<Rightarrow> Err ()
      | Some hs \<Rightarrow> if valid_offsets ks bs (offsets hs) then Ok (items bs hs) else Err ())"

text \<open>Lists: elements of fixed length follow each other, others form a container.\<close>

fun chunks :: "nat \<Rightarrow> bytes \<Rightarrow> bytes list" where
  "chunks n bs = (if bs = [] \<or> n = 0 then [] else take n bs # chunks n (drop n bs))"

declare chunks.simps [simp del]

definition variable_list_bytes :: "bytes list \<Rightarrow> bytes" where
  "variable_list_bytes xss = container_bytes (map Variable xss)"

definition decode_variable_list :: "bytes \<Rightarrow> (bytes list, unit) result" where
  "decode_variable_list bs =
     (if bs = [] then Ok []
      else if length bs < 4 then Err ()
      else
        let first = be_nat (rev (take 4 bs))
        in if first mod 4 \<noteq> 0 \<or> first < 4 then Err ()
           else decode_container (replicate (first div 4) VarLen) bs)"

section \<open>Round trip of containers\<close>

lemma be_nat_offset:
  assumes "n < 2 ^ 32"
  shows "be_nat (rev (le_bytes 4 (word_of_nat n :: 32 word))) = n"
proof -
  have "unat (word_of_nat n :: 32 word) = n" using assms by (simp add: unat_of_nat)
  then show ?thesis using assms by (simp add: le_bytes_def be_nat_be_bytes)
qed

lemma length_offset [simp]: "length (le_bytes n w) = n"
  by (simp add: le_bytes_def)

lemma length_heads: "length (concat (map head_bytes (heads n ps))) = fixed_size (map part_kind ps)"
  by (induction n ps rule: heads.induct) (simp_all add: fixed_size_def)

lemma length_container:
  "length (container_bytes ps) = fixed_size (map part_kind ps) + length (tails ps)"
  by (simp add: container_bytes_def length_heads)

lemma read_heads_written:
  "n + length (tails ps) < 2 ^ 32 \<Longrightarrow>
   read_heads (map part_kind ps) (concat (map head_bytes (heads n ps)) @ rest) = Some (heads n ps)"
  by (induction n ps rule: heads.induct) (simp_all add: be_nat_offset)

lemma offsets_heads:
  "\<forall>k \<in> set (offsets (heads n ps)). n \<le> k \<and> k \<le> n + length (tails ps)"
  "sorted (offsets (heads n ps))"
proof (induction n ps rule: heads.induct)
  case (3 offset bs ps)
  {
    case 1
    then show ?case using 3 by fastforce
  next
    case 2
    then show ?case using 3 by fastforce
  }
qed simp_all

lemma offsets_empty: "offsets (heads n ps) = [] \<Longrightarrow> tails ps = []"
  by (induction n ps rule: heads.induct) simp_all

lemma next_offset_heads:
  "n + length (tails ps) = length bs \<Longrightarrow> next_offset bs (heads n ps) = n"
proof (induction n ps rule: heads.induct)
  case (2 offset xs ps)
  then show ?case by (simp add: next_offset_def)
qed (simp_all add: next_offset_def)

lemma items_heads:
  "drop n bs = tails ps \<Longrightarrow> n \<le> length bs \<Longrightarrow> items bs (heads n ps) = map part_bytes ps"
proof (induction n ps rule: heads.induct)
  case (3 n xs ps)
  have len: "n + length xs + length (tails ps) = length bs"
    using arg_cong [OF 3(2), of length] 3(3) by simp
  have "drop (n + length xs) bs = drop (length xs) (drop n bs)" by (simp add: add.commute)
  then have "drop (n + length xs) bs = tails ps" using 3(2) by simp
  then have "items bs (heads (n + length xs) ps) = map part_bytes ps" using 3(1) len by simp
  moreover have "next_offset bs (heads (n + length xs) ps) = n + length xs"
    using len by (intro next_offset_heads) simp
  ultimately show ?case using 3(2) by simp
qed simp_all

lemma decode_container_bytes:
  assumes "length (container_bytes ps) < 2 ^ 32"
  shows "decode_container (map part_kind ps) (container_bytes ps) = Ok (map part_bytes ps)"
proof -
  let ?n = "fixed_size (map part_kind ps)" and ?bs = "container_bytes ps"
  let ?os = "offsets (heads ?n ps)"
  have len: "length ?bs = ?n + length (tails ps)" by (rule length_container)
  have "read_heads (map part_kind ps) ?bs = Some (heads ?n ps)"
    using read_heads_written [of ?n ps "tails ps"] assms len by (simp add: container_bytes_def)
  moreover have "valid_offsets (map part_kind ps) ?bs ?os"
  proof (cases ?os)
    case Nil
    then show ?thesis using offsets_empty [OF Nil] len by (simp add: valid_offsets_def)
  next
    case (Cons k ks)
    have "next_offset ?bs (heads ?n ps) = ?n" using len by (intro next_offset_heads) simp
    then have "k = ?n" using Cons by (simp add: next_offset_def)
    moreover have "last ?os \<in> set ?os" using Cons by simp
    then have "last ?os \<le> length ?bs" using offsets_heads(1) [of ?n ps] len by fastforce
    ultimately show ?thesis using Cons offsets_heads(2) [of ?n ps] by (simp add: valid_offsets_def)
  qed
  moreover have "drop ?n ?bs = tails ps" by (simp add: container_bytes_def length_heads)
  then have "items ?bs (heads ?n ps) = map part_bytes ps" using len by (intro items_heads) simp_all
  ultimately show ?thesis by (simp add: decode_container_def)
qed

lemma chunks_concat:
  "0 < n \<Longrightarrow> list_all (\<lambda>x. length x = n) xs \<Longrightarrow> chunks n (concat xs) = xs"
proof (induction xs)
  case Nil
  then show ?case by (simp add: chunks.simps)
next
  case (Cons x xs)
  moreover from Cons have "x @ concat xs \<noteq> []" by auto
  ultimately show ?case by (simp add: chunks.simps [of n "x @ concat xs"])
qed

lemma decode_variable_list_bytes:
  assumes "length (variable_list_bytes xss) < 2 ^ 32"
  shows "decode_variable_list (variable_list_bytes xss) = Ok xss"
proof (cases xss)
  case Nil
  then show ?thesis by (simp add: decode_variable_list_def variable_list_bytes_def container_bytes_def)
next
  case (Cons x ys)
  let ?ps = "map Variable xss" and ?bs = "variable_list_bytes xss"
  have kinds: "map part_kind ?ps = replicate (length xss) VarLen" by (simp add: map_replicate_const comp_def)
  have size: "fixed_size (map part_kind ?ps) = 4 * length xss"
    unfolding kinds by (simp add: fixed_size_def sum_list_replicate)
  have len: "4 * length xss \<le> length ?bs" using length_container [of ?ps] size by (simp add: variable_list_bytes_def)
  have "take 4 ?bs = le_bytes 4 (word_of_nat (4 * length xss) :: 32 word)"
    using size by (simp add: variable_list_bytes_def container_bytes_def Cons)
  then have "be_nat (rev (take 4 ?bs)) = 4 * length xss"
    using be_nat_offset [of "4 * length xss"] len assms by (simp del: of_nat_mult)
  moreover have "decode_container (replicate (length xss) VarLen) ?bs = Ok xss"
    using decode_container_bytes [of ?ps] assms unfolding kinds
    by (simp add: variable_list_bytes_def comp_def)
  ultimately show ?thesis using len Cons
    by (auto simp: decode_variable_list_def Let_def)
qed

section \<open>The format keeps the laws\<close>

fun spec_list :: "kind \<Rightarrow> bytes list \<Rightarrow> bytes" where
  "spec_list (FixedLen n) bss = concat bss"
| "spec_list VarLen bss = variable_list_bytes bss"

fun spec_read_list :: "kind \<Rightarrow> bytes \<Rightarrow> (bytes list, unit) result" where
  "spec_read_list (FixedLen n) bs = Ok (chunks n bs)"
| "spec_read_list VarLen bs = decode_variable_list bs"

definition spec_containers :: container_library where
  "spec_containers =
     \<lparr> cl_container = container_bytes, cl_read_container = decode_container,
       cl_list = spec_list, cl_read_list = spec_read_list \<rparr>"

lemma tails_fixed: "tails (map Fixed bss) = []"
  by (induction bss) simp_all

lemma fixed_size_fixed: "fixed_size (map part_kind (map Fixed bss)) = sum_list (map length bss)"
  by (simp add: fixed_size_def comp_def)

lemma part_shorter: "p \<in> set ps \<Longrightarrow> length (part_bytes p) \<le> length (container_bytes ps)"
proof -
  have "length (part_bytes p) \<le> fixed_size (map part_kind ps) + length (tails ps)" if "p \<in> set ps"
    using that by (induction ps rule: tails.induct) (auto simp: fixed_size_def)
  then show "p \<in> set ps \<Longrightarrow> ?thesis" by (simp add: length_container)
qed

lemma spec_list_read:
  "list_all (of_kind k) bss \<Longrightarrow> length (spec_list k bss) < 2 ^ 32 \<Longrightarrow> spec_read_list k (spec_list k bss) = Ok bss"
proof (cases k)
  case (FixedLen n)
  assume "list_all (of_kind k) bss"
  then show ?thesis
    using chunks_concat [of n bss] by (cases bss) (auto simp: FixedLen list_all_iff chunks.simps)
next
  case VarLen
  assume "length (spec_list k bss) < 2 ^ 32"
  then show ?thesis using decode_variable_list_bytes [of bss] by (simp add: VarLen)
qed

lemma spec_containers_laws: "container_laws spec_containers"
  using decode_container_bytes part_shorter spec_list_read
  by (simp add: container_laws_def spec_containers_def length_container tails_fixed fixed_size_fixed del: map_map)

end
