(* ===== verification/Bid_Ssz.thy ===== *)
theory Bid_Ssz
  imports Bids Bls_Text Ssz_Containers
begin

text \<open>
  The SSZ form of signed bids: \<open>derive(Encode, Decode)\<close> on the structs of
  \<open>crates/primitives/src/bid.rs\<close>, over the codecs of \<open>ssz.rs\<close> and of the BLS types.  This is what a
  live relay is sent, plain or compressed.

  A derived encoder hands the fields in the order of the struct to the library, with the length of
  those whose type has one; a derived decoder reads them back in that order.  The library's
  containers, and its codecs of the hashes and of the blobs bundle, are fields of \<open>ssz_library\<close>.
\<close>

fun result_list :: "('a \<Rightarrow> ('b, 'e) result) \<Rightarrow> 'a list \<Rightarrow> ('b list, 'e) result" where
  "result_list f [] = Ok []"
| "result_list f (x # xs) = result_bind (f x) (\<lambda>y. result_map (Cons y) (result_list f xs))"

lemma result_list_map: "(\<And>x. x \<in> set xs \<Longrightarrow> f (g x) = Ok x) \<Longrightarrow> result_list f (map g xs) = Ok xs"
  by (induction xs) simp_all

section \<open>Bids\<close>

record ('pk, 'sk, 'sig, 'be) ssz_library =
  sl_containers :: container_library
  sl_blst :: "('pk, 'sk, 'sig, 'be) blst_library"
  sl_fmt :: "'be bls_error \<Rightarrow> string"
  sl_fixed_bytes :: "b256 \<Rightarrow> bytes"
  sl_hash256_from_ssz_bytes :: "bytes \<Rightarrow> (b256, decode_error) result"
  sl_blobs_as_ssz_bytes :: "blobs_bundle \<Rightarrow> bytes"
  sl_blobs_from_ssz_bytes :: "bytes \<Rightarrow> (blobs_bundle, unit) result"

text \<open>Fields.  A key is its 48 bytes; a \<open>u64\<close> has the codec of \<open>U64\<close>.\<close>

abbreviation any_error :: "('a, 'e) result \<Rightarrow> ('a, unit) result" where
  "any_error r \<equiv> map_err (\<lambda>_. ()) r"

definition hash_part :: "('pk, 'sk, 'sig, 'be) ssz_library \<Rightarrow> b256 \<Rightarrow> part" where
  "hash_part lib h = Fixed (B256_ssz_append (sl_fixed_bytes lib) h [])"

definition key_part :: "bls_public_key \<Rightarrow> part" where
  "key_part k = Fixed (be_bytes 48 k)"

definition u64_part :: "u64 \<Rightarrow> part" where
  "u64_part x = Fixed (U64_as_ssz_bytes x)"

definition read_hash :: "('pk, 'sk, 'sig, 'be) ssz_library \<Rightarrow> bytes \<Rightarrow> (b256, unit) result" where
  "read_hash lib bs = any_error (B256_from_ssz_bytes (sl_hash256_from_ssz_bytes lib) bs)"

definition read_pubkey :: "('pk, 'sk, 'sig, 'be) ssz_library \<Rightarrow> bytes \<Rightarrow> (bls_public_key, unit) result" where
  "read_pubkey lib bs =
     result_map (\<lambda>pk. from_be_slice (PublicKey_serialize (sl_blst lib) pk))
       (any_error (impl_ssz_decode PUBLIC_KEY_BYTES_LEN (PublicKey_deserialize (sl_blst lib)) (sl_fmt lib) bs))"

definition read_u64 :: "bytes \<Rightarrow> (u64, unit) result" where
  "read_u64 bs = any_error (U64_from_ssz_bytes bs)"

definition Bid_parts :: "('pk, 'sk, 'sig, 'be) ssz_library \<Rightarrow> bid \<Rightarrow> part list" where
  "Bid_parts lib b =
     [u64_part (bid_slot b), hash_part lib (bid_parent_hash b), hash_part lib (bid_block_hash b),
      key_part (bid_builder_pubkey b), key_part (bid_proposer_pubkey b),
      Fixed (Address_as_ssz_bytes (bid_proposer_fee_recipient b)),
      u64_part (bid_gas_limit b), u64_part (bid_gas_used b), Fixed (U256_as_ssz_bytes (bid_value b))]"

definition Bid_kinds :: "kind list" where
  "Bid_kinds = map FixedLen [8, 32, 32, 48, 48, 20, 8, 8, 32]"

definition Bid_as_ssz_bytes :: "('pk, 'sk, 'sig, 'be) ssz_library \<Rightarrow> bid \<Rightarrow> bytes" where
  "Bid_as_ssz_bytes lib b = cl_container (sl_containers lib) (Bid_parts lib b)"

definition Bid_from_ssz_bytes :: "('pk, 'sk, 'sig, 'be) ssz_library \<Rightarrow> bytes \<Rightarrow> (bid, unit) result" where
  "Bid_from_ssz_bytes lib bs =
     result_bind (cl_read_container (sl_containers lib) Bid_kinds bs) (\<lambda>xs.
     result_bind (read_u64 (xs ! 0)) (\<lambda>slot.
     result_bind (read_hash lib (xs ! 1)) (\<lambda>parent_hash.
     result_bind (read_hash lib (xs ! 2)) (\<lambda>block_hash.
     result_bind (read_pubkey lib (xs ! 3)) (\<lambda>builder_pubkey.
     result_bind (read_pubkey lib (xs ! 4)) (\<lambda>proposer_pubkey.
     result_bind (any_error (Address_from_ssz_bytes (xs ! 5))) (\<lambda>fee_recipient.
     result_bind (read_u64 (xs ! 6)) (\<lambda>gas_limit.
     result_bind (read_u64 (xs ! 7)) (\<lambda>gas_used.
     result_bind (any_error (U256_from_ssz_bytes (xs ! 8))) (\<lambda>bid_val.
       Ok \<lparr> bid_slot = slot, bid_parent_hash = parent_hash, bid_block_hash = block_hash,
            bid_builder_pubkey = builder_pubkey, bid_proposer_pubkey = proposer_pubkey,
            bid_proposer_fee_recipient = fee_recipient, bid_gas_limit = gas_limit,
            bid_gas_used = gas_used, bid_value = bid_val \<rparr>))))))))))"

section \<open>Execution payload\<close>

definition AlloyWithdrawal_parts :: "alloy_withdrawal \<Rightarrow> part list" where
  "AlloyWithdrawal_parts w =
     [u64_part (aw_index w), u64_part (aw_validator_index w), Fixed (Address_as_ssz_bytes (aw_address w)),
      u64_part (aw_amount w)]"

definition AlloyWithdrawal_kinds :: "kind list" where
  "AlloyWithdrawal_kinds = map FixedLen [8, 8, 20, 8]"

definition AlloyWithdrawal_as_ssz_bytes ::
  "('pk, 'sk, 'sig, 'be) ssz_library \<Rightarrow> alloy_withdrawal \<Rightarrow> bytes"
where
  "AlloyWithdrawal_as_ssz_bytes lib w = cl_container (sl_containers lib) (AlloyWithdrawal_parts w)"

definition AlloyWithdrawal_from_ssz_bytes ::
  "('pk, 'sk, 'sig, 'be) ssz_library \<Rightarrow> bytes \<Rightarrow> (alloy_withdrawal, unit) result"
where
  "AlloyWithdrawal_from_ssz_bytes lib bs =
     result_bind (cl_read_container (sl_containers lib) AlloyWithdrawal_kinds bs) (\<lambda>xs.
     result_bind (read_u64 (xs ! 0)) (\<lambda>index.
     result_bind (read_u64 (xs ! 1)) (\<lambda>validator_index.
     result_bind (any_error (Address_from_ssz_bytes (xs ! 2))) (\<lambda>addr.
     result_bind (read_u64 (xs ! 3)) (\<lambda>amount.
       Ok \<lparr> aw_index = index, aw_validator_index = validator_index, aw_address = addr,
            aw_amount = amount \<rparr>)))))"

text \<open>The fields \<open>Vec<Bytes>\<close> and \<open>Vec<AlloyWithdrawal>\<close>.\<close>

definition transactions_as_ssz_bytes :: "('pk, 'sk, 'sig, 'be) ssz_library \<Rightarrow> bytes list \<Rightarrow> bytes" where
  "transactions_as_ssz_bytes lib txs = cl_list (sl_containers lib) VarLen (map Bytes_as_ssz_bytes txs)"

definition transactions_from_ssz_bytes ::
  "('pk, 'sk, 'sig, 'be) ssz_library \<Rightarrow> bytes \<Rightarrow> (bytes list, unit) result"
where
  "transactions_from_ssz_bytes lib bs =
     result_bind (cl_read_list (sl_containers lib) VarLen bs)
       (result_list (\<lambda>t. any_error (Bytes_from_ssz_bytes t)))"

definition AlloyWithdrawal_kind :: kind where
  "AlloyWithdrawal_kind = FixedLen (fixed_size AlloyWithdrawal_kinds)"

definition withdrawals_as_ssz_bytes ::
  "('pk, 'sk, 'sig, 'be) ssz_library \<Rightarrow> alloy_withdrawal list \<Rightarrow> bytes"
where
  "withdrawals_as_ssz_bytes lib ws =
     cl_list (sl_containers lib) AlloyWithdrawal_kind (map (AlloyWithdrawal_as_ssz_bytes lib) ws)"

definition withdrawals_from_ssz_bytes ::
  "('pk, 'sk, 'sig, 'be) ssz_library \<Rightarrow> bytes \<Rightarrow> (alloy_withdrawal list, unit) result"
where
  "withdrawals_from_ssz_bytes lib bs =
     result_bind (cl_read_list (sl_containers lib) AlloyWithdrawal_kind bs)
       (result_list (AlloyWithdrawal_from_ssz_bytes lib))"

definition ExecutionPayload_parts ::
  "('pk, 'sk, 'sig, 'be) ssz_library \<Rightarrow> execution_payload \<Rightarrow> part list"
where
  "ExecutionPayload_parts lib p =
     [hash_part lib (ep_parent_hash p), Fixed (Address_as_ssz_bytes (ep_fee_recipient p)),
      hash_part lib (ep_state_root p), hash_part lib (ep_receipts_root p),
      Fixed (Bloom_as_ssz_bytes (ep_logs_bloom p)), hash_part lib (ep_prev_randao p),
      u64_part (ep_block_number p), u64_part (ep_gas_limit p), u64_part (ep_gas_used p),
      u64_part (ep_timestamp p), Variable (Bytes_as_ssz_bytes (ep_extra_data p)),
      Fixed (U256_as_ssz_bytes (ep_base_fee_per_gas p)), hash_part lib (ep_block_hash p),
      Variable (transactions_as_ssz_bytes lib (ep_transactions p)),
      Variable (withdrawals_as_ssz_bytes lib (ep_withdrawals p)),
      u64_part (ep_blob_gas_used p), u64_part (ep_excess_blob_gas p)]"

definition ExecutionPayload_kinds :: "kind list" where
  "ExecutionPayload_kinds =
     map FixedLen [32, 20, 32, 32, 256, 32, 8, 8, 8, 8] @ [VarLen] @ map FixedLen [32, 32] @
     [VarLen, VarLen] @ map FixedLen [8, 8]"

definition ExecutionPayload_as_ssz_bytes ::
  "('pk, 'sk, 'sig, 'be) ssz_library \<Rightarrow> execution_payload \<Rightarrow> bytes"
where
  "ExecutionPayload_as_ssz_bytes lib p = cl_container (sl_containers lib) (ExecutionPayload_parts lib p)"

definition ExecutionPayload_from_ssz_bytes ::
  "('pk, 'sk, 'sig, 'be) ssz_library \<Rightarrow> bytes \<Rightarrow> (execution_payload, unit) result"
where
  "ExecutionPayload_from_ssz_bytes lib bs =
     result_bind (cl_read_container (sl_containers lib) ExecutionPayload_kinds bs) (\<lambda>xs.
     result_bind (read_hash lib (xs ! 0)) (\<lambda>parent_hash.
     result_bind (any_error (Address_from_ssz_bytes (xs ! 1))) (\<lambda>fee_recipient.
     result_bind (read_hash lib (xs ! 2)) (\<lambda>state_root.
     result_bind (read_hash lib (xs ! 3)) (\<lambda>receipts_root.
     result_bind (any_error (Bloom_from_ssz_bytes (xs ! 4))) (\<lambda>logs_bloom.
     result_bind (read_hash lib (xs ! 5)) (\<lambda>prev_randao.
     result_bind (read_u64 (xs ! 6)) (\<lambda>block_number.
     result_bind (read_u64 (xs ! 7)) (\<lambda>gas_limit.
     result_bind (read_u64 (xs ! 8)) (\<lambda>gas_used.
     result_bind (read_u64 (xs ! 9)) (\<lambda>timestamp.
     result_bind (any_error (Bytes_from_ssz_bytes (xs ! 10))) (\<lambda>extra_data.
     result_bind (any_error (U256_from_ssz_bytes (xs ! 11))) (\<lambda>base_fee_per_gas.
     result_bind (read_hash lib (xs ! 12)) (\<lambda>block_hash.
     result_bind (transactions_from_ssz_bytes lib (xs ! 13)) (\<lambda>transactions.
     result_bind (withdrawals_from_ssz_bytes lib (xs ! 14)) (\<lambda>withdrawals.
     result_bind (read_u64 (xs ! 15)) (\<lambda>blob_gas_used.
     result_bind (read_u64 (xs ! 16)) (\<lambda>excess_blob_gas.
       Ok \<lparr> ep_parent_hash = parent_hash, ep_fee_recipient = fee_recipient, ep_state_root = state_root,
            ep_receipts_root = receipts_root, ep_logs_bloom = logs_bloom, ep_prev_randao = prev_randao,
            ep_block_number = block_number, ep_gas_limit = gas_limit, ep_gas_used = gas_used,
            ep_timestamp = timestamp, ep_extra_data = extra_data,
            ep_base_fee_per_gas = base_fee_per_gas, ep_block_hash = block_hash,
            ep_transactions = transactions, ep_withdrawals = withdrawals,
            ep_blob_gas_used = blob_gas_used, ep_excess_blob_gas = excess_blob_gas \<rparr>))))))))))))))))))"

section \<open>Signed bid\<close>

definition SignedBid_parts :: "('pk, 'sk, 'sig, 'be) ssz_library \<Rightarrow> 'sig signed_bid \<Rightarrow> part list" where
  "SignedBid_parts lib b =
     [Fixed (Bid_as_ssz_bytes lib (sb_message b)),
      Variable (ExecutionPayload_as_ssz_bytes lib (sb_execution_payload b)),
      Variable (sl_blobs_as_ssz_bytes lib (sb_blobs_bundle b)),
      Fixed (Signature_serialize (sl_blst lib) (sb_signature b))]"

definition SignedBid_kinds :: "kind list" where
  "SignedBid_kinds = [FixedLen (fixed_size Bid_kinds), VarLen, VarLen, FixedLen SIGNATURE_BYTES_LEN]"

definition SignedBid_as_ssz_bytes :: "('pk, 'sk, 'sig, 'be) ssz_library \<Rightarrow> 'sig signed_bid \<Rightarrow> bytes" where
  "SignedBid_as_ssz_bytes lib b = cl_container (sl_containers lib) (SignedBid_parts lib b)"

definition SignedBid_from_ssz_bytes ::
  "('pk, 'sk, 'sig, 'be) ssz_library \<Rightarrow> bytes \<Rightarrow> ('sig signed_bid, unit) result"
where
  "SignedBid_from_ssz_bytes lib bs =
     result_bind (cl_read_container (sl_containers lib) SignedBid_kinds bs) (\<lambda>xs.
     result_bind (Bid_from_ssz_bytes lib (xs ! 0)) (\<lambda>message.
     result_bind (ExecutionPayload_from_ssz_bytes lib (xs ! 1)) (\<lambda>payload.
     result_bind (sl_blobs_from_ssz_bytes lib (xs ! 2)) (\<lambda>blobs.
     result_bind (any_error (impl_ssz_decode SIGNATURE_BYTES_LEN (Signature_deserialize (sl_blst lib))
       (sl_fmt lib) (xs ! 3))) (\<lambda>sig.
       Ok \<lparr> sb_message = message, sb_execution_payload = payload, sb_blobs_bundle = blobs,
            sb_signature = sig \<rparr>)))))"

section \<open>Round trip of bids\<close>

text \<open>
  What is documented of the libraries: containers are read back, a hash is its 32 bytes, validating a key answers or refuses it,
  and a blobs bundle that fits is read back as it was written.
\<close>

definition exact_ssz :: "('pk, 'sk, 'sig, 'be) ssz_library \<Rightarrow> bool" where
  "exact_ssz lib \<longleftrightarrow>
     container_laws (sl_containers lib) \<and> encodes_points (sl_blst lib) \<and> (\<forall>bs. bl_key_validate (sl_blst lib) bs \<noteq> Panic) \<and>
     (\<forall>h. length (sl_fixed_bytes lib h) = 32) \<and>
     (\<forall>h. sl_hash256_from_ssz_bytes lib (sl_fixed_bytes lib h) = Ok h)"

definition reads_blobs :: "('pk, 'sk, 'sig, 'be) ssz_library \<Rightarrow> blobs_bundle \<Rightarrow> bool" where
  "reads_blobs lib x \<longleftrightarrow> sl_blobs_from_ssz_bytes lib (sl_blobs_as_ssz_bytes lib x) = Ok x"

text \<open>A key that is one, and a signature that was made by a key or is the empty one.\<close>

definition valid_key :: "('pk, 'sk, 'sig, 'be) ssz_library \<Rightarrow> bls_public_key \<Rightarrow> bool" where
  "valid_key lib k = valid_public_key (sl_blst lib) k"

definition plain_signature :: "('pk, 'sk, 'sig, 'be) ssz_library \<Rightarrow> 'sig signature \<Rightarrow> bool" where
  "plain_signature lib s = flags_infinity (sl_blst lib) s"

lemma field_lengths [simp]:
  "length (Address_as_ssz_bytes a) = 20"
  "length (U256_as_ssz_bytes v) = 32"
  "length (Bloom_as_ssz_bytes l) = 256"
  by (simp_all add: address_codec.encode_length u256_codec.encode_length bloom_codec.encode_length)

lemma part_kinds [simp]:
  "part_kind (u64_part x) = FixedLen 8"
  "part_kind (key_part k) = FixedLen 48"
  by (simp_all add: u64_part_def key_part_def u64_codec.encode_length)

lemma hash_kind: "exact_ssz lib \<Longrightarrow> part_kind (hash_part lib h) = FixedLen 32"
  by (simp add: exact_ssz_def hash_part_def B256_ssz_append_def)

lemma field_codecs [simp]:
  "read_u64 (part_bytes (u64_part x)) = Ok x"
  "Address_from_ssz_bytes (Address_as_ssz_bytes a) = Ok a"
  "U256_from_ssz_bytes (U256_as_ssz_bytes v) = Ok v"
  "Bloom_from_ssz_bytes (Bloom_as_ssz_bytes l) = Ok l"
  "Bytes_from_ssz_bytes (Bytes_as_ssz_bytes bs) = Ok bs"
  by (simp_all add: read_u64_def u64_part_def u64_codec.decode_encode address_codec.decode_encode
      u256_codec.decode_encode bloom_codec.decode_encode Bytes_from_ssz_bytes_def
      Bytes_as_ssz_bytes_def)

lemma hash_codec: "exact_ssz lib \<Longrightarrow> read_hash lib (part_bytes (hash_part lib h)) = Ok h"
  by (simp add: exact_ssz_def hash_part_def read_hash_def B256_ssz_append_def B256_from_ssz_bytes_def)

lemma key_codec:
  assumes "exact_ssz lib"
  shows "read_pubkey lib (part_bytes (key_part k)) = (if valid_key lib k then Ok k else Err ())"
proof -
  have lib: "encodes_points (sl_blst lib)" and "bl_key_validate (sl_blst lib) (be_bytes 48 k) \<noteq> Panic"
    using assms by (simp_all add: exact_ssz_def)
  then show ?thesis
    by (cases "valid_key lib k")
      (auto simp: read_pubkey_def key_part_def valid_key_def impl_ssz_decode_def PUBLIC_KEY_BYTES_LEN_def Let_def
        from_be_slice_be_bytes elim: key_bytes_deserialize dest: key_bytes_refused)
qed

lemma signature_codec:
  assumes "exact_ssz lib" and "plain_signature lib s"
  shows "length (Signature_serialize (sl_blst lib) s) = 96"
    and "impl_ssz_decode SIGNATURE_BYTES_LEN (Signature_deserialize (sl_blst lib)) (sl_fmt lib)
           (Signature_serialize (sl_blst lib) s) = Ok s"
proof -
  have lib: "encodes_points (sl_blst lib)" using assms by (simp add: exact_ssz_def)
  show len: "length (Signature_serialize (sl_blst lib) s) = 96"
    using encodes_pointsD(2) [OF lib]
    by (simp add: Signature_serialize_def NONE_SIGNATURE_def SIGNATURE_BYTES_LEN_def split: option.split)
  show "impl_ssz_decode SIGNATURE_BYTES_LEN (Signature_deserialize (sl_blst lib)) (sl_fmt lib)
          (Signature_serialize (sl_blst lib) s) = Ok s"
    using flagged_signature_deserialize [OF lib] assms(2) len
    by (simp add: impl_ssz_decode_def plain_signature_def SIGNATURE_BYTES_LEN_def)
qed

lemma length_fixed:
  "exact_ssz lib \<Longrightarrow> ps = map Fixed bss \<Longrightarrow>
   length (cl_container (sl_containers lib) ps) = fixed_size (map part_kind ps)"
  using container_lawsD(2) [of "sl_containers lib" bss] by (simp add: exact_ssz_def fixed_size_def comp_def)

lemma container_codec:
  "exact_ssz lib \<Longrightarrow> length (cl_container (sl_containers lib) ps) < 2 ^ 32 \<Longrightarrow>
   cl_read_container (sl_containers lib) (map part_kind ps) (cl_container (sl_containers lib) ps) =
     Ok (map part_bytes ps)"
  by (simp add: exact_ssz_def container_lawsD(1))

lemma part_length:
  "exact_ssz lib \<Longrightarrow> p \<in> set ps \<Longrightarrow> length (part_bytes p) \<le> length (cl_container (sl_containers lib) ps)"
  by (simp add: exact_ssz_def container_lawsD(3))

lemma list_codec:
  assumes "exact_ssz lib" and "list_all (of_kind k) (map enc xs)"
    and "length (cl_list (sl_containers lib) k (map enc xs)) < 2 ^ 32" and "\<And>x. dec (enc x) = Ok x"
  shows "result_bind (cl_read_list (sl_containers lib) k (cl_list (sl_containers lib) k (map enc xs)))
           (result_list dec) = Ok xs"
  using container_lawsD(4) [of "sl_containers lib" k "map enc xs"] result_list_map [of xs dec enc] assms
  by (simp add: exact_ssz_def)

lemma bid_kinds: "exact_ssz lib \<Longrightarrow> map part_kind (Bid_parts lib b) = Bid_kinds"
  by (simp add: Bid_parts_def Bid_kinds_def hash_kind)

lemma length_bid: "exact_ssz lib \<Longrightarrow> length (Bid_as_ssz_bytes lib b) = fixed_size Bid_kinds"
  unfolding Bid_as_ssz_bytes_def bid_kinds [symmetric, of lib b]
  by (rule length_fixed [where bss = "map part_bytes (Bid_parts lib b)"])
     (simp_all add: Bid_parts_def u64_part_def hash_part_def key_part_def)

lemma bid_codec:
  assumes "exact_ssz lib"
  shows "Bid_from_ssz_bytes lib (Bid_as_ssz_bytes lib b) =
    (if valid_key lib (bid_builder_pubkey b) \<and> valid_key lib (bid_proposer_pubkey b) then Ok b else Err ())"
  using container_codec [OF assms, of "Bid_parts lib b"] length_bid [OF assms, of b] assms
  by (simp add: bid_kinds fixed_size_def Bid_kinds_def flip: Bid_as_ssz_bytes_def)
     (simp add: Bid_from_ssz_bytes_def Bid_kinds_def Bid_parts_def hash_codec key_codec)

lemma withdrawal_kinds: "map part_kind (AlloyWithdrawal_parts w) = AlloyWithdrawal_kinds"
  by (simp add: AlloyWithdrawal_parts_def AlloyWithdrawal_kinds_def)

lemma length_withdrawal:
  "exact_ssz lib \<Longrightarrow> length (AlloyWithdrawal_as_ssz_bytes lib w) = fixed_size AlloyWithdrawal_kinds"
  unfolding AlloyWithdrawal_as_ssz_bytes_def withdrawal_kinds [symmetric, of w]
  by (rule length_fixed [where bss = "map part_bytes (AlloyWithdrawal_parts w)"])
     (simp_all add: AlloyWithdrawal_parts_def u64_part_def)

lemma withdrawal_codec:
  assumes "exact_ssz lib"
  shows "AlloyWithdrawal_from_ssz_bytes lib (AlloyWithdrawal_as_ssz_bytes lib w) = Ok w"
  using container_codec [OF assms, of "AlloyWithdrawal_parts w"] length_withdrawal [OF assms, of w]
  by (simp add: withdrawal_kinds fixed_size_def AlloyWithdrawal_kinds_def flip: AlloyWithdrawal_as_ssz_bytes_def)
     (simp add: AlloyWithdrawal_from_ssz_bytes_def AlloyWithdrawal_kinds_def AlloyWithdrawal_parts_def)

lemma withdrawals_codec:
  assumes "exact_ssz lib" and "length (withdrawals_as_ssz_bytes lib ws) < 2 ^ 32"
  shows "withdrawals_from_ssz_bytes lib (withdrawals_as_ssz_bytes lib ws) = Ok ws"
proof -
  have "list_all (of_kind AlloyWithdrawal_kind) (map (AlloyWithdrawal_as_ssz_bytes lib) ws)"
    using length_withdrawal [OF assms(1)]
    by (simp add: list_all_iff AlloyWithdrawal_kind_def fixed_size_def AlloyWithdrawal_kinds_def)
  then show ?thesis
    using assms(2) withdrawal_codec [OF assms(1)]
      list_codec [OF assms(1), of AlloyWithdrawal_kind "AlloyWithdrawal_as_ssz_bytes lib" ws]
    by (simp add: withdrawals_from_ssz_bytes_def withdrawals_as_ssz_bytes_def)
qed

lemma transactions_codec:
  assumes "exact_ssz lib" and "length (transactions_as_ssz_bytes lib txs) < 2 ^ 32"
  shows "transactions_from_ssz_bytes lib (transactions_as_ssz_bytes lib txs) = Ok txs"
  using assms(2) list_codec [OF assms(1), of VarLen Bytes_as_ssz_bytes txs]
  by (simp add: transactions_from_ssz_bytes_def transactions_as_ssz_bytes_def list_all_iff)

lemma payload_kinds: "exact_ssz lib \<Longrightarrow> map part_kind (ExecutionPayload_parts lib p) = ExecutionPayload_kinds"
  by (simp add: ExecutionPayload_parts_def ExecutionPayload_kinds_def hash_kind)

lemma payload_codec:
  assumes lib: "exact_ssz lib" and len: "length (ExecutionPayload_as_ssz_bytes lib p) < 2 ^ 32"
  shows "ExecutionPayload_from_ssz_bytes lib (ExecutionPayload_as_ssz_bytes lib p) = Ok p"
proof -
  have "Variable (transactions_as_ssz_bytes lib (ep_transactions p)) \<in> set (ExecutionPayload_parts lib p)"
    "Variable (withdrawals_as_ssz_bytes lib (ep_withdrawals p)) \<in> set (ExecutionPayload_parts lib p)"
    by (simp_all add: ExecutionPayload_parts_def)
  then have "length (transactions_as_ssz_bytes lib (ep_transactions p)) < 2 ^ 32"
    "length (withdrawals_as_ssz_bytes lib (ep_withdrawals p)) < 2 ^ 32"
    using part_length [OF lib] len by (fastforce simp: ExecutionPayload_as_ssz_bytes_def)+
  note lists = transactions_codec [OF lib this(1)] withdrawals_codec [OF lib this(2)]
  have "cl_read_container (sl_containers lib) ExecutionPayload_kinds (ExecutionPayload_as_ssz_bytes lib p) =
      Ok (map part_bytes (ExecutionPayload_parts lib p))"
    using container_codec [OF lib, of "ExecutionPayload_parts lib p"] lib len
    by (simp add: payload_kinds ExecutionPayload_as_ssz_bytes_def)
  then show ?thesis
    using lists lib
    by (simp add: ExecutionPayload_from_ssz_bytes_def ExecutionPayload_parts_def hash_codec)
qed

lemma signed_bid_codec:
  assumes lib: "exact_ssz lib" and sig: "plain_signature lib (sb_signature b)"
    and blobs: "reads_blobs lib (sb_blobs_bundle b)"
    and len: "length (SignedBid_as_ssz_bytes lib b) < 2 ^ 32"
  shows "SignedBid_from_ssz_bytes lib (SignedBid_as_ssz_bytes lib b) =
    (if valid_key lib (bid_builder_pubkey (sb_message b)) \<and> valid_key lib (bid_proposer_pubkey (sb_message b))
     then Ok b else Err ())"
proof -
  note sigs = signature_codec [OF lib sig]
  have "map part_kind (SignedBid_parts lib b) = SignedBid_kinds"
    using sigs(1) length_bid [OF lib, of "sb_message b"]
    by (simp add: SignedBid_parts_def SignedBid_kinds_def SIGNATURE_BYTES_LEN_def)
  then have read: "cl_read_container (sl_containers lib) SignedBid_kinds (SignedBid_as_ssz_bytes lib b) =
      Ok (map part_bytes (SignedBid_parts lib b))"
    using container_codec [OF lib, of "SignedBid_parts lib b"] len by (simp add: SignedBid_as_ssz_bytes_def)
  have "Variable (ExecutionPayload_as_ssz_bytes lib (sb_execution_payload b)) \<in> set (SignedBid_parts lib b)"
    by (simp add: SignedBid_parts_def)
  then have "length (ExecutionPayload_as_ssz_bytes lib (sb_execution_payload b)) < 2 ^ 32"
    using part_length [OF lib] len by (fastforce simp: SignedBid_as_ssz_bytes_def)
  note payload = payload_codec [OF lib this]
  have "sl_blobs_from_ssz_bytes lib (sl_blobs_as_ssz_bytes lib (sb_blobs_bundle b)) = Ok (sb_blobs_bundle b)"
    using blobs by (simp add: reads_blobs_def)
  then show ?thesis
    using sigs(2) read payload
    by (simp add: SignedBid_from_ssz_bytes_def SignedBid_parts_def bid_codec [OF lib])
qed

end
