(* ===== verification/Ssz_Relay.thy ===== *)
theory Ssz_Relay
  imports Relay Bid_Ssz
begin

text \<open>
  A bid on its way to a live relay: what the client of \<open>crates/relay/src/client/mod.rs\<close> posts as
  \<open>Ssz\<close> or \<open>Sszgzip\<close>, and what a relay that reads the posted bytes with the derived decoder of
  \<open>crates/primitives/src/bid.rs\<close> gets.
\<close>

text \<open>The relay's reading of a body; \<open>gunzip\<close> undoes the compression of the client.\<close>

fun posted_bid ::
  "('pk, 'sk, 'sig, 'be) ssz_library \<Rightarrow> (bytes \<Rightarrow> bytes option) \<Rightarrow> post_body \<Rightarrow> ('sig signed_bid, unit) result"
where
  "posted_bid lib gunzip (SszBody bs) = SignedBid_from_ssz_bytes lib bs"
| "posted_bid lib gunzip (GzipBody z) =
     (case gunzip z of Some bs \<Rightarrow> SignedBid_from_ssz_bytes lib bs | None \<Rightarrow> Err ())"
| "posted_bid lib gunzip (JsonBody js) = Err ()"

text \<open>
  C19: A submitted bid reaches a live relay as it is. The relay reads the posted body, plain or
  compressed, field by field; \<open>serve\<close> is what it answers to what it read. Then the client returns the
  status and text of the answer to exactly the submitted bid, with its payload, all transactions and
  withdrawals in their order and its signature, when both keys of the bid are valid; a bid with an
  invalid key is one the relay cannot read.
\<close>

theorem ssz_submission_end_to_end:
  assumes lib: "exact_ssz lib" and sig: "plain_signature lib (sb_signature b)"
    and blobs: "reads_blobs lib (sb_blobs_bundle b)"
    and len: "length (SignedBid_as_ssz_bytes lib b) < 2 ^ 32"
    and kind: "ri_submission (rcl_info c) = Ssz \<or> ri_submission (rcl_info c) = Sszgzip"
    and encoder: "hl_ssz_bid http = SignedBid_as_ssz_bytes lib"
    and gzip: "\<And>bs. \<exists>z. hl_gzip http bs = Some z \<and> gunzip z = Some bs"
    and relay: "\<And>body. hl_post http (ri_url (rcl_info c) @ SUBMIT_BID_PATH) body =
      Some (serve (posted_bid lib gunzip body))"
  shows "client_submit_bid http c b =
    (let m = sb_message b;
         answer = serve (if valid_key lib (bid_builder_pubkey m) \<and> valid_key lib (bid_proposer_pubkey m)
                         then Ok b else Err ())
     in case hl_text http answer of
          None \<Rightarrow> Err TopBidErr
        | Some message \<Rightarrow> Ok \<lparr> sbr_status = hl_status http answer, sbr_message = message \<rparr>)"
proof -
  obtain z where "hl_gzip http (SignedBid_as_ssz_bytes lib b) = Some z"
    and "gunzip z = Some (SignedBid_as_ssz_bytes lib b)"
    using gzip by blast
  then show ?thesis
    using kind encoder relay signed_bid_codec [OF lib sig blobs len]
    by (auto simp: client_submit_bid_def http_submit_def Let_def)
qed

definition sample_ssz :: "(384 word, unit, unit, unit) ssz_library" where
  "sample_ssz =
     \<lparr> sl_containers = spec_containers, sl_blst = sample_blst, sl_fmt = (\<lambda>_. []), sl_fixed_bytes = be_bytes 32,
       sl_hash256_from_ssz_bytes = (\<lambda>bs. Ok (from_be_slice bs)),
       sl_blobs_as_ssz_bytes = (\<lambda>x. container_bytes
         [Variable (concat (bb_commitments x)), Variable (concat (bb_proofs x)), Variable (concat (bb_blobs x))]),
       sl_blobs_from_ssz_bytes = (\<lambda>bs. result_map
         (\<lambda>xs. \<lparr> bb_commitments = chunks 48 (xs ! 0), bb_proofs = chunks 48 (xs ! 1),
                bb_blobs = chunks 131072 (xs ! 2) \<rparr>)
         (decode_container [VarLen, VarLen, VarLen] bs)) \<rparr>"

definition ssz_http ::
  "(unit, (unit signed_bid, unit) result, unit) http_library"
where
  "ssz_http =
     \<lparr> hl_get = (\<lambda>_ _. None), hl_post = (\<lambda>_ body. Some (posted_bid sample_ssz (Some \<circ> tl) body)),
       hl_status = (\<lambda>r. case r of Ok _ \<Rightarrow> 202 | _ \<Rightarrow> 400),
       hl_text = (\<lambda>r. Some (case r of Ok _ \<Rightarrow> ''accepted'' | _ \<Rightarrow> ''unreadable'')),
       hl_json_validators = (\<lambda>_. None), hl_json_traces = (\<lambda>_. None), hl_json_best_bid = (\<lambda>_. None),
       hl_ssz_bid = SignedBid_as_ssz_bytes sample_ssz, hl_json_bid = (\<lambda>_. []),
       hl_gzip = (\<lambda>bs. Some (0x1f # bs)), hl_grpc_connect = (\<lambda>_ _. None),
       hl_grpc_request = SubmitBlockRequest_from sample_blst unary,
       hl_grpc_submit = (\<lambda>_ _. Err []) \<rparr>"

definition ssz_client :: "unit relay_client" where
  "ssz_client =
     \<lparr> rcl_info = \<lparr> ri_name = Flashbots, ri_url = ''https://relay/'', ri_submission = Sszgzip \<rparr>,
       rcl_grpc_client = None \<rparr>"

lemma sample_ssz_exact: "exact_ssz sample_ssz"
  using sample_blst_encodes spec_containers_laws be_codec(2) [where ?'a = 256, of 32]
  by (simp add: exact_ssz_def sample_ssz_def) (simp add: sample_blst_def)

lemma sample_containers [simp]:
  "cl_container (sl_containers sample_ssz) = container_bytes"
  "cl_list (sl_containers sample_ssz) = spec_list"
  by (simp_all add: sample_ssz_def spec_containers_def)

definition bid_by :: "bls_public_key \<Rightarrow> unit signed_bid" where
  "bid_by k = (sample_signed_bid False)
     \<lparr> sb_message := (sb_message (sample_signed_bid False)) \<lparr> bid_builder_pubkey := k, bid_proposer_pubkey := 1 \<rparr> \<rparr>"

lemma bid_by_simps [simp]:
  "sb_signature (bid_by k) = \<lparr> sig_point = Some (), sig_is_infinity = False \<rparr>"
  "sb_blobs_bundle (bid_by k) = \<lparr> bb_commitments = [], bb_proofs = [], bb_blobs = [] \<rparr>"
  "bid_builder_pubkey (sb_message (bid_by k)) = k"
  "bid_proposer_pubkey (sb_message (bid_by k)) = 1"
  "ep_extra_data (sb_execution_payload (bid_by k)) = []"
  "ep_transactions (sb_execution_payload (bid_by k)) = []"
  "ep_withdrawals (sb_execution_payload (bid_by k)) = []"
  by (simp_all add: bid_by_def sample_signed_bid_def signed_bid_of_def SignedBid_new_def
      ExecutionPayload_from_def sample_envelope_def sample_build_def Signature_from_point_def Let_def)

lemma bid_by_fits: "length (SignedBid_as_ssz_bytes sample_ssz (bid_by k)) < 2 ^ 32"
proof -
  let ?b = "bid_by k"
  have "length (ExecutionPayload_as_ssz_bytes sample_ssz (sb_execution_payload ?b)) =
      fixed_size ExecutionPayload_kinds"
    by (simp add: ExecutionPayload_as_ssz_bytes_def length_container payload_kinds sample_ssz_exact)
       (simp add: ExecutionPayload_parts_def hash_part_def u64_part_def Bytes_as_ssz_bytes_def
        transactions_as_ssz_bytes_def withdrawals_as_ssz_bytes_def AlloyWithdrawal_kind_def
        variable_list_bytes_def container_bytes_def)
  moreover have "length (sl_blobs_as_ssz_bytes sample_ssz (sb_blobs_bundle ?b)) = 12"
    by (simp add: sample_ssz_def length_container fixed_size_def)
  moreover have "length (Signature_serialize sample_blst (sb_signature ?b)) = 96"
    by (simp add: Signature_serialize_def sample_blst_def)
  moreover have "sl_blst sample_ssz = sample_blst" by (simp add: sample_ssz_def)
  ultimately show ?thesis
    using length_bid [OF sample_ssz_exact, of "sb_message ?b"]
    by (simp add: SignedBid_as_ssz_bytes_def length_container)
       (simp add: SignedBid_parts_def fixed_size_def Bid_kinds_def ExecutionPayload_kinds_def)
qed

lemma sample_keys:
  shows "valid_key sample_ssz 1" and "\<not> valid_key sample_ssz (from_be_slice INFINITY_PUBLIC_KEY)"
proof -
  have "last (be_bytes 48 (1 :: bls_public_key)) \<noteq> last INFINITY_PUBLIC_KEY"
    using be_bytes_Suc [of 47 "1 :: bls_public_key"] by (simp add: INFINITY_PUBLIC_KEY_def)
  then show "valid_key sample_ssz 1" by (auto simp: valid_key_def valid_public_key_def sample_ssz_def sample_blst_def)
  show "\<not> valid_key sample_ssz (from_be_slice INFINITY_PUBLIC_KEY)"
    using be_codec(3) [where ?'a = 384, of 48 INFINITY_PUBLIC_KEY]
    by (simp add: valid_key_def valid_public_key_def) (simp add: INFINITY_PUBLIC_KEY_def)
qed

theorem ssz_submission_end_to_end_witness:
  "client_submit_bid ssz_http ssz_client (bid_by 1) = Ok \<lparr> sbr_status = 202, sbr_message = ''accepted'' \<rparr> \<and>
   client_submit_bid ssz_http ssz_client (bid_by (from_be_slice INFINITY_PUBLIC_KEY)) =
     Ok \<lparr> sbr_status = 400, sbr_message = ''unreadable'' \<rparr>"
proof -
  have "reads_blobs sample_ssz (sb_blobs_bundle (bid_by k))" for k
    using decode_container_bytes [of "[Variable [], Variable [], Variable []]"]
    by (simp add: reads_blobs_def sample_ssz_def length_container fixed_size_def chunks.simps)
  moreover have "hd (replicate 96 (1 :: u8)) \<noteq> hd INFINITY_SIGNATURE"
    by (simp add: INFINITY_SIGNATURE_def)
  then have "replicate 96 (1 :: u8) \<noteq> INFINITY_SIGNATURE" by metis
  then have "plain_signature sample_ssz (sb_signature (bid_by k))" for k
    by (simp add: plain_signature_def flags_infinity_def Signature_serialize_def sample_ssz_def sample_blst_def)
  ultimately have "client_submit_bid ssz_http ssz_client (bid_by k) =
      Ok (if valid_key sample_ssz k then \<lparr> sbr_status = 202, sbr_message = ''accepted'' \<rparr>
          else \<lparr> sbr_status = 400, sbr_message = ''unreadable'' \<rparr>)" for k
    using ssz_submission_end_to_end [OF sample_ssz_exact _ _ bid_by_fits, of k ssz_client ssz_http
        "Some \<circ> tl" "\<lambda>r. r"] sample_keys(1)
    by (simp add: ssz_client_def ssz_http_def)
  then show ?thesis by (simp add: sample_keys(1) sample_keys(2))
qed

end
