(* ===== verification/Builder_System.thy ===== *)
theory Builder_System
  imports Payload_Service Builder_Service Relay
begin

text \<open>
  The services of the node put together, as \<open>bin/builder/src/main.rs\<close> wires them: the block builder
  service sends commands to the payload service and auction starts to the bidder, the jobs of the
  payload service send build states to the bidder, and the bidder spawns the tasks that finalize
  and submit a build.

  The state of the system is the state of the three services and the contents of the three unbounded
  channels between them.  A step is one poll of one service, in any order; a poll takes any part of
  what waits in its channels, from the front.  What the services read from outside is an element of
  two sets: the environments the block builder is polled in, and the worlds the build tasks run in.
  So a theorem about a reachable state holds for every scheduling of the services.
\<close>

section \<open>State\<close>

record ('cs, 'bst, 'st) builder_system =
  sy_builder :: "'st block_builder"
  sy_commands :: "payload_service_command list"
  sy_payload :: "(('cs, 'bst) stream_job \<times> wake_source set) payload_service"
  sy_builds :: "('cs, 'bst) build_state list"
  sy_starts :: "(u64 \<times> u64) list"
  sy_bidder :: "('cs, 'bst) bidder"
  sy_tasks :: "(('cs, 'bst) build_state \<times> u256) list"

definition system_new ::
  "bid_selection_policy \<Rightarrow> network_clock \<Rightarrow> ('cs, 'bst, 'st) builder_system"
where
  "system_new policy clock =
     \<lparr> sy_builder = BlockBuilderService_new BundlePool_new, sy_commands = [], sy_payload = PayloadBuilderService_new,
       sy_builds = [], sy_starts = [], sy_bidder = BidderService_new policy clock, sy_tasks = [] \<rparr>"

section \<open>Channels\<close>

text \<open>\<open>payload_handle.new_payload\<close> and \<open>bidder_handle.start_auction\<close>\<close>

fun send_effects ::
  "builder_effect list \<Rightarrow> ('cs, 'bst, 'st) builder_system \<Rightarrow> ('cs, 'bst, 'st) builder_system"
where
  "send_effects [] sy = sy"
| "send_effects (BuildPayload config # effects) sy =
     send_effects effects (sy\<lparr> sy_commands := sy_commands sy @ [BuildNewPayload config] \<rparr>)"
| "send_effects (AuctionStart slot block_number # effects) sy =
     send_effects effects (sy\<lparr> sy_starts := sy_starts sy @ [(slot, block_number)] \<rparr>)"

text \<open>\<open>bidder.make_bid\<close>\<close>

fun made_bids :: "('cs, 'bst) job_effect list \<Rightarrow> ('cs, 'bst) build_state list" where
  "made_bids [] = []"
| "made_bids (MakeBid bs # effects) = bs # made_bids effects"
| "made_bids (SpawnBuild args # effects) = made_bids effects"
| "made_bids (ResetInterval # effects) = made_bids effects"

fun submissions :: "('cs, 'bst) bidder_task list \<Rightarrow> (('cs, 'bst) build_state \<times> u256) list" where
  "submissions [] = []"
| "submissions (FinalizeAndSubmit bs bid # tasks) = (bs, bid) # submissions tasks"
| "submissions (RequestTopBid n # tasks) = submissions tasks"

lemma set_made_bids: "bs \<in> set (made_bids effects) \<longleftrightarrow> MakeBid bs \<in> set effects"
  by (induction effects rule: made_bids.induct) auto

lemma set_submissions: "(bs, bid) \<in> set (submissions tasks) \<longleftrightarrow> FinalizeAndSubmit bs bid \<in> set tasks"
  by (induction tasks rule: submissions.induct) auto

section \<open>Steps\<close>

text \<open>What the channel of a build may answer when the task runs in one of the worlds.\<close>

definition answer_in ::
  "'cs job_generator_config \<Rightarrow> ('cs, 'db, 'sdb, 'bst, 'prov, 'blob, 'it, 'signed) build_world set \<Rightarrow>
   ('cs, 'bst) build_arguments \<Rightarrow> (('cs, 'bst) build_outcome, payload_builder_error) result rx_answer \<Rightarrow> bool"
where
  "answer_in c W args a \<longleftrightarrow>
     a = NotReady \<or> (\<exists>w \<in> W. a = task_answer (strategy_try_build (stream_job_strategy c) w args))"

inductive system_step ::
  "'cs job_generator_config \<Rightarrow> ('cs, 'blk, 'st) builder_env set \<Rightarrow>
   ('cs, 'db, 'sdb, 'bst, 'prov, 'blob, 'it, 'signed) build_world set \<Rightarrow>
   ('cs, 'bst, 'st) builder_system \<Rightarrow> ('cs, 'bst, 'st) builder_system \<Rightarrow> bool"
  for c :: "'cs job_generator_config" and E :: "('cs, 'blk, 'st) builder_env set"
    and W :: "('cs, 'db, 'sdb, 'bst, 'prov, 'blob, 'it, 'signed) build_world set"
where
  poll_builder: "env \<in> E \<Longrightarrow> builder_poll env (sy_builder sy) = Some (Ok (finished, builder, effects)) \<Longrightarrow>
     system_step c E W sy (send_effects effects (sy\<lparr> sy_builder := builder \<rparr>))"
| poll_payload: "sy_commands sy = concat batches @ later \<Longrightarrow> se_effects env = [] \<Longrightarrow>
     (\<And>args. answer_in c W args (se_answer env args)) \<Longrightarrow>
     service_poll (stream_ops c :: (('cs, 'bst) stream_env, ('cs, 'bst) stream_job \<times> wake_source set,
       'blob build, 'blob resolve_best_payload) job_ops)
       env (sy_payload sy) batches = Ok (replies, payload, env', rest) \<Longrightarrow>
     system_step c E W sy
       (sy\<lparr> sy_commands := concat rest @ later, sy_payload := payload,
            sy_builds := sy_builds sy @ made_bids (se_effects env') \<rparr>)"
| poll_bidder: "sy_starts sy = in_starts inp @ starts \<Longrightarrow> sy_builds sy = in_builds inp @ builds \<Longrightarrow>
     bidder_poll inp (sy_bidder sy) = Ok (bidder, tasks, ended) \<Longrightarrow>
     system_step c E W sy
       (sy\<lparr> sy_starts := starts, sy_builds := builds, sy_bidder := bidder,
            sy_tasks := sy_tasks sy @ submissions tasks \<rparr>)"

inductive system_reach ::
  "'cs job_generator_config \<Rightarrow> ('cs, 'blk, 'st) builder_env set \<Rightarrow>
   ('cs, 'db, 'sdb, 'bst, 'prov, 'blob, 'it, 'signed) build_world set \<Rightarrow>
   bid_selection_policy \<Rightarrow> network_clock \<Rightarrow> ('cs, 'bst, 'st) builder_system \<Rightarrow> bool"
  for c :: "'cs job_generator_config" and E :: "('cs, 'blk, 'st) builder_env set"
    and W :: "('cs, 'db, 'sdb, 'bst, 'prov, 'blob, 'it, 'signed) build_world set"
    and policy :: bid_selection_policy and clock :: network_clock
where
  system_start: "system_reach c E W policy clock (system_new policy clock)"
| system_next: "system_reach c E W policy clock sy \<Longrightarrow> system_step c E W sy sy' \<Longrightarrow>
     system_reach c E W policy clock sy'"

section \<open>Where a build comes from\<close>

text \<open>
  A configuration is ordered when it is one that the block builder makes in one of the environments,
  for attributes whose timestamp lies in the future there.
\<close>

definition ordered :: "('cs, 'blk, 'st) builder_env set \<Rightarrow> build_config \<Rightarrow> bool" where
  "ordered E config \<longleftrightarrow>
     (\<exists>env \<in> E. build_configs env (bc_attributes config) (bc_slot config) = Ok (Some config) \<and>
        bse_now_secs env < pa_timestamp (bc_attributes config))"

text \<open>A build state is crafted when the strategy made it, in one of the worlds, for such a configuration.\<close>

definition crafted ::
  "'cs job_generator_config \<Rightarrow> ('cs, 'blk, 'st) builder_env set \<Rightarrow>
   ('cs, 'db, 'sdb, 'bst, 'prov, 'blob, 'it, 'signed) build_world set \<Rightarrow> ('cs, 'bst) build_state \<Rightarrow> bool"
where
  "crafted c E W bs \<longleftrightarrow>
     (\<exists>w \<in> W. \<exists>args. ordered E (ba_build_config args) \<and>
        strategy_try_build (stream_job_strategy c) w args = Some (Ok (Better bs)))"

definition job_sound :: "('cs, 'blk, 'st) builder_env set \<Rightarrow> ('cs, 'bst) stream_job \<times> wake_source set \<Rightarrow> bool" where
  "job_sound E = (\<lambda>(j, _). ordered E (sj_build_config j) \<and> stream_inv j)"

definition env_sound ::
  "'cs job_generator_config \<Rightarrow> ('cs, 'blk, 'st) builder_env set \<Rightarrow>
   ('cs, 'db, 'sdb, 'bst, 'prov, 'blob, 'it, 'signed) build_world set \<Rightarrow> ('cs, 'bst) stream_env \<Rightarrow> bool"
where
  "env_sound c E W env \<longleftrightarrow>
     (\<forall>args. answer_in c W args (se_answer env args)) \<and>
     list_all (crafted c E W) (made_bids (se_effects env))"

lemma made_bids_append [simp]: "made_bids (xs @ ys) = made_bids xs @ made_bids ys"
  by (induction xs rule: made_bids.induct) simp_all

lemma send_effects_other [simp]:
  "sy_builder (send_effects effects sy) = sy_builder sy" "sy_payload (send_effects effects sy) = sy_payload sy"
  "sy_builds (send_effects effects sy) = sy_builds sy" "sy_bidder (send_effects effects sy) = sy_bidder sy"
  "sy_tasks (send_effects effects sy) = sy_tasks sy"
  by (induction effects sy rule: send_effects.induct) simp_all

lemma stream_poll_bids:
  assumes "stream_poll now a j = Ok (st, j', effects, wakes)"
  shows "sj_build_config j' = sj_build_config j" and "made_bids effects = [] \<or>
    (\<exists>bs. pending_build_poll a = Some (Ok (Better bs)) \<and> made_bids effects = [bs])"
  using assms
  by (auto simp: stream_poll_def stream_spawn_def Let_def
      split: if_splits option.splits result.splits build_outcome.splits)

lemma pending_build_poll_task:
  "pending_build_poll (task_answer r) = Some (Ok x) \<Longrightarrow> r = Some (Ok x)"
  by (auto simp: pending_build_poll_def task_answer_def split: option.splits result.splits)

lemma answer_in_may_answer:
  "answer_in c W args a \<Longrightarrow> may_answer (strategy_try_build (stream_job_strategy c) ::
     ('cs, 'db, 'sdb, 'bst, 'prov, 'blob, 'it, 'signed) build_world \<Rightarrow> _) args a"
  for W :: "('cs, 'db, 'sdb, 'bst, 'prov, 'blob, 'it, 'signed) build_world set"
  by (auto simp: answer_in_def may_answer_def)

lemma answer_in_crafted:
  assumes "answer_in c W args a" and "pending_build_poll a = Some (Ok (Better bs))"
    and "ordered E (ba_build_config args)"
  shows "crafted c E W bs"
proof -
  from assms(1,2) obtain w where w: "w \<in> W"
    and a: "a = task_answer (strategy_try_build (stream_job_strategy c) w args)"
    by (auto simp: answer_in_def pending_build_poll_def)
  have "strategy_try_build (stream_job_strategy c) w args = Some (Ok (Better bs))"
    by (rule pending_build_poll_task) (use assms(2) a in simp)
  with w assms(3) show ?thesis unfolding crafted_def by blast
qed

lemma stream_poll_sound:
  fixes E :: "('cs, 'blk, 'st) builder_env set"
    and W :: "('cs, 'db, 'sdb, 'bst, 'prov, 'blob, 'it, 'signed) build_world set"
  assumes "stream_inv j" and "ordered E (sj_build_config j)" and "answer_in c W (stream_args j) a"
    and p: "stream_poll now a j = Ok (st, j', effects, wakes)"
  shows "stream_inv j' \<and> ordered E (sj_build_config j') \<and> list_all (crafted c E W) (made_bids effects)"
proof -
  have "stream_inv j'"
    using bundle_jobs.stream_step [OF assms(1)
        answer_in_may_answer [OF assms(3), unfolded stream_job_strategy_def], of now] p by auto
  moreover have "list_all (crafted c E W) (made_bids effects)"
    using stream_poll_bids(2) [OF p] answer_in_crafted [OF assms(3), of _ E] assms(2)
    by (auto simp: stream_args_def BuildArguments_new_def)
  ultimately show ?thesis using stream_poll_bids(1) [OF p] assms(2) by simp
qed

interpretation system_jobs: job_invariant "stream_ops c" "job_sound E" "env_sound c E W" "ordered E"
  for c :: "'cs job_generator_config" and E :: "('cs, 'blk, 'st) builder_env set"
    and W :: "('cs, 'db, 'sdb, 'bst, 'prov, 'blob, 'it, 'signed) build_world set"
proof
  fix job env st job' env'
  assume j: "job_sound E job" and e: "env_sound c E W env"
    and p: "jo_poll (stream_ops c) env job = Ok (st, job', env')"
  obtain k wakes where job: "job = (k, wakes)" by (cases job)
  from j have inv: "stream_inv k" "ordered E (sj_build_config k)" by (simp_all add: job_sound_def job)
  have args: "unwrap_or (sj_pending_build k) (stream_args k) = stream_args k"
    using inv(1) by (auto simp: stream_inv_def)
  from p obtain k' effects wakes' where
    q: "stream_poll (se_now env) (se_answer env (stream_args k)) k = Ok (st, k', effects, wakes')"
    and r: "job' = (k', wakes')" "env' = env\<lparr> se_effects := se_effects env @ effects \<rparr>"
    by (auto simp: stream_ops_def job args result_map_Ok_iff)
  have "answer_in c W (stream_args k) (se_answer env (stream_args k))"
    using e by (simp add: env_sound_def)
  from stream_poll_sound [OF inv this q] e show "job_sound E job' \<and> env_sound c E W env'"
    by (simp add: job_sound_def env_sound_def r)
next
  fix config env job
  assume "ordered E config" and "jo_new_payload_job (stream_ops c) env config = Ok job"
  then show "job_sound E job"
    by (auto simp: stream_ops_def stream_new_payload_job_def job_sound_def stream_inv_def result_map_Ok_iff)
qed (simp add: stream_ops_panic)

section \<open>The invariant of the system\<close>

definition commands_sound :: "('cs, 'blk, 'st) builder_env set \<Rightarrow> payload_service_command list \<Rightarrow> bool" where
  "commands_sound E cmds \<longleftrightarrow> (\<forall>config. BuildNewPayload config \<in> set cmds \<longrightarrow> ordered E config)"

definition system_inv ::
  "'cs job_generator_config \<Rightarrow> ('cs, 'blk, 'st) builder_env set \<Rightarrow>
   ('cs, 'db, 'sdb, 'bst, 'prov, 'blob, 'it, 'signed) build_world set \<Rightarrow>
   bid_selection_policy \<Rightarrow> network_clock \<Rightarrow> ('cs, 'bst, 'st) builder_system \<Rightarrow> bool"
where
  "system_inv c E W policy clock sy \<longleftrightarrow>
     commands_sound E (sy_commands sy) \<and> all_jobs (job_sound E) (sy_payload sy) \<and>
     list_all (crafted c E W) (sy_builds sy) \<and> best_all (crafted c E W) (sy_bidder sy) \<and>
     bidder_reach policy clock (sy_bidder sy) \<and>
     (\<forall>(bs, bid) \<in> set (sy_tasks sy). crafted c E W bs \<and> unat bid \<le> spend_limit policy bs)"

lemma commands_sound_mono: "commands_sound E cmds \<Longrightarrow> set cmds' \<subseteq> set cmds \<Longrightarrow> commands_sound E cmds'"
  unfolding commands_sound_def by blast

lemma commands_sound_append:
  "commands_sound E (xs @ ys) \<longleftrightarrow> commands_sound E xs \<and> commands_sound E ys"
  unfolding commands_sound_def set_append by blast

lemma system_new_inv: "system_inv c E W policy clock (system_new policy clock)"
  by (simp add: system_inv_def system_new_def commands_sound_def all_jobs_def best_all_def
      PayloadBuilderService_new_def BidderService_new_def is_none_or_def
      bidder_init [unfolded BidderService_new_def])

lemma sent_commands:
  "set (sy_commands (send_effects effects sy)) =
     set (sy_commands sy) \<union> {BuildNewPayload config | config. BuildPayload config \<in> set effects}"
  by (induction effects sy rule: send_effects.induct) auto

lemma builder_poll_ordered:
  assumes "builder_poll env s = Some (Ok (finished, s', effects))" and "env \<in> E"
    and "BuildPayload config \<in> set effects"
  shows "ordered E config"
  using builder_poll_configs [OF assms(1,3)] assms(2) unfolding ordered_def by blast

lemma system_step_inv:
  assumes "system_step c E W sy sy'" and inv: "system_inv c E W policy clock sy"
  shows "system_inv c E W policy clock sy'"
  using assms(1)
proof (cases rule: system_step.cases)
  case (poll_builder env finished builder effects)
  have "commands_sound E (sy_commands sy')"
    using inv builder_poll_ordered [OF poll_builder(3,2)]
    by (auto simp: poll_builder(1) commands_sound_def system_inv_def sent_commands)
  with inv show ?thesis by (simp add: poll_builder(1) system_inv_def)
next
  case (poll_payload batches later env replies payload env' rest)
  have cmds: "commands_sound E (concat batches)" "commands_sound E later"
    using inv poll_payload(2) by (simp_all add: system_inv_def commands_sound_def)
  have "env_sound c E W env" by (simp add: env_sound_def poll_payload(3,4))
  from system_jobs.service_poll_ok [OF poll_payload(5) this] inv cmds(1)
  have p: "env_sound c E W env'" "all_jobs (job_sound E) payload" "set (concat rest) \<subseteq> set (concat batches)"
    by (simp_all add: system_inv_def system_jobs.commands_ok_def commands_sound_def)
  have "commands_sound E (concat rest @ later)"
    using commands_sound_mono [OF cmds(1) p(3)] cmds(2) by (simp only: commands_sound_append)
  with inv p(1,2) show ?thesis by (simp add: poll_payload(1) system_inv_def env_sound_def)
next
  case (poll_bidder inp starts builds bidder tasks ended)
  have reach: "bidder_reach policy clock (sy_bidder sy)" and best: "best_all (crafted c E W) (sy_bidder sy)"
    and arrived: "list_all (crafted c E W) (in_builds inp)" "list_all (crafted c E W) builds"
    using inv poll_bidder(3) by (simp_all add: system_inv_def)
  note poll = poll_bidder(4)
  from bidder_poll_best [OF poll best arrived(1)]
  have b: "best_all (crafted c E W) bidder"
    and t: "\<And>bs bid. (bs, bid) \<in> set (submissions tasks) \<Longrightarrow> crafted c E W bs"
    by (auto simp: set_submissions)
  have "unat bid \<le> spend_limit policy bs" if "(bs, bid) \<in> set (submissions tasks)" for bs bid
    using bidder_poll_submissions [OF reach poll, of bs bid] that by (auto simp: set_submissions)
  with inv b t arrived(2) bidder_step [OF reach poll] show ?thesis
    by (auto simp: poll_bidder(1) system_inv_def)
qed

lemma system_reach_inv: "system_reach c E W policy clock sy \<Longrightarrow> system_inv c E W policy clock sy"
  by (induction rule: system_reach.induct) (auto intro: system_new_inv system_step_inv)

text \<open>What the strategy made for an ordered configuration carries that configuration.\<close>

lemma crafted_configs:
  assumes "crafted c E W bs"
  obtains config where "ordered E config" and "bs_payload_config bs = gc_payload_config c"
    and "bs_build_config bs = block_env_with_coinbase (pc_builder_address (gc_payload_config c)) config"
proof -
  from assms obtain w args where "w \<in> W" and o: "ordered E (ba_build_config args)"
    and b: "strategy_try_build (BundlesStrat (gc_payload_config c)) w args = Some (Ok (Better bs))"
    by (auto simp: crafted_def stream_job_strategy_def)
  from b have "bs_payload_config bs = gc_payload_config c \<and>
      bs_build_config bs = block_env_with_coinbase (pc_builder_address (gc_payload_config c)) (ba_build_config args)"
    unfolding strategy_try_build_def strategy.case by (rule bundles_better_configs)
  with o show ?thesis using that by blast
qed

lemma coinbase_fields [simp]:
  "bc_slot (block_env_with_coinbase a config) = bc_slot config"
  "bc_attributes (block_env_with_coinbase a config) = bc_attributes config"
  "bc_validator_info (block_env_with_coinbase a config) = bc_validator_info config"
  "bc_parent_block (block_env_with_coinbase a config) = bc_parent_block config"
  by (simp_all add: block_env_with_coinbase_def)

lemma system_task:
  assumes "system_reach c E W policy clock sy" and "(bs, bid) \<in> set (sy_tasks sy)"
  shows "crafted c E W bs" and "unat bid \<le> spend_limit policy bs"
  using system_reach_inv [OF assms(1)] assms(2) by (auto simp: system_inv_def)

lemma finalized_build:
  assumes "finalize_and_submit_build e api submit bs bid m = (m', Some build, ended)"
  shows "into_build e api (with_payment bid bs) = Ok build"
  using assms
  by (auto simp: finalize_and_submit_build_def build_submission_with_builder_payment_def Let_def
      split: result.splits if_splits)

lemma with_payment_fields [simp]:
  "bs_build_config (with_payment bid bs) = bs_build_config bs"
  "bs_payload_config (with_payment bid bs) = bs_payload_config bs"
  "ed_executed_txs (bs_exec_details (with_payment bid bs)) = ed_executed_txs (bs_exec_details bs)"
  "unwrap_or (ed_builder_payment (bs_exec_details (with_payment bid bs))) 0 = bid"
  "build_ok e (with_payment bid bs) \<longleftrightarrow> build_ok e bs"
  "sane_limits e G (with_payment bid bs) \<longleftrightarrow> sane_limits e G bs"
  by (simp_all add: with_payment_def set_builder_payment_def build_ok_def sane_limits_def receipts_inv_def)

section \<open>Properties\<close>

text \<open>
  Every bid that leaves the builder is one it may make. However the services are scheduled and
  whatever they read from outside, the message signed for a submitted build offers a bid within
  what the policy may spend on that very block, names the slot, the key and the fee recipient of
  the validator that was scheduled when the block builder started the slot, and is for a block on
  the parent that was found for the attributes of the consensus layer, with a timestamp that lay
  in the future at that time.
\<close>

lemma bids_scheduled:
  assumes "system_reach c E W policy clock sy" and "(bs, bid) \<in> set (sy_tasks sy)"
    and "finalize_and_submit_build e api submit bs bid m = (m', Some build, ended)"
    and "\<forall>env \<in> E. \<exists>vs. bse_schedule env = ValidatorSchedule_new vs"
  shows "let b = sb_message (signed_bid_of lib th envelope_of signer build)
         in bid_value b = bid \<and> unat bid \<le> spend_limit policy bs \<and>
            (\<exists>env \<in> E. \<exists>v parent.
               get_by_slot (bse_schedule env) (bid_slot b) = Some v \<and>
               bid_proposer_pubkey b = vi_proposer v \<and> bid_proposer_fee_recipient b = vi_fee_recipient v \<and>
               find_parent_block (bse_client env) (pa_parent (bc_attributes (bs_build_config bs))) = Ok parent \<and>
               bid_parent_hash b = sb_hash parent \<and>
               bse_now_secs env < hd_timestamp (blk_header (pl_block (bd_payload build))))"
proof -
  note built = finalized_build [OF assms(3)]
  obtain config where o: "ordered E config" and bs: "bs_build_config bs =
      block_env_with_coinbase (pc_builder_address (gc_payload_config c)) config"
    using crafted_configs [OF system_task(1) [OF assms(1,2)]] by blast
  from o obtain env where env: "env \<in> E"
    and future: "bse_now_secs env < pa_timestamp (bc_attributes config)"
    and made: "build_configs env (bc_attributes config) (bc_slot config) = Ok (Some config)"
    by (auto simp: ordered_def)
  note config = build_configs_SomeD [OF made]
  obtain vs where "bse_schedule env = ValidatorSchedule_new vs" using assms(4) env by blast
  with config have slot: "vi_slot (bc_validator_info config) = bc_slot config"
    by (auto simp: schedule_first_registration_wins find_Some_iff)
  have "hd_timestamp (blk_header (pl_block (bd_payload build))) = pa_timestamp (bc_attributes config)"
    and "bd_bid build = bid"
    using built bs by (auto elim: into_build_OkE)
  then show ?thesis
    using into_build_fields [OF built] system_task(2) [OF assms(1,2)] env future config slot bs
    by (auto simp: signed_bid_of_def SignedBid_new_def Bid_new_def parent_block_def Let_def)
qed

text \<open>
  What the worlds and the orders are assumed to be for the contents of a block: the worlds share one
  EVM, no bundle the pool offers for an ordered configuration is excessively long, and the block gas
  limit leaves room for the builder payment.
\<close>

definition sound_world ::
  "('cs, 'db, 'sdb) evm \<Rightarrow> ('cs, 'blk, 'st) builder_env set \<Rightarrow>
   ('cs, 'db, 'sdb, 'bst, 'prov, 'blob, 'it, 'signed) build_world \<Rightarrow> bool"
where
  "sound_world e E w \<longleftrightarrow>
     w_evm w = e \<and>
     (\<forall>config. ordered E config \<longrightarrow>
        list_all (\<lambda>rb. length (rb_txs rb) < 2 ^ 29)
          (pool_rbs (w_decode_enveloped w) (w_into_ecrecovered w) (w_locked w) (w_bundle_pool w) config))"

text \<open>The EVM runs no bundle of the pool that repeats a transaction: its nonce has been used.\<close>

definition world_nonces ::
  "('cs, 'db, 'sdb) evm \<Rightarrow> ('cs, 'blk, 'st) builder_env set \<Rightarrow>
   ('cs, 'db, 'sdb, 'bst, 'prov, 'blob, 'it, 'signed) build_world \<Rightarrow> bool"
where
  "world_nonces e E w \<longleftrightarrow>
     (\<forall>config. ordered E config \<longrightarrow>
        list_all (nonces_checked e)
          (pool_rbs (w_decode_enveloped w) (w_into_ecrecovered w) (w_locked w) (w_bundle_pool w) config))"

definition sane_orders :: "('cs, 'blk, 'st) builder_env set \<Rightarrow> bool" where
  "sane_orders E \<longleftrightarrow>
     (\<forall>config. ordered E config \<longrightarrow>
        32000 \<le> unat (bc_block_gas_limit config) \<and> unat (bc_block_gas_limit config) < 2 ^ 62)"

text \<open>The EVM charges at most the gas limit, its limits are far below \<open>u64\<close>, and signing keeps gas limit and signer.\<close>

definition sound_evm :: "('cs, 'db, 'sdb) evm \<Rightarrow> 'cs payload_config \<Rightarrow> bool" where
  "sound_evm e pc \<longleftrightarrow>
     evm_gas_sound e (2 ^ 32) \<and> unat (evm_max_data_gas_per_block e) < 2 ^ 62 \<and>
     (\<forall>key t tx. evm_sign_and_recover e key t = Some tx \<longrightarrow> tx_gas_limit tx = e1559_gas_limit t) \<and>
     (\<forall>t tx. evm_sign_and_recover e (pc_secret_key pc) t = Some tx \<longrightarrow> tx_signer tx = pc_builder_address pc)"

lemma crafted_build_sound:
  fixes bs :: "('cs, 'bst) build_state"
  assumes "crafted c E W bs" and w: "\<forall>w \<in> W. sound_world e E w"
    and o: "sane_orders E" and e: "sound_evm e (gc_payload_config c)"
  shows "build_ok e bs" and "sane_limits e (2 ^ 32) bs"
    and "list_all (\<lambda>tx. \<not> is_ofac_tx tx)
           (foreign (pc_builder_address (gc_payload_config c)) (ed_executed_txs (bs_exec_details bs)))"
    and "\<forall>w \<in> W. world_nonces e E w \<Longrightarrow> distinct (map tx_hash
           (foreign (pc_builder_address (gc_payload_config c)) (ed_executed_txs (bs_exec_details bs))))"
proof -
  from assms(1) obtain w args where w': "w \<in> W" and args: "ordered E (ba_build_config args)"
    and b: "strategy_try_build (BundlesStrat (gc_payload_config c)) w args = Some (Ok (Better bs))"
    by (auto simp: crafted_def stream_job_strategy_def)
  note better = b [unfolded strategy_try_build_def strategy.case]
  have sw: "sound_world e E w" using w w' by blast
  then have evm: "w_evm w = e" by (simp add: sound_world_def)
  have rbs: "list_all (\<lambda>rb. length (rb_txs rb) < 2 ^ 29)
        (pool_rbs (w_decode_enveloped w) (w_into_ecrecovered w) (w_locked w) (w_bundle_pool w) (ba_build_config args))"
    using sw args unfolding sound_world_def by blast
  have gas: "32000 \<le> unat (bc_block_gas_limit (ba_build_config args))"
      "unat (bc_block_gas_limit (ba_build_config args)) < 2 ^ 62"
    using o args unfolding sane_orders_def by blast+
  have ev: "evm_gas_sound e (2 ^ 32)" "unat (evm_max_data_gas_per_block e) < 2 ^ 62"
    and signer: "\<And>t tx. evm_sign_and_recover e (pc_secret_key (gc_payload_config c)) t = Some tx \<Longrightarrow>
           tx_signer tx = pc_builder_address (gc_payload_config c)"
    using e unfolding sound_evm_def by blast+
  have lim: "sane_limits e (2 ^ 32) (BuildState_new (w_build_id w) (ba_build_config args)
      (gc_payload_config c) (w_instant w) :: ('cs, 'bst) build_state)"
    using gas(2) ev(2) by (simp add: sane_limits_def BuildState_new_def block_env_with_coinbase_def)
  show "build_ok e bs"
    by (rule bundles_better_within_limits [OF better [unfolded evm] rbs gas(1) lim ev(1)])
  show "sane_limits e (2 ^ 32) bs"
    using bundles_better_configs [OF better] gas(2) ev(2)
    by (simp add: sane_limits_def block_env_with_coinbase_def)
  show "list_all (\<lambda>tx. \<not> is_ofac_tx tx)
      (foreign (pc_builder_address (gc_payload_config c)) (ed_executed_txs (bs_exec_details bs)))"
    by (rule bundles_better_clean(1) [OF better [unfolded evm]]) (rule signer)
  assume "\<forall>w \<in> W. world_nonces e E w"
  then have nonces: "list_all (nonces_checked e)
      (pool_rbs (w_decode_enveloped w) (w_into_ecrecovered w) (w_locked w) (w_bundle_pool w) (ba_build_config args))"
    using w' args unfolding world_nonces_def by blast
  show "distinct (map tx_hash
      (foreign (pc_builder_address (gc_payload_config c)) (ed_executed_txs (bs_exec_details bs))))"
    by (rule bundles_better_clean(2) [OF better [unfolded evm] _ nonces]) (rule signer)
qed


section \<open>A run of the system\<close>

text \<open>Two polls of the block builder, one of the payload service and one of the bidder.\<close>

definition sample_order_env :: "(unit, unit, nat) builder_env" where
  "sample_order_env =
     (sample_builder_env (ValidatorSchedule_new [sample_validator 30000000]))
       \<lparr> bse_new_attributes := \<lambda>_ _. bc_attributes sample_config, bse_join := \<lambda>_. Joined 0 \<rparr>"

abbreviation sample_built :: "(unit, unit) build_state" where
  "sample_built \<equiv> with_bundle_state () (sample_committed [1, 2])"

lemma sample_order_fields:
  "bse_new_attributes sample_order_env = (\<lambda>_ _. bc_attributes sample_config)"
  "bse_join sample_order_env = (\<lambda>_. Joined 0)"
  "bse_next_item sample_order_env = (\<lambda>st. if st = 0 then (1, Item sample_response) else (st, NoItem))"
  "bse_schedule sample_order_env = ValidatorSchedule_new [sample_validator 30000000]"
  "bse_now_secs sample_order_env = 100"
  by (simp_all add: sample_order_env_def sample_builder_env_def)

lemma sample_connects:
  "\<exists>b. builder_poll sample_order_env (BlockBuilderService_new pool) = Some (Ok (False, b, [])) \<and>
     cl_payload_stream (bb_consensus b) = Some 0 \<and> bb_slot b = 0"
  by (simp add: builder_poll_def drain_consensus.simps [of sample_order_env] sample_order_fields
      consensus_poll_next_def BlockBuilderService_new_def ConsensusLayer_new_def connection_poll_def)

lemma sample_orders_config:
  "build_configs sample_order_env (bc_attributes sample_config) 3 = Ok (Some sample_config)"
  by (simp add: build_configs_def parent_block_def find_parent_block_def ok_or_missing_def
      schedule_first_registration_wins sample_order_env_def sample_builder_env_def BuildConfig_new_def
      sample_config_def sample_validator_def u256_to_u64_def suggest_gas_limit_def Let_def)

lemma sample_drains:
  assumes "cl_payload_stream (bb_consensus b) = Some 0"
  shows "\<exists>cl. drain_consensus sample_order_env (bb_consensus b) None =
           Some (cl, Some (Some (bc_attributes sample_config, 3)))"
proof -
  note step = drain_consensus.simps [of sample_order_env]
  show ?thesis
    apply (subst step, simp add: sample_order_fields consensus_poll_next_def assms
        into_reth_payload_attributes_def Let_def)
    apply (subst step, simp add: sample_order_fields consensus_poll_next_def)
    apply (simp add: sample_response_def)
    done
qed

lemma sample_starts:
  assumes "cl_payload_stream (bb_consensus b) = Some 0" and "bb_slot b = 0"
  shows "\<exists>b'. builder_poll sample_order_env b =
           Some (Ok (False, b', [BuildPayload sample_config, AuctionStart 3 7]))"
proof -
  obtain cl where cl: "drain_consensus sample_order_env (bb_consensus b) None =
      Some (cl, Some (Some (bc_attributes sample_config, 3)))"
    using sample_drains [OF assms(1)] by blast
  have "pa_timestamp (bc_attributes sample_config) = 150" "bc_block_number sample_config = 7"
    by (simp_all add: sample_config_def)
  with cl assms(2) show ?thesis
    by (simp add: builder_poll_def handle_attributes_def sample_orders_config sample_order_fields Let_def)
qed

text \<open>The run takes any shared pool, and a world in which the task makes \<open>sample_built\<close>.\<close>

definition sample_stream_env ::
  "(unit, 'db, 'sdb, unit, 'prov, 'blob, 'it, 'signed) build_world \<Rightarrow> (unit, unit) stream_env"
where
  "sample_stream_env w =
     \<lparr> se_now = 0,
       se_answer = (\<lambda>args. task_answer (strategy_try_build (BundlesStrat sample_payload_config) w args)),
       se_effects = [] \<rparr>"

definition makes_sample :: "(unit, 'db, 'sdb, unit, 'prov, 'blob, 'it, 'signed) build_world \<Rightarrow> bool" where
  "makes_sample w \<longleftrightarrow>
     task_answer (strategy_try_build (BundlesStrat sample_payload_config) w (stream_args sample_job)) =
       Received (Ok (Better sample_built))"

lemma sample_stream_poll:
  "\<exists>j wakes args. stream_poll 0 (Received (Ok (Better sample_built))) sample_job =
     Ok (JobPending, j, [SpawnBuild args, MakeBid sample_built], wakes)"
  by (simp add: stream_poll_def stream_spawn_def sample_job_def pending_build_poll_def Let_def)

lemma sample_service_builds:
  assumes "makes_sample w"
  shows "\<exists>ps env'. service_poll (stream_ops sample_generator :: ((unit, unit) stream_env,
       (unit, unit) stream_job \<times> wake_source set, unit build, unit resolve_best_payload) job_ops)
       (sample_stream_env w) PayloadBuilderService_new [[BuildNewPayload sample_config]] =
     Ok ([NewPayloadReply (Ok 1)], ps, env', []) \<and> made_bids (se_effects env') = [sample_built]"
proof -
  have new: "stream_new_payload_job sample_generator 0 sample_config = Ok sample_job"
    by (simp add: stream_new_payload_job_def sample_job_def sample_generator_def
        job_generator_config_default_def)
  have pending: "sj_pending_build sample_job = None" by (simp add: sample_job_def)
  have pid: "pa_id (bc_attributes sample_config) = 1" by (simp add: sample_config_def)
  obtain j wakes args where sp: "stream_poll 0 (Received (Ok (Better sample_built))) sample_job =
      Ok (JobPending, j, [SpawnBuild args, MakeBid sample_built], wakes)"
    using sample_stream_poll by blast
  show ?thesis
    by (simp add: poll_jobs_def PayloadBuilderService_new_def handle_command_def contains_payload_def
        stream_ops_def new pending poll_job_def swap_remove_def sample_stream_env_def
        assms [unfolded makes_sample_def] sp pid Let_def)
qed

lemma sample_bidder_poll:
  "\<exists>inp b tasks. in_starts inp = [(3, 7)] \<and> in_builds inp = [sample_built] \<and>
     bidder_poll inp (BidderService_new DevnetPolicy sample_clock) = Ok (b, tasks, False) \<and>
     submissions tasks = [(sample_built, 84000)]"
proof -
  have worth: "policy_block_value DevnetPolicy (bs_exec_details sample_built) = 84000"
    using sample_totals(4) [of "[1, 2]"]
    by (simp add: policy_block_value_def block_value_def with_bundle_state_def set_bundle_state_def
        sample_out_def)
  have slot: "bc_slot (bs_build_config sample_built) = 3"
    by (simp add: with_bundle_state_def sample_config_simps sample_state_def BuildState_new_def
        block_env_with_coinbase_def sample_config_def)
  show ?thesis
    by (intro exI [of _ "sample_input\<lparr> in_builds := [sample_built] \<rparr>"])
      (simp add: bidder_poll_def sample_input_def BidderService_new_def handle_start_def is_none_or_def
        on_new_slot_auction_def handle_top_bid_def spawn_top_bid_request_def AuctionBidInfo_new_def
        handle_build_def update_block_info_def place_bid_def compute_bid_def devnet_compute_bid_def
        refresh_time_def worth slot Let_def)
qed

lemma sample_steps:
  fixes sy :: "(unit, unit, nat) builder_system"
    and w :: "(unit, 'db, 'sdb, unit, 'prov, unit, 'it, 'signed) build_world"
  assumes "makes_sample w" and sy: "sy = (system_new DevnetPolicy sample_clock)\<lparr> sy_builder := BlockBuilderService_new p \<rparr>"
  shows "\<exists>sy'. (system_step sample_generator {sample_order_env} {w})\<^sup>*\<^sup>* sy sy' \<and> (sample_built, 84000) \<in> set (sy_tasks sy')"
proof -
  let ?step = "system_step sample_generator {sample_order_env} {w}"
  obtain b where b: "builder_poll sample_order_env (BlockBuilderService_new p) = Some (Ok (False, b, []))"
      "cl_payload_stream (bb_consensus b) = Some 0" "bb_slot b = 0"
    using sample_connects by blast
  define s1 where "s1 = sy\<lparr> sy_builder := b \<rparr>"
  have r1: "?step sy s1"
    using poll_builder [of sample_order_env "{sample_order_env}" sy False b "[]"] b(1)
    by (simp add: s1_def sy system_new_def)
  obtain b' where b': "builder_poll sample_order_env b =
      Some (Ok (False, b', [BuildPayload sample_config, AuctionStart 3 7]))"
    using sample_starts [OF b(2,3)] by blast
  define s2 where "s2 = sy\<lparr> sy_builder := b', sy_commands := [BuildNewPayload sample_config], sy_starts := [(3, 7)] \<rparr>"
  have r2: "?step s1 s2"
    using poll_builder [of sample_order_env "{sample_order_env}" s1 False b' "[BuildPayload sample_config, AuctionStart 3 7]"] b'
    by (simp add: s2_def s1_def sy system_new_def)
  obtain ps env' where ps: "service_poll (stream_ops sample_generator :: ((unit, unit) stream_env,
       (unit, unit) stream_job \<times> wake_source set, unit build, unit resolve_best_payload) job_ops)
       (sample_stream_env w) PayloadBuilderService_new [[BuildNewPayload sample_config]] =
     Ok ([NewPayloadReply (Ok 1)], ps, env', [])" "made_bids (se_effects env') = [sample_built]"
    using sample_service_builds [OF assms(1)] by blast
  define s3 where "s3 = s2\<lparr> sy_commands := [], sy_payload := ps, sy_builds := [sample_built] \<rparr>"
  have "answer_in sample_generator {w} args (se_answer (sample_stream_env w) args)" for args
    by (simp add: answer_in_def sample_stream_env_def stream_job_strategy_def sample_generator_def
        job_generator_config_default_def)
  note answers = this
  have fresh: "sy_payload s2 = PayloadBuilderService_new" "sy_commands s2 = concat [[BuildNewPayload sample_config]] @ []"
      "se_effects (sample_stream_env w) = []"
    by (simp_all add: s2_def sy system_new_def sample_stream_env_def)
  have "?step s2 (s2\<lparr> sy_commands := concat [] @ [], sy_payload := ps,
      sy_builds := sy_builds s2 @ made_bids (se_effects env') \<rparr>)"
    by (rule poll_payload [OF fresh(2,3) answers ps(1) [folded fresh(1)]])
  then have r3: "?step s2 s3" by (simp add: s3_def s2_def sy system_new_def ps(2))
  obtain inp bd tasks where bd: "in_starts inp = [(3, 7)]" "in_builds inp = [sample_built]"
      "bidder_poll inp (BidderService_new DevnetPolicy sample_clock) = Ok (bd, tasks, False)"
      "submissions tasks = [(sample_built, 84000)]"
    using sample_bidder_poll by blast
  have bidder: "sy_bidder s3 = BidderService_new DevnetPolicy sample_clock"
    by (simp add: s3_def s2_def sy system_new_def)
  have r4: "?step s3 (s3\<lparr> sy_starts := [], sy_builds := [], sy_bidder := bd,
      sy_tasks := sy_tasks s3 @ submissions tasks \<rparr>)"
    by (rule poll_bidder [OF _ _ bd(3) [folded bidder]]) (simp_all add: s3_def s2_def sy system_new_def bd)
  have "?step\<^sup>*\<^sup>* sy (s3\<lparr> sy_starts := [], sy_builds := [], sy_bidder := bd,
      sy_tasks := sy_tasks s3 @ submissions tasks \<rparr>)"
    using r1 r2 r3 r4 by (meson converse_rtranclp_into_rtranclp rtranclp.rtrancl_refl)
  then show ?thesis using bd(4) by (intro exI conjI) (assumption, simp)
qed

lemma system_reach_steps:
  "(system_step c E W)\<^sup>*\<^sup>* sy sy' \<Longrightarrow> system_reach c E W policy clock sy \<Longrightarrow> system_reach c E W policy clock sy'"
  by (induction rule: rtranclp_induct) (auto intro: system_next)

lemma sample_makes: "makes_sample sample_world"
  by (simp add: makes_sample_def sample_task)

lemma sample_run:
  "\<exists>sy :: (unit, unit, nat) builder_system.
     system_reach sample_generator {sample_order_env} {sample_world} DevnetPolicy sample_clock sy \<and>
     (sample_built, 84000) \<in> set (sy_tasks sy)"
proof -
  have "(system_new DevnetPolicy sample_clock :: (unit, unit, nat) builder_system) =
      (system_new DevnetPolicy sample_clock)\<lparr> sy_builder := BlockBuilderService_new BundlePool_new \<rparr>"
    by (simp add: system_new_def)
  from sample_steps [OF sample_makes this] system_reach_steps [OF _ system_start] show ?thesis by blast
qed

lemma sample_ordered_gas:
  assumes "ordered {sample_order_env} config"
  shows "bc_block_gas_limit config = 30000000"
proof -
  from assms have made: "build_configs sample_order_env (bc_attributes config) (bc_slot config) = Ok (Some config)"
    by (auto simp: ordered_def)
  have "bc_parent_block config = bc_parent_block sample_config"
    using build_configs_SomeD [OF made]
    by (auto simp: parent_block_def find_parent_block_def ok_or_missing_def sample_order_env_def
        sample_builder_env_def split: if_splits)
  then have "sb_gas_limit (bc_parent_block config) = 30000000" by (simp add: sample_config_def)
  moreover have "bc_validator_info config = sample_validator 30000000"
    using build_configs_SomeD [OF made]
    by (simp add: schedule_first_registration_wins sample_order_fields split: if_splits)
  ultimately show ?thesis
    by (simp add: build_configs_gas_limit [OF made] sample_validator_def suggest_gas_limit_def Let_def)
qed

abbreviation accepting :: "unit build \<Rightarrow> (unit, unit) result" where
  "accepting \<equiv> \<lambda>_. Ok ()"

lemma sample_finalized:
  "\<exists>m' build. finalize_and_submit_build sample_evm sample_api accepting sample_built 84000
     bidder_metrics_default = (m', Some build, TaskDone)"
proof -
  have "\<exists>build. into_build sample_evm sample_api (with_payment 84000 sample_built) = Ok build"
    by (simp add: into_build_def sample_api_def sample_evm_def sample_state_def BuildState_new_def
        sample_committed_def sample_out_def sample_tx_def commit_tx_def with_bundle_state_def
        set_bundle_state_def
        block_env_with_coinbase_def sample_config_def sample_payload_config_def sample_validator_def
        ExecutionDetails_default_def create_builder_transfer_transaction_def
        execute_transaction_skip_verify_def simulate_tx_def simulate_tx_on_db_def tx_outcome_def
        commit_def commit_withdrawals_def cancun_fields_def u256_to_u64_def u256_to_u128_def
        with_payment_def set_builder_payment_def MAX_BUILDER_TRANSFER_GAS_LIMIT_def Let_def)
  then show ?thesis
    by (auto simp: finalize_and_submit_build_def build_submission_with_builder_payment_def Let_def)
qed


end
