(* ===== verification/System_Progress.thy ===== *)
theory System_Progress
  imports Builder_System
begin

text \<open>
  Progress of the whole node: from any reachable state in which the services have caught up with
  their channels, a new slot can be brought to a submission.  The steps are the polls of
  \<open>Builder_System\<close>: the block builder takes the event, the payload service starts the job and polls
  it, the bidder opens the auction and bids.
\<close>

section \<open>The payload service\<close>

text \<open>A job whose build has not answered yet.\<close>

definition quiet ::
  "(('cs, 'bst) build_arguments \<Rightarrow> (('cs, 'bst) build_outcome, payload_builder_error) result rx_answer) \<Rightarrow>
   ('cs, 'bst) stream_job \<times> wake_source set \<Rightarrow> bool"
where
  "quiet answer = (\<lambda>(j, _). stream_inv j \<and>
     (\<forall>args. ba_build_config args = sj_build_config j \<longrightarrow> answer args = NotReady))"

lemma quiet_poll:
  fixes ops :: "(('cs, 'bst) stream_env, ('cs, 'bst) stream_job \<times> wake_source set, 'blob build, 'fut) job_ops"
  assumes ops: "ops = stream_ops c" and "quiet (se_answer env) job"
  shows "\<exists>st job' es. jo_poll ops env job = Ok (st, job', env\<lparr> se_effects := se_effects env @ es \<rparr>) \<and>
     made_bids es = [] \<and> quiet (se_answer env) job' \<and> (st = JobFinished \<or> st = JobPending)"
proof -
  obtain j wakes where job: "job = (j, wakes)" by (cases job)
  have inv: "stream_inv j" and silent: "\<And>args. ba_build_config args = sj_build_config j \<Longrightarrow> se_answer env args = NotReady"
    using assms(2) by (auto simp: quiet_def job)
  have "unwrap_or (sj_pending_build j) (stream_args j) = stream_args j"
    using inv by (auto simp: stream_inv_def)
  moreover have "se_answer env (stream_args j) = NotReady"
    by (rule silent) (simp add: stream_args_def BuildArguments_new_def)
  moreover have "quiet (se_answer env) (j', w)" if "j' = j \<or> j' = fst (stream_spawn j)" for j' w
    using that inv silent
    by (auto simp: quiet_def stream_spawn_def stream_inv_def stream_args_def BuildArguments_new_def Let_def
        split: option.splits)
  moreover have "made_bids (snd (stream_spawn j)) = []"
    by (simp add: stream_spawn_def Let_def split: option.splits)
  ultimately have args: "se_answer env (unwrap_or (sj_pending_build j) (stream_args j)) = NotReady"
    and quiet: "\<And>w. quiet (se_answer env) (j, w)" "\<And>w. quiet (se_answer env) (fst (stream_spawn j), w)"
    and none: "made_bids (snd (stream_spawn j)) = []"
    by simp_all
  show ?thesis
  proof (cases "sj_deadline j \<le> se_now env")
    case True
    then have "jo_poll ops env job = Ok (JobFinished, (j, {}), env\<lparr> se_effects := se_effects env @ [] \<rparr>)"
      by (simp add: ops stream_ops_def job stream_poll_def)
    with quiet(1) show ?thesis using made_bids.simps(1) by blast
  next
    case False
    then have "jo_poll ops env job = Ok (JobPending, (fst (stream_spawn j), {WakeDeadline, WakeBuild}),
        env\<lparr> se_effects := se_effects env @ snd (stream_spawn j) \<rparr>)"
      by (simp add: ops stream_ops_def job stream_poll_def args pending_build_poll_def case_prod_unfold Let_def)
    with quiet(2) none show ?thesis by blast
  qed
qed

lemma quiet_poll_each:
  fixes ops :: "(('cs, 'bst) stream_env, ('cs, 'bst) stream_job \<times> wake_source set, 'blob build, 'fut) job_ops"
  assumes ops: "ops = stream_ops c" and "list_all (\<lambda>(job, _). quiet (se_answer env) job) jobs"
  shows "\<exists>es alive. poll_each ops env jobs = Ok (env\<lparr> se_effects := se_effects env @ es \<rparr>, alive, 0) \<and>
     made_bids es = [] \<and> list_all (\<lambda>(job, _). quiet (se_answer env) job) alive"
  using assms(2)
proof (induction jobs arbitrary: env)
  case Nil
  show ?case by (intro exI [of _ "[]"]) simp
next
  case (Cons x jobs)
  obtain job pid where x: "x = (job, pid)" by (cases x)
  obtain st job' es where p: "jo_poll ops env job = Ok (st, job', env\<lparr> se_effects := se_effects env @ es \<rparr>)"
    "made_bids es = []" "quiet (se_answer env) job'" "st = JobFinished \<or> st = JobPending"
    using quiet_poll [OF ops, of env job] Cons.prems by (auto simp: x)
  obtain es' alive where r: "poll_each ops (env\<lparr> se_effects := se_effects env @ es \<rparr>) jobs =
      Ok (env\<lparr> se_effects := (se_effects env @ es) @ es' \<rparr>, alive, 0)"
    "made_bids es' = []" "list_all (\<lambda>(job, _). quiet (se_answer env) job) alive"
    using Cons.IH [of "env\<lparr> se_effects := se_effects env @ es \<rparr>"] Cons.prems by auto
  show ?case
    using p r by (intro exI [of _ "es @ es'"]) (auto simp: x)
qed

text \<open>A service of quiet jobs polls them all and stays quiet.\<close>

lemma quiet_poll_jobs:
  fixes ops :: "(('cs, 'bst) stream_env, ('cs, 'bst) stream_job \<times> wake_source set, 'blob build, 'fut) job_ops"
  assumes ops: "ops = stream_ops c" and "list_all (\<lambda>(job, _). quiet (se_answer env) job) (ps_payload_jobs s)"
  shows "\<exists>es s'. poll_jobs ops env s = Ok (env\<lparr> se_effects := se_effects env @ es \<rparr>, s') \<and>
     made_bids es = [] \<and> list_all (\<lambda>(job, _). quiet (se_answer env) job) (ps_payload_jobs s') \<and>
     snd ` set (ps_payload_jobs s') \<subseteq> snd ` set (ps_payload_jobs s)"
proof -
  obtain es alive where e: "poll_each ops env (rev (ps_payload_jobs s)) =
      Ok (env\<lparr> se_effects := se_effects env @ es \<rparr>, alive, 0)"
    "made_bids es = []" "list_all (\<lambda>(job, _). quiet (se_answer env) job) alive"
    using quiet_poll_each [OF ops, of env "rev (ps_payload_jobs s)"] assms(2) by auto
  obtain s' where s': "poll_jobs ops env s = Ok (env\<lparr> se_effects := se_effects env @ es \<rparr>, s')"
    and m: "mset (ps_payload_jobs s') = mset alive"
    using poll_jobs_loop_each [of s "ps_payload_jobs s" "[]" ops env] e(1)
    by (auto simp: poll_jobs_def rotated_def)
  have "mset (map snd alive) \<subseteq># mset (map snd (rev (ps_payload_jobs s)))"
    by (rule poll_each_ids [OF e(1)])
  then have "set (map snd alive) \<subseteq> set (map snd (rev (ps_payload_jobs s)))"
    by (metis set_mset_mono set_mset_mset)
  moreover have "set (ps_payload_jobs s') = set alive" using m by (metis set_mset_mset)
  ultimately show ?thesis using s' e(2,3) by (auto simp: list_all_iff)
qed

definition fresh_args :: "build_config \<Rightarrow> ('cs, 'bst) build_arguments" where
  "fresh_args config = BuildArguments_new config Cancelled_default None"

text \<open>The environment in which the build of the new job answers and no other does.\<close>

definition answering_env :: "build_config \<Rightarrow> ('cs, 'bst) build_state \<Rightarrow> ('cs, 'bst) stream_env" where
  "answering_env config bs =
     \<lparr> se_now = 0, se_answer = (\<lambda>args. if args = fresh_args config then Received (Ok (Better bs)) else NotReady),
       se_effects = [] \<rparr>"

lemma new_job_builds:
  fixes ops :: "(('cs, 'bst) stream_env, ('cs, 'bst) stream_job \<times> wake_source set, 'blob build, 'fut) job_ops"
  assumes ops: "ops = stream_ops c"
    and jobs: "list_all (\<lambda>((j, _), pid). stream_inv j \<and> sj_build_config j \<noteq> config \<and>
      pid \<noteq> pa_id (bc_attributes config)) (ps_payload_jobs s)"
    and deadline: "0 < gc_deadline c"
  shows "\<exists>replies s' env'. service_poll ops (answering_env config bs) s [[BuildNewPayload config]] =
           Ok (replies, s', env', []) \<and> made_bids (se_effects env') = [bs]"
proof -
  let ?env = "answering_env config bs" and ?pid = "pa_id (bc_attributes config)"
  let ?job = "(\<lparr> sj_build_config = config, sj_deadline = gc_deadline c, sj_best_build = None,
      sj_pending_build = None, sj_metrics = payload_metrics_default \<rparr>, {} :: wake_source set)"
  have quiet: "quiet (se_answer ?env) (j, wakes)" if "stream_inv j" "sj_build_config j \<noteq> config" for j wakes
    using that by (auto simp: quiet_def answering_env_def fresh_args_def BuildArguments_new_def)
  have "list_all (\<lambda>(job, _). quiet (se_answer ?env) job) (ps_payload_jobs s)"
    using jobs quiet by (fastforce simp: list_all_iff)
  then obtain es s1 where p1: "poll_jobs ops ?env s = Ok (?env\<lparr> se_effects := se_effects ?env @ es \<rparr>, s1)"
    and e1: "made_bids es = []" and q1: "list_all (\<lambda>(job, _). quiet (se_answer ?env) job) (ps_payload_jobs s1)"
    and ids: "snd ` set (ps_payload_jobs s1) \<subseteq> snd ` set (ps_payload_jobs s)"
    using quiet_poll_jobs [OF ops, of ?env s] by auto
  define env1 where "env1 = ?env\<lparr> se_effects := se_effects ?env @ es \<rparr>"
  have fields: "se_now env1 = 0" "se_answer env1 = se_answer ?env" "se_effects env1 = es"
    by (simp_all add: env1_def answering_env_def)
  have absent: "\<not> contains_payload s1 ?pid"
    using ids jobs by (fastforce simp: contains_payload_iff list_all_iff)
  define s2 where "s2 = s1\<lparr> ps_payload_jobs := ps_payload_jobs s1 @ [(?job, ?pid)],
      ps_metrics := inc_initiated_jobs (ps_metrics s1) \<rparr>"
  have cmd: "drain_commands ops env1 s1 [BuildNewPayload config] =
      Ok ([NewPayloadReply (Ok ?pid)], s2, env1, True)"
    using absent by (simp add: ops handle_command_def s2_def stream_ops_def stream_new_payload_job_def fields Let_def)
  define es' :: "('cs, 'bst) job_effect list" where "es' = [SpawnBuild (fresh_args config), MakeBid bs]"
  have "\<exists>job'. jo_poll ops env1 ?job = Ok (JobPending, job', env1\<lparr> se_effects := es @ es' \<rparr>)"
    using deadline
    by (simp add: ops stream_ops_def stream_poll_def stream_spawn_def fields pending_build_poll_def
        answering_env_def fresh_args_def stream_args_def es'_def Let_def)
  then obtain job' where new: "jo_poll ops env1 ?job = Ok (JobPending, job', env1\<lparr> se_effects := es @ es' \<rparr>)"
    by blast
  have b: "made_bids es' = [bs]" by (simp add: es'_def)
  define env2 where "env2 = env1\<lparr> se_effects := es @ es' \<rparr>"
  have "list_all (\<lambda>(job, _). quiet (se_answer env2) job) (rev (ps_payload_jobs s1))"
    using q1 by (simp add: env2_def fields)
  then obtain es'' alive where rest: "poll_each ops env2 (rev (ps_payload_jobs s1)) =
      Ok (env2\<lparr> se_effects := se_effects env2 @ es'' \<rparr>, alive, 0)" and n: "made_bids es'' = []"
    using quiet_poll_each [OF ops, of env2 "rev (ps_payload_jobs s1)"] by auto
  have "poll_each ops env1 (rev (ps_payload_jobs s2)) =
      Ok (env2\<lparr> se_effects := se_effects env2 @ es'' \<rparr>, (job', ?pid) # alive, 0)"
    using new rest by (simp add: s2_def env2_def)
  then obtain s3 where "poll_jobs ops env1 s2 = Ok (env2\<lparr> se_effects := se_effects env2 @ es'' \<rparr>, s3)"
    using poll_jobs_loop_each [of s2 "ps_payload_jobs s2" "[]" ops env1]
    by (auto simp: poll_jobs_def)
  then have "service_poll ops ?env s [[BuildNewPayload config]] =
      Ok ([NewPayloadReply (Ok ?pid)], s3, env2\<lparr> se_effects := se_effects env2 @ es'' \<rparr>, [])"
    using p1 cmd by (simp add: env1_def)
  moreover have "made_bids (es @ es' @ es'') = [bs]" using e1 b n by simp
  ultimately show ?thesis by (auto simp: env2_def)
qed

section \<open>The bidder\<close>

text \<open>The auction of a slot right after its first build arrived.\<close>

definition opened_auction ::
  "bid_selection_policy \<Rightarrow> u64 \<Rightarrow> u64 \<Rightarrow> ('cs, 'bst) build_state \<Rightarrow> ('cs, 'bst) auction_bid_info"
where
  "opened_auction policy slot block_number bs =
     (AuctionBidInfo_new slot block_number)
       \<lparr> abi_best_block := Some bs, abi_best_block_value := policy_block_value policy (bs_exec_details bs) \<rparr>"

definition arrival :: "u64 \<Rightarrow> u64 \<Rightarrow> ('cs, 'bst) build_state \<Rightarrow> u128 \<Rightarrow> ('cs, 'bst) poll_input" where
  "arrival slot block_number bs now =
     \<lparr> in_starts = [(slot, block_number)], in_starts_closed = False, in_top_bid = None, in_builds = [bs],
       in_builds_closed = False, in_now = now \<rparr>"

lemma new_auction_bids:
  assumes "is_none_or (bd_info s) (\<lambda>info. abi_slot info < slot)" and "bc_slot (bs_build_config bs) = slot"
    and "compute_bid (bd_policy s) (refresh_time (time_until_slot_signed_ms (bd_clock s) now slot)
           (opened_auction (bd_policy s) slot n bs)) = Ok (Some bid)"
  shows "\<exists>s' tasks. bidder_poll (arrival slot n bs now) s = Ok (s', tasks, False) \<and> (bs, bid) \<in> set (submissions tasks)"
proof -
  define s1 where "s1 = handle_start (slot, n) s"
  have s1: "bd_info s1 = Some (AuctionBidInfo_new slot n)" "bd_policy s1 = bd_policy s" "bd_clock s1 = bd_clock s"
    using assms(1) by (simp_all add: s1_def handle_start_def on_new_slot_auction_def)
  define s2 where "s2 = fst (handle_top_bid None s1)"
  have s2: "bd_info s2 = bd_info s1" "bd_policy s2 = bd_policy s1" "bd_clock s2 = bd_clock s1"
    by (simp_all add: s2_def handle_top_bid_def spawn_top_bid_request_def split: option.splits)
  define s3 where "s3 = handle_build bs s2"
  have s3: "bd_info s3 = Some (opened_auction (bd_policy s) slot n bs)" "bd_policy s3 = bd_policy s"
    "bd_clock s3 = bd_clock s"
    using assms(2)
    by (simp_all add: s3_def handle_build_def s2 s1 AuctionBidInfo_new_def opened_auction_def
        update_block_info_def Let_def)
  obtain s4 where "place_bid now s3 = Ok (s4, [FinalizeAndSubmit bs bid])"
    using assms(3) by (simp add: place_bid_def s3 opened_auction_def AuctionBidInfo_new_def refresh_time_def)
  then have "bidder_poll (arrival slot n bs now) s =
      Ok (s4, snd (handle_top_bid None s1) @ [FinalizeAndSubmit bs bid], False)"
    by (simp add: bidder_poll_def arrival_def s1_def s2_def s3_def case_prod_unfold Let_def)
  moreover have "(bs, bid) \<in> set (submissions (tasks @ [FinalizeAndSubmit bs bid]))" for tasks
    by (simp add: set_submissions)
  ultimately show ?thesis by blast
qed

section \<open>The whole slot\<close>

lemma started_slot:
  assumes "drain_consensus env (bb_consensus b) None = Some (cl, Some (Some (attributes, slot)))"
    and "slot \<noteq> bb_slot b" and "bse_now_secs env < pa_timestamp attributes"
    and "build_configs env attributes slot = Ok (Some config)"
  shows "\<exists>b'. builder_poll env b = Some (Ok (False, b', [BuildPayload config, AuctionStart slot (bc_block_number config)])) \<and>
           bb_slot b' = slot"
  using assms by (simp add: builder_poll_def handle_attributes_def Let_def not_le)

lemma slot_gets_bid:
  fixes sy :: "('cs, 'bst, 'st) builder_system" and E :: "('cs, 'blk, 'st) builder_env set"
    and W :: "('cs, 'db, 'sdb, 'bst, 'prov, 'blob, 'it, 'signed) build_world set"
  assumes reach: "system_reach c E W policy clock sy"
    and idle: "sy_commands sy = []" "sy_starts sy = []" "sy_builds sy = []"
    and env: "env \<in> E" "drain_consensus env (bb_consensus (sy_builder sy)) None = Some (cl, Some (Some (attributes, slot)))"
    and slot: "slot \<noteq> bb_slot (sy_builder sy)" "bse_now_secs env < pa_timestamp attributes"
      "build_configs env attributes slot = Ok (Some config)"
    and auction: "is_none_or (bd_info (sy_bidder sy)) (\<lambda>info. abi_slot info < slot)"
    and jobs: "list_all (\<lambda>((j, _), pid). sj_build_config j \<noteq> config \<and> pid \<noteq> pa_id attributes)
      (ps_payload_jobs (sy_payload sy))"
    and deadline: "0 < gc_deadline c"
    and build: "w \<in> W" "strategy_try_build (stream_job_strategy c) w (fresh_args config) = Some (Ok (Better bs))"
    and bid: "compute_bid policy (refresh_time (time_until_slot_signed_ms (bd_clock (sy_bidder sy)) now slot)
      (opened_auction policy slot (bc_block_number config) bs)) = Ok (Some bid)"
  shows "\<exists>sy'. (system_step c E W ^^ 3) sy sy' \<and> (bs, bid) \<in> set (sy_tasks sy') \<and> bb_slot (sy_builder sy') = slot"
proof -
  let ?step = "system_step c E W" and ?n = "bc_block_number config"
  note inv = system_reach_inv [OF reach, unfolded system_inv_def]
  note config = build_configs_SomeD [OF slot(3)]
  have fields: "bc_attributes config = attributes" "bc_slot config = slot" using config by simp_all
  obtain b where b: "builder_poll env (sy_builder sy) = Some (Ok (False, b, [BuildPayload config, AuctionStart slot ?n]))"
    "bb_slot b = slot"
    using started_slot [OF env(2) slot] by blast
  define s1 where "s1 = sy\<lparr> sy_builder := b, sy_commands := [BuildNewPayload config], sy_starts := [(slot, ?n)] \<rparr>"
  have r1: "?step sy s1"
    using poll_builder [OF env(1) b(1)] by (simp add: s1_def idle)
  have sound: "list_all (\<lambda>((j, _), pid). stream_inv j \<and> sj_build_config j \<noteq> config \<and>
      pid \<noteq> pa_id (bc_attributes config)) (ps_payload_jobs (sy_payload sy))"
    using jobs inv by (fastforce simp: all_jobs_def job_sound_def list_all_iff fields)
  obtain ops :: "(('cs, 'bst) stream_env, ('cs, 'bst) stream_job \<times> wake_source set, 'blob build,
      'blob resolve_best_payload) job_ops" where ops: "ops = stream_ops c" by blast
  obtain replies ps env' where ps: "service_poll ops (answering_env config bs) (sy_payload sy) [[BuildNewPayload config]] =
      Ok (replies, ps, env', [])" "made_bids (se_effects env') = [bs]"
    using new_job_builds [OF ops sound deadline] by blast
  have answers: "answer_in c W args (se_answer (answering_env config bs) args)" for args
    using build by (auto simp: answer_in_def answering_env_def task_answer_def intro!: bexI [of _ w])
  define s2 where "s2 = s1\<lparr> sy_commands := [], sy_payload := ps, sy_builds := [bs] \<rparr>"
  have start: "sy_commands s1 = concat [[BuildNewPayload config]] @ []" "se_effects (answering_env config bs) = []"
    "sy_payload s1 = sy_payload sy"
    by (simp_all add: s1_def answering_env_def)
  have "?step s1 (s1\<lparr> sy_commands := concat [] @ [], sy_payload := ps, sy_builds := sy_builds s1 @ made_bids (se_effects env') \<rparr>)"
    by (rule poll_payload [OF start(1,2) answers]) (rule ps(1) [unfolded ops, folded start(3)])
  then have r2: "?step s1 s2" by (simp add: s2_def s1_def ps(2) idle)
  have bs: "bc_slot (bs_build_config bs) = slot"
  proof -
    have "bs_build_config bs = block_env_with_coinbase (pc_builder_address (gc_payload_config c)) config"
      using build(2) unfolding strategy_try_build_def stream_job_strategy_def strategy.case
      by (auto dest!: bundles_better_configs simp: fresh_args_def BuildArguments_new_def)
    then show ?thesis by (simp add: fields)
  qed
  have policy: "bd_policy (sy_bidder sy) = policy" using inv bidder_reach_inv by blast
  obtain bd tasks where bd: "bidder_poll (arrival slot ?n bs now) (sy_bidder sy) = Ok (bd, tasks, False)"
    "(bs, bid) \<in> set (submissions tasks)"
    using new_auction_bids [OF auction bs, of now ?n bid] bid policy by auto
  have r3: "?step s2 (s2\<lparr> sy_starts := [], sy_builds := [], sy_bidder := bd, sy_tasks := sy_tasks s2 @ submissions tasks \<rparr>)"
  proof (rule poll_bidder)
    show "sy_starts s2 = in_starts (arrival slot ?n bs now) @ []" "sy_builds s2 = in_builds (arrival slot ?n bs now) @ []"
      by (simp_all add: s2_def s1_def arrival_def)
    show "bidder_poll (arrival slot ?n bs now) (sy_bidder s2) = Ok (bd, tasks, False)"
      using bd(1) by (simp add: s2_def s1_def)
  qed
  have "(?step ^^ 3) sy (s2\<lparr> sy_starts := [], sy_builds := [], sy_bidder := bd, sy_tasks := sy_tasks s2 @ submissions tasks \<rparr>)"
    using r1 r2 r3 by (auto simp: numeral_3_eq_3)
  moreover have "bb_slot (sy_builder s2) = slot" by (simp add: s2_def s1_def b(2))
  ultimately show ?thesis using bd(2) by (intro exI conjI) (assumption, simp_all)
qed

section \<open>Properties\<close>


text \<open>The node after its first poll, which connected it to the stream of events.\<close>

lemma sample_connected:
  "\<exists>sy :: (unit, unit, nat) builder_system.
     system_reach sample_generator {sample_order_env} {sample_world} DevnetPolicy sample_clock sy \<and>
     cl_payload_stream (bb_consensus (sy_builder sy)) = Some 0 \<and> bb_slot (sy_builder sy) = 0 \<and>
     sy\<lparr> sy_builder := BlockBuilderService_new BundlePool_new \<rparr> = system_new DevnetPolicy sample_clock"
proof -
  let ?sy = "system_new DevnetPolicy sample_clock :: (unit, unit, nat) builder_system"
  obtain b where b: "builder_poll sample_order_env (sy_builder ?sy) = Some (Ok (False, b, []))"
    "cl_payload_stream (bb_consensus b) = Some 0" "bb_slot b = 0"
    using sample_connects by (auto simp: system_new_def)
  have "system_reach sample_generator {sample_order_env} {sample_world} DevnetPolicy sample_clock
      (send_effects [] (?sy\<lparr> sy_builder := b \<rparr>))"
    by (rule system_next [OF system_start poll_builder [OF _ b(1)]]) simp
  with b(2,3) show ?thesis
    by (intro exI [of _ "?sy\<lparr> sy_builder := b \<rparr>"]) (simp add: system_new_def)
qed


end
