(* ===== verification/System_Relays.thy ===== *)
theory System_Relays
  imports Builder_System Relay
begin

text \<open>
  The node with its relays: the block builder reads the validators of a slot from the schedule
  service, which loads them from the relay service over its handle, and the bidder's tasks send
  their bids through the same service.  The schedule service lives on as the relation
  \<open>schedule_reach\<close>: each poll finds some ticks of its timer and whatever the load tasks have answered.
\<close>

section \<open>The schedule service over its life\<close>

text \<open>
  A task answers nothing, is lost, or answers what the handle returned: one of the environments of
  \<open>H\<close> with the relays of that time.
\<close>

definition loaded_by :: "(('sig, 'resp, 'grpc) handle_env \<times> 'grpc relay_service) set \<Rightarrow> load_answer \<Rightarrow> bool" where
  "loaded_by H a \<longleftrightarrow>
     (case a of LoadDone r \<Rightarrow> \<exists>(he, rs) \<in> H. r = handle_load_validator_schedule he rs | _ \<Rightarrow> True)"

inductive schedule_reach ::
  "(('sig, 'resp, 'grpc) handle_env \<times> 'grpc relay_service) set \<Rightarrow> validator_schedule_service \<Rightarrow> bool"
  for H :: "(('sig, 'resp, 'grpc) handle_env \<times> 'grpc relay_service) set"
where
  schedule_start: "schedule_reach H ValidatorScheduleService_new"
| schedule_poll: "schedule_reach H s \<Longrightarrow> (\<And>rx. loaded_by H (answer rx)) \<Longrightarrow>
     schedule_reach H (fst (validator_poll ticks answer s))"

text \<open>What a relay of the service reports of the validators.\<close>

definition registered_at ::
  "('sig, 'resp, 'grpc) handle_env \<Rightarrow> 'grpc relay_service \<Rightarrow> validator_registration_response \<Rightarrow> bool"
where
  "registered_at he rs reg \<longleftrightarrow>
     (\<exists>r \<in> set (rs_relay_aggregator rs). reg \<in> set (client_get_validators (he_http he) (instance_info r)))"

text \<open>The schedule is empty or was loaded in one piece.\<close>

lemma schedule_loaded:
  "schedule_reach H s \<Longrightarrow>
     vs_state s = Map.empty \<or> (\<exists>(he, rs) \<in> H. handle_load_validator_schedule he rs = Ok (vs_state s))"
proof (induction rule: schedule_reach.induct)
  case schedule_start
  show ?case by (simp add: ValidatorScheduleService_new_def)
next
  case (schedule_poll s answer ticks)
  have loaded: "\<exists>(he, rs) \<in> H. handle_load_validator_schedule he rs = Ok schedule"
    if "answer rx = LoadDone (Ok schedule)" for rx schedule
    using schedule_poll.hyps(2) [of rx] that by (fastforce simp: loaded_by_def)
  show ?case
    using schedule_poll.IH loaded
    by (auto simp: validator_poll_state split: option.split load_answer.split result.split)
qed

lemma loaded_new:
  assumes "handle_load_validator_schedule he rs = Ok sched"
  shows "\<exists>vs. sched = ValidatorSchedule_new vs"
  using assms
  by (auto simp: handle_load_validator_schedule_def handle_request_Ok load_validator_schedule_def Let_def
      split: if_splits)

lemma schedule_new:
  assumes "schedule_reach H s"
  shows "\<exists>vs. vs_state s = ValidatorSchedule_new vs"
  using schedule_loaded [OF assms]
proof
  assume "vs_state s = Map.empty"
  then have "vs_state s = ValidatorSchedule_new []" by (simp add: ValidatorSchedule_new_def)
  then show ?thesis by blast
next
  assume "\<exists>(he, rs) \<in> H. handle_load_validator_schedule he rs = Ok (vs_state s)"
  then show ?thesis using loaded_new by blast
qed

lemma scheduled_registered:
  assumes "schedule_reach H s" and "handle_validator_info s slot = Some v"
    and "\<forall>(he, rs) \<in> H. completion_order (he_order he) (rs_relay_aggregator rs)"
  shows "\<exists>(he, rs) \<in> H. \<exists>reg. registered_at he rs reg \<and> vrr_slot reg = slot \<and> v = ValidatorScheduleSlotInfo_from reg"
proof -
  have "vs_state s \<noteq> Map.empty"
    using assms(2) by (auto simp: handle_validator_info_def get_by_slot_def)
  with schedule_loaded [OF assms(1)] obtain he rs where h: "(he, rs) \<in> H"
    and l: "load_validator_schedule (he_http he) (he_order he) (rs_relay_aggregator rs) = Ok (vs_state s)"
    by (auto simp: handle_load_validator_schedule_def handle_request_Ok)
  have "completion_order (he_order he) (rs_relay_aggregator rs)" using assms(3) h by blast
  from load_validator_schedule_Ok(1) [OF this l assms(2) [unfolded handle_validator_info_def]] h
  show ?thesis by (fastforce simp: registered_at_def)
qed

section \<open>Properties\<close>

text \<open>
  C3: Every bid that leaves the builder is for a proposer that registered with a relay. However
  the services are scheduled and whatever they read from outside, the message signed for a submitted
  build offers a bid within what the policy may spend on that very block; a relay of the pool
  reported the registration of its proposer for its slot, and the message names that proposer's key
  and the fee recipient of that registration; and the block stands on the parent that was found for
  the attributes of the consensus layer, with a timestamp that lay in the future at that time.
\<close>

theorem submitted_bids_registered:
  assumes "system_reach c E W policy clock sy" and "(bs, bid) \<in> set (sy_tasks sy)"
    and "finalize_and_submit_build e api submit bs bid m = (m', Some build, ended)"
    and "\<forall>env \<in> E. \<exists>s. schedule_reach H s \<and> bse_schedule env = vs_state s"
    and "\<forall>(he, rs) \<in> H. completion_order (he_order he) (rs_relay_aggregator rs)"
  shows "let b = sb_message (signed_bid_of lib th envelope_of signer build)
         in bid_value b = bid \<and> unat bid \<le> spend_limit policy bs \<and>
            (\<exists>(he, rs) \<in> H. \<exists>reg. registered_at he rs reg \<and> vrr_slot reg = bid_slot b \<and>
               bid_proposer_pubkey b = reg_pubkey (svr_message (vrr_entry reg)) \<and>
               bid_proposer_fee_recipient b = reg_fee_recipient (svr_message (vrr_entry reg))) \<and>
            (\<exists>env \<in> E. \<exists>parent.
               find_parent_block (bse_client env) (pa_parent (bc_attributes (bs_build_config bs))) = Ok parent \<and>
               bid_parent_hash b = sb_hash parent \<and>
               bse_now_secs env < hd_timestamp (blk_header (pl_block (bd_payload build))))"
proof -
  let ?b = "sb_message (signed_bid_of lib th envelope_of signer build)"
  have new: "\<forall>env \<in> E. \<exists>vs. bse_schedule env = ValidatorSchedule_new vs"
    using assms(4) schedule_new by metis
  from bids_scheduled [OF assms(1-3) new, of lib th envelope_of signer]
  have spend: "bid_value ?b = bid" "unat bid \<le> spend_limit policy bs"
    and "\<exists>env \<in> E. \<exists>v parent. get_by_slot (bse_schedule env) (bid_slot ?b) = Some v \<and>
        bid_proposer_pubkey ?b = vi_proposer v \<and> bid_proposer_fee_recipient ?b = vi_fee_recipient v \<and>
        find_parent_block (bse_client env) (pa_parent (bc_attributes (bs_build_config bs))) = Ok parent \<and>
        bid_parent_hash ?b = sb_hash parent \<and>
        bse_now_secs env < hd_timestamp (blk_header (pl_block (bd_payload build)))"
    by (simp_all add: Let_def)
  then obtain env v parent where env: "env \<in> E" "get_by_slot (bse_schedule env) (bid_slot ?b) = Some v"
    and v: "bid_proposer_pubkey ?b = vi_proposer v" "bid_proposer_fee_recipient ?b = vi_fee_recipient v"
    and p: "find_parent_block (bse_client env) (pa_parent (bc_attributes (bs_build_config bs))) = Ok parent"
      "bid_parent_hash ?b = sb_hash parent" "bse_now_secs env < hd_timestamp (blk_header (pl_block (bd_payload build)))"
    by blast
  obtain s where s: "schedule_reach H s" "bse_schedule env = vs_state s" using assms(4) env(1) by blast
  have "handle_validator_info s (bid_slot ?b) = Some v"
    using env(2) s(2) by (simp add: handle_validator_info_def)
  from scheduled_registered [OF s(1) this assms(5)] obtain he rs reg where "(he, rs) \<in> H" "registered_at he rs reg"
    "vrr_slot reg = bid_slot ?b" "v = ValidatorScheduleSlotInfo_from reg" by blast
  then have "\<exists>(he, rs) \<in> H. \<exists>reg. registered_at he rs reg \<and> vrr_slot reg = bid_slot ?b \<and>
      bid_proposer_pubkey ?b = reg_pubkey (svr_message (vrr_entry reg)) \<and>
      bid_proposer_fee_recipient ?b = reg_fee_recipient (svr_message (vrr_entry reg))"
    using v by (fastforce simp: ValidatorScheduleSlotInfo_from_def)
  with spend env(1) p show ?thesis unfolding Let_def by blast
qed

text \<open>A relay that reports the registration of the sample validator, and the service that loads it.\<close>

definition sample_registration :: validator_registration_response where
  "sample_registration =
     \<lparr> vrr_slot = 3, vrr_validator_index = None,
       vrr_entry = \<lparr> svr_message = \<lparr> reg_fee_recipient = 2, reg_gas_limit = 30000000, reg_timestamp = 0, reg_pubkey = 1 \<rparr>,
                     svr_signature = 0 \<rparr> \<rparr>"

definition sample_loader :: "(unit, nat, unit) handle_env" where
  "sample_loader =
     sample_handle_env\<lparr> he_http := sample_http\<lparr> hl_json_validators := \<lambda>_. Some [sample_registration] \<rparr>, he_order := [0] \<rparr>"

definition sample_relays :: "unit relay_service" where
  "sample_relays = \<lparr> rs_relay_aggregator = [SimulateClient (sample_relay Ssz)] \<rparr>"

lemma sample_loads:
  "handle_load_validator_schedule sample_loader sample_relays = Ok (ValidatorSchedule_new [sample_validator 30000000])"
  by (simp add: handle_load_validator_schedule_def handle_request_def load_validator_schedule_def aggregate_def
      sample_loader_def sample_handle_env_def sample_relays_def sample_http_def sample_relay_def
      instance_get_validators_def simulate_get_validators_def client_get_validators_def
      ValidatorScheduleSlotInfo_from_def sample_registration_def sample_validator_def Let_def)

lemma sample_schedule:
  "\<exists>s. schedule_reach {(sample_loader, sample_relays)} s \<and> bse_schedule sample_order_env = vs_state s"
proof -
  let ?answer = "\<lambda>_ :: nat. LoadDone (handle_load_validator_schedule sample_loader sample_relays)"
  let ?s = "fst (validator_poll 1 ?answer ValidatorScheduleService_new)"
  have "schedule_reach {(sample_loader, sample_relays)} ?s"
    by (rule schedule_poll [OF schedule_start]) (simp add: loaded_by_def)
  moreover have "vs_state ?s = ValidatorSchedule_new [sample_validator 30000000]"
    by (simp add: validator_poll_state on_tick_def ValidatorScheduleService_new_def sample_loads)
  ultimately show ?thesis by (metis sample_order_fields(4))
qed

theorem submitted_bids_registered_witness:
  "\<exists>m' build reg. finalize_and_submit_build sample_evm sample_api accepting sample_built 84000
       bidder_metrics_default = (m', Some build, TaskDone) \<and> registered_at sample_loader sample_relays reg \<and>
     (let b = sb_message (signed_bid_of sample_blst sample_tree_hasher sample_envelope (BlsSigner_new () []) build)
      in bid_value b = 84000 \<and> vrr_slot reg = bid_slot b)"
proof -
  obtain sy :: "(unit, unit, nat) builder_system" where
    sy: "system_reach sample_generator {sample_order_env} {sample_world} DevnetPolicy sample_clock sy"
      "(sample_built, 84000) \<in> set (sy_tasks sy)"
    using sample_run by blast
  obtain m' build where fin: "finalize_and_submit_build sample_evm sample_api accepting sample_built 84000
      bidder_metrics_default = (m', Some build, TaskDone)"
    using sample_finalized by blast
  have "\<forall>env \<in> {sample_order_env}. \<exists>s. schedule_reach {(sample_loader, sample_relays)} s \<and> bse_schedule env = vs_state s"
    using sample_schedule by simp
  moreover have "\<forall>(he, rs) \<in> {(sample_loader, sample_relays)}. completion_order (he_order he) (rs_relay_aggregator rs)"
    by (auto simp: completion_order_def sample_loader_def sample_relays_def)
  ultimately show ?thesis
    using submitted_bids_registered [OF sy fin, of "{(sample_loader, sample_relays)}" sample_blst sample_tree_hasher
        sample_envelope "BlsSigner_new () []"] fin
    by (fastforce simp: Let_def)
qed

end
