(* ===== verification/Block_Layout.thy ===== *)
theory Block_Layout
  imports Strategy "HOL-Library.Sublist"
begin

text \<open>
  The layout of a block that the bundle strategy (\<open>crates/payload/src/strategy/bundle\<close>) makes: the
  transactions of the committed bundles come first, each bundle whole and in its order, the bundles
  in descending order of their simulated value and each followed by at most one refund; then come
  the mempool transactions in the order the pool's iterator yields them.

  The theory holds no code of its own.  It follows the two loops of the strategy and records which
  bundle put which transactions into the block.
\<close>

section \<open>Groups\<close>

text \<open>A committed bundle with the refund that was appended to it.\<close>

type_synonym tx_group = "sim_bundle \<times> recovered_tx list"

definition group_txs :: "tx_group \<Rightarrow> recovered_tx list" where
  "group_txs g = rb_txs (sbn_bundle (fst g)) @ snd g"

text \<open>A refund is a transfer to the refund recipient of the bundle, signed with the builder's key.\<close>

definition pays_refund :: "('cs, 'db, 'sdb) evm \<Rightarrow> 'cs payload_config \<Rightarrow> recovered_bundle \<Rightarrow> recovered_tx \<Rightarrow> bool" where
  "pays_refund e pc rb tx \<longleftrightarrow>
     (\<exists>t. evm_sign_and_recover e (pc_secret_key pc) t = Some tx \<and>
        refund_recipient rb = Some (e1559_to t) \<and> e1559_value t \<noteq> 0)"

definition group_ok :: "('cs, 'db, 'sdb) evm \<Rightarrow> 'cs payload_config \<Rightarrow> tx_group \<Rightarrow> bool" where
  "group_ok e pc g \<longleftrightarrow>
     length (snd g) \<le> 1 \<and> list_all (pays_refund e pc (sbn_bundle (fst g))) (snd g)"

definition groups_txs :: "tx_group list \<Rightarrow> recovered_tx list" where
  "groups_txs gs = concat (map group_txs gs)"

text \<open>The hashes of the bundles' own transactions, which the strategy keeps as committed.\<close>

definition groups_hashes :: "tx_group list \<Rightarrow> b256 set" where
  "groups_hashes gs = (\<Union>g \<in> set gs. set (rb_tx_hashes (sbn_bundle (fst g))))"

definition by_value :: "sim_bundle list \<Rightarrow> bool" where
  "by_value sbs \<longleftrightarrow> sorted_wrt (\<lambda>a b. total_value (sbn_outcome b) \<le> total_value (sbn_outcome a)) sbs"

text \<open>No transaction belongs to two of the bundles.\<close>

definition apart :: "tx_group list \<Rightarrow> bool" where
  "apart gs \<longleftrightarrow>
     sorted_wrt (\<lambda>g h. set (rb_tx_hashes (sbn_bundle (fst g))) \<inter> set (rb_tx_hashes (sbn_bundle (fst h))) = {}) gs"

lemma groups_simps [simp]:
  "groups_txs [] = []" "groups_txs (g # gs) = group_txs g @ groups_txs gs"
  "groups_hashes [] = {}"
  "groups_hashes (g # gs) = set (rb_tx_hashes (sbn_bundle (fst g))) \<union> groups_hashes gs"
  "apart []"
  "apart (g # gs) \<longleftrightarrow> set (rb_tx_hashes (sbn_bundle (fst g))) \<inter> groups_hashes gs = {} \<and> apart gs"
  by (auto simp: groups_txs_def groups_hashes_def apart_def)

lemma by_value_subseq:
  assumes "subseq xs ys" and "by_value ys"
  shows "by_value xs"
  using assms
proof (induction rule: list_emb.induct)
  case (list_emb_Cons2 x y xs ys)
  have "set xs \<subseteq> set ys"
    using list_emb_Cons2.hyps(2) by (auto simp: subseq_conv_nths dest: in_set_nthsD)
  with list_emb_Cons2 show ?case by (auto simp: by_value_def)
qed (simp_all add: by_value_def)

section \<open>Bundles\<close>

lemma simulate_refund_tx_pays:
  assumes "simulate_refund_tx e bs sdb sb = Ok (Some s)"
  shows "pays_refund e (bs_payload_config bs) (sbn_bundle sb) (st_tx s)"
proof -
  from assms obtain recipient tx where "bo_refund (sbn_outcome sb) \<noteq> 0"
    and "refund_recipient (sbn_bundle sb) = Some recipient"
    and "create_builder_transfer_transaction e bs (evm_sim_basic e sdb) recipient
           (bo_refund (sbn_outcome sb)) = Ok tx"
    and s: "simulate_tx_on_db e bs sdb tx = Ok s"
    by (auto simp: simulate_refund_tx_def result_bind_Ok_iff Let_def split: if_splits option.splits)
  then show ?thesis
    using simulate_tx_on_db_OkD(1) [OF s]
    by (fastforce simp: pays_refund_def create_builder_transfer_transaction_def result_bind_Ok_iff Let_def)
qed

lemma simulate_bundle_group:
  assumes "simulate_bundle e bs db rb = Ok sb"
  obtains refund where "map st_tx (sbn_simulated_txs sb) = rb_txs rb @ refund"
    and "length refund \<le> 1" and "list_all (pays_refund e (bs_payload_config bs) rb) refund"
proof -
  from assms obtain before sdb' ss base_fee where
    loop: "simulate_bundle_loop e bs (evm_simulation_db e db) before (rb_txs rb) = Ok (ss, sdb')"
    and fin: "with_refund e (SimulatedBundle_new rb ss base_fee)
                (simulate_refund_tx e bs sdb' (SimulatedBundle_new rb ss base_fee)) = Ok sb"
    by (auto simp: simulate_bundle_def result_bind_Ok_iff Let_def)
  have txs: "map st_tx ss = rb_txs rb" using simulate_bundle_loop_OkD [OF loop] by blast
  from fin consider (none) "sb = SimulatedBundle_new rb ss base_fee"
    | (refund) s where "simulate_refund_tx e bs sdb' (SimulatedBundle_new rb ss base_fee) = Ok (Some s)"
        "sb = add_tx s (SimulatedBundle_new rb ss base_fee)"
    by (auto simp: with_refund_Ok_iff)
  then show ?thesis
  proof cases
    case none
    with txs show ?thesis by (intro that [of "[]"]) (simp_all add: SimulatedBundle_new_def)
  next
    case refund
    with txs simulate_refund_tx_pays [OF refund(1)] show ?thesis
      by (intro that [of "[st_tx s]"]) (simp_all add: SimulatedBundle_new_def add_tx_def)
  qed
qed

lemma execute_bundle_group:
  assumes "execute_bundle e bs db rb = (bs', db', Ok ())"
  obtains refund where "ed_executed_txs (bs_exec_details bs') =
      ed_executed_txs (bs_exec_details bs) @ rb_txs rb @ refund"
    and "length refund \<le> 1" and "list_all (pays_refund e (bs_payload_config bs) rb) refund"
proof -
  from execute_bundle_cases [OF assms] obtain sb where sb: "simulate_bundle e bs db rb = Ok sb"
      and bs': "bs' = fst (commit e bs db (sbn_simulated_txs sb))" by (metis fst_conv)
  obtain refund where r: "map st_tx (sbn_simulated_txs sb) = rb_txs rb @ refund"
    "length refund \<le> 1" "list_all (pays_refund e (bs_payload_config bs) rb) refund"
    by (rule simulate_bundle_group [OF sb])
  have "ed_executed_txs (bs_exec_details bs') = ed_executed_txs (bs_exec_details bs) @ rb_txs rb @ refund"
    using r(1) by (simp add: bs' commit_def exec_simps)
  from that [OF this r(2,3)] show ?thesis .
qed

text \<open>What the loop over the sorted bundles commits.\<close>

definition committed_groups ::
  "('cs, 'db, 'sdb) evm \<Rightarrow> 'cs payload_config \<Rightarrow> b256 set \<Rightarrow> sim_bundle list \<Rightarrow> tx_group list \<Rightarrow> bool"
where
  "committed_groups e pc c sbs gs \<longleftrightarrow>
     subseq (map fst gs) sbs \<and> list_all (group_ok e pc) gs \<and>
     list_all (\<lambda>g. \<not> bundle_contains_ofac (fst g)) gs \<and> apart gs \<and> groups_hashes gs \<inter> c = {}"

lemma commit_selected_groups:
  assumes "commit_selected_loop e c sbs bs db = (bs', db', Ok c')"
    and "bs_payload_config bs = pc"
  shows "\<exists>gs. committed_groups e pc c sbs gs \<and>
           ed_executed_txs (bs_exec_details bs') = ed_executed_txs (bs_exec_details bs) @ groups_txs gs \<and>
           c' = c \<union> groups_hashes gs"
  using assms
proof (induction sbs arbitrary: c bs db)
  case Nil
  then show ?case by (intro exI [of _ "[]"]) (simp add: committed_groups_def)
next
  case (Cons sb sbs)
  let ?rb = "sbn_bundle sb"
  have longer: "committed_groups e pc c (sb # sbs) gs" if "committed_groups e pc c sbs gs" for gs
    using that by (auto simp: committed_groups_def)
  from Cons.prems(1) show ?case
  proof (cases rule: commit_selected_ConsE)
    case skip
    from Cons.IH [OF this Cons.prems(2)] longer show ?thesis by blast
  next
    case (failed r1)
    then show ?thesis by simp
  next
    case (err bs1 db1 r1)
    with execute_bundle_cases [OF err(1)] have "bs1 = bs" by auto
    with Cons.IH [OF err(3)] Cons.prems(2) longer show ?thesis by blast
  next
    case (run bs1 db1)
    have pc: "bs_payload_config bs1 = pc" using execute_configs(2) [OF run(1)] Cons.prems(2) by simp
    obtain refund where ref: "ed_executed_txs (bs_exec_details bs1) =
        ed_executed_txs (bs_exec_details bs) @ rb_txs ?rb @ refund"
      "length refund \<le> 1" "list_all (pays_refund e pc ?rb) refund"
      using execute_bundle_group [OF run(1)] Cons.prems(2) by auto
    from Cons.IH [OF run(4) pc] obtain gs where gs: "committed_groups e pc (c \<union> set (rb_tx_hashes ?rb)) sbs gs"
      "ed_executed_txs (bs_exec_details bs') = ed_executed_txs (bs_exec_details bs1) @ groups_txs gs"
      "c' = c \<union> set (rb_tx_hashes ?rb) \<union> groups_hashes gs" by blast
    have "set (rb_tx_hashes ?rb) \<inter> c = {}"
      using run(3) by (auto simp: contains_committed_transaction_def list_ex_iff rb_tx_hashes_def)
    then have "committed_groups e pc c (sb # sbs) ((sb, refund) # gs)"
      using gs(1) ref(2,3) run(2) by (auto simp: committed_groups_def group_ok_def)
    then show ?thesis
      using gs(2,3) ref(1) by (intro exI [of _ "(sb, refund) # gs"]) (simp add: group_txs_def Un_assoc)
  qed
qed

section \<open>Mempool transactions\<close>

text \<open>The transactions that an iterator can yield from a state, whatever it is told in between.\<close>

inductive offered :: "'it best_txs \<Rightarrow> 'it \<Rightarrow> recovered_tx list \<Rightarrow> bool" for bt :: "'it best_txs" where
  offered_Nil: "offered bt it []"
| offered_next: "bt_next bt it = Some (tx, it1) \<Longrightarrow> offered bt it1 txs \<Longrightarrow> offered bt it (tx # txs)"
| offered_skip: "bt_next bt it = Some (tx, it1) \<Longrightarrow> offered bt it1 txs \<Longrightarrow> offered bt it txs"
| offered_invalid: "offered bt (bt_mark_invalid bt it tx) txs \<Longrightarrow> offered bt it txs"
| offered_blobs: "offered bt (bt_skip_blobs bt it) txs \<Longrightarrow> offered bt it txs"

text \<open>What the loop over the iterator executes, given the hashes that are committed already.\<close>

definition mempool_part ::
  "'it best_txs \<Rightarrow> 'it \<Rightarrow> b256 set \<Rightarrow> recovered_tx list \<Rightarrow> bool"
where
  "mempool_part bt it c txs \<longleftrightarrow>
     offered bt it txs \<and> list_all (\<lambda>tx. \<not> is_ofac_tx tx) txs \<and>
     distinct (map tx_hash txs) \<and> c \<inter> tx_hash ` set txs = {}"

lemma mempool_part_intros:
  "mempool_part bt it c []"
  "bt_next bt it = Some (tx, it1) \<Longrightarrow> \<not> is_ofac_tx tx \<Longrightarrow> tx_hash tx \<notin> c \<Longrightarrow>
     mempool_part bt it1 (insert (tx_hash tx) c) txs \<Longrightarrow> mempool_part bt it c (tx # txs)"
  "bt_next bt it = Some (tx, it1) \<Longrightarrow> mempool_part bt it1 c txs \<Longrightarrow> mempool_part bt it c txs"
  "bt_next bt it = Some (tx, it1) \<Longrightarrow> mempool_part bt (bt_mark_invalid bt it1 tx) c txs \<Longrightarrow>
     mempool_part bt it c txs"
  "bt_next bt it = Some (tx, it1) \<Longrightarrow> mempool_part bt (bt_mark_invalid bt (bt_skip_blobs bt it1) tx) c txs \<Longrightarrow>
     mempool_part bt it c txs"
  unfolding mempool_part_def
  by (auto intro: offered_Nil offered_next)
    (meson offered_skip offered_invalid offered_blobs)+

lemma execute_mempool_part:
  assumes "execute_mempool_loop e bt cancelled k committed it bs db = Some res" and "committed = Some c"
  shows "\<exists>txs. mempool_part bt it c txs \<and>
           ed_executed_txs (bs_exec_details (fst res)) = ed_executed_txs (bs_exec_details bs) @ txs"
  using assms
proof (induction arbitrary: c rule: execute_mempool_induct)
  case (step loop e bt cancelled k committed it bs db res)
  let ?done = "\<lambda>it c bs. \<exists>txs. mempool_part bt it c txs \<and>
      ed_executed_txs (bs_exec_details (fst res)) = ed_executed_txs (bs_exec_details bs) @ txs"
  show ?case
  proof (cases "bt_next bt it")
    case None
    with step.hyps step.prems show ?thesis by (auto intro: mempool_part_intros(1))
  next
    case (Some nxt)
    obtain tx it1 where nxt: "nxt = (tx, it1)" by (cases nxt)
    obtain bs1 db1 r where ex: "execute_transaction e bs db tx = (bs1, db1, r)"
      by (cases "execute_transaction e bs db tx")
    note it = Some [unfolded nxt]
    have same: "bs1 = bs" if "r \<noteq> Ok ()" using execute_transaction_cases [OF ex] that by auto
    have rest: "?done it' c bs'"
      if "loop e bt cancelled (Suc k) (Some c) it' bs' db' = Some res" for it' c bs' db'
      using step.IH [OF that refl] .
    have executed: "?done it c bs" if "r = Ok ()" "\<not> is_ofac_tx tx" "tx_hash tx \<notin> c"
      "loop e bt cancelled (Suc k) (Some (insert (tx_hash tx) c)) it1 bs1 db1 = Some res"
      using rest [OF that(4)] execute_transaction_executed [OF ex [unfolded that(1)]]
        mempool_part_intros(2) [OF it that(2,3)] by auto
    have stopped: "?done it c bs" if "res = (bs2, db2, r2)" "bs2 = bs" for bs2 db2 r2
      using that mempool_part_intros(1) by auto
    consider (stop) bs2 db2 r2 where "res = (bs2, db2, r2)" "bs2 = bs"
      | (ran) "r = Ok ()" "\<not> is_ofac_tx tx" "tx_hash tx \<notin> c"
          "loop e bt cancelled (Suc k) (Some (insert (tx_hash tx) c)) it1 bs1 db1 = Some res"
      | (skip) db' where "loop e bt cancelled (Suc k) (Some c) it1 bs db' = Some res"
      | (invalid) db' where "loop e bt cancelled (Suc k) (Some c) (bt_mark_invalid bt it1 tx) bs db' = Some res"
      | (blobs) db' where
          "loop e bt cancelled (Suc k) (Some c) (bt_mark_invalid bt (bt_skip_blobs bt it1) tx) bs db' = Some res"
      using step.hyps same
      by (auto simp: step.prems it ex is_some_and_def split: if_splits result.splits failure_action.splits)
    then show ?thesis
    proof cases
      case stop
      then show ?thesis by (rule stopped)
    next
      case ran
      then show ?thesis by (rule executed)
    next
      case skip
      with rest [OF skip] mempool_part_intros(3) [OF it] show ?thesis by blast
    next
      case invalid
      with rest [OF invalid] mempool_part_intros(4) [OF it] show ?thesis by blast
    next
      case blobs
      with rest [OF blobs] mempool_part_intros(5) [OF it] show ?thesis by blast
    qed
  qed
qed

section \<open>The layout of a build\<close>

definition block_layout ::
  "('cs, 'db, 'sdb) evm \<Rightarrow> 'it best_txs \<Rightarrow> 'it \<Rightarrow> 'cs payload_config \<Rightarrow> recovered_bundle list \<Rightarrow>
   recovered_tx list \<Rightarrow> tx_group list \<Rightarrow> recovered_tx list \<Rightarrow> bool"
where
  "block_layout e bt it pc rbs txs gs rest \<longleftrightarrow>
     txs = groups_txs gs @ rest \<and>
     by_value (map fst gs) \<and> list_all (group_ok e pc) gs \<and> apart gs \<and>
     list_all (\<lambda>g. \<not> bundle_contains_ofac (fst g) \<and> sbn_bundle (fst g) \<in> set rbs) gs \<and>
     mempool_part bt it (groups_hashes gs) rest"

text \<open>
  What a build starts from: a fresh build state for the configuration, the database of the parent
  block's state after the pre-block call, and the iterator the mempool opens for the block's fees.
\<close>

definition build_opened ::
  "('cs, 'db, 'sdb) evm \<Rightarrow> ('cs, 'db, 'bst, 'prov, 'blob) chain_api \<Rightarrow> 'it best_txs \<Rightarrow>
   'cs payload_config \<Rightarrow> build_config \<Rightarrow> ('cs, 'bst) build_state \<Rightarrow> 'db \<Rightarrow> 'it \<Rightarrow> bool"
where
  "build_opened e api bt pc bc bs0 db it \<longleftrightarrow>
     (\<exists>build_id now provider base_fee.
        bs0 = BuildState_new build_id bc pc now \<and>
        api_state_by_block_hash api (sb_hash (bc_parent_block bc)) = Ok provider \<and>
        pre_block_beacon_root_contract_call e bs0 (api_open_db api provider) = Ok db \<and>
        u256_to_u64 (be_basefee (bc_initialized_block_env bc)) = Some base_fee \<and>
        it = open_best_txs bt (bc_initialized_block_env bc) base_fee)"

text \<open>Each bundle with the outcome of its own simulation on the state the build started from.\<close>

definition simulated_at ::
  "('cs, 'db, 'sdb) evm \<Rightarrow> ('cs, 'bst) build_state \<Rightarrow> 'db \<Rightarrow> sim_bundle list \<Rightarrow> bool"
where
  "simulated_at e bs0 db sbs \<longleftrightarrow>
     list_all (\<lambda>sb. simulate_bundle e bs0 db (sbn_bundle sb) = Ok sb) sbs"

lemma bundles_better_opened:
  fixes bs :: "('cs, 'bst) build_state"
  assumes "bundles_try_build e api bt dec rec locked pool cancelled build_id now pc bc best
             = Some (Ok (Better bs))"
  obtains db0 processed bs1 db1 committed it bs2 db where
    "build_opened e api bt pc bc (BuildState_new build_id bc pc now :: ('cs, 'bst) build_state) db0 it"
    and "decode_and_filter_bundles e dec rec locked pool
       (BuildState_new build_id bc pc now :: ('cs, 'bst) build_state) db0 = Some processed"
    and "commit_selected_bundles e processed (BuildState_new build_id bc pc now) db0 = (bs1, db1, Ok committed)"
    and "execute_mempool_txs e bt cancelled committed it bs1 db1 = Some (bs2, db, Ok ())"
    and "bs = with_bundle_state (api_take_bundle api db) bs2"
  using assms
  by (fastforce simp: bundles_try_build_def build_opened_def Let_def
      split: result.splits option.splits prod.splits dest: finish_build_better)

lemma decode_and_filter_simulated:
  assumes "decode_and_filter_bundles e dec rec locked pool bs db = Some processed"
  shows "simulated_at e bs db processed"
  unfolding simulated_at_def list_all_iff
proof
  fix sb assume "sb \<in> set processed"
  with assms obtain rb where sim: "simulate_bundle e bs db rb = Ok sb"
    by (auto simp: decode_and_filter_bundles_def Let_def sort_by_max_value_def dest!: collect_ok_mem)
  moreover have "sbn_bundle sb = rb" using sim by (rule simulate_bundle_OkE)
  ultimately show "simulate_bundle e bs db (sbn_bundle sb) = Ok sb" by simp
qed

lemma bundles_better_layout:
  fixes bs :: "('cs, 'bst) build_state"
  assumes "bundles_try_build e api bt dec rec locked pool cancelled build_id now pc bc best
             = Some (Ok (Better bs))"
  shows "\<exists>(bs0 :: ('cs, 'bst) build_state) db it gs rest. build_opened e api bt pc bc bs0 db it \<and>
           simulated_at e bs0 db (map fst gs) \<and>
           block_layout e bt it pc (pool_rbs dec rec locked pool bc) (ed_executed_txs (bs_exec_details bs)) gs rest"
proof -
  let ?bs0 = "BuildState_new build_id bc pc now :: ('cs, 'bst) build_state"
  obtain db0 processed bs1 db1 committed it bs2 db where
    opened: "build_opened e api bt pc bc ?bs0 db0 it"
    and *: "decode_and_filter_bundles e dec rec locked pool ?bs0 db0 = Some processed"
      "commit_selected_bundles e processed ?bs0 db0 = (bs1, db1, Ok committed)"
      "execute_mempool_txs e bt cancelled committed it bs1 db1 = Some (bs2, db, Ok ())"
      "bs = with_bundle_state (api_take_bundle api db) bs2"
    using bundles_better_opened [OF assms] by metis
  obtain gs where gs: "committed_groups e pc {} processed gs"
      "ed_executed_txs (bs_exec_details bs1) = groups_txs gs" "committed = groups_hashes gs"
    using commit_selected_groups [OF *(2) [unfolded commit_selected_bundles_def], of pc] by auto
  obtain rest where rest: "mempool_part bt it committed rest"
      "ed_executed_txs (bs_exec_details bs2) = groups_txs gs @ rest"
    using execute_mempool_part [OF *(3) [unfolded execute_mempool_txs_def] refl] gs(2) by auto
  have "by_value processed"
    using *(1) sort_by_max_value_spec by (auto simp: decode_and_filter_bundles_def by_value_def Let_def)
  then have "by_value (map fst gs)"
    using gs(1) by (auto simp: committed_groups_def intro: by_value_subseq)
  moreover have mem: "fst g \<in> set processed" if "g \<in> set gs" for g
  proof -
    have "subseq (map fst gs) processed" using gs(1) by (simp add: committed_groups_def)
    with that show ?thesis
      by (auto simp: subseq_conv_nths dest!: arg_cong [where f = set] in_set_nthsD)
  qed
  then have "sbn_bundle (fst g) \<in> set (pool_rbs dec rec locked pool bc)" if "g \<in> set gs" for g
    using decode_and_filter_mem [OF *(1)] that by (simp add: pool_rbs_def)
  ultimately have "block_layout e bt it pc (pool_rbs dec rec locked pool bc)
      (ed_executed_txs (bs_exec_details bs)) gs rest"
    using gs rest by (auto simp: block_layout_def committed_groups_def list_all_iff *(4))
  moreover have "simulated_at e ?bs0 db0 (map fst gs)"
    using decode_and_filter_simulated [OF *(1)] mem by (auto simp: simulated_at_def list_all_iff)
  ultimately show ?thesis using opened by blast
qed

end
