(* ===== verification/System_Bundles.thy ===== *)
theory System_Bundles
  imports Builder_System Block_Layout Rpc
begin

text \<open>
  The bundle pool that the services share.  \<open>bin/builder/src/main.rs\<close> makes one pool and hands clones
  of it, which share their contents, to the RPC endpoints, to the job generator and to the block
  builder service.

  The system of \<open>Builder_System\<close> is extended by the requests of the RPC server, which are handled
  on the pool of the block builder service.  A build task runs beside the services and reads the
  pool once, at some time before it answers: the pool it reads is one of the pools there have been.
  So the state has the list of these pools, and the list of the bundles that \<open>eth_sendBundle\<close> has
  accepted, each with its hash.  No code reads the two lists.
\<close>

section \<open>The shared system\<close>

record ('cs, 'bst, 'st) shared_system =
  sh_system :: "('cs, 'bst, 'st) builder_system"
  sh_pools :: "bundle_pool list"
  sh_accepted :: "(eth_send_bundle \<times> b256) list"

definition shared_pool :: "('cs, 'bst, 'st) builder_system \<Rightarrow> bundle_pool" where
  "shared_pool sy = bb_bundles_pool (sy_builder sy)"

definition set_shared_pool :: "bundle_pool \<Rightarrow> ('cs, 'bst, 'st) builder_system \<Rightarrow> ('cs, 'bst, 'st) builder_system" where
  "set_shared_pool p sy = sy\<lparr> sy_builder := (sy_builder sy)\<lparr> bb_bundles_pool := p \<rparr> \<rparr>"

definition shared_new :: "bid_selection_policy \<Rightarrow> network_clock \<Rightarrow> ('cs, 'bst, 'st) shared_system" where
  "shared_new policy clock =
     \<lparr> sh_system = system_new policy clock, sh_pools = [BundlePool_new], sh_accepted = [] \<rparr>"

text \<open>The worlds a task can have run in: those whose pool has been the shared pool.\<close>

definition seen_worlds ::
  "('cs, 'db, 'sdb, 'bst, 'prov, 'blob, 'it, 'signed) build_world set \<Rightarrow> bundle_pool list \<Rightarrow>
   ('cs, 'db, 'sdb, 'bst, 'prov, 'blob, 'it, 'signed) build_world set"
where
  "seen_worlds W pools = {w \<in> W. w_bundle_pool w \<in> set pools}"

definition accepted_by :: "rpc_call \<Rightarrow> 'perr rpc_reply \<Rightarrow> (eth_send_bundle \<times> b256) list" where
  "accepted_by call reply =
     (case (call_request call, reply) of
        (SendBundle req, BundleHashReply (Ok h)) \<Rightarrow> [(req, h)]
      | _ \<Rightarrow> [])"

inductive shared_step ::
  "('pooled, 'recovered, 'ptx, 'txpool, 'perr) rpc_library \<Rightarrow> 'cs job_generator_config \<Rightarrow>
   ('cs, 'blk, 'st) builder_env set \<Rightarrow>
   ('cs, 'db, 'sdb, 'bst, 'prov, 'blob, 'it, 'signed) build_world set \<Rightarrow>
   ('cs, 'bst, 'st) shared_system \<Rightarrow> ('cs, 'bst, 'st) shared_system \<Rightarrow> bool"
  for lib :: "('pooled, 'recovered, 'ptx, 'txpool, 'perr) rpc_library"
    and c :: "'cs job_generator_config" and E :: "('cs, 'blk, 'st) builder_env set"
    and W :: "('cs, 'db, 'sdb, 'bst, 'prov, 'blob, 'it, 'signed) build_world set"
where
  shared_poll: "system_step c E (seen_worlds W (sh_pools sh)) (sh_system sh) sy \<Longrightarrow>
     shared_step lib c E W sh
       (sh\<lparr> sh_system := sy, sh_pools := shared_pool sy # sh_pools sh \<rparr>)"
| shared_rpc: "rpc_handle lib call \<lparr> bae_pool = txpool, bae_bundles_pool = shared_pool (sh_system sh) \<rparr> =
       (api, reply) \<Longrightarrow>
     shared_step lib c E W sh
       (sh\<lparr> sh_system := set_shared_pool (bae_bundles_pool api) (sh_system sh),
            sh_pools := bae_bundles_pool api # sh_pools sh,
            sh_accepted := accepted_by call reply @ sh_accepted sh \<rparr>)"

inductive shared_reach ::
  "('pooled, 'recovered, 'ptx, 'txpool, 'perr) rpc_library \<Rightarrow> 'cs job_generator_config \<Rightarrow>
   ('cs, 'blk, 'st) builder_env set \<Rightarrow>
   ('cs, 'db, 'sdb, 'bst, 'prov, 'blob, 'it, 'signed) build_world set \<Rightarrow>
   bid_selection_policy \<Rightarrow> network_clock \<Rightarrow> ('cs, 'bst, 'st) shared_system \<Rightarrow> bool"
  for lib :: "('pooled, 'recovered, 'ptx, 'txpool, 'perr) rpc_library"
    and c :: "'cs job_generator_config" and E :: "('cs, 'blk, 'st) builder_env set"
    and W :: "('cs, 'db, 'sdb, 'bst, 'prov, 'blob, 'it, 'signed) build_world set"
    and policy :: bid_selection_policy and clock :: network_clock
where
  shared_start: "shared_reach lib c E W policy clock (shared_new policy clock)"
| shared_next: "shared_reach lib c E W policy clock sh \<Longrightarrow> shared_step lib c E W sh sh' \<Longrightarrow>
     shared_reach lib c E W policy clock sh'"

section \<open>Where a bundle comes from\<close>

text \<open>A well-formed pool whose bundles were all accepted.\<close>

definition pool_from :: "(eth_send_bundle \<times> b256) list \<Rightarrow> bundle_pool \<Rightarrow> bool" where
  "pool_from accepted p \<longleftrightarrow>
     pool_inv (bp_inner p) \<and>
     (\<forall>k b. map_of (pi_bundles (bp_inner p)) k = Some b \<longrightarrow>
        (\<exists>(req, h) \<in> set accepted. b = Bundle_from req h))"

lemma pool_fromD:
  "pool_from accepted p \<Longrightarrow> map_of (pi_bundles (bp_inner p)) k = Some b \<Longrightarrow>
     \<exists>(req, h) \<in> set accepted. b = Bundle_from req h"
  unfolding pool_from_def by blast

lemma pool_from_new: "pool_from accepted BundlePool_new"
  using pool.inv_empty by (simp add: pool_from_def BundlePool_new_def BundlePoolInner_new_def)

lemma pool_from_mono: "pool_from accepted p \<Longrightarrow> pool_from (extra @ accepted) p"
  unfolding pool_from_def by fastforce

lemma pool_from_prune:
  assumes "pool_from accepted p"
  shows "pool_from accepted (prune locked p n t)"
proof -
  have inv: "pool_inv (bp_inner p)" using assms by (simp add: pool_from_def)
  have p: "bp_inner (prune locked p n t) = (if locked then fst (inner_prune (bp_inner p) n t) else bp_inner p)"
    by (simp add: prune_def case_prod_unfold Let_def)
  show ?thesis
    using assms by (auto simp: pool_from_def p prune_inv [OF inv] prune_bundles [OF inv] split: if_splits)
qed

lemma pool_from_cancel:
  assumes "pool_from accepted p"
  shows "pool_from accepted (fst (B256_cancel locked h p))"
proof -
  have "pool_inv (fst (inner_cancel_bundle (bp_inner p) h))"
    using assms by (simp add: pool_from_def cancel_inv)
  then show ?thesis
    using assms by (auto simp: pool_from_def B256_cancel_eq cancel_bundles split: if_splits)
qed

lemma added_or_kept:
  assumes "map_of (pi_bundles (fst (inner_add_bundle p b))) k = Some b'"
  shows "b' = b \<or> map_of (pi_bundles p) k = Some b'"
proof -
  have "ap_bundles (abs_add b (pool_abs p)) k = Some b'"
    using assms by (simp flip: add_abs)
  then show ?thesis
    by (auto simp: abs_add_def abs_replace_def abs_cancel_def Let_def split: option.splits if_splits)
qed

lemma pool_from_send:
  assumes "pool_from accepted p" and "EthSendBundle_send lib locked req p = (p', r)"
  shows "pool_from ((case r of Ok h \<Rightarrow> [(req, h)] | _ \<Rightarrow> []) @ accepted) p'"
proof -
  have inner: "bp_inner p' = (case r of Ok h \<Rightarrow> fst (inner_add_bundle (bp_inner p) (Bundle_from req h)) | _ \<Rightarrow> bp_inner p)"
    using EthSendBundle_send_eq [of lib locked req p] assms(2) by (auto split: result.splits if_splits)
  have inv: "pool_inv (bp_inner p)" using assms(1) by (simp add: pool_from_def)
  show ?thesis
  proof (cases r)
    case (Ok h)
    have stored: "b = Bundle_from req h \<or> map_of (pi_bundles (bp_inner p)) k = Some b"
      if "map_of (pi_bundles (bp_inner p')) k = Some b" for k b
      using that added_or_kept [of "bp_inner p" "Bundle_from req h"] by (simp add: inner Ok)
    show ?thesis
      unfolding pool_from_def
    proof (intro conjI allI impI)
      show "pool_inv (bp_inner p')" by (simp add: inner Ok add_inv [OF inv])
      fix k b assume "map_of (pi_bundles (bp_inner p')) k = Some b"
      from stored [OF this] pool_fromD [OF assms(1)]
      show "\<exists>(req', h') \<in> set ((case r of Ok h \<Rightarrow> [(req, h)] | _ \<Rightarrow> []) @ accepted). b = Bundle_from req' h'"
        by (fastforce simp: Ok)
    qed
  qed (use assms(1) in \<open>simp_all add: pool_from_def inner\<close>)
qed

lemma pool_from_rpc:
  assumes "pool_from accepted (bae_bundles_pool api)" and "rpc_handle lib call api = (api', reply)"
  shows "pool_from (accepted_by call reply @ accepted) (bae_bundles_pool api')"
proof (cases "call_request call")
  case (SendBundle req)
  obtain p' r where r: "EthSendBundle_send lib (call_locked call) req (bae_bundles_pool api) = (p', r)"
    by fastforce
  with assms(2) SendBundle have "bae_bundles_pool api' = p'" "reply = BundleHashReply r"
    by (auto simp: rpc_handle_def)
  then have "accepted_by call reply = (case r of Ok h \<Rightarrow> [(req, h)] | _ \<Rightarrow> [])"
    by (simp add: accepted_by_def SendBundle split: result.split)
  with pool_from_send [OF assms(1) r] show ?thesis by (simp add: \<open>bae_bundles_pool api' = p'\<close>)
next
  case (CancelBundle h)
  with assms show ?thesis
    by (auto simp: rpc_handle_def case_prod_unfold accepted_by_def intro: pool_from_cancel)
next
  case (SendPrivateTransaction tx)
  with assms show ?thesis by (auto simp: rpc_handle_def accepted_by_def split: prod.splits)
qed

lemma builder_poll_pool:
  assumes "builder_poll env s = Some (Ok (finished, s', effects))"
  shows "bb_bundles_pool s' = bb_bundles_pool s \<or>
         (\<exists>n t. bb_bundles_pool s' = prune (bse_pool_locked env) (bb_bundles_pool s) n t)"
proof -
  from assms obtain cl args where
    r: "(case args of
            None \<Rightarrow> Ok (True, s\<lparr> bb_consensus := cl \<rparr>, [])
          | Some None \<Rightarrow> Ok (False, s\<lparr> bb_consensus := cl \<rparr>, [])
          | Some (Some (attributes, slot)) \<Rightarrow>
              result_map (Pair False)
                (handle_attributes env (s\<lparr> bb_consensus := cl \<rparr>) attributes slot)) = Ok (finished, s', effects)"
    by (auto simp: builder_poll_def Let_def)
  consider "bb_bundles_pool s' = bb_bundles_pool s" | attributes slot where
    "handle_attributes env (s\<lparr> bb_consensus := cl \<rparr>) attributes slot = Ok (s', effects)"
    using r by (auto simp: result_map_Ok_iff split: option.splits)
  then show ?thesis
  proof cases
    case 2
    then show ?thesis
      by (cases rule: handle_attributes_cases) (auto simp: prune_bundle_pool_def Let_def)
  qed simp
qed

lemma system_step_pool:
  assumes "system_step c E W sy sy'" and "pool_from accepted (shared_pool sy)"
  shows "pool_from accepted (shared_pool sy')"
  using assms(1)
proof (cases rule: system_step.cases)
  case (poll_builder env finished builder effects)
  from builder_poll_pool [OF poll_builder(3)] assms(2) show ?thesis
    by (auto simp: poll_builder(1) shared_pool_def intro: pool_from_prune)
qed (use assms(2) in \<open>simp_all add: shared_pool_def\<close>)

section \<open>The invariant\<close>

lemma crafted_mono: "crafted c E W bs \<Longrightarrow> W \<subseteq> W' \<Longrightarrow> crafted c E W' bs"
  unfolding crafted_def by blast

lemma system_inv_mono:
  assumes "system_inv c E W policy clock sy" and "W \<subseteq> W'"
  shows "system_inv c E W' policy clock sy"
proof -
  note mono = crafted_mono [OF _ assms(2)]
  have "list_all (crafted c E W') (sy_builds sy)"
    using assms(1) by (auto simp: system_inv_def list_all_iff intro: mono)
  moreover have "best_all (crafted c E W') (sy_bidder sy)"
    using assms(1) by (auto simp: system_inv_def best_all_def is_none_or_def intro: mono split: option.splits)
  ultimately show ?thesis
    using assms(1) by (auto simp: system_inv_def intro: mono)
qed

definition shared_inv ::
  "'cs job_generator_config \<Rightarrow> ('cs, 'blk, 'st) builder_env set \<Rightarrow>
   ('cs, 'db, 'sdb, 'bst, 'prov, 'blob, 'it, 'signed) build_world set \<Rightarrow>
   bid_selection_policy \<Rightarrow> network_clock \<Rightarrow> ('cs, 'bst, 'st) shared_system \<Rightarrow> bool"
where
  "shared_inv c E W policy clock sh \<longleftrightarrow>
     system_inv c E (seen_worlds W (sh_pools sh)) policy clock (sh_system sh) \<and>
     shared_pool (sh_system sh) \<in> set (sh_pools sh) \<and>
     list_all (pool_from (sh_accepted sh)) (sh_pools sh)"

lemma seen_worlds_mono: "set pools \<subseteq> set pools' \<Longrightarrow> seen_worlds W pools \<subseteq> seen_worlds W pools'"
  unfolding seen_worlds_def by blast

lemma system_inv_set_pool [simp]:
  "system_inv c E W policy clock (set_shared_pool p sy) \<longleftrightarrow> system_inv c E W policy clock sy"
  by (simp add: system_inv_def set_shared_pool_def)

lemma shared_pool_new [simp]: "shared_pool (system_new policy clock) = BundlePool_new"
  by (simp add: shared_pool_def system_new_def BlockBuilderService_new_def)

lemma shared_new_inv: "shared_inv c E W policy clock (shared_new policy clock)"
  by (simp add: shared_inv_def shared_new_def system_new_inv pool_from_new)

lemma shared_step_inv:
  assumes "shared_step lib c E W sh sh'" and inv: "shared_inv c E W policy clock sh"
  shows "shared_inv c E W policy clock sh'"
  using assms(1)
proof (cases rule: shared_step.cases)
  case (shared_poll sy)
  have "system_inv c E (seen_worlds W (sh_pools sh)) policy clock sy"
    using system_step_inv [OF shared_poll(2)] inv by (simp add: shared_inv_def)
  then have "system_inv c E (seen_worlds W (shared_pool sy # sh_pools sh)) policy clock sy"
    by (rule system_inv_mono) (rule seen_worlds_mono, auto)
  moreover have "pool_from (sh_accepted sh) (shared_pool sy)"
    using system_step_pool [OF shared_poll(2)] inv by (auto simp: shared_inv_def list_all_iff)
  ultimately show ?thesis using inv by (simp add: shared_poll(1) shared_inv_def)
next
  case (shared_rpc call txpool api reply)
  have "pool_from (sh_accepted sh) (shared_pool (sh_system sh))"
    using inv by (auto simp: shared_inv_def list_all_iff)
  with pool_from_rpc [OF _ shared_rpc(2)]
  have "pool_from (accepted_by call reply @ sh_accepted sh) (bae_bundles_pool api)" by simp
  moreover have "list_all (pool_from (accepted_by call reply @ sh_accepted sh)) (sh_pools sh)"
    using inv pool_from_mono by (auto simp: shared_inv_def list_all_iff)
  moreover have "system_inv c E (seen_worlds W (bae_bundles_pool api # sh_pools sh)) policy clock (sh_system sh)"
    using inv unfolding shared_inv_def
    by (elim conjE system_inv_mono) (rule seen_worlds_mono, auto)
  ultimately show ?thesis
    by (simp add: shared_rpc(1) shared_inv_def) (simp add: shared_pool_def set_shared_pool_def)
qed

lemma shared_reach_inv: "shared_reach lib c E W policy clock sh \<Longrightarrow> shared_inv c E W policy clock sh"
  by (induction rule: shared_reach.induct) (auto intro: shared_new_inv shared_step_inv)

section \<open>Properties\<close>

text \<open>The payment that ends a block: a transfer of the bid to the proposer, signed with the builder's key.\<close>

definition pays_proposer ::
  "('cs, 'db, 'sdb) evm \<Rightarrow> 'cs payload_config \<Rightarrow> build_config \<Rightarrow> u256 \<Rightarrow> recovered_tx \<Rightarrow> bool"
where
  "pays_proposer e pc bc bid tx \<longleftrightarrow>
     (\<exists>t. evm_sign_and_recover e (pc_secret_key pc) t = Some tx \<and>
        e1559_to t = vi_fee_recipient (bc_validator_info bc) \<and> e1559_value t = bid)"

lemma finalized_body:
  assumes "finalize_and_submit_build e api submit bs bid m = (m', Some build, ended)"
  obtains payment where "pays_proposer e (bs_payload_config bs) (bs_build_config bs) bid payment"
    and "blk_body (pl_block (bd_payload build)) = ed_executed_txs (bs_exec_details bs) @ [payment]"
    and "hd_timestamp (blk_header (pl_block (bd_payload build))) = pa_timestamp (bc_attributes (bs_build_config bs))"
proof -
  obtain db payment where pay: "payment_tx_of e (with_payment bid bs) db payment"
    and body: "blk_body (pl_block (bd_payload build)) = ed_executed_txs (bs_exec_details bs) @ [payment]"
      "hd_timestamp (blk_header (pl_block (bd_payload build))) = pa_timestamp (bc_attributes (bs_build_config bs))"
    using into_build_OkE [OF finalized_build [OF assms]] by (metis with_payment_fields(1,3))
  from pay have "pays_proposer e (bs_payload_config bs) (bs_build_config bs) bid payment"
    by (fastforce simp: payment_tx_of_def pays_proposer_def create_builder_transfer_transaction_def
        result_bind_Ok_iff Let_def)
  from that [OF this body] show ?thesis .
qed

lemma crafted_layout:
  fixes bs :: "('cs, 'bst) build_state"
  assumes "crafted c E W bs" and "w_evm ` W \<subseteq> {e}"
  obtains w config db it gs rest and bs0 :: "('cs, 'bst) build_state" where "w \<in> W" and "ordered E config"
    and "bs_build_config bs = block_env_with_coinbase (pc_builder_address (gc_payload_config c)) config"
    and "build_opened e (w_api w) (w_best_txs w) (gc_payload_config c) config bs0 db it"
    and "simulated_at e bs0 db (map fst gs)"
    and "block_layout e (w_best_txs w) it (gc_payload_config c)
           (pool_rbs (w_decode_enveloped w) (w_into_ecrecovered w) (w_locked w) (w_bundle_pool w) config)
           (ed_executed_txs (bs_exec_details bs)) gs rest"
proof -
  from assms(1) obtain w args where w: "w \<in> W" and o: "ordered E (ba_build_config args)"
    and b: "strategy_try_build (BundlesStrat (gc_payload_config c)) w args = Some (Ok (Better bs))"
    by (auto simp: crafted_def stream_job_strategy_def)
  note better = b [unfolded strategy_try_build_def strategy.case]
  have "w_evm w = e" using assms(2) w by blast
  with bundles_better_layout [OF better] bundles_better_configs [OF better] w o that show ?thesis by blast
qed

text \<open>A recovered bundle of a pool comes from a request that was accepted for its block and time.\<close>

definition requested ::
  "(bytes \<Rightarrow> 'signed option) \<Rightarrow> ('signed \<Rightarrow> recovered_tx option) \<Rightarrow> (eth_send_bundle \<times> b256) list \<Rightarrow>
   u64 \<Rightarrow> u64 \<Rightarrow> recovered_bundle \<Rightarrow> bool"
where
  "requested dec rec accepted n t rb \<longleftrightarrow>
     (\<exists>(req, h) \<in> set accepted. \<exists>txs.
        map (\<lambda>tx. Option.bind (dec tx) rec) (esb_txs req) = map Some txs \<and>
        rb = RecoveredBundle_new (Bundle_from req h) txs \<and>
        esb_block_number req = n \<and> is_within_timestamp (Bundle_from req h) t)"

lemma pool_rbs_requested:
  assumes "pool_from accepted p" and "rb \<in> set (pool_rbs dec rec locked p config)"
  shows "requested dec rec accepted (bc_block_number config) (pa_timestamp (bc_attributes config)) rb"
proof -
  have inv: "pool_inv (bp_inner p)" using assms(1) by (simp add: pool_from_def)
  from assms(2) obtain b txs where
    b: "b \<in> set (inner_bundles (bp_inner p) (bc_block_number config) (pa_timestamp (bc_attributes config)))"
    and txs: "map (\<lambda>tx. Option.bind (dec tx) rec) (bundle_txs b) = map Some txs" "rb = RecoveredBundle_new b txs"
    by (auto simp: pool_rbs_def pool_bundles_def recover_bundles_mem_iff split: if_splits)
  from b have "map_of (pi_bundles (bp_inner p)) (bundle_hash b) = Some b"
    and window: "is_within_block_number b (bc_block_number config)"
      "is_within_timestamp b (pa_timestamp (bc_attributes config))"
    by (simp_all add: inner_bundles_iff [OF inv])
  from pool_fromD [OF assms(1) this(1)] obtain req h where
    req: "(req, h) \<in> set accepted" "b = Bundle_from req h" by auto
  have "bundle_txs b = esb_txs req" "bundle_block_number b = esb_block_number req"
    by (simp_all add: req(2) Bundle_from_def)
  with req txs window show ?thesis
    unfolding requested_def by (auto simp: is_within_block_number_def intro!: bexI [of _ "(req, h)"])
qed

text \<open>
  C10: The shared pool is always well-formed. Whatever polls, requests and prunings interleave, and
  whatever locks are not obtained, every pool the builds can have read satisfies the pool's data
  invariant (each bundle stored once, under its own hash, and found by its indices; at most one
  hash per replacement uuid), and a query returns only bundles made from requests that were
  accepted, under the hash they were answered with, for the block and a window with the time asked for.
\<close>

theorem shared_pools_wellformed:
  assumes "shared_reach lib c E W policy clock sh" and "p \<in> set (sh_pools sh)"
  shows "pool_inv (bp_inner p) \<and>
         (\<forall>b \<in> set (unwrap_or (pool_bundles locked p n t) []).
            \<exists>(req, h) \<in> set (sh_accepted sh). b = Bundle_from req h \<and>
              map_of (pi_bundles (bp_inner p)) h = Some b \<and> esb_block_number req = n \<and> is_within_timestamp b t)"
proof -
  have stored_from: "pool_from (sh_accepted sh) p"
    using shared_reach_inv [OF assms(1)] assms(2) by (auto simp: shared_inv_def list_all_iff)
  then have inv: "pool_inv (bp_inner p)" by (simp add: pool_from_def)
  have "\<exists>(req, h) \<in> set (sh_accepted sh). b = Bundle_from req h \<and>
      map_of (pi_bundles (bp_inner p)) h = Some b \<and> esb_block_number req = n \<and> is_within_timestamp b t"
    if b: "b \<in> set (inner_bundles (bp_inner p) n t)" for b
  proof -
    from b have stored: "map_of (pi_bundles (bp_inner p)) (bundle_hash b) = Some b"
      and window: "bundle_block_number b = n" "is_within_timestamp b t"
      by (simp_all add: inner_bundles_iff [OF inv] is_within_block_number_def)
    from pool_fromD [OF stored_from stored] obtain req h where "(req, h) \<in> set (sh_accepted sh)" "b = Bundle_from req h"
      by auto
    with stored window show ?thesis by (intro bexI [of _ "(req, h)"]) (simp_all add: Bundle_from_def)
  qed
  with inv show ?thesis by (simp add: pool_bundles_def)
qed

text \<open>
  C1: Every block that leaves the builder is made of what it was sent. However polls and requests
  interleave, a submitted block consists of bundles, then mempool transactions, then one payment.
  Each bundle is whole and in order, was accepted by \<open>eth_sendBundle\<close> for the number of this block and a
  window that contains its timestamp, and is followed by at most one refund to its own recipient;
  bundles share no transaction and come in descending order of value, which is for each of them the
  value its simulation had on the fresh build state over the parent block. The mempool transactions
  are ones that the iterator opened for the block's fees yielded, in its order, none of them
  blacklisted, repeated, or part of a bundle of the block. The payment transfers the bid to the
  scheduled proposer's fee recipient.
\<close>

theorem submitted_blocks_requested:
  fixes bs :: "('cs, 'bst) build_state"
  assumes "shared_reach lib c E W policy clock sh" and "(bs, bid) \<in> set (sy_tasks (sh_system sh))"
    and "finalize_and_submit_build e api submit bs bid m = (m', Some build, ended)"
    and "\<forall>w \<in> W. w_evm w = e \<and> w_decode_enveloped w = dec \<and> w_into_ecrecovered w = rec"
  shows "\<exists>w \<in> W. \<exists>config (bs0 :: ('cs, 'bst) build_state) db it gs rest payment.
           bs_build_config bs = block_env_with_coinbase (pc_builder_address (gc_payload_config c)) config \<and>
           build_opened e (w_api w) (w_best_txs w) (gc_payload_config c) config bs0 db it \<and>
           blk_body (pl_block (bd_payload build)) = groups_txs gs @ rest @ [payment] \<and>
           list_all (\<lambda>g. group_ok e (gc_payload_config c) g \<and> \<not> bundle_contains_ofac (fst g) \<and>
             requested dec rec (sh_accepted sh) (bc_block_number (bs_build_config bs))
               (hd_timestamp (blk_header (pl_block (bd_payload build)))) (sbn_bundle (fst g))) gs \<and>
           simulated_at e bs0 db (map fst gs) \<and> by_value (map fst gs) \<and> apart gs \<and>
           mempool_part (w_best_txs w) it (groups_hashes gs) rest \<and>
           pays_proposer e (gc_payload_config c) (bs_build_config bs) bid payment"
proof -
  have inv: "shared_inv c E W policy clock sh" by (rule shared_reach_inv [OF assms(1)])
  then have crafted: "crafted c E (seen_worlds W (sh_pools sh)) bs"
    using assms(2) by (auto simp: shared_inv_def system_inv_def)
  have "w_evm ` seen_worlds W (sh_pools sh) \<subseteq> {e}" using assms(4) by (auto simp: seen_worlds_def)
  from crafted_layout [OF crafted this] obtain w config db it gs rest and bs0 :: "('cs, 'bst) build_state" where
    w: "w \<in> seen_worlds W (sh_pools sh)" and bc: "bs_build_config bs =
      block_env_with_coinbase (pc_builder_address (gc_payload_config c)) config"
    and opened: "build_opened e (w_api w) (w_best_txs w) (gc_payload_config c) config bs0 db it"
      "simulated_at e bs0 db (map fst gs)"
    and layout: "block_layout e (w_best_txs w) it (gc_payload_config c)
      (pool_rbs (w_decode_enveloped w) (w_into_ecrecovered w) (w_locked w) (w_bundle_pool w) config)
      (ed_executed_txs (bs_exec_details bs)) gs rest" by metis
  have W: "w \<in> W" "w_decode_enveloped w = dec" "w_into_ecrecovered w = rec"
    using w assms(4) by (auto simp: seen_worlds_def)
  have "pool_from (sh_accepted sh) (w_bundle_pool w)"
    using inv w by (auto simp: shared_inv_def seen_worlds_def list_all_iff)
  note asked = pool_rbs_requested [OF this]
  have pc: "bs_payload_config bs = gc_payload_config c" using crafted_configs [OF crafted] by blast
  obtain payment where pay: "pays_proposer e (gc_payload_config c) (bs_build_config bs) bid payment"
    and body: "blk_body (pl_block (bd_payload build)) = ed_executed_txs (bs_exec_details bs) @ [payment]"
    and ts: "hd_timestamp (blk_header (pl_block (bd_payload build))) = pa_timestamp (bc_attributes config)"
    using finalized_body [OF assms(3)] by (metis pc bc coinbase_fields(2))
  have n: "bc_block_number (bs_build_config bs) = bc_block_number config"
    by (simp add: bc block_env_with_coinbase_def)
  have in_pool: "sbn_bundle (fst g) \<in> set (pool_rbs dec rec (w_locked w) (w_bundle_pool w) config)"
    and ok: "group_ok e (gc_payload_config c) g" "\<not> bundle_contains_ofac (fst g)" if "g \<in> set gs" for g
    using layout that unfolding block_layout_def list_all_iff W by blast+
  have "list_all (\<lambda>g. group_ok e (gc_payload_config c) g \<and> \<not> bundle_contains_ofac (fst g) \<and>
      requested dec rec (sh_accepted sh) (bc_block_number config) (pa_timestamp (bc_attributes config))
        (sbn_bundle (fst g))) gs"
    unfolding list_all_iff using ok asked [OF in_pool] by simp
  then have "list_all (\<lambda>g. group_ok e (gc_payload_config c) g \<and> \<not> bundle_contains_ofac (fst g) \<and>
      requested dec rec (sh_accepted sh) (bc_block_number (bs_build_config bs))
        (hd_timestamp (blk_header (pl_block (bd_payload build)))) (sbn_bundle (fst g))) gs"
    by (simp only: n ts)
  moreover have "blk_body (pl_block (bd_payload build)) = groups_txs gs @ rest @ [payment]" "by_value (map fst gs)"
    "apart gs" "mempool_part (w_best_txs w) it (groups_hashes gs) rest"
    using layout body by (simp_all add: block_layout_def)
  ultimately show ?thesis using W(1) bc opened pay by blast
qed

section \<open>A run with a bundle\<close>

text \<open>
  A bundle of one transaction is sent through the endpoint; the build then commits it and executes
  the transaction of the mempool.
\<close>

definition sent_request :: eth_send_bundle where
  "sent_request =
     \<lparr> esb_txs = [[1]], esb_block_number = 7, esb_min_timestamp = None, esb_max_timestamp = None,
       esb_reverting_tx_hashes = [], esb_replacement_uuid = None, esb_refund_percent = None,
       esb_refund_index = None, esb_refund_recipient = None \<rparr>"

definition sent_call :: rpc_call where
  "sent_call = \<lparr> call_permit = True, call_locked = True, call_request = SendBundle sent_request \<rparr>"

definition sent_pool :: bundle_pool where
  "sent_pool = fst (EthSendBundle_send sample_rpc_library True sent_request BundlePool_new)"

definition sent_best_txs :: "recovered_tx list best_txs" where
  "sent_best_txs = sample_best_txs\<lparr> bt_open := \<lambda>_ _. [sample_tx 2] \<rparr>"

definition sent_world :: "(unit, unit, unit, unit, unit, unit, recovered_tx list, bytes) build_world" where
  "sent_world =
     \<lparr> w_evm = sample_evm, w_api = sample_api, w_best_txs = sent_best_txs,
       w_decode_enveloped = Some, w_into_ecrecovered = (\<lambda>tx. Some (sample_tx (word_of_nat (length tx)))),
       w_locked = True, w_bundle_pool = sent_pool, w_build_id = 1, w_instant = 0 \<rparr>"

abbreviation sent_rb :: recovered_bundle where
  "sent_rb \<equiv> RecoveredBundle_new (Bundle_from sent_request 32) [sample_tx 1]"

lemma sent_answer: "snd (EthSendBundle_send sample_rpc_library True sent_request BundlePool_new) = Ok 32"
  by (simp add: EthSendBundle_send_eq recover_transactions_def recover_raw_transaction_def
      sample_rpc_library_def sent_request_def create_hash_def)

lemma sent_handled:
  "rpc_handle sample_rpc_library sent_call \<lparr> bae_pool = (), bae_bundles_pool = BundlePool_new \<rparr> =
     (\<lparr> bae_pool = (), bae_bundles_pool = sent_pool \<rparr>, BundleHashReply (Ok 32))"
  using sent_answer by (simp add: rpc_handle_def sent_call_def sent_pool_def case_prod_unfold)

lemma sent_bundles: "pool_bundles True sent_pool 7 150 = Some [Bundle_from sent_request 32]"
proof -
  have "bp_inner sent_pool = fst (inner_add_bundle BundlePoolInner_new (Bundle_from sent_request 32))"
    using EthSendBundle_send_eq [of sample_rpc_library True sent_request BundlePool_new] sent_answer
    by (auto simp: sent_pool_def BundlePool_new_def split: result.splits)
  then show ?thesis
    by (simp add: pool_bundles_def inner_bundles_def add_block_index add_bundles replaced_def
        BundlePoolInner_new_def Index_insert_def get_by_block_and_ts_def is_within_timestamp_def
        is_within_block_number_def is_none_or_def Bundle_from_def sent_request_def List.map_filter_simps)
qed

lemma sent_recovered:
  "recover_bundles Some (\<lambda>tx. Some (sample_tx (word_of_nat (length tx)))) [Bundle_from sent_request 32] = [sent_rb]"
proof -
  have "bundle_txs (Bundle_from sent_request 32) = [[1]]" by (simp add: Bundle_from_def sent_request_def)
  then show ?thesis by (simp add: recover_bundles_Cons recover_bundles_Nil)
qed

abbreviation sent_sim :: sim_tx where
  "sent_sim \<equiv> \<lparr> st_tx = sample_tx 1, st_outcome = sample_out \<rparr>"

lemma sent_simulated:
  "simulate_bundle sample_evm (sample_committed []) () sent_rb = Ok (SimulatedBundle_new sent_rb [sent_sim] 10)"
proof -
  have rb: "rb_txs sent_rb = [sample_tx 1]" "rb_refund sent_rb = None"
    by (simp_all add: RecoveredBundle_new_def Bundle_from_def sent_request_def BundleRefund_new_def)
  have fee: "bc_basefee (bs_build_config sample_state) = 10"
    by (simp add: sample_state_def BuildState_new_def sample_config_def block_env_with_coinbase_def)
  have out: "tx_outcome sample_evm a 10 b (sample_tx h) \<lparr> er_success = True, er_gas_used = 21000, er_logs = [] \<rparr> [] =
      Some sample_out" for a b h
    by (simp add: tx_outcome_def sample_evm_simps u256_from_u128_def u256_from_u64_def sample_out_def
        balance_of_def saturating_sub_def sample_tx_def)
  have clean: "outcome_contains_ofac sample_out = None"
    by (simp add: outcome_contains_ofac_def sample_out_def)
  have refund: "bo_refund (sbn_outcome (SimulatedBundle_new sent_rb ss 10)) = 0" for ss
    by (simp add: SimulatedBundle_new_def calculate_refund_def rb)
  show ?thesis
    by (simp add: simulate_bundle_def sample_evm_simps rb sample_config_simps out fee clean
        simulate_refund_tx_def refund Let_def)
qed

lemma sent_executes:
  "execute_bundle sample_evm (sample_committed []) () sent_rb = (sample_committed [1], (), Ok ())"
proof -
  let ?sb = "SimulatedBundle_new sent_rb [sent_sim] 10"
  have "bo_reverted (sbn_outcome ?sb) = None" "bo_gas_used (sbn_outcome ?sb) = 21000"
      "bo_blob_gas_used (sbn_outcome ?sb) = 0"
    by (simp_all add: SimulatedBundle_new_def from_txs_def bundle_outcome_zero_def sample_out_def)
  then have "verify_simulated_bundle sample_evm (sample_committed []) ?sb = Ok ()"
    by (simp add: verify_simulated_bundle_def verify_capacity_def sample_config_simps sample_totals
        MAX_BUILDER_TRANSFER_GAS_LIMIT_def sample_evm_simps)
  moreover have "commit sample_evm (sample_committed []) () (sbn_simulated_txs ?sb) = (sample_committed [1], ())"
    by (simp add: SimulatedBundle_new_def commit_def sample_committed_def)
  ultimately show ?thesis by (simp add: execute_bundle_def sent_simulated)
qed

lemma sent_selected:
  "decode_and_filter_bundles sample_evm Some (\<lambda>tx. Some (sample_tx (word_of_nat (length tx)))) True sent_pool
     (sample_committed []) () = Some [SimulatedBundle_new sent_rb [sent_sim] 10]"
proof -
  have "bc_block_number (bs_build_config sample_state) = 7"
      "pa_timestamp (bc_attributes (bs_build_config sample_state)) = 150"
    by (simp_all add: sample_state_def BuildState_new_def sample_config_def block_env_with_coinbase_def)
  then show ?thesis
    by (simp add: decode_and_filter_bundles_def sample_config_simps sent_bundles sent_recovered sent_simulated
        sort_by_max_value_def sort_desc_def)
qed

lemma sent_committed:
  "commit_selected_bundles sample_evm [SimulatedBundle_new sent_rb [sent_sim] 10] (sample_committed []) () =
     (sample_committed [1], (), Ok {1})"
proof -
  have "rb_txs sent_rb = [sample_tx 1]" by (simp add: RecoveredBundle_new_def)
  moreover have "sbn_bundle (SimulatedBundle_new sent_rb [sent_sim] 10) = sent_rb"
    by (simp add: SimulatedBundle_new_def)
  moreover have "tx_hash (sample_tx 1) = 1" by (simp add: sample_tx_def)
  ultimately show ?thesis
    by (simp add: commit_selected_bundles_def bundle_contains_ofac_def contains_committed_transaction_def
        sent_executes rb_tx_hashes_def sample_not_ofac)
qed

lemma sent_mempool:
  "execute_mempool_txs sample_evm sent_best_txs (\<lambda>_. False) {1} [sample_tx 2] (sample_committed [1]) () =
   Some (sample_committed [1, 2], (), Ok ())"
proof -
  have h: "tx_hash (sample_tx h) = h" for h by (simp add: sample_tx_def)
  note step = execute_mempool_loop.simps [of sample_evm sent_best_txs]
  have nxt: "bt_next sent_best_txs = (\<lambda>it. case it of [] \<Rightarrow> None | tx # txs \<Rightarrow> Some (tx, txs))"
    by (simp add: sent_best_txs_def sample_best_txs_def)
  show ?thesis
    unfolding execute_mempool_txs_def
    apply (subst step, simp add: nxt sample_not_ofac is_some_and_def sample_executes h)
    apply (subst step, simp add: nxt)
    done
qed

lemma sent_offered: "offered sent_best_txs it txs \<Longrightarrow> set txs \<subseteq> set it"
  by (induction rule: offered.induct)
    (auto simp: sent_best_txs_def sample_best_txs_def split: list.splits)

lemma sent_makes: "makes_sample sent_world"
proof -
  have st: "BuildState_new 1 sample_config sample_payload_config 0 = sample_committed []"
    by (simp add: sample_state_def sample_committed_def)
  have it: "open_best_txs sent_best_txs benv f = [sample_tx 2]" for benv f
    by (simp add: open_best_txs_def sent_best_txs_def)
  have api: "api_state_by_block_hash sample_api h = Ok ()" "api_take_bundle sample_api db = ()"
      "pre_block_beacon_root_contract_call sample_evm bs () = Ok ()"
      "u256_to_u64 (be_basefee (bc_initialized_block_env sample_config)) = Some 10" for h db bs
    by (simp_all add: sample_api_def pre_block_beacon_root_contract_call_def sample_evm_def
        sample_config_def u256_to_u64_def)
  have v: "block_value sample_built = 84000"
    using sample_totals(4) [of "[1, 2]"]
    by (simp add: block_value_def with_bundle_state_def set_bundle_state_def sample_out_def)
  show ?thesis
    by (simp add: makes_sample_def strategy_try_build_def sent_world_def stream_args_def sample_job_def
        BuildArguments_new_def Cancelled_default_def is_cancelled_def task_answer_def
        bundles_try_build_def api st sent_selected sent_committed it sent_mempool finish_build_def v
        best_value_def Let_def)
qed

text \<open>Steps of the services are steps of the shared system as long as their worlds have been seen.\<close>

lemma shared_reach_steps:
  assumes "(system_step c E W)\<^sup>*\<^sup>* sy sy'" and "shared_reach lib c E W policy clock sh" and "sh_system sh = sy"
    and "w_bundle_pool ` W \<subseteq> set (sh_pools sh)"
  shows "\<exists>sh'. shared_reach lib c E W policy clock sh' \<and> sh_system sh' = sy' \<and>
           sh_accepted sh' = sh_accepted sh \<and> w_bundle_pool ` W \<subseteq> set (sh_pools sh')"
  using assms
proof (induction rule: rtranclp_induct)
  case base
  then show ?case by blast
next
  case (step sy1 sy2)
  then obtain sh1 where sh1: "shared_reach lib c E W policy clock sh1" "sh_system sh1 = sy1"
    "sh_accepted sh1 = sh_accepted sh" "w_bundle_pool ` W \<subseteq> set (sh_pools sh1)" by blast
  have "seen_worlds W (sh_pools sh1) = W" using sh1(4) by (auto simp: seen_worlds_def)
  with shared_poll [of c E W sh1 sy2 lib] step.hyps(2) sh1(2)
  have "shared_step lib c E W sh1 (sh1\<lparr> sh_system := sy2, sh_pools := shared_pool sy2 # sh_pools sh1 \<rparr>)" by simp
  from shared_next [OF sh1(1) this] sh1(3,4) show ?case
    by (intro exI [of _ "sh1\<lparr> sh_system := sy2, sh_pools := shared_pool sy2 # sh_pools sh1 \<rparr>"]) auto
qed

lemma sent_run:
  "\<exists>sh :: (unit, unit, nat) shared_system.
     shared_reach sample_rpc_library sample_generator {sample_order_env} {sent_world} DevnetPolicy sample_clock sh \<and>
     (sample_built, 84000) \<in> set (sy_tasks (sh_system sh)) \<and> sh_accepted sh = [(sent_request, 32)] \<and>
     sent_pool \<in> set (sh_pools sh)"
proof -
  let ?reach = "shared_reach sample_rpc_library sample_generator {sample_order_env} {sent_world} DevnetPolicy sample_clock"
  define s0 :: "(unit, unit, nat) shared_system" where "s0 = shared_new DevnetPolicy sample_clock"
  define s1 where "s1 = s0\<lparr> sh_system := set_shared_pool sent_pool (sh_system s0),
      sh_pools := [sent_pool, BundlePool_new], sh_accepted := [(sent_request, 32)] \<rparr>"
  have "shared_step sample_rpc_library sample_generator {sample_order_env} {sent_world} s0 s1"
    using shared_rpc [of sample_rpc_library sent_call "()" s0
        "\<lparr> bae_pool = (), bae_bundles_pool = sent_pool \<rparr>" "BundleHashReply (Ok 32)"] sent_handled
    by (simp add: s0_def s1_def shared_new_def accepted_by_def sent_call_def)
  then have reach: "?reach s1" using shared_next [OF shared_start] by (simp add: s0_def)
  have "sh_system s1 = (system_new DevnetPolicy sample_clock)\<lparr> sy_builder := BlockBuilderService_new sent_pool \<rparr>"
    by (simp add: s1_def s0_def shared_new_def set_shared_pool_def system_new_def BlockBuilderService_new_def)
  from sample_steps [OF sent_makes this] obtain sy' where
    sy': "(system_step sample_generator {sample_order_env} {sent_world})\<^sup>*\<^sup>* (sh_system s1) sy'"
      "(sample_built, 84000) \<in> set (sy_tasks sy')" by blast
  have "w_bundle_pool ` {sent_world} \<subseteq> set (sh_pools s1)" by (simp add: s1_def sent_world_def)
  from shared_reach_steps [OF sy'(1) reach refl this] sy'(2) show ?thesis by (auto simp: s1_def sent_world_def)
qed

theorem shared_pools_wellformed_witness:
  "list_all (\<lambda>b. b = Bundle_from sent_request 32) (unwrap_or (pool_bundles True sent_pool 7 150) [])"
proof -
  obtain sh :: "(unit, unit, nat) shared_system" where sh:
    "shared_reach sample_rpc_library sample_generator {sample_order_env} {sent_world} DevnetPolicy sample_clock sh"
    "sh_accepted sh = [(sent_request, 32)]" "sent_pool \<in> set (sh_pools sh)"
    using sent_run by blast
  from shared_pools_wellformed [OF sh(1,3), of True 7 150] show ?thesis by (auto simp: sh(2) list_all_iff)
qed

theorem submitted_blocks_requested_witness:
  "\<exists>m' build gs rest payment. finalize_and_submit_build sample_evm sample_api accepting sample_built 84000
       bidder_metrics_default = (m', Some build, TaskDone) \<and>
     blk_body (pl_block (bd_payload build)) = groups_txs gs @ rest @ [payment] \<and>
     gs \<noteq> [] \<and> list_all (\<lambda>g. sbn_bundle (fst g) = sent_rb) gs"
proof -
  obtain sh :: "(unit, unit, nat) shared_system" where sh:
    "shared_reach sample_rpc_library sample_generator {sample_order_env} {sent_world} DevnetPolicy sample_clock sh"
    "(sample_built, 84000) \<in> set (sy_tasks (sh_system sh))" "sh_accepted sh = [(sent_request, 32)]"
    using sent_run by blast
  obtain m' build where fin: "finalize_and_submit_build sample_evm sample_api accepting sample_built 84000
      bidder_metrics_default = (m', Some build, TaskDone)"
    using sample_finalized by blast
  have "\<forall>w \<in> {sent_world}. w_evm w = sample_evm \<and> w_decode_enveloped w = Some \<and>
      w_into_ecrecovered w = (\<lambda>tx. Some (sample_tx (word_of_nat (length tx))))"
    by (simp add: sent_world_def)
  from submitted_blocks_requested [OF sh(1,2) fin this] obtain config db it gs rest payment
    and bs0 :: "(unit, unit) build_state" where
    opened: "build_opened sample_evm (w_api sent_world) (w_best_txs sent_world)
      (gc_payload_config sample_generator) config bs0 db it"
    and body: "blk_body (pl_block (bd_payload build)) = groups_txs gs @ rest @ [payment]"
    and req: "list_all (\<lambda>g. requested Some (\<lambda>tx. Some (sample_tx (word_of_nat (length tx)))) (sh_accepted sh)
      (bc_block_number (bs_build_config sample_built))
      (hd_timestamp (blk_header (pl_block (bd_payload build)))) (sbn_bundle (fst g))) gs"
    and rest: "mempool_part (w_best_txs sent_world) it (groups_hashes gs) rest"
    unfolding list_all_iff by blast
  have rbs: "list_all (\<lambda>g. sbn_bundle (fst g) = sent_rb) gs"
    using req by (auto simp: list_all_iff requested_def sh(3) sent_request_def)
  have it: "it = [sample_tx 2]"
    using opened by (auto simp: build_opened_def sent_world_def open_best_txs_def sent_best_txs_def)
  then have "set rest \<subseteq> {sample_tx 2}"
    using rest sent_offered [of it rest] by (simp add: mempool_part_def sent_world_def)
  moreover obtain p where "blk_body (pl_block (bd_payload build)) = [sample_tx 1, sample_tx 2, p]"
    by (rule finalized_body [OF fin]) (simp add: sample_totals(3))
  moreover have "sample_tx 1 \<noteq> sample_tx 2" by (simp add: sample_tx_def)
  ultimately have "gs \<noteq> []" using body by (cases rest) auto
  with fin body rbs show ?thesis by blast
qed

end
