(* ===== verification/Node_Config.thy ===== *)
theory Node_Config
  imports Builder_System Rpc Bls_Text
begin

text \<open>
  The command line of the node (\<open>crates/cli-args\<close>), what \<open>bin/builder/src/main.rs\<close> starts with it,
  and the network of private transactions (\<open>crates/tx-network\<close>).

  The record \<open>node_library\<close> collects what start-up calls outside the repository: the number of blocks
  the market share stands for (a floating point product), the public key of an ECDSA key,
  \<open>keccak256\<close>, the decoding of hexadecimal text and the chain of a chain specification.  Parsing the
  arguments into the record is clap's; spawning a service is represented by the service with its
  configuration.
\<close>

section \<open>Arguments\<close>

record 'f bidder_config =
  bcf_offset_ms :: int
  bcf_monthly_subsidy_budget :: u64
  bcf_market_share :: 'f
  bcf_min_bid_surplus :: u64
  bcf_max_bid_surplus :: u64

record rpc_config =
  rcf_rpc_enabled :: bool
  rcf_max_requests :: nat

record 'sk secrets =
  sec_bls_secret_key :: 'sk
  sec_ecdsa_secret_key :: b256

record internal_relay_config =
  irc_internal_relay :: bool
  irc_exposed_port :: "16 word"

record ('f, 'sk) base_cli_args =
  ca_builder :: bool
  ca_tx_network_enabled :: bool
  ca_tx_network_api_key :: string
  ca_cl_base_url :: string
  ca_run_mode :: run_mode
  ca_bid :: "'f bidder_config"
  ca_rpc :: rpc_config
  ca_secrets :: "'sk secrets"
  ca_internal_relay :: internal_relay_config
  ca_extra_data :: string

record ('f, 'cs, 'chain) node_library =
  nl_target_winning_blocks :: "'f \<Rightarrow> u64"
  nl_serialize_uncompressed :: "b256 \<Rightarrow> bytes"
  nl_keccak256 :: "bytes \<Rightarrow> b256"
  nl_hex_decode :: "string \<Rightarrow> bytes option"
  nl_chain :: "'cs \<Rightarrow> 'chain"
  nl_from_named :: "named_chain \<Rightarrow> 'chain"
  nl_from_id :: "u64 \<Rightarrow> 'chain"
  nl_chain_to_str :: "'chain \<Rightarrow> string"
  nl_devnet_genesis_ts :: "(u64, clock_err) result"
  nl_default_payload_config :: "'cs payload_config"

definition parse_run_mode :: "string \<Rightarrow> (run_mode, string) result" where
  "parse_run_mode s = map_err (\<lambda>_. ''Invalid run mode: '' @ s) (run_mode_from_str s)"

definition parse_bls_secret_key ::
  "('be, 'derr) hex_library \<Rightarrow> ('pk, 'sk, 'sig, 'be) blst_library \<Rightarrow> string \<Rightarrow> ('sk, string) result"
where
  "parse_bls_secret_key hex lib s =
     map_err (\<lambda>_. ''Invalid BLS secret key: '' @ s) (SecretKey_from_str hex lib s)"

definition parse_ecdsa_secret_key :: "(string \<Rightarrow> (b256, 'e) result) \<Rightarrow> string \<Rightarrow> (b256, string) result" where
  "parse_ecdsa_secret_key from_str s = map_err (\<lambda>_. ''Invalid ECDSA secret key: '' @ s) (from_str s)"

text \<open>
  The values without any flag.  The numbers of the market share and the parser of the consensus layer's
  address are parameters; the two keys have a placeholder that goes through the parsers of the flags.
\<close>

definition DEFAULT_SECRET_KEY :: string where "DEFAULT_SECRET_KEY = ''REPLACE_ME''"

definition bidder_config_default :: "'f \<Rightarrow> 'f bidder_config" where
  "bidder_config_default one =
     \<lparr> bcf_offset_ms = 1000, bcf_monthly_subsidy_budget = 0, bcf_market_share = one,
       bcf_min_bid_surplus = 0, bcf_max_bid_surplus = 0 \<rparr>"

definition rpc_config_default :: rpc_config where
  "rpc_config_default = \<lparr> rcf_rpc_enabled = False, rcf_max_requests = 25 \<rparr>"

definition internal_relay_config_default :: internal_relay_config where
  "internal_relay_config_default = \<lparr> irc_internal_relay = False, irc_exposed_port = 8008 \<rparr>"

definition secrets_default ::
  "('be, 'derr) hex_library \<Rightarrow> ('pk, 'sk, 'sig, 'be) blst_library \<Rightarrow> (string \<Rightarrow> (b256, 'e) result) \<Rightarrow>
   ('sk secrets, string) result"
where
  "secrets_default hex lib ecdsa_from_str =
     result_bind (parse_bls_secret_key hex lib DEFAULT_SECRET_KEY) (\<lambda>bls.
       result_map (\<lambda>ecdsa. \<lparr> sec_bls_secret_key = bls, sec_ecdsa_secret_key = ecdsa \<rparr>)
         (parse_ecdsa_secret_key ecdsa_from_str DEFAULT_SECRET_KEY))"

definition base_cli_args_default ::
  "'f \<Rightarrow> (string \<Rightarrow> (string, string) result) \<Rightarrow> ('be, 'derr) hex_library \<Rightarrow> ('pk, 'sk, 'sig, 'be) blst_library \<Rightarrow>
   (string \<Rightarrow> (b256, 'e) result) \<Rightarrow> (('f, 'sk) base_cli_args, string) result"
where
  "base_cli_args_default one parse_url hex lib ecdsa_from_str =
     result_bind (parse_url ''http://127.0.0.1:3500'') (\<lambda>url.
     result_map (\<lambda>secrets.
       \<lparr> ca_builder = False, ca_tx_network_enabled = False, ca_tx_network_api_key = [], ca_cl_base_url = url,
         ca_run_mode = DevnetMode, ca_bid = bidder_config_default one, ca_rpc = rpc_config_default,
         ca_secrets = secrets, ca_internal_relay = internal_relay_config_default,
         ca_extra_data = ''6d65726b6c6520426c6f636b202862756e646c65732e6d65726b6c652e696f29'' \<rparr>)
       (secrets_default hex lib ecdsa_from_str))"

text \<open>The conditions under which the optional parts run: all of them need the builder.\<close>

definition is_builder_enabled :: "('f, 'sk) base_cli_args \<Rightarrow> bool" where
  "is_builder_enabled args = ca_builder args"

definition is_rpc_enabled :: "('f, 'sk) base_cli_args \<Rightarrow> bool" where
  "is_rpc_enabled args = (is_builder_enabled args \<and> rcf_rpc_enabled (ca_rpc args))"

definition is_internal_relay_enabled :: "('f, 'sk) base_cli_args \<Rightarrow> bool" where
  "is_internal_relay_enabled args = (is_builder_enabled args \<and> irc_internal_relay (ca_internal_relay args))"

definition is_tx_network_enabled :: "('f, 'sk) base_cli_args \<Rightarrow> bool" where
  "is_tx_network_enabled args = (is_builder_enabled args \<and> ca_tx_network_enabled args)"

definition bls_signer :: "('f, 'sk) base_cli_args \<Rightarrow> 'sk bls_signer" where
  "bls_signer args =
     (let fork_version = (if ca_run_mode args = DevnetMode then [0x20, 0x00, 0x00, 0x89] else [0, 0, 0, 0])
      in BlsSigner_new (sec_bls_secret_key (ca_secrets args)) fork_version)"

definition args_bls_public_key :: "('pk, 'sk, 'sig, 'be) blst_library \<Rightarrow> ('f, 'sk) base_cli_args \<Rightarrow> 'pk" where
  "args_bls_public_key lib args = SecretKey_public_key lib (sec_bls_secret_key (ca_secrets args))"

text \<open>The last 20 bytes of the hash of the uncompressed public key without its tag.\<close>

definition builder_address :: "('f, 'cs, 'chain) node_library \<Rightarrow> ('f, 'sk) base_cli_args \<Rightarrow> address" where
  "builder_address nl args =
     (let public_key = nl_serialize_uncompressed nl (sec_ecdsa_secret_key (ca_secrets args));
          hash = nl_keccak256 nl (drop 1 public_key)
      in from_be_slice (drop 12 (be_bytes 32 hash)))"

definition args_extra_data ::
  "('f, 'cs, 'chain) node_library \<Rightarrow> ('f, 'sk) base_cli_args \<Rightarrow> (bytes, unit) result"
where
  "args_extra_data nl args = expect (nl_hex_decode nl (ca_extra_data args))"

section \<open>\<open>main.rs\<close>\<close>

definition node_policy ::
  "('f, 'cs, 'chain) node_library \<Rightarrow> ('f, 'sk) base_cli_args \<Rightarrow> (bid_selection_policy, unit) result"
where
  "node_policy nl args =
     (if ca_run_mode args = DevnetMode then Ok DevnetPolicy
      else result_map LinearSurplusPolicy (expect
        (LinearSurplusPolicy_new (bcf_offset_ms (ca_bid args)) (bcf_monthly_subsidy_budget (ca_bid args))
           (nl_target_winning_blocks nl (bcf_market_share (ca_bid args)))
           (bcf_min_bid_surplus (ca_bid args)) (bcf_max_bid_surplus (ca_bid args)))))"

definition node_payload_config ::
  "('f, 'cs, 'chain) node_library \<Rightarrow> 'cs \<Rightarrow> ('f, 'sk) base_cli_args \<Rightarrow> ('cs payload_config, unit) result"
where
  "node_payload_config nl chain_spec args =
     result_map (\<lambda>extra_data.
       \<lparr> pc_chain_spec = chain_spec, pc_builder_address = builder_address nl args,
         pc_secret_key = sec_ecdsa_secret_key (ca_secrets args), pc_extra_data = extra_data \<rparr>)
       (args_extra_data nl args)"

definition node_clock :: "('f, 'cs, 'chain) node_library \<Rightarrow> 'cs \<Rightarrow> (network_clock, unit) result" where
  "node_clock nl chain_spec =
     (case try_from_chain (nl_from_named nl) (nl_from_id nl) (nl_chain_to_str nl) (nl_devnet_genesis_ts nl)
             (nl_chain nl chain_spec) of
        Ok clock \<Rightarrow> Ok clock
      | _ \<Rightarrow> Panic)"

datatype ('cs, 'sk, 'grpc) node_service =
    RelayTask "'grpc relay_service" bls_public_key
  | BidderTask bid_selection_policy network_clock "'sk bls_signer"
  | PayloadTask "'cs job_generator_config"
  | ValidatorScheduleTask
  | BlockBuilderTask "'cs payload_config" string
  | TxNetworkTask string
  | InternalRelayTask "16 word"

definition builder_services ::
  "('f, 'cs, 'chain) node_library \<Rightarrow> ('pk, 'sk, 'sig, 'be) blst_library \<Rightarrow> ('sig, 'resp, 'grpc) http_library \<Rightarrow>
   url_library \<Rightarrow> environment \<Rightarrow> 'cs \<Rightarrow> ('f, 'sk) base_cli_args \<Rightarrow>
   (('cs, 'sk, 'grpc) node_service list, unit) result"
where
  "builder_services nl lib http url env chain_spec args =
     result_bind (RelayService_new http url env (ca_run_mode args) (is_internal_relay_enabled args)
        (from_be_slice (PublicKey_serialize lib (args_bls_public_key lib args)))) (\<lambda>(relay, public_key).
     result_bind (node_policy nl args) (\<lambda>policy.
     result_bind (node_clock nl chain_spec) (\<lambda>clock.
     result_bind (node_payload_config nl chain_spec args) (\<lambda>pc.
       Ok [RelayTask relay public_key,
           BidderTask policy clock (bls_signer args),
           PayloadTask (gc_set_payload_config pc
             (job_generator_config_default (nl_default_payload_config nl))),
           ValidatorScheduleTask,
           BlockBuilderTask pc (ca_cl_base_url args @ ''eth/v1/events?topics=payload_attributes'')]))))"

definition on_node_started ::
  "('f, 'cs, 'chain) node_library \<Rightarrow> ('pk, 'sk, 'sig, 'be) blst_library \<Rightarrow> ('sig, 'resp, 'grpc) http_library \<Rightarrow>
   url_library \<Rightarrow> environment \<Rightarrow> 'cs \<Rightarrow> ('f, 'sk) base_cli_args \<Rightarrow>
   (('cs, 'sk, 'grpc) node_service list, unit) result"
where
  "on_node_started nl lib http url env chain_spec args =
     result_map (\<lambda>services.
         services @
         (if is_tx_network_enabled args then [TxNetworkTask (ca_tx_network_api_key args)] else []) @
         (if is_internal_relay_enabled args then [InternalRelayTask (irc_exposed_port (ca_internal_relay args))]
          else []))
       (if is_builder_enabled args then builder_services nl lib http url env chain_spec args else Ok [])"

text \<open>The permits of the server's guard, when the endpoints are added to the node's server.\<close>

definition extend_rpc_modules ::
  "('f, 'sk) base_cli_args \<Rightarrow> 'txpool \<Rightarrow> bundle_pool \<Rightarrow> ('txpool bundles_api_ext \<times> nat) option"
where
  "extend_rpc_modules args txpool bundles_pool =
     (if is_rpc_enabled args
      then Some (\<lparr> bae_pool = txpool, bae_bundles_pool = bundles_pool \<rparr>, rcf_max_requests (ca_rpc args))
      else None)"

section \<open>The node's own payload builder\<close>

text \<open>
  \<open>EmptyBuilder\<close> of \<open>cli_ext.rs\<close>, which serves the engine API of the node itself.  The settings record
  of reth with its setters, reth's service over a generator and the client's stream are the library's.
\<close>

record ('jc, 'conf, 'bld) reth_settings =
  rs_default :: 'jc
  rs_interval :: "'conf \<Rightarrow> 'jc \<Rightarrow> 'jc"
  rs_deadline :: "'conf \<Rightarrow> 'jc \<Rightarrow> 'jc"
  rs_max_payload_tasks :: "'conf \<Rightarrow> 'jc \<Rightarrow> 'jc"
  rs_extradata :: "'conf \<Rightarrow> 'jc \<Rightarrow> 'jc"
  rs_max_gas_limit :: "'conf \<Rightarrow> 'jc \<Rightarrow> 'jc"
  rs_builder_default :: 'bld

record ('blk, 'pool, 'tasks, 'jc, 'cs, 'bld) empty_generator =
  eg_client :: "'blk chain_client"
  eg_pool :: 'pool
  eg_executor :: 'tasks
  eg_config :: 'jc
  eg_chain_spec :: 'cs
  eg_builder :: 'bld

definition with_builder ::
  "'blk chain_client \<Rightarrow> 'pool \<Rightarrow> 'tasks \<Rightarrow> 'jc \<Rightarrow> 'cs \<Rightarrow> 'bld \<Rightarrow> ('blk, 'pool, 'tasks, 'jc, 'cs, 'bld) empty_generator"
where
  "with_builder client pool executor config chain_spec builder =
     \<lparr> eg_client = client, eg_pool = pool, eg_executor = executor, eg_config = config,
       eg_chain_spec = chain_spec, eg_builder = builder \<rparr>"

definition generator_new_payload_job ::
  "('blk, 'pool, 'tasks, 'jc, 'cs, 'bld) empty_generator \<Rightarrow>
   (sealed_block \<Rightarrow> bytes \<Rightarrow> 'attr \<Rightarrow> 'cs \<Rightarrow> 'config) \<Rightarrow> ('attr \<Rightarrow> b256) \<Rightarrow> 'attr \<Rightarrow>
   ('config, payload_builder_error) result"
where
  "generator_new_payload_job g payload_config_new parent_of attributes =
     empty_new_payload_job (eg_client g) payload_config_new parent_of (eg_chain_spec g) attributes"

definition spawn_payload_service ::
  "('jc, 'conf, 'bld) reth_settings \<Rightarrow>
   (('blk, 'pool, 'tasks, 'jc, 'cs, 'bld) empty_generator \<Rightarrow> 'stream \<Rightarrow> 'service \<times> 'handle) \<Rightarrow>
   'cs \<Rightarrow> 'conf \<Rightarrow> 'blk chain_client \<Rightarrow> 'stream \<Rightarrow> 'tasks \<Rightarrow> 'pool \<Rightarrow> 'service list \<times> 'handle"
where
  "spawn_payload_service rs service_new chain_spec conf client canonical_state executor pool =
     (let config = rs_max_gas_limit rs conf (rs_extradata rs conf (rs_max_payload_tasks rs conf
            (rs_deadline rs conf (rs_interval rs conf (rs_default rs)))));
          generator = with_builder client pool executor config chain_spec (rs_builder_default rs);
          (payload_service, payload_handle) = service_new generator canonical_state
      in ([payload_service], payload_handle))"

text \<open>
  The settings the node was started with reach the generator and stop there: its jobs are those of
  the parent block and the attributes, with an empty extra data field, under any settings.
\<close>

lemma empty_jobs_ignore_settings:
  assumes "eg_client g = eg_client g'" and "eg_chain_spec g = eg_chain_spec g'"
  shows "generator_new_payload_job g new parent_of attributes =
           generator_new_payload_job g' new parent_of attributes"
  using assms by (simp add: generator_new_payload_job_def)

section \<open>\<open>tx-network\<close>\<close>

text \<open>
  The stream ends at its end or at its first error, which is \<open>None\<close>; \<open>rlp\<close> is the encoding of a
  received transaction.
\<close>

definition PooledTx_into ::
  "('pooled, 'recovered, 'ptx, 'txpool, 'perr) rpc_library \<Rightarrow> ('t \<Rightarrow> bytes) \<Rightarrow> 't \<Rightarrow> ('ptx, 'perr eth_api_error) result"
where
  "PooledTx_into lib rlp tx = result_map (rl_from_recovered lib) (recover_raw_transaction lib (rlp tx))"

fun tx_network_loop ::
  "('pooled, 'recovered, 'ptx, 'txpool, 'perr) rpc_library \<Rightarrow> ('t \<Rightarrow> bytes) \<Rightarrow> 't option list \<Rightarrow> 'txpool \<Rightarrow> 'txpool"
where
  "tx_network_loop lib rlp [] pool = pool"
| "tx_network_loop lib rlp (None # items) pool = pool"
| "tx_network_loop lib rlp (Some tx # items) pool =
     (case PooledTx_into lib rlp tx of
        Ok pooled_tx \<Rightarrow> tx_network_loop lib rlp items (fst (rl_add_private lib pool pooled_tx))
      | _ \<Rightarrow> tx_network_loop lib rlp items pool)"

definition tx_network_run ::
  "('pooled, 'recovered, 'ptx, 'txpool, 'perr) rpc_library \<Rightarrow> ('t \<Rightarrow> bytes) \<Rightarrow> 't option list option \<Rightarrow> 'txpool \<Rightarrow>
   'txpool \<times> (unit, 'perr eth_api_error) result"
where
  "tx_network_run lib rlp connection pool =
     (case connection of
        None \<Rightarrow> (pool, Ok ())
      | Some items \<Rightarrow> (tx_network_loop lib rlp items pool, Ok ()))"

section \<open>Lemmas\<close>

lemma tx_network_loop_fold:
  "tx_network_loop lib rlp items pool =
     fold (\<lambda>ptx p. fst (rl_add_private lib p ptx))
       (List.map_filter (\<lambda>tx. case PooledTx_into lib rlp tx of Ok ptx \<Rightarrow> Some ptx | _ \<Rightarrow> None)
          (map the (takeWhile (\<lambda>i. i \<noteq> None) items))) pool"
  by (induction items arbitrary: pool rule: induct_list012)
    (auto simp: List.map_filter_def split: option.splits result.splits)

text \<open>The placeholder is no key: it has no \<open>0x\<close> prefix, so no default arguments exist.\<close>

lemma no_default_keys:
  assumes "hx_decode hex DEFAULT_SECRET_KEY = Err e" and "parse_url ''http://127.0.0.1:3500'' = Ok url"
  shows "base_cli_args_default one parse_url hex lib ecdsa_from_str =
           Err (''Invalid BLS secret key: '' @ DEFAULT_SECRET_KEY)"
  using assms
  by (simp add: base_cli_args_default_def secrets_default_def parse_bls_secret_key_def
      SecretKey_from_str_def impl_from_str_def)

text \<open>The key a node is given on its command line is the one it was displayed from.\<close>

lemma parse_displayed_key:
  assumes "encodes_keys lib" and "\<And>bs. hx_decode hex (hx_encode hex bs) = Ok bs"
  shows "parse_bls_secret_key hex lib (SecretKey_to_string hex lib sk) = Ok sk"
proof -
  have "SecretKey_from_str hex lib (SecretKey_to_string hex lib sk) = Ok sk"
    unfolding SecretKey_from_str_def SecretKey_to_string_def
    by (rule from_str_display, rule assms(2), rule secret_key_deserialize [OF assms(1)])
  then show ?thesis by (simp add: parse_bls_secret_key_def)
qed

lemma relay_pool_any_mode: "RelayService_new http url env m = RelayService_new http url env m'"
  by (intro ext) (simp add: RelayService_new_def RelayPool_new_def)

lemma builder_services_Ok:
  assumes "builder_services nl lib http url env chain_spec args = Ok services"
  obtains relay policy clock pc where
    "node_payload_config nl chain_spec args = Ok pc" and "node_policy nl args = Ok policy" and
    "services =
       [RelayTask relay (from_be_slice (PublicKey_serialize lib (args_bls_public_key lib args))),
        BidderTask policy clock (bls_signer args),
        PayloadTask (gc_set_payload_config pc (job_generator_config_default (nl_default_payload_config nl))),
        ValidatorScheduleTask,
        BlockBuilderTask pc (ca_cl_base_url args @ ''eth/v1/events?topics=payload_attributes'')]"
  using assms by (auto simp: builder_services_def RelayService_new_def result_bind_Ok_iff result_map_Ok_iff)

lemma on_node_started_Ok:
  assumes "on_node_started nl lib http url env chain_spec args = Ok services"
    and "BidderTask policy clock signer \<in> set services"
  obtains started extra where "builder_services nl lib http url env chain_spec args = Ok started"
    and "services = started @ extra"
    and "set extra \<subseteq> {TxNetworkTask (ca_tx_network_api_key args),
           InternalRelayTask (irc_exposed_port (ca_internal_relay args))}"
  using assms by (auto simp: on_node_started_def result_map_Ok_iff split: if_splits)

section \<open>Properties\<close>

text \<open>
  C8: The services of a node share one identity. Whenever start-up succeeds with a bidder, the jobs
  and the block builder work with the same configuration, which carries the address and key of the
  arguments; and the top bid that the relay service reports to the bidder never carries the key the
  bidder signs its own bids with, so the node never bids against itself.
\<close>

theorem node_identity:
  fixes http :: "('sig, 'resp, 'grpc) http_library"
  assumes "on_node_started nl lib http url env chain_spec args = Ok services"
    and "RelayTask relay key \<in> set services" and "BidderTask policy clock signer \<in> set services"
    and "PayloadTask c \<in> set services"
  shows "pc_builder_address (gc_payload_config c) = builder_address nl args \<and>
         pc_secret_key (gc_payload_config c) = sec_ecdsa_secret_key (ca_secrets args) \<and>
         (\<exists>events. BlockBuilderTask (gc_payload_config c) events \<in> set services) \<and>
         (\<forall>(he :: ('sig, 'resp, 'grpc) handle_env) n t build. handle_get_top_bid he relay key n = Ok (Some t) \<longrightarrow>
            bt_builder_pubkey t \<noteq> bid_builder_pubkey (sb_message (signed_bid_of lib th envelope_of signer build)))"
proof -
  obtain started extra where started: "builder_services nl lib http url env chain_spec args = Ok started"
      "services = started @ extra" "set extra \<subseteq> {TxNetworkTask (ca_tx_network_api_key args),
           InternalRelayTask (irc_exposed_port (ca_internal_relay args))}"
    using on_node_started_Ok [OF assms(1,3)] by metis
  obtain relay' policy' clock' pc where pc: "node_payload_config nl chain_spec args = Ok pc"
    and list: "started =
       [RelayTask relay' (from_be_slice (PublicKey_serialize lib (args_bls_public_key lib args))),
        BidderTask policy' clock' (bls_signer args),
        PayloadTask (gc_set_payload_config pc (job_generator_config_default (nl_default_payload_config nl))),
        ValidatorScheduleTask,
        BlockBuilderTask pc (ca_cl_base_url args @ ''eth/v1/events?topics=payload_attributes'')]"
    using builder_services_Ok [OF started(1)] by metis
  have key: "key = from_be_slice (PublicKey_serialize lib (args_bls_public_key lib args))"
    and signer: "signer = bls_signer args" and c: "gc_payload_config c = pc"
    using assms(2-4) started(3) by (auto simp: started(2) list gc_set_payload_config_def)
  have "BlockBuilderTask pc (ca_cl_base_url args @ ''eth/v1/events?topics=payload_attributes'') \<in> set services"
    by (simp add: started(2) list)
  moreover have "pc_builder_address pc = builder_address nl args \<and>
      pc_secret_key pc = sec_ecdsa_secret_key (ca_secrets args)"
    using pc by (auto simp: node_payload_config_def result_map_Ok_iff)
  moreover have "bt_builder_pubkey t \<noteq> bid_builder_pubkey (sb_message (signed_bid_of lib th envelope_of signer build))"
    if "handle_get_top_bid he relay key n = Ok (Some t)" for he :: "('sig, 'resp, 'grpc) handle_env" and n t build
  proof -
    have "bt_builder_pubkey t \<noteq> key"
      using max_by_key_mem [OF handle_get_top_bid_Ok [OF that, symmetric]] by simp
    moreover have "bid_builder_pubkey (sb_message (signed_bid_of lib th envelope_of signer build)) = key"
      by (simp add: signed_bid_of_def SignedBid_new_def Bid_new_def key signer bls_signer_def
          BlsSigner_new_def BlsSigner_public_key_def args_bls_public_key_def Let_def)
    ultimately show ?thesis by simp
  qed
  ultimately show ?thesis unfolding c by blast
qed

text \<open>
  C38: The run modes other than the devnet are one mode. A node started as plain reth or as a
  simulation starts exactly what a live node starts, the bidder and the relay service included; and
  a misspelt mode is not rejected but starts a devnet node, whose bidder offers the whole value of
  its best block at any time.
\<close>

theorem run_modes_collapse:
  assumes "ca_run_mode args \<noteq> DevnetMode" and "m \<noteq> DevnetMode"
    and "s \<notin> {''reth'', ''simulate'', ''live''}"
  shows "on_node_started nl lib http url env chain_spec (args\<lparr> ca_run_mode := m \<rparr>) =
           on_node_started nl lib http url env chain_spec args \<and>
         parse_run_mode s = Ok DevnetMode \<and>
         (\<exists>policy. node_policy nl (args\<lparr> ca_run_mode := DevnetMode \<rparr>) = Ok policy \<and>
            compute_bid policy info = Ok (Some (abi_best_block_value info)))"
proof -
  let ?args = "args\<lparr> ca_run_mode := m \<rparr>"
  have same: "is_builder_enabled ?args = is_builder_enabled args"
    "is_internal_relay_enabled ?args = is_internal_relay_enabled args"
    "is_tx_network_enabled ?args = is_tx_network_enabled args"
    "args_bls_public_key lib ?args = args_bls_public_key lib args"
    "node_payload_config nl chain_spec ?args = node_payload_config nl chain_spec args"
    by (simp_all add: is_builder_enabled_def is_internal_relay_enabled_def is_tx_network_enabled_def
        args_bls_public_key_def node_payload_config_def args_extra_data_def builder_address_def)
  have "node_policy nl ?args = node_policy nl args" "bls_signer ?args = bls_signer args"
    using assms(1,2) by (simp_all add: node_policy_def bls_signer_def)
  moreover have "RelayService_new http url env m = RelayService_new http url env (ca_run_mode args)"
    by (rule relay_pool_any_mode)
  ultimately have "builder_services nl lib http url env chain_spec ?args =
      builder_services nl lib http url env chain_spec args"
    by (simp add: builder_services_def same)
  then have "on_node_started nl lib http url env chain_spec ?args =
      on_node_started nl lib http url env chain_spec args"
    by (simp add: on_node_started_def same)
  then show ?thesis
    using assms(3)
    by (simp add: parse_run_mode_def run_mode_from_str_def node_policy_def compute_bid_def
        devnet_compute_bid_def)
qed

section \<open>A sample node\<close>

definition sample_node :: "run_mode \<Rightarrow> (unit, unit) base_cli_args" where
  "sample_node mode =
     \<lparr> ca_builder = True, ca_tx_network_enabled = False, ca_tx_network_api_key = '''',
       ca_cl_base_url = ''http://127.0.0.1:3500/'', ca_run_mode = mode,
       ca_bid = \<lparr> bcf_offset_ms = 1000, bcf_monthly_subsidy_budget = 0, bcf_market_share = (),
         bcf_min_bid_surplus = 0, bcf_max_bid_surplus = 0 \<rparr>,
       ca_rpc = \<lparr> rcf_rpc_enabled = True, rcf_max_requests = 25 \<rparr>,
       ca_secrets = \<lparr> sec_bls_secret_key = (), sec_ecdsa_secret_key = 5 \<rparr>,
       ca_internal_relay = \<lparr> irc_internal_relay = True, irc_exposed_port = 8008 \<rparr>, ca_extra_data = ''6d'' \<rparr>"

definition sample_node_library :: "(unit, unit, u64) node_library" where
  "sample_node_library =
     \<lparr> nl_target_winning_blocks = (\<lambda>_. 219000), nl_serialize_uncompressed = be_bytes 65 \<circ> (ucast :: b256 \<Rightarrow> 520 word),
       nl_keccak256 = from_be_slice, nl_hex_decode = (\<lambda>_. Some [109]), nl_chain = (\<lambda>_. 1),
       nl_from_named = (\<lambda>c. case c of Mainnet \<Rightarrow> 1 | Holesky \<Rightarrow> 17000), nl_from_id = (\<lambda>i. i),
       nl_chain_to_str = (\<lambda>_. ''chain''), nl_devnet_genesis_ts = Ok 0,
       nl_default_payload_config = sample_payload_config \<rparr>"

lemma sample_node_starts:
  "\<exists>relay clock policy c services. on_node_started sample_node_library sample_blst sample_http Some (\<lambda>_. None) ()
     (sample_node LiveMode) = Ok services \<and>
     {RelayTask relay (from_be_slice (PublicKey_serialize sample_blst 1)),
      BidderTask policy clock (bls_signer (sample_node LiveMode)), PayloadTask c} \<subseteq> set services"
  by (simp add: on_node_started_def builder_services_def RelayService_new_def RelayPool_new_def
      merkle_relay_def internal_relay_def MERKLE_RELAY_def INTERNAL_def relay_at_def node_policy_def
      LinearSurplusPolicy_new_def checked_div_def u256_from_u64_def node_clock_def try_from_chain_def
      node_payload_config_def args_extra_data_def args_bls_public_key_def SecretKey_public_key_def
      is_builder_enabled_def sample_node_def sample_node_library_def sample_blst_def)

theorem node_identity_witness:
  "\<exists>relay services. on_node_started sample_node_library sample_blst sample_http Some (\<lambda>_. None) ()
     (sample_node LiveMode) = Ok services \<and>
     (\<forall>(he :: (unit, nat, unit) handle_env) n t. handle_get_top_bid he relay (from_be_slice (PublicKey_serialize sample_blst 1)) n = Ok (Some t) \<longrightarrow>
        bt_builder_pubkey t \<noteq> bid_builder_pubkey (sb_message (signed_bid_of sample_blst sample_tree_hasher
          sample_envelope (bls_signer (sample_node LiveMode)) sample_build)))"
proof -
  obtain relay clock policy c services where
    s: "on_node_started sample_node_library sample_blst sample_http Some (\<lambda>_. None) ()
     (sample_node LiveMode) = Ok services"
      "RelayTask relay (from_be_slice (PublicKey_serialize sample_blst 1)) \<in> set services"
      "BidderTask policy clock (bls_signer (sample_node LiveMode)) \<in> set services" "PayloadTask c \<in> set services"
    using sample_node_starts by auto
  from node_identity [OF s, of sample_tree_hasher sample_envelope] s(1) show ?thesis by blast
qed

theorem run_modes_collapse_witness:
  "on_node_started sample_node_library sample_blst sample_http Some (\<lambda>_. None) () (sample_node RethMode) =
     on_node_started sample_node_library sample_blst sample_http Some (\<lambda>_. None) () (sample_node LiveMode) \<and>
   parse_run_mode ''Live'' = Ok DevnetMode"
proof -
  have "(sample_node LiveMode)\<lparr> ca_run_mode := RethMode \<rparr> = sample_node RethMode"
    by (simp add: sample_node_def)
  moreover have "ca_run_mode (sample_node LiveMode) \<noteq> DevnetMode" by (simp add: sample_node_def)
  ultimately show ?thesis
    using run_modes_collapse [of "sample_node LiveMode" RethMode "''Live''" sample_node_library sample_blst
        sample_http Some "\<lambda>_. None" "()" "AuctionBidInfo_new 0 0 :: (unit, unit) auction_bid_info"]
    by simp
qed

end
