(* ===== verification/Spec2Isabelle.thy ===== *)
theory Spec2Isabelle
  imports Builder_Prelude Bundles Bundle_Pool Payload_Config Clock Ofac Build_State Block_Sealing
    Strategy Execution_Db Bid_Policy Bidder Build_Jobs Payload_Service Service_Handle
    Consensus_Layer Builder_Service Rpc
    Ssz_Codec Bids Bid_Json Bls_Text Proto_Wire Grpc_Messages Grpc_Stub Internal_Relay Relay Relay_Loop
    Grpc_Relay Ssz_Containers Bid_Ssz Ssz_Relay Builder_System System_Progress System_Relays Block_Layout System_Bundles Node_Config
begin

text \<open>
  A model of the MEV block builder.  The program is a reth node with services of its own
  (\<open>src/bin/builder\<close>, \<open>src/crates/*\<close>).  It accepts bundles over JSON-RPC, keeps them in a pool, and
  for every slot that the consensus layer announces builds blocks from bundles and the mempool; the
  bidder service chooses a bid for the best block of the slot, pays it to the proposer in the last
  transaction of the block, signs the bid and sends it to the relays.

  \<^bold>\<open>Data flow.\<close>  Payload attributes arrive on the event stream (\<open>Consensus_Layer\<close>).  The block builder
  service (\<open>Builder_Service\<close>) looks up the parent block and the validator of the slot, prunes the
  bundle pool, orders a payload job and opens an auction.  The payload service (\<open>Payload_Service\<close>)
  runs the jobs that its generator makes (\<open>Build_Jobs\<close>); a stream job repeatedly spawns a strategy
  (\<open>Strategy\<close>) over the state of \<open>Build_State\<close> and hands every better build to the bidder (\<open>Bidder\<close>).
  The bidder asks the relays for the top bid, lets its policy (\<open>Bid_Policy\<close>) compute a bid and spawns the
  submission, which seals the block (\<open>Block_Sealing\<close>), signs it (\<open>Bids\<close>) and sends it (\<open>Relay\<close>).
  Bundles enter through the endpoints (\<open>Rpc\<close>) into the pool (\<open>Bundle_Pool\<close>).

  \<^bold>\<open>Theories.\<close>
  \<^item> \<open>Builder_Prelude\<close>: machine integers (\<open>w word\<close> at the code's widths, with the saturating and
    checked operations written out), the type \<open>result\<close> with \<open>Ok\<close>, \<open>Err\<close> and \<open>Panic\<close>, and the collection
    operations of the standard library that the code calls.
  \<^item> \<open>Bundles\<close>, \<open>Bundle_Pool\<close>: \<open>crates/bundles\<close> and \<open>primitives/src/rpc.rs\<close>.  The pool with its
    indices refines the map of accepted bundles, through the locale \<open>bundle_store\<close>; every operation
    keeps the indices consistent; what \<open>bundles()\<close> returns is exact.
  \<^item> \<open>Payload_Config\<close>, \<open>Clock\<close>, \<open>Ofac\<close>: validator registrations and schedule, build configuration,
    slot arithmetic, the blacklist.
  \<^item> \<open>Build_State\<close>, \<open>Block_Sealing\<close>: \<open>payload/src/strategy/state\<close>.  Gas and blob limits are an invariant of
    every reachable state, a failed bundle leaves no trace, and a sealed block keeps the limits with
    the payment included.
  \<^item> \<open>Strategy\<close>, \<open>Block_Layout\<close>: \<open>payload/src/strategy\<close>.  The strategies terminate for every finite
    iterator, only return better blocks (locale \<open>build_strategy\<close>) and produce blocks with the declared
    layout: bundles in order of value with their refunds, then mempool transactions.
  \<^item> \<open>Bid_Policy\<close>, \<open>Bidder\<close>: \<open>payload/src/bidder\<close>.  Each policy keeps the contract of the locale
    \<open>bid_policy\<close>; the invariant of the service bounds every submission by it.
  \<^item> \<open>Build_Jobs\<close>, \<open>Payload_Service\<close>, \<open>Service_Handle\<close>: \<open>payload/src/job\<close>, \<open>generator\<close>, \<open>service\<close> and
    \<open>traits.rs\<close>.  The poll loop is equal to polling each job once; jobs have distinct payloads; a sleeping
    service has its wakers set (locales \<open>polled_job\<close>, \<open>job_invariant\<close>, \<open>job_strategy\<close>); the calls of a
    handle act on the service as on a table of jobs.
  \<^item> \<open>Execution_Db\<close>: \<open>strategy/state/db.rs\<close>, the wrapper through which simulations read the
    execution database (locale \<open>lawful_database\<close>).
  \<^item> \<open>Consensus_Layer\<close>, \<open>Builder_Service\<close>, \<open>Rpc\<close>: \<open>crates/consensus_layer\<close>, \<open>bin/builder/src/service.rs\<close>,
    \<open>crates/rpc\<close>.
  \<^item> \<open>Ssz_Codec\<close>, \<open>Bls_Text\<close>, \<open>Bids\<close>, \<open>Bid_Json\<close>: \<open>primitives/src/{ssz,bid,signer,relays,run_mode}.rs\<close>,
    \<open>primitives/src/blst\<close>: encodings and their round trips (locale \<open>fixed_codec\<close>), bids with their
    signatures and their JSON form.
  \<^item> \<open>Ssz_Containers\<close>, \<open>Bid_Ssz\<close>: the derived SSZ codecs of \<open>primitives/src/bid.rs\<close> over the library's
    containers, and an instance of those as the specification lays them out.
  \<^item> \<open>Proto_Wire\<close>, \<open>Grpc_Messages\<close>, \<open>Grpc_Stub\<close>: \<open>crates/grpc\<close>: the protocol buffer encoding that the
    attributes of the generated messages select, the request made of a signed bid, the generated client
    and server.  Messages survive the wire, also among fields the builder does not know.
  \<^item> \<open>Internal_Relay\<close>, \<open>Relay\<close>: \<open>crates/relay\<close>: the builder's own relay with its window of blocks, the
    clients, the broadcast to all relays, the relay and validator schedule services.
  \<^item> \<open>Relay_Loop\<close>, \<open>Grpc_Relay\<close>, \<open>Ssz_Relay\<close>: the client against a server.  Through paths, queries and JSON the
    builder reads back from its own relay exactly the bids it posted there; through the generated
    stubs a gRPC submission is one call of the relay's method; a relay that reads the SSZ body, plain
    or compressed, gets the submitted bid.
  \<^item> \<open>Builder_System\<close>, \<open>System_Bundles\<close>, \<open>System_Progress\<close>, \<open>System_Relays\<close>,
    \<open>Node_Config\<close>: \<open>bin/builder/src/main.rs\<close>, \<open>cli_ext.rs\<close>,
    \<open>crates/cli-args\<close> and \<open>crates/tx-network\<close>.  The services with the messages between them are the
    inductive relation \<open>system_step\<close>; \<open>shared_step\<close> adds the requests that change the shared pool.  The
    invariants of reachable systems give the properties of every block that leaves the node;
    \<open>System_Progress\<close> shows that a new slot can be brought to a bid from every such system, and
    \<open>System_Relays\<close> follows the proposer of a bid to its registration with a relay.

  \<^bold>\<open>Effects.\<close>  A service is a record; one poll is a function of the state and of what has arrived, and
  returns the new state with what is sent.  Channels are lists.  Time, sleeps, spawned tasks and the
  answers of other processes are arguments of a poll.  Locks that can time out are a boolean
  argument.  Every panic (\<open>unwrap\<close>, \<open>expect\<close>, \<open>unimplemented!\<close>, index and conversion) is the value
  \<open>Panic\<close>.

  \<^bold>\<open>Loops and bounds.\<close>  The loop over mempool transactions (\<open>execute_mempool_loop\<close>), the draining of the
  attribute stream (\<open>drain_consensus\<close>) and the reconnection loop (\<open>connection_task_loop\<close>) need not end
  and are \<open>partial_function (option)\<close>; that the first returns is proved for every iterator with a
  decreasing measure.  The batches of a service poll are a list, one per turn of its loop.
  Connections to a relay are tried \<open>MAX_RETRIES\<close> = 1000 times, as in the code.  No fuel is used
  elsewhere.

  \<^bold>\<open>Parameters and hypotheses.\<close>  The EVM with its databases (\<open>evm\<close>, \<open>chain_api\<close>), reth's transaction
  pool and decoders (\<open>rpc_library\<close>, \<open>best_txs\<close>), blst (\<open>blst_library\<close>), keccak256, hash trees
  (\<open>tree_hasher\<close>), HTTP (\<open>http_library\<close>) and tonic (\<open>tonic_client\<close>, \<open>tonic_server\<close>), the text of
  JSON documents (\<open>json_text\<close>), SSZ containers (\<open>ssz_library\<close>), URL and hex parsers, and floating point
  arithmetic are fields of records or arguments.  Where a property needs their documented behaviour it
  says so in its hypotheses: gas used within the gas limit of a transaction (\<open>evm_gas_sound\<close>),
  recovery of the signer of the builder's own transactions (\<open>sound_evm\<close>), encodings that are undone by
  their decoders.  Each such property has a witness over a concrete instance.

  \<^bold>\<open>Not modelled.\<close>
  \<^item> tonic's framing, compression and HTTP/2 under \<open>crates/grpc/src/gen/mevrelay.rs\<close>, and the \<open>Debug\<close>
    output of its types.
  \<^item> \<open>primitives/src/build/log.rs\<close> holds logging macros that no code of the repository uses; log lines
    and latency histograms have no effect on the state.
  \<^item> \<open>payload/src/test_utils\<close>, \<open>rpc/src/test_utils.rs\<close> and the test modules are mocks and tests.
  \<^item> \<open>payload/src/job/config.rs\<close> is no part of the crate (no \<open>mod\<close> declares it).
  \<^item> The newtypes of \<open>primitives/src/lib.rs\<close> are identified with the values they wrap, so their
    conversions are the identity; derived \<open>Debug\<close> and \<open>Default\<close> of structs are left out.
  \<^item> clap's parsing of the command line, reth's launch, the task executor, HTTP and SSE clients and
    the random generation of keys are library code.
  \<^item> Cached reads of the strategies only save lookups; the database of a task is the one of the model.
\<close>

end
